(* ===== verification/Go_Prelude.thy ===== *)
theory Go_Prelude
  imports Main "HOL-Library.Char_ord" "HOL-Library.List_Lexorder" "HOL-Library.Multiset"
begin

text \<open>
  Shared ground of the development: what the Go source takes from the language and its
  standard library. Results that may panic (\<open>outcome\<close>), errors as values with the wrapping that
  \<open>fmt.Errorf\<close> and \<open>errors.Join\<close> build (\<open>go_error\<close>), nil-able slices, string helpers,
  \<open>%q\<close> quoting, the order in which \<open>range\<close> visits a map, and three-way comparators with the
  stable sort of \<open>slices.SortStableFunc\<close>.

  Strings are byte strings (\<open>char list\<close>). \<open>go_quote\<close> is \<open>strconv.Quote\<close> on ASCII text; bytes
  from 0x80 on, which are parts of multi-byte characters, are passed through, as Quote does for
  printable characters in valid UTF-8.
\<close>

named_theorems outcome_simps \<open>equations of the panic monad\<close>
named_theorems compare_intros \<open>rules that build three-way comparators\<close>

section \<open>Panics\<close>

datatype panic = NilDereference | PanicValue string

datatype 'a outcome = Value 'a | Panicked panic

fun bind_outcome :: "'a outcome \<Rightarrow> ('a \<Rightarrow> 'b outcome) \<Rightarrow> 'b outcome" where
  "bind_outcome (Value x) f = f x"
| "bind_outcome (Panicked p) f = Panicked p"

fun mapM_outcome :: "('a \<Rightarrow> 'b outcome) \<Rightarrow> 'a list \<Rightarrow> 'b list outcome" where
  "mapM_outcome f [] = Value []"
| "mapM_outcome f (x # xs) =
     bind_outcome (f x) (\<lambda>y. bind_outcome (mapM_outcome f xs) (\<lambda>ys. Value (y # ys)))"

text \<open>Reading through a pointer: nil dereferences panic.\<close>

definition deref :: "'a option \<Rightarrow> 'a outcome" where
  "deref p = (case p of None \<Rightarrow> Panicked NilDereference | Some x \<Rightarrow> Value x)"

lemma deref_simps [simp]:
  "deref None = Panicked NilDereference"
  "deref (Some x) = Value x"
  by (simp_all add: deref_def)

lemma bind_outcome_Value [outcome_simps]:
  "bind_outcome m f = Value y \<longleftrightarrow> (\<exists>x. m = Value x \<and> f x = Value y)"
  by (cases m) simp_all

lemma bind_outcome_assoc:
  "bind_outcome (bind_outcome m f) g = bind_outcome m (\<lambda>x. bind_outcome (f x) g)"
  by (cases m) simp_all

lemma mapM_outcome_Value_iff:
  "mapM_outcome f xs = Value ys \<longleftrightarrow> list_all2 (\<lambda>x y. f x = Value y) xs ys"
  by (induction xs arbitrary: ys) (auto simp: outcome_simps list_all2_Cons1)

lemma mapM_outcome_total:
  "(\<And>x. x \<in> set xs \<Longrightarrow> f x = Value (g x)) \<Longrightarrow> mapM_outcome f xs = Value (map g xs)"
  by (induction xs) auto

section \<open>Errors\<close>

text \<open>
  The leaf kinds are the ones the source tells apart: \<open>fs.ErrNotExist\<close>, \<open>fs.ErrExist\<close>, the API
  server's NotFound status and \<open>*exec.ExitError\<close>. \<open>Wrapf\<close> is \<open>fmt.Errorf\<close> with one \<open>%w\<close> between a
  prefix and a suffix; \<open>Joined\<close> is \<open>errors.Join\<close>.
\<close>

datatype error_kind = Plain | NotExist | AlreadyExist | ApiNotFound | ExitError int

datatype go_error =
    Leaf error_kind string
  | Wrapf string go_error string
  | Joined "go_error list"

abbreviation errorf :: "string \<Rightarrow> go_error" where
  "errorf s \<equiv> Leaf Plain s"

fun strings_join :: "string list \<Rightarrow> string \<Rightarrow> string" where
  "strings_join [] sep = []"
| "strings_join [x] sep = x"
| "strings_join (x # y # ys) sep = x @ sep @ strings_join (y # ys) sep"

definition newline :: string where
  "newline = [CHR 0x0A]"

fun err_text :: "go_error \<Rightarrow> string" where
  "err_text (Leaf k s) = s"
| "err_text (Wrapf p e s) = p @ err_text e @ s"
| "err_text (Joined es) = strings_join (map err_text es) newline"

text \<open>\<open>errors.Is\<close> and \<open>errors.As\<close> walk the tree of wrapped errors in preorder.\<close>

fun err_leaves :: "go_error \<Rightarrow> error_kind list" where
  "err_leaves (Leaf k s) = [k]"
| "err_leaves (Wrapf p e s) = err_leaves e"
| "err_leaves (Joined es) = concat (map err_leaves es)"

definition err_is :: "error_kind \<Rightarrow> go_error \<Rightarrow> bool" where
  "err_is k e \<longleftrightarrow> k \<in> set (err_leaves e)"

fun first_exit_code :: "error_kind list \<Rightarrow> int option" where
  "first_exit_code [] = None"
| "first_exit_code (ExitError c # ks) = Some c"
| "first_exit_code (k # ks) = first_exit_code ks"

definition err_as_exit :: "go_error \<Rightarrow> int option" where
  "err_as_exit e = first_exit_code (err_leaves e)"

text \<open>
  \<open>os.IsNotExist\<close> and \<open>os.IsExist\<close> look at the error itself only, they do not unwrap \<open>%w\<close>.
\<close>

fun os_is_not_exist :: "go_error \<Rightarrow> bool" where
  "os_is_not_exist (Leaf k s) = (k = NotExist)"
| "os_is_not_exist e = False"

fun os_is_exist :: "go_error \<Rightarrow> bool" where
  "os_is_exist (Leaf k s) = (k = AlreadyExist)"
| "os_is_exist e = False"

definition errors_join :: "go_error list \<Rightarrow> go_error option" where
  "errors_join es = (if es = [] then None else Some (Joined es))"

lemma errors_join_None_iff [simp]: "errors_join es = None \<longleftrightarrow> es = []"
  by (simp add: errors_join_def)

lemma ex_errors_join [simp]: "(\<exists>e. errors_join es = Some e) \<longleftrightarrow> es \<noteq> []"
  by (simp add: errors_join_def)

lemma errors_join_Some_iff: "errors_join es = Some e \<longleftrightarrow> es \<noteq> [] \<and> e = Joined es"
  by (auto simp: errors_join_def)

lemma err_is_simps [simp]:
  "err_is k (Leaf k' s) \<longleftrightarrow> k = k'"
  "err_is k (Wrapf p e s) \<longleftrightarrow> err_is k e"
  "err_is k (Joined es) \<longleftrightarrow> (\<exists>e \<in> set es. err_is k e)"
  by (auto simp: err_is_def)

section \<open>Nil-able slices\<close>

text \<open>\<open>None\<close> is the nil slice, which \<open>reflect.DeepEqual\<close> tells from the empty one.\<close>

type_synonym 'a slice = "'a list option"

definition slice_list :: "'a slice \<Rightarrow> 'a list" where
  "slice_list s = (case s of None \<Rightarrow> [] | Some xs \<Rightarrow> xs)"

definition slice_append :: "'a slice \<Rightarrow> 'a list \<Rightarrow> 'a slice" where
  "slice_append s xs = (if xs = [] then s else Some (slice_list s @ xs))"

lemma slice_list_simps [simp]:
  "slice_list None = []"
  "slice_list (Some xs) = xs"
  by (simp_all add: slice_list_def)

lemma slice_list_append [simp]: "slice_list (slice_append s xs) = slice_list s @ xs"
  by (simp add: slice_append_def)


section \<open>Strings\<close>

text \<open>\<open>strings.TrimPrefix\<close>, \<open>strings.HasPrefix\<close> and \<open>strings.HasSuffix\<close>.\<close>

definition starts_with :: "string \<Rightarrow> string \<Rightarrow> bool" where
  "starts_with p s \<longleftrightarrow> take (length p) s = p"

fun trim_prefix :: "string \<Rightarrow> string \<Rightarrow> string" where
  "trim_prefix s p = (if take (length p) s = p then drop (length p) s else s)"

definition has_suffix :: "string \<Rightarrow> string \<Rightarrow> bool" where
  "has_suffix s suf \<longleftrightarrow> length suf \<le> length s \<and> drop (length s - length suf) s = suf"

lemma starts_with_Cons [simp]:
  "starts_with [] s" "\<not> starts_with (p # ps) []" "starts_with (p # ps) (c # cs) \<longleftrightarrow> p = c \<and> starts_with ps cs"
  by (auto simp: starts_with_def)

lemma trim_prefix_append [simp]: "trim_prefix (p @ s) p = s"
  by simp

lemma has_suffix_append [simp]: "has_suffix (s @ suf) suf"
  by (simp add: has_suffix_def)

declare trim_prefix.simps [simp del]

text \<open>\<open>%q\<close> and \<open>%v\<close> of a string slice.\<close>

definition hex_digit :: "nat \<Rightarrow> char" where
  "hex_digit n = ''0123456789abcdef'' ! (n mod 16)"

definition quote_char :: "char \<Rightarrow> string" where
  "quote_char c =
     (let n = of_char c :: nat in
      if c = CHR 0x22 then [CHR 0x5C, CHR 0x22]
      else if c = CHR 0x5C then [CHR 0x5C, CHR 0x5C]
      else if n = 7 then [CHR 0x5C, CHR ''a'']
      else if n = 8 then [CHR 0x5C, CHR ''b'']
      else if n = 12 then [CHR 0x5C, CHR ''f'']
      else if n = 10 then [CHR 0x5C, CHR ''n'']
      else if n = 13 then [CHR 0x5C, CHR ''r'']
      else if n = 9 then [CHR 0x5C, CHR ''t'']
      else if n = 11 then [CHR 0x5C, CHR ''v'']
      else if n < 32 \<or> n = 127 then [CHR 0x5C, CHR ''x'', hex_digit (n div 16), hex_digit n]
      else [c])"

definition go_quote :: "string \<Rightarrow> string" where
  "go_quote s = [CHR 0x22] @ concat (map quote_char s) @ [CHR 0x22]"

definition fmt_strings :: "string list \<Rightarrow> string" where
  "fmt_strings ss = ''['' @ strings_join ss '' '' @ '']''"

text \<open>\<open>strings.TrimSpace\<close> on ASCII text.\<close>

definition is_space :: "char \<Rightarrow> bool" where
  "is_space c \<longleftrightarrow> of_char c \<in> {9, 10, 11, 12, 13, 32 :: nat}"

definition trim_space :: "string \<Rightarrow> string" where
  "trim_space s = rev (dropWhile is_space (rev (dropWhile is_space s)))"

section \<open>Ranging over a map\<close>

text \<open>
  A \<open>range\<close> loop visits the keys of a map in an order the language leaves open and that may
  differ from loop to loop. A loop over a map takes the order as an argument: a function from
  the list of keys to the list of visits, which is a permutation.
\<close>

type_synonym 'k visit_order = "'k list \<Rightarrow> 'k list"

definition range_order :: "'k visit_order \<Rightarrow> bool" where
  "range_order ord \<longleftrightarrow> (\<forall>ks. mset (ord ks) = mset ks)"

lemma range_order_id [simp]: "range_order (\<lambda>ks. ks)"
  by (simp add: range_order_def)

lemma range_order_rev [simp]: "range_order rev"
  by (simp add: range_order_def)

lemma range_order_set [simp]: "range_order ord \<Longrightarrow> set (ord ks) = set ks"
  by (metis range_order_def set_mset_mset)

lemma range_order_distinct [simp]: "range_order ord \<Longrightarrow> distinct (ord ks) = distinct ks"
  by (metis range_order_def mset_eq_imp_distinct_iff)

lemma range_order_length [simp]: "range_order ord \<Longrightarrow> length (ord ks) = length ks"
  by (metis range_order_def mset_eq_length)

lemma range_order_mset [simp]: "range_order ord \<Longrightarrow> mset (ord ks) = mset ks"
  by (simp add: range_order_def)

lemma mset_concat_map_perm:
  assumes "mset ks = mset ks'"
  shows "mset (concat (map f ks)) = mset (concat (map f ks'))"
proof -
  have "image_mset (\<lambda>k. mset (f k)) (mset ks) = image_mset (\<lambda>k. mset (f k)) (mset ks')"
    using assms by simp
  then show ?thesis
    by (simp add: mset_concat sum_mset_sum_list o_def flip: mset_map)
      (metis map_map o_def sum_mset_sum_list)
qed

text \<open>
  A \<open>sets.Set\<close> is given by the list of its insertions; \<open>sets.List\<close> is its sorted listing.
\<close>

definition sets_List :: "'a::linorder list \<Rightarrow> 'a list" where
  "sets_List xs = sort (remdups xs)"

lemma set_sets_List [simp]: "set (sets_List xs) = set xs"
  by (simp add: sets_List_def)

lemma distinct_sets_List [simp]: "distinct (sets_List xs)"
  by (simp add: sets_List_def)

lemma sorted_sets_List [simp]: "sorted (sets_List xs)"
  by (simp add: sets_List_def)

lemma sets_List_eq_Nil_iff [simp]: "sets_List xs = [] \<longleftrightarrow> xs = []"
  by (metis set_empty set_sets_List)

section \<open>Three-way comparators\<close>

text \<open>\<open>strings.Compare\<close> and \<open>bytes.Compare\<close>: byte-wise lexicographic.\<close>

definition strings_compare :: "string \<Rightarrow> string \<Rightarrow> int" where
  "strings_compare a b = (if a < b then - 1 else if a = b then 0 else 1)"

text \<open>The idiom \<open>if c := first; c != 0 { return c }\<close> followed by the rest.\<close>

definition compare_then :: "int \<Rightarrow> int \<Rightarrow> int" where
  "compare_then c d = (if c \<noteq> 0 then c else d)"

locale three_way =
  fixes cmp :: "'a \<Rightarrow> 'a \<Rightarrow> int"
  assumes cmp_refl: "cmp a a = 0"
    and cmp_swap: "cmp b a < 0 \<longleftrightarrow> 0 < cmp a b"
    and cmp_trans: "cmp a b \<le> 0 \<Longrightarrow> cmp b c \<le> 0 \<Longrightarrow> cmp a c \<le> 0"
begin

lemma cmp_sym: "cmp b a = 0 \<longleftrightarrow> cmp a b = 0"
  using cmp_swap [of a b] cmp_swap [of b a] by linarith

lemma cmp_not_less: "\<not> cmp a b < 0 \<longleftrightarrow> cmp b a \<le> 0"
  using cmp_swap [of a b] cmp_swap [of b a] by (metis not_less)

lemma cmp_antisym: "cmp a b \<le> 0 \<Longrightarrow> cmp b a \<le> 0 \<Longrightarrow> cmp a b = 0"
  by (metis cmp_not_less order.not_eq_order_implies_strict)

lemma cmp_total: "cmp a b \<le> 0 \<or> cmp b a \<le> 0"
  using cmp_swap [of a b] cmp_swap [of b a] by linarith

lemma cmp_equiv_trans:
  assumes "cmp a b = 0" and "cmp b c = 0"
  shows "cmp a c = 0"
proof -
  from assms have "cmp a c \<le> 0" by (intro cmp_trans [of a b c]) simp_all
  moreover from assms have "cmp c a \<le> 0"
    using cmp_sym [of a b] cmp_sym [of b c] by (intro cmp_trans [of c b a]) simp_all
  ultimately show ?thesis by (rule cmp_antisym)
qed

lemma cmp_equiv_cong: "cmp a b = 0 \<Longrightarrow> cmp a c = 0 \<longleftrightarrow> cmp b c = 0"
  by (metis cmp_equiv_trans cmp_sym)

lemma cmp_less_trans:
  assumes "cmp a b < 0" and "cmp b c \<le> 0"
  shows "cmp a c < 0"
proof (rule ccontr)
  assume "\<not> cmp a c < 0"
  then have "cmp c a \<le> 0" by (simp only: cmp_not_less)
  with assms(2) have "cmp b a \<le> 0" by (rule cmp_trans)
  with assms(1) show False using cmp_swap [of a b] by linarith
qed

lemma cmp_less_trans':
  assumes "cmp a b \<le> 0" and "cmp b c < 0"
  shows "cmp a c < 0"
proof (rule ccontr)
  assume "\<not> cmp a c < 0"
  then have "cmp c a \<le> 0" by (simp only: cmp_not_less)
  then have "cmp c b \<le> 0" using assms(1) by (rule cmp_trans)
  with assms(2) show False using cmp_swap [of b c] by linarith
qed

end

text \<open>How comparators are built: by a key, and lexicographically.\<close>

lemma three_way_key:
  "three_way cmp \<Longrightarrow> three_way (\<lambda>a b. cmp (f a) (f b))"
  unfolding three_way_def by blast

lemma three_way_then [compare_intros]:
  assumes "three_way c" and "three_way d"
  shows "three_way (\<lambda>a b. compare_then (c a b) (d a b))"
proof
  show "compare_then (c a a) (d a a) = 0" for a
    by (simp add: compare_then_def three_way.cmp_refl [OF assms(1)] three_way.cmp_refl [OF assms(2)])
  show "compare_then (c b a) (d b a) < 0 \<longleftrightarrow> 0 < compare_then (c a b) (d a b)" for a b
    using three_way.cmp_swap [OF assms(1), of a b] three_way.cmp_sym [OF assms(1), of a b]
      three_way.cmp_swap [OF assms(2), of b a]
    by (auto simp: compare_then_def)
  show "compare_then (c a e) (d a e) \<le> 0"
    if "compare_then (c a b) (d a b) \<le> 0" "compare_then (c b e) (d b e) \<le> 0" for a b e
  proof (cases "c a b = 0 \<and> c b e = 0")
    case True
    then have "c a e = 0" using three_way.cmp_equiv_trans [OF assms(1)] by blast
    with True that three_way.cmp_trans [OF assms(2)] show ?thesis by (simp add: compare_then_def)
  next
    case False
    with that have "c a b \<le> 0" "c b e \<le> 0" "c a b < 0 \<or> c b e < 0"
      by (auto simp: compare_then_def split: if_splits)
    then have "c a e < 0"
      using three_way.cmp_less_trans [OF assms(1)] three_way.cmp_less_trans' [OF assms(1)] by blast
    then show ?thesis by (simp add: compare_then_def)
  qed
qed

lemma compare_then_zero [simp]: "compare_then c d = 0 \<longleftrightarrow> c = 0 \<and> d = 0"
  by (simp add: compare_then_def)

lemma strings_compare_zero [simp]: "strings_compare a b = 0 \<longleftrightarrow> a = b"
  by (simp add: strings_compare_def)

lemma strings_compare_neg [simp]: "strings_compare a b < 0 \<longleftrightarrow> a < b"
  by (simp add: strings_compare_def)

lemma strings_compare_pos [simp]: "0 < strings_compare a b \<longleftrightarrow> b < a"
  by (auto simp: strings_compare_def)

lemma strings_compare_le [simp]: "strings_compare a b \<le> 0 \<longleftrightarrow> a \<le> b"
  by (auto simp: strings_compare_def)

interpretation strings: three_way strings_compare
  by unfold_locales auto

lemma three_way_strings [compare_intros]: "three_way (\<lambda>a b. strings_compare (f a) (f b))"
  by (rule three_way_key) (rule strings.three_way_axioms)

section \<open>Stable sorting by a comparator\<close>

text \<open>
  \<open>slices.SortStableFunc\<close>. The library sorts in blocks by insertion and merges them in place;
  the stably sorted list is determined by its input, and insertion is the simplest way to it.
\<close>

fun insert_stable :: "('a \<Rightarrow> 'a \<Rightarrow> int) \<Rightarrow> 'a \<Rightarrow> 'a list \<Rightarrow> 'a list" where
  "insert_stable cmp x [] = [x]"
| "insert_stable cmp x (y # ys) =
     (if cmp x y \<le> 0 then x # y # ys else y # insert_stable cmp x ys)"

fun sort_stable_func :: "('a \<Rightarrow> 'a \<Rightarrow> int) \<Rightarrow> 'a list \<Rightarrow> 'a list" where
  "sort_stable_func cmp [] = []"
| "sort_stable_func cmp (x # xs) = insert_stable cmp x (sort_stable_func cmp xs)"

lemma mset_insert_stable [simp]: "mset (insert_stable cmp x xs) = add_mset x (mset xs)"
  by (induction xs) auto

lemma mset_sort_stable [simp]: "mset (sort_stable_func cmp xs) = mset xs"
  by (induction xs) auto

lemma set_insert_stable [simp]: "set (insert_stable cmp x xs) = insert x (set xs)"
  by (induction xs) auto

lemma set_sort_stable [simp]: "set (sort_stable_func cmp xs) = set xs"
  by (induction xs) auto

lemma length_sort_stable [simp]: "length (sort_stable_func cmp xs) = length xs"
  by (metis mset_eq_length mset_sort_stable)

lemma map_mset_cong: "mset xs = mset ys \<Longrightarrow> mset (map f xs) = mset (map f ys)"
  by simp

context three_way
begin

abbreviation "sorted_by \<equiv> sorted_wrt (\<lambda>a b. cmp a b \<le> 0)"

lemma sorted_insert_stable: "sorted_by xs \<Longrightarrow> sorted_by (insert_stable cmp x xs)"
proof (induction xs)
  case (Cons y ys)
  show ?case
  proof (cases "cmp x y \<le> 0")
    case True
    with Cons.prems show ?thesis by (auto intro: cmp_trans)
  next
    case False
    then have "cmp y x \<le> 0" using cmp_total by blast
    with False Cons show ?thesis by auto
  qed
qed simp

lemma sorted_sort_stable: "sorted_by (sort_stable_func cmp xs)"
  by (induction xs) (auto intro: sorted_insert_stable)

lemma insert_stable_segment:
  "filter (\<lambda>y. cmp k y = 0) (insert_stable cmp x xs) = filter (\<lambda>y. cmp k y = 0) (x # xs)"
proof (induction xs)
  case (Cons y ys)
  show ?case
  proof (cases "cmp x y \<le> 0")
    case False
    then have "\<not> (cmp k x = 0 \<and> cmp k y = 0)"
      using cmp_sym [of k x] cmp_equiv_trans [of x k y] by auto
    with False Cons show ?thesis by auto
  qed simp
qed simp

lemma sort_stable_segment:
  "filter (\<lambda>y. cmp k y = 0) (sort_stable_func cmp xs) = filter (\<lambda>y. cmp k y = 0) xs"
  by (induction xs) (auto simp: insert_stable_segment)

lemma sorted_by_unique:
  assumes "sorted_by xs" and "sorted_by ys" and "mset xs = mset ys"
    and "\<And>a b. a \<in> set xs \<Longrightarrow> b \<in> set xs \<Longrightarrow> cmp a b = 0 \<Longrightarrow> a = b"
  shows "xs = ys"
  using assms
proof (induction xs arbitrary: ys)
  case (Cons x xs)
  then obtain y ys' where ys: "ys = y # ys'" by (cases ys) auto
  have sets: "set ys = set (x # xs)" using Cons.prems(3) by (metis set_mset_mset)
  have "cmp x y \<le> 0"
    using Cons.prems(1) sets ys cmp_refl [of x] by (cases "y = x") auto
  moreover have "cmp y x \<le> 0"
    using Cons.prems(2) sets ys cmp_refl [of x] by (cases "y = x") auto
  ultimately have "cmp x y = 0" by (rule cmp_antisym)
  moreover have "y \<in> set (x # xs)" using sets ys by (metis list.set_intros(1))
  ultimately have "x = y" by (intro Cons.prems(4)) auto
  moreover have "xs = ys'"
    using Cons.prems ys \<open>x = y\<close> by (intro Cons.IH) auto
  ultimately show ?case by (simp add: ys)
qed simp

lemma sort_stable_canonical:
  assumes "mset xs = mset ys"
    and "\<And>a b. a \<in> set xs \<Longrightarrow> b \<in> set xs \<Longrightarrow> cmp a b = 0 \<Longrightarrow> a = b"
  shows "sort_stable_func cmp xs = sort_stable_func cmp ys"
  by (rule sorted_by_unique) (use assms in \<open>auto simp: sorted_sort_stable\<close>)

lemma sort_stable_idem: "sorted_by xs \<Longrightarrow> sort_stable_func cmp xs = xs"
proof (induction xs)
  case (Cons x xs)
  then have "sort_stable_func cmp xs = xs" by simp
  with Cons.prems show ?case by (cases xs) auto
qed simp

end

end
