(* ===== verification/Mutation_Interface.thy ===== *)
theory Mutation_Interface
  imports Go_Prelude
begin

text \<open>
  The interface \<open>MutationActionReader\<close> of
  \<open>pkg/library/libraryapplyconfiguration/apply_configuration.go\<close>: what its clients (validation,
  filtering, writing, equivalence) rely on. Asking for an action that is not listed panics, as it
  does in the vendored tracker (a nil \<open>*actionTracker\<close> is dereferenced). \<open>AllRequests\<close> ranges over
  a map, so its order is an argument.
\<close>

definition outcome_list :: "'q list outcome \<Rightarrow> 'q list" where
  "outcome_list m = (case m of Value qs \<Rightarrow> qs | Panicked p \<Rightarrow> [])"

lemma outcome_list_simps [simp]:
  "outcome_list (Value qs) = qs"
  "outcome_list (Panicked p) = []"
  by (simp_all add: outcome_list_def)

locale mutation_action_reader =
  fixes invar :: "'r \<Rightarrow> bool"
    and list_actions :: "'r \<Rightarrow> 'a list"
    and requests_for_action :: "'r \<Rightarrow> 'a \<Rightarrow> 'q list outcome"
    and all_requests :: "'a visit_order \<Rightarrow> 'r \<Rightarrow> 'q list"
    and action_of :: "'q \<Rightarrow> 'a"
  assumes distinct_actions: "invar r \<Longrightarrow> distinct (list_actions r)"
    and listed: "invar r \<Longrightarrow> a \<in> set (list_actions r) \<Longrightarrow> \<exists>qs. requests_for_action r a = Value qs"
    and unlisted: "invar r \<Longrightarrow> a \<notin> set (list_actions r) \<Longrightarrow>
      requests_for_action r a = Panicked NilDereference"
    and own_action: "invar r \<Longrightarrow> requests_for_action r a = Value qs \<Longrightarrow> q \<in> set qs \<Longrightarrow> action_of q = a"
    and all_requests_mset: "invar r \<Longrightarrow> range_order ord \<Longrightarrow>
      mset (all_requests ord r) =
        mset (concat (map (\<lambda>a. outcome_list (requests_for_action r a)) (list_actions r)))"
begin

lemma all_requests_perm:
  "invar r \<Longrightarrow> range_order ord \<Longrightarrow> range_order ord' \<Longrightarrow>
    mset (all_requests ord r) = mset (all_requests ord' r)"
  by (simp add: all_requests_mset)

lemma set_all_requests:
  assumes "invar r" and "range_order ord"
  shows "q \<in> set (all_requests ord r) \<longleftrightarrow>
    (\<exists>qs. requests_for_action r (action_of q) = Value qs \<and> q \<in> set qs)"
proof -
  have "set (all_requests ord r) =
      set (concat (map (\<lambda>a. outcome_list (requests_for_action r a)) (list_actions r)))"
    using all_requests_mset [OF assms] by (metis set_mset_mset)
  then have "q \<in> set (all_requests ord r) \<longleftrightarrow>
      (\<exists>a \<in> set (list_actions r). q \<in> set (outcome_list (requests_for_action r a)))"
    by simp
  also have "\<dots> \<longleftrightarrow> (\<exists>qs. requests_for_action r (action_of q) = Value qs \<and> q \<in> set qs)"
    using listed [OF assms(1)] unlisted [OF assms(1)] own_action [OF assms(1)]
    by (metis outcome.distinct(1) outcome_list_simps(1))
  finally show ?thesis .
qed

lemma all_requests_listed:
  "invar r \<Longrightarrow> range_order ord \<Longrightarrow> q \<in> set (all_requests ord r) \<Longrightarrow>
    action_of q \<in> set (list_actions r)"
  using set_all_requests unlisted by fastforce

text \<open>Reading one action agrees with selecting that action from all requests.\<close>

lemma requests_for_action_mset:
  assumes "invar r" and "range_order ord" and "requests_for_action r a = Value qs"
  shows "mset qs = filter_mset (\<lambda>q. action_of q = a) (mset (all_requests ord r))"
proof -
  let ?f = "\<lambda>b. outcome_list (requests_for_action r b)"
  have sel: "filter (\<lambda>q. action_of q = a) (?f b) = (if b = a then qs else [])"
    if b: "b \<in> set (list_actions r)" for b
  proof -
    obtain qs' where qs': "requests_for_action r b = Value qs'"
      using listed [OF assms(1) b] by blast
    show ?thesis
      using qs' assms(3) own_action [OF assms(1) qs'] by (auto simp: filter_id_conv filter_empty_conv)
  qed
  have a: "a \<in> set (list_actions r)"
    using assms(3) unlisted [OF assms(1)] by (metis outcome.distinct(1))
  have "filter (\<lambda>q. action_of q = a) (concat (map ?f as)) = concat (map (\<lambda>b. if b = a then qs else []) as)"
    if "set as \<subseteq> set (list_actions r)" for as
    using that by (induction as) (auto simp: sel)
  moreover have "concat (map (\<lambda>b. if b = a then qs else []) as) = (if a \<in> set as then qs else [])"
    if "distinct as" for as
    using that by (induction as) auto
  ultimately have "filter (\<lambda>q. action_of q = a) (concat (map ?f (list_actions r))) = qs"
    using distinct_actions [OF assms(1)] a by simp
  then show ?thesis
    by (simp add: all_requests_mset [OF assms(1,2)] flip: mset_filter)
qed

end

text \<open>
  The interface \<open>SingleClusterDesiredMutationGetter\<close>: a getter that may be used gives a reader. A
  getter that may not be used (a filter over nil) panics, so its clients have to know.
\<close>

locale single_cluster_getter =
  mutation_action_reader invar list_actions requests_for_action all_requests action_of
  for invar :: "'r \<Rightarrow> bool"
    and list_actions :: "'r \<Rightarrow> 'a list"
    and requests_for_action :: "'r \<Rightarrow> 'a \<Rightarrow> 'q list outcome"
    and all_requests :: "'a visit_order \<Rightarrow> 'r \<Rightarrow> 'q list"
    and action_of :: "'q \<Rightarrow> 'a" +
  fixes usable :: "'g \<Rightarrow> bool"
    and requests :: "'g \<Rightarrow> 'r outcome"
  assumes gives_reader: "usable g \<Longrightarrow> \<exists>r. requests g = Value r \<and> invar r"
begin

text \<open>The requests of a getter; none of one that panics.\<close>

definition listed_requests :: "'a visit_order \<Rightarrow> 'g \<Rightarrow> 'q list" where
  "listed_requests ord g = (case requests g of Value r \<Rightarrow> all_requests ord r | Panicked p \<Rightarrow> [])"

lemma usable_reader:
  assumes "usable g"
  obtains r where "requests g = Value r" and "invar r" and "\<And>ord. all_requests ord r = listed_requests ord g"
  using gives_reader [OF assms] by (auto simp: listed_requests_def)

lemma listed_requests_mset:
  "usable g \<Longrightarrow> range_order ord \<Longrightarrow> range_order ord' \<Longrightarrow>
    mset (listed_requests ord g) = mset (listed_requests ord' g)"
  by (metis all_requests_perm usable_reader)

lemma set_listed_requests:
  "usable g \<Longrightarrow> range_order ord \<Longrightarrow> set (listed_requests ord g) = set (listed_requests (\<lambda>ks. ks) g)"
  by (metis listed_requests_mset range_order_id set_mset_mset)

end

end
