(* ===== verification/Manifest_Client.thy ===== *)
theory Manifest_Client
  imports Mutation_Interface
begin

text \<open>
  The recorded mutation requests of the vendored \<open>openshift/library-go/pkg/manifestclient\<close>:
  \<open>serialized_request.go\<close> (request identity, comparison, set difference) and
  \<open>mutation_tracker.go\<close> (\<open>AllActionsTracker\<close>, a map from actions to their requests in order of
  arrival). Requests are compared by \<open>CompareSerializedRequest\<close>, a chain of string comparisons
  that is proved to be a total order whose zero is equality; the tracker is proved to provide the
  reader interface.
\<close>

section \<open>Actions and request metadata\<close>

text \<open>\<open>type Action string\<close>.\<close>

datatype action = Action (action_string: string)

instantiation action :: linorder
begin

definition less_eq_action :: "action \<Rightarrow> action \<Rightarrow> bool" where
  "a \<le> b \<longleftrightarrow> action_string a \<le> action_string b"

definition less_action :: "action \<Rightarrow> action \<Rightarrow> bool" where
  "a < b \<longleftrightarrow> action_string a < action_string b"

instance
  by standard (auto simp: less_eq_action_def less_action_def intro: action.expand)

end

definition ActionPatch :: action where "ActionPatch = Action ''Patch''"
definition ActionPatchStatus :: action where "ActionPatchStatus = Action ''PatchStatus''"
definition ActionApply :: action where "ActionApply = Action ''Apply''"
definition ActionApplyStatus :: action where "ActionApplyStatus = Action ''ApplyStatus''"
definition ActionUpdate :: action where "ActionUpdate = Action ''Update''"
definition ActionUpdateStatus :: action where "ActionUpdateStatus = Action ''UpdateStatus''"
definition ActionCreate :: action where "ActionCreate = Action ''Create''"
definition ActionDelete :: action where "ActionDelete = Action ''Delete''"

definition AllActions :: "action list" where
  "AllActions = [ActionPatch, ActionPatchStatus, ActionApply, ActionApplyStatus, ActionUpdate, ActionUpdateStatus,
     ActionCreate, ActionDelete]"

record group_version_resource =
  gvr_Group :: string
  gvr_Version :: string
  gvr_Resource :: string

record group_version_kind =
  gvk_Group :: string
  gvk_Version :: string
  gvk_Kind :: string

record group_resource =
  gr_Group :: string
  gr_Resource :: string

definition GroupResource :: "group_version_resource \<Rightarrow> group_resource" where
  "GroupResource gvr = \<lparr>gr_Group = gvr_Group gvr, gr_Resource = gvr_Resource gvr\<rparr>"

text \<open>\<open>ActionMetadata\<close> with the embedded \<open>ResourceMetadata\<close> flattened into it.\<close>

record action_metadata =
  am_Action :: action
  am_ResourceType :: group_version_resource
  am_Namespace :: string
  am_Name :: string
  am_GenerateName :: string
  am_PatchType :: string
  am_FieldManager :: string
  am_ControllerInstanceName :: string

record serialized_request =
  sr_ActionMetadata :: action_metadata
  sr_KindType :: group_version_kind
  sr_Options :: string
  sr_Body :: string

text \<open>The implementations of the interface \<open>SerializedRequestish\<close>.\<close>

datatype serialized_requestish =
    FileOriginatedSerializedRequest string string string serialized_request
  | TrackedSerializedRequest int serialized_request
  | PlainSerializedRequest serialized_request

fun GetSerializedRequest :: "serialized_requestish \<Rightarrow> serialized_request" where
  "GetSerializedRequest (FileOriginatedSerializedRequest mf bf optf sr) = sr"
| "GetSerializedRequest (TrackedSerializedRequest n sr) = sr"
| "GetSerializedRequest (PlainSerializedRequest sr) = sr"

definition GetLookupMetadata :: "serialized_request \<Rightarrow> action_metadata" where
  "GetLookupMetadata sr = sr_ActionMetadata sr"

definition requestish_metadata :: "serialized_requestish \<Rightarrow> action_metadata" where
  "requestish_metadata r = GetLookupMetadata (GetSerializedRequest r)"

definition requestish_action :: "serialized_requestish \<Rightarrow> action" where
  "requestish_action r = am_Action (sr_ActionMetadata (GetSerializedRequest r))"

definition StringID :: "serialized_request \<Rightarrow> string" where
  "StringID sr =
     (let a = sr_ActionMetadata sr; k = sr_KindType sr in
      action_string (am_Action a) @ ''-'' @ gvk_Kind k @ ''.'' @ gvk_Version k @ ''.'' @ gvk_Group k
        @ ''/'' @ am_Name a @ am_GenerateName a @ ''['' @ am_Namespace a @ '']'')"

section \<open>Comparison of requests\<close>

text \<open>The chain of comparisons of \<open>CompareSerializedRequest\<close> on two requests that are not nil.\<close>

definition compare_request_fields :: "serialized_request \<Rightarrow> serialized_request \<Rightarrow> int" where
  "compare_request_fields l r =
     (let al = sr_ActionMetadata l; ar = sr_ActionMetadata r;
          tl = am_ResourceType al; tr = am_ResourceType ar;
          kl = sr_KindType l; kr = sr_KindType r in
      compare_then (strings_compare (action_string (am_Action al)) (action_string (am_Action ar)))
     (compare_then (strings_compare (am_PatchType al) (am_PatchType ar))
     (compare_then (strings_compare (am_FieldManager al) (am_FieldManager ar))
     (compare_then (strings_compare (am_ControllerInstanceName al) (am_ControllerInstanceName ar))
     (compare_then (strings_compare (gvr_Group tl) (gvr_Group tr))
     (compare_then (strings_compare (gvr_Version tl) (gvr_Version tr))
     (compare_then (strings_compare (gvr_Resource tl) (gvr_Resource tr))
     (compare_then (strings_compare (gvk_Group kl) (gvk_Group kr))
     (compare_then (strings_compare (gvk_Version kl) (gvk_Version kr))
     (compare_then (strings_compare (gvk_Kind kl) (gvk_Kind kr))
     (compare_then (strings_compare (am_Namespace al) (am_Namespace ar))
     (compare_then (strings_compare (am_Name al) (am_Name ar))
     (compare_then (strings_compare (am_GenerateName al) (am_GenerateName ar))
     (compare_then (strings_compare (sr_Body l) (sr_Body r))
                   (strings_compare (sr_Options l) (sr_Options r))))))))))))))))"

text \<open>With the nil cases: nil pointers are equal to each other and sort after everything else.\<close>

fun CompareSerializedRequest :: "serialized_request option \<Rightarrow> serialized_request option \<Rightarrow> int" where
  "CompareSerializedRequest None None = 0"
| "CompareSerializedRequest None (Some r) = 1"
| "CompareSerializedRequest (Some l) None = - 1"
| "CompareSerializedRequest (Some l) (Some r) = compare_request_fields l r"

definition EquivalentSerializedRequests ::
    "serialized_requestish \<Rightarrow> serialized_requestish \<Rightarrow> bool" where
  "EquivalentSerializedRequests l r \<longleftrightarrow>
     CompareSerializedRequest (Some (GetSerializedRequest l)) (Some (GetSerializedRequest r)) = 0"

interpretation request_fields: three_way compare_request_fields
  unfolding compare_request_fields_def Let_def
  by (intro compare_intros)

lemma action_string_eq_iff: "action_string a = action_string b \<longleftrightarrow> a = b"
  by (cases a; cases b) simp

lemma gvr_eq_iff:
  fixes a b :: group_version_resource
  shows "a = b \<longleftrightarrow> gvr_Group a = gvr_Group b \<and> gvr_Version a = gvr_Version b
    \<and> gvr_Resource a = gvr_Resource b"
  by (cases a; cases b) simp

lemma gvk_eq_iff:
  fixes a b :: group_version_kind
  shows "a = b \<longleftrightarrow> gvk_Group a = gvk_Group b \<and> gvk_Version a = gvk_Version b
    \<and> gvk_Kind a = gvk_Kind b"
  by (cases a; cases b) simp

lemma action_metadata_eq_iff:
  fixes a b :: action_metadata
  shows "a = b \<longleftrightarrow> am_Action a = am_Action b \<and> am_ResourceType a = am_ResourceType b
    \<and> am_Namespace a = am_Namespace b \<and> am_Name a = am_Name b
    \<and> am_GenerateName a = am_GenerateName b \<and> am_PatchType a = am_PatchType b
    \<and> am_FieldManager a = am_FieldManager b
    \<and> am_ControllerInstanceName a = am_ControllerInstanceName b"
  by (cases a; cases b) simp

lemma serialized_request_eq_iff:
  fixes a b :: serialized_request
  shows "a = b \<longleftrightarrow> sr_ActionMetadata a = sr_ActionMetadata b \<and> sr_KindType a = sr_KindType b
    \<and> sr_Options a = sr_Options b \<and> sr_Body a = sr_Body b"
  by (cases a; cases b) simp

lemmas request_eq_iffs = serialized_request_eq_iff action_metadata_eq_iff gvr_eq_iff gvk_eq_iff
  action_string_eq_iff

lemma compare_request_fields_zero [simp]: "compare_request_fields l r = 0 \<longleftrightarrow> l = r"
  by (simp add: compare_request_fields_def Let_def request_eq_iffs conj_ac)

interpretation requests: three_way CompareSerializedRequest
proof
  show "CompareSerializedRequest a a = 0" for a by (cases a) simp_all
  show "CompareSerializedRequest b a < 0 \<longleftrightarrow> 0 < CompareSerializedRequest a b" for a b
    by (cases a; cases b) (simp_all add: request_fields.cmp_swap)
  show "CompareSerializedRequest a c \<le> 0"
    if "CompareSerializedRequest a b \<le> 0" "CompareSerializedRequest b c \<le> 0" for a b c
    using that by (cases a; cases b; cases c) (auto intro: request_fields.cmp_trans)
qed

lemma CompareSerializedRequest_zero: "CompareSerializedRequest l r = 0 \<longleftrightarrow> l = r"
  by (cases l; cases r) simp_all

lemma EquivalentSerializedRequests_iff [simp]:
  "EquivalentSerializedRequests l r \<longleftrightarrow> GetSerializedRequest l = GetSerializedRequest r"
  by (simp add: EquivalentSerializedRequests_def)

section \<open>Lists of requests\<close>

definition RequestsForResource ::
    "serialized_requestish list \<Rightarrow> action_metadata \<Rightarrow> serialized_requestish list" where
  "RequestsForResource mutations md = filter (\<lambda>m. requestish_metadata m = md) mutations"

text \<open>The inner loop looks for an equivalent request on the right and stops at the first.\<close>

fun found_equivalent :: "serialized_requestish \<Rightarrow> serialized_requestish list \<Rightarrow> bool" where
  "found_equivalent l [] = False"
| "found_equivalent l (r # rs) = (if EquivalentSerializedRequests l r then True else found_equivalent l rs)"

fun DifferenceOfSerializedRequests ::
    "serialized_requestish list \<Rightarrow> serialized_requestish list \<Rightarrow> serialized_requestish list" where
  "DifferenceOfSerializedRequests [] rhs = []"
| "DifferenceOfSerializedRequests (l # ls) rhs =
     (if \<not> found_equivalent l rhs then l # DifferenceOfSerializedRequests ls rhs
      else DifferenceOfSerializedRequests ls rhs)"

definition AreAllSerializedRequestsEquivalentWithReasons ::
    "serialized_requestish list \<Rightarrow> serialized_requestish list \<Rightarrow>
      bool \<times> serialized_request list \<times> serialized_request list" where
  "AreAllSerializedRequestsEquivalentWithReasons lhs rhs =
     (let missingInRHS = DifferenceOfSerializedRequests lhs rhs;
          missingInLHS = DifferenceOfSerializedRequests rhs lhs in
      if missingInRHS = [] \<and> missingInLHS = [] then (True, [], [])
      else (False, map GetSerializedRequest missingInRHS, map GetSerializedRequest missingInLHS))"

abbreviation request_set :: "serialized_requestish list \<Rightarrow> serialized_request set" where
  "request_set qs \<equiv> GetSerializedRequest ` set qs"

lemma found_equivalent_iff [simp]:
  "found_equivalent l rs \<longleftrightarrow> GetSerializedRequest l \<in> request_set rs"
  by (induction rs) auto

lemma Difference_eq_filter:
  "DifferenceOfSerializedRequests lhs rhs =
     filter (\<lambda>l. GetSerializedRequest l \<notin> request_set rhs) lhs"
  by (induction lhs) auto

lemma Difference_eq_Nil_iff [simp]:
  "DifferenceOfSerializedRequests lhs rhs = [] \<longleftrightarrow> request_set lhs \<subseteq> request_set rhs"
  by (auto simp: Difference_eq_filter filter_empty_conv)

lemma request_set_Difference [simp]:
  "request_set (DifferenceOfSerializedRequests lhs rhs) = request_set lhs - request_set rhs"
  by (auto simp: Difference_eq_filter)

section \<open>The tracker\<close>

record action_tracker =
  at_action :: action
  at_requests :: "serialized_requestish list"

record all_actions_tracker =
  actionToTracker :: "(action \<times> action_tracker) list"

definition NewAllActionsTracker :: all_actions_tracker where
  "NewAllActionsTracker = \<lparr>actionToTracker = []\<rparr>"

definition actionTracker_AddRequest ::
    "action_tracker \<Rightarrow> serialized_requestish \<Rightarrow> action_tracker outcome" where
  "actionTracker_AddRequest a request =
     (if at_action a \<noteq> requestish_action request then Panicked (PanicValue ''coding error'')
      else Value (a\<lparr>at_requests := at_requests a @ [request]\<rparr>))"

definition Mutations :: "action_tracker option \<Rightarrow> serialized_requestish list outcome" where
  "Mutations a = bind_outcome (deref a) (\<lambda>at. Value (at_requests at))"

text \<open>\<open>m[k] = v\<close> on a map kept as an association list.\<close>

fun map_set :: "'k \<Rightarrow> 'v \<Rightarrow> ('k \<times> 'v) list \<Rightarrow> ('k \<times> 'v) list" where
  "map_set k v [] = [(k, v)]"
| "map_set k v ((k', v') # m) = (if k = k' then (k, v) # m else (k', v') # map_set k v m)"

definition AddRequest ::
    "all_actions_tracker \<Rightarrow> serialized_requestish \<Rightarrow> all_actions_tracker outcome" where
  "AddRequest a request =
     (let act = requestish_action request;
          m = (case map_of (actionToTracker a) act of
                 None \<Rightarrow> map_set act \<lparr>at_action = act, at_requests = []\<rparr> (actionToTracker a)
               | Some at \<Rightarrow> actionToTracker a) in
      bind_outcome (deref (map_of m act)) (\<lambda>at.
      bind_outcome (actionTracker_AddRequest at request) (\<lambda>at'.
        Value (a\<lparr>actionToTracker := map_set act at' m\<rparr>))))"

fun AddRequests ::
    "all_actions_tracker \<Rightarrow> serialized_requestish list \<Rightarrow> all_actions_tracker outcome" where
  "AddRequests a [] = Value a"
| "AddRequests a (r # rs) = bind_outcome (AddRequest a r) (\<lambda>a'. AddRequests a' rs)"

definition ListActions :: "all_actions_tracker \<Rightarrow> action list" where
  "ListActions a = sets_List (map fst (actionToTracker a))"

definition RequestsForAction ::
    "all_actions_tracker \<Rightarrow> action \<Rightarrow> serialized_requestish list outcome" where
  "RequestsForAction a act = Mutations (map_of (actionToTracker a) act)"

definition AllRequests ::
    "action visit_order \<Rightarrow> all_actions_tracker \<Rightarrow> serialized_requestish list" where
  "AllRequests ord a =
     concat (map (\<lambda>k. outcome_list (Mutations (map_of (actionToTracker a) k)))
       (ord (map fst (actionToTracker a))))"


subsection \<open>Copies\<close>

fun request_DeepCopy :: "serialized_request \<Rightarrow> serialized_request" where
  "request_DeepCopy a =
     \<lparr>sr_ActionMetadata = \<lparr>am_Action = am_Action (sr_ActionMetadata a), am_ResourceType = am_ResourceType (sr_ActionMetadata a),
        am_Namespace = am_Namespace (sr_ActionMetadata a), am_Name = am_Name (sr_ActionMetadata a),
        am_GenerateName = am_GenerateName (sr_ActionMetadata a), am_PatchType = am_PatchType (sr_ActionMetadata a),
        am_FieldManager = am_FieldManager (sr_ActionMetadata a),
        am_ControllerInstanceName = am_ControllerInstanceName (sr_ActionMetadata a)\<rparr>,
      sr_KindType = sr_KindType a, sr_Options = sr_Options a, sr_Body = sr_Body a\<rparr>"

fun requestish_DeepCopy :: "serialized_requestish \<Rightarrow> serialized_requestish" where
  "requestish_DeepCopy (FileOriginatedSerializedRequest mf bf optf sr) =
     FileOriginatedSerializedRequest mf bf optf (request_DeepCopy sr)"
| "requestish_DeepCopy (TrackedSerializedRequest n sr) = TrackedSerializedRequest n (request_DeepCopy sr)"
| "requestish_DeepCopy (PlainSerializedRequest sr) = PlainSerializedRequest (request_DeepCopy sr)"

definition actionTracker_DeepCopy :: "action_tracker \<Rightarrow> action_tracker" where
  "actionTracker_DeepCopy a =
     fold (\<lambda>v ret. ret\<lparr>at_requests := at_requests ret @ [requestish_DeepCopy v]\<rparr>) (at_requests a)
       \<lparr>at_action = at_action a, at_requests = []\<rparr>"

definition tracker_DeepCopy :: "all_actions_tracker \<Rightarrow> all_actions_tracker" where
  "tracker_DeepCopy a =
     \<lparr>actionToTracker = map (\<lambda>(k, v). (k, actionTracker_DeepCopy v)) (actionToTracker a)\<rparr>"

text \<open>Values have no identity here, so a copy is the value.\<close>

lemma requestish_DeepCopy_id [simp]: "requestish_DeepCopy q = q"
  by (cases q) simp_all

lemma tracker_DeepCopy_id [simp]: "tracker_DeepCopy a = a"
proof -
  have "fold (\<lambda>v ret. ret\<lparr>at_requests := at_requests ret @ [requestish_DeepCopy v]\<rparr>) qs ret =
      ret\<lparr>at_requests := at_requests ret @ qs\<rparr>" for qs and ret :: action_tracker
    by (induction qs arbitrary: ret) simp_all
  then have "actionTracker_DeepCopy v = v" for v by (cases v) (simp add: actionTracker_DeepCopy_def)
  then show ?thesis by (simp add: tracker_DeepCopy_def case_prod_beta)
qed

subsection \<open>The tracker keeps one list per action\<close>

definition tracker_inv :: "all_actions_tracker \<Rightarrow> bool" where
  "tracker_inv a \<longleftrightarrow> distinct (map fst (actionToTracker a)) \<and>
     (\<forall>(k, at) \<in> set (actionToTracker a).
        at_action at = k \<and> (\<forall>q \<in> set (at_requests at). requestish_action q = k))"

text \<open>The abstraction: the requests recorded for an action, empty when there are none.\<close>

definition requests_of :: "all_actions_tracker \<Rightarrow> action \<Rightarrow> serialized_requestish list" where
  "requests_of a act = outcome_list (RequestsForAction a act)"

lemma map_of_map_set [simp]: "map_of (map_set k v m) = (map_of m)(k \<mapsto> v)"
  by (induction m) auto

lemma keys_map_set: "map fst (map_set k v m) =
    (if k \<in> set (map fst m) then map fst m else map fst m @ [k])"
proof (induction m)
  case (Cons p m)
  then show ?case by (cases p) (cases "k = fst p", simp_all)
qed simp

lemma tracker_inv_lookup:
  assumes "tracker_inv a" and "map_of (actionToTracker a) k = Some at"
  shows "at_action at = k" and "\<forall>q \<in> set (at_requests at). requestish_action q = k"
  using assms map_of_SomeD [OF assms(2)] by (auto simp: tracker_inv_def)

lemma tracker_inv_alt:
  "tracker_inv a \<longleftrightarrow> distinct (map fst (actionToTracker a)) \<and>
     (\<forall>k at. map_of (actionToTracker a) k = Some at \<longrightarrow>
        at_action at = k \<and> (\<forall>q \<in> set (at_requests at). requestish_action q = k))"
  unfolding tracker_inv_def by (auto dest: map_of_SomeD)

lemma tracker_inv_New [simp]: "tracker_inv NewAllActionsTracker"
  by (simp add: tracker_inv_def NewAllActionsTracker_def)

lemma RequestsForAction_Value:
  "RequestsForAction a act = Value qs \<longleftrightarrow>
     (\<exists>at. map_of (actionToTracker a) act = Some at \<and> qs = at_requests at)"
  by (cases "map_of (actionToTracker a) act") (auto simp: RequestsForAction_def Mutations_def)

lemma RequestsForAction_missing:
  assumes "act \<notin> set (ListActions a)"
  shows "RequestsForAction a act = Panicked NilDereference"
proof -
  have "map_of (actionToTracker a) act = None"
    using assms by (simp add: ListActions_def map_of_eq_None_iff)
  then show ?thesis by (simp add: RequestsForAction_def Mutations_def)
qed

lemma set_ListActions: "set (ListActions a) = dom (map_of (actionToTracker a))"
  by (simp add: ListActions_def dom_map_of_conv_image_fst)

lemma AddRequest_inv:
  assumes "tracker_inv a"
  obtains a' where "AddRequest a q = Value a'" and "tracker_inv a'"
    and "map_of (actionToTracker a') = (map_of (actionToTracker a))
      (requestish_action q \<mapsto> \<lparr>at_action = requestish_action q,
         at_requests = requests_of a (requestish_action q) @ [q]\<rparr>)"
proof -
  let ?k = "requestish_action q" and ?m = "actionToTracker a"
  let ?at = "\<lparr>at_action = ?k, at_requests = requests_of a ?k @ [q]\<rparr>"
  define m' where "m' = (case map_of ?m ?k of
      None \<Rightarrow> map_set ?k \<lparr>at_action = ?k, at_requests = []\<rparr> ?m | Some at \<Rightarrow> ?m)"
  define at where "at = (case map_of ?m ?k of
      None \<Rightarrow> \<lparr>at_action = ?k, at_requests = []\<rparr> | Some at \<Rightarrow> at)"
  have look: "map_of m' ?k = Some at" "at_action at = ?k" "at\<lparr>at_requests := at_requests at @ [q]\<rparr> = ?at"
    using tracker_inv_lookup(1) [OF assms]
    by (auto simp: m'_def at_def requests_of_def RequestsForAction_def Mutations_def
        split: option.splits)
  then have add: "AddRequest a q = Value (a\<lparr>actionToTracker := map_set ?k ?at m'\<rparr>)"
    by (simp add: AddRequest_def Let_def actionTracker_AddRequest_def flip: m'_def)
  have other: "map_of m' k = map_of ?m k" if "k \<noteq> ?k" for k
    using that by (auto simp: m'_def split: option.splits)
  then have maps: "map_of (map_set ?k ?at m') = (map_of ?m)(?k \<mapsto> ?at)"
    by (auto simp: fun_eq_iff)
  have "distinct (map fst (map_set ?k ?at m'))"
    using assms by (auto simp: m'_def tracker_inv_def keys_map_set split: option.splits)
  moreover have "\<forall>r \<in> set (requests_of a ?k). requestish_action r = ?k"
    using tracker_inv_lookup(2) [OF assms]
    by (cases "map_of ?m ?k") (auto simp: requests_of_def RequestsForAction_def Mutations_def)
  ultimately have "tracker_inv (a\<lparr>actionToTracker := map_set ?k ?at m'\<rparr>)"
    using tracker_inv_lookup [OF assms] by (auto simp: tracker_inv_alt other split: if_splits)
  with maps show thesis by (intro that [OF add]) (simp_all del: map_of_map_set)
qed

lemma requests_of_simps:
  "map_of (actionToTracker a) k = Some at \<Longrightarrow> requests_of a k = at_requests at"
  "map_of (actionToTracker a) k = None \<Longrightarrow> requests_of a k = []"
  by (simp_all add: requests_of_def RequestsForAction_def Mutations_def)

lemma requests_of_cong:
  "map_of (actionToTracker a) k = map_of (actionToTracker b) k \<Longrightarrow> requests_of a k = requests_of b k"
  by (simp add: requests_of_def RequestsForAction_def)

lemma AddRequests_inv:
  assumes "tracker_inv a"
  shows "\<exists>a'. AddRequests a qs = Value a' \<and> tracker_inv a' \<and>
    set (ListActions a') = set (ListActions a) \<union> requestish_action ` set qs \<and>
    (\<forall>k. requests_of a' k = requests_of a k @ filter (\<lambda>q. requestish_action q = k) qs)"
  using assms
proof (induction qs arbitrary: a)
  case (Cons q qs)
  obtain b where b: "AddRequest a q = Value b" "tracker_inv b"
    "map_of (actionToTracker b) = (map_of (actionToTracker a))
      (requestish_action q \<mapsto> \<lparr>at_action = requestish_action q,
         at_requests = requests_of a (requestish_action q) @ [q]\<rparr>)"
    using AddRequest_inv [OF Cons.prems] by blast
  have "requests_of b k = requests_of a k @ (if requestish_action q = k then [q] else [])" for k
    by (cases "requestish_action q = k") (auto simp: b(3) requests_of_simps intro: requests_of_cong)
  moreover have "set (ListActions b) = insert (requestish_action q) (set (ListActions a))"
    by (simp add: set_ListActions b(3))
  ultimately show ?case using Cons.IH [OF b(2)] b(1) by auto
qed simp

text \<open>The tracker provides the reader interface.\<close>

interpretation tracker: mutation_action_reader tracker_inv ListActions RequestsForAction AllRequests
  requestish_action
proof
  show "distinct (ListActions r)" for r by (simp add: ListActions_def)
  show "\<exists>qs. RequestsForAction r a = Value qs" if "a \<in> set (ListActions r)" for r a
    using that by (auto simp: set_ListActions RequestsForAction_Value)
  show "RequestsForAction r a = Panicked NilDereference" if "a \<notin> set (ListActions r)" for r a
    using that by (rule RequestsForAction_missing)
  show "requestish_action q = a"
    if "tracker_inv r" "RequestsForAction r a = Value qs" "q \<in> set qs" for r a qs q
    using that tracker_inv_lookup(2) by (auto simp: RequestsForAction_Value)
  show "mset (AllRequests ord r) =
      mset (concat (map (\<lambda>a. outcome_list (RequestsForAction r a)) (ListActions r)))"
    if "tracker_inv r" "range_order ord" for ord r
  proof -
    have "mset (ord (map fst (actionToTracker r))) = mset (ListActions r)"
      using that by (simp add: ListActions_def sets_List_def tracker_inv_def distinct_remdups_id)
    then show ?thesis
      unfolding AllRequests_def RequestsForAction_def by (rule mset_concat_map_perm)
  qed
qed

lemma mset_concat_filter_keys:
  "distinct ks \<Longrightarrow> mset (concat (map (\<lambda>k. filter (\<lambda>q. f q = k) qs) ks)) =
     filter_mset (\<lambda>q. f q \<in> set ks) (mset qs)"
  by (induction ks) (auto intro!: multiset_eqI)

section \<open>Properties\<close>

text \<open>C22: the tracker loses nothing: after any sequence of requests it lists exactly their actions,
  sorted and once each, holds for each action its requests in the order they came, panics for an
  action without requests, and all its requests are the ones it was given.\<close>

theorem tracker_records_every_request:
  "\<exists>a. AddRequests NewAllActionsTracker qs = Value a \<and>
    ListActions a = sets_List (map requestish_action qs) \<and>
    (\<forall>k. RequestsForAction a k =
      (if k \<in> set (map requestish_action qs) then Value (filter (\<lambda>q. requestish_action q = k) qs)
       else Panicked NilDereference)) \<and>
    mset (AllRequests rev a) = mset qs"
proof -
  obtain a where a: "AddRequests NewAllActionsTracker qs = Value a" "tracker_inv a"
    and acts: "set (ListActions a) = requestish_action ` set qs"
    and reqs: "\<And>k. requests_of a k = filter (\<lambda>q. requestish_action q = k) qs"
    using AddRequests_inv [OF tracker_inv_New, of qs]
    by (auto simp: NewAllActionsTracker_def ListActions_def requests_of_def RequestsForAction_def Mutations_def)
  have "ListActions a = sets_List (map requestish_action qs)"
    using acts by (intro sorted_distinct_set_unique) (simp_all add: ListActions_def sets_List_def)
  moreover have "RequestsForAction a k = Value (requests_of a k)" if "k \<in> set (ListActions a)" for k
    using tracker.listed [OF a(2) that] by (auto simp: requests_of_def)
  moreover have "mset (AllRequests rev a) = mset (concat (map (requests_of a) (ListActions a)))"
    using tracker.all_requests_mset [OF a(2) range_order_rev] by (simp add: requests_of_def [abs_def])
  moreover have "mset (concat (map (requests_of a) (ListActions a))) = mset qs"
    unfolding reqs [abs_def]
    by (subst mset_concat_filter_keys)
      (simp_all add: tracker.distinct_actions [OF a(2)] acts flip: mset_filter)
  ultimately show ?thesis
    using a RequestsForAction_missing by (intro exI [of _ a]) (auto simp: reqs acts)
qed

text \<open>C26: the comparison of requests is a total order that is zero exactly on equal requests, nil
  last; equivalence of requests is equality of their contents.\<close>

theorem CompareSerializedRequest_total_order:
  "(CompareSerializedRequest a b = 0 \<longleftrightarrow> a = b) \<and>
   (CompareSerializedRequest b a < 0 \<longleftrightarrow> 0 < CompareSerializedRequest a b) \<and>
   \<not> (CompareSerializedRequest a b \<le> 0 \<and> CompareSerializedRequest b c \<le> 0 \<and> 0 < CompareSerializedRequest a c) \<and>
   CompareSerializedRequest a None \<le> 0 \<and>
   (EquivalentSerializedRequests l r \<longleftrightarrow> GetSerializedRequest l = GetSerializedRequest r)"
proof -
  have "CompareSerializedRequest a None \<le> 0" by (cases a) simp_all
  then show ?thesis
    using requests.cmp_trans [of a b c] requests.cmp_swap [of b a]
    by (auto simp: CompareSerializedRequest_zero)
qed

end
