(* ===== verification/Output_Resources.thy ===== *)
theory Output_Resources
  imports Go_Prelude
begin

text \<open>
  \<open>pkg/library/libraryoutputresources\<close>: the resources an operator declares it will mutate
  (\<open>types.go\<close>), the constructors for common ones (\<open>easy_creation.go\<close>) and the
  \<open>output-resources\<close> command (\<open>options.go\<close>). Embedded Go structs are record extensions.
\<close>

section \<open>Types\<close>

record output_type_identifier =
  ot_Group :: string
  ot_Version :: string
  ot_Resource :: string

record output_exact_resource = output_type_identifier +
  oe_Namespace :: string
  oe_Name :: string

record output_generated_resource = output_type_identifier +
  og_Namespace :: string
  og_GeneratedName :: string

record output_resource_list =
  ol_ExactResources :: "output_exact_resource list"
  ol_GeneratedNameResources :: "output_generated_resource list"
  ol_EventingNamespaces :: "string list"

record output_resources =
  or_ConfigurationResources :: output_resource_list
  or_ManagementResources :: output_resource_list
  or_UserWorkloadResources :: output_resource_list

text \<open>The zero value of \<open>ResourceList\<close>.\<close>

definition empty_output_list :: output_resource_list where
  "empty_output_list = \<lparr>ol_ExactResources = [], ol_GeneratedNameResources = [],
     ol_EventingNamespaces = []\<rparr>"

section \<open>Constructors\<close>

definition out_ExactResource ::
    "string \<Rightarrow> string \<Rightarrow> string \<Rightarrow> string \<Rightarrow> string \<Rightarrow> output_exact_resource" where
  "out_ExactResource grp version resource namespace name =
     \<lparr>ot_Group = grp, ot_Version = version, ot_Resource = resource,
      oe_Namespace = namespace, oe_Name = name\<rparr>"

definition out_GeneratedResource ::
    "string \<Rightarrow> string \<Rightarrow> string \<Rightarrow> string \<Rightarrow> string \<Rightarrow> output_generated_resource" where
  "out_GeneratedResource grp version resource namespace name =
     \<lparr>ot_Group = grp, ot_Version = version, ot_Resource = resource,
      og_Namespace = namespace, og_GeneratedName = name\<rparr>"

definition out_ExactSecret :: "string \<Rightarrow> string \<Rightarrow> output_exact_resource" where
  "out_ExactSecret namespace name = out_ExactResource '''' ''v1'' ''secrets'' namespace name"

definition out_ExactConfigMap :: "string \<Rightarrow> string \<Rightarrow> output_exact_resource" where
  "out_ExactConfigMap namespace name = out_ExactResource '''' ''v1'' ''configmaps'' namespace name"

definition out_ExactNamespace :: "string \<Rightarrow> output_exact_resource" where
  "out_ExactNamespace name = out_ExactResource '''' ''v1'' ''namespaces'' '''' name"

definition out_ExactServiceAccount :: "string \<Rightarrow> string \<Rightarrow> output_exact_resource" where
  "out_ExactServiceAccount namespace name = out_ExactResource '''' ''v1'' ''serviceaccounts'' namespace name"

definition out_ExactDeployment :: "string \<Rightarrow> string \<Rightarrow> output_exact_resource" where
  "out_ExactDeployment namespace name = out_ExactResource ''apps'' ''v1'' ''deployments'' namespace name"

definition out_ExactDaemonSet :: "string \<Rightarrow> string \<Rightarrow> output_exact_resource" where
  "out_ExactDaemonSet namespace name = out_ExactResource ''apps'' ''v1'' ''daemonsets'' namespace name"

definition out_ExactClusterOperator :: "string \<Rightarrow> output_exact_resource" where
  "out_ExactClusterOperator name = out_ExactResource ''config.openshift.io'' ''v1'' ''clusteroperators'' '''' name"

definition out_ExactLowLevelOperator :: "string \<Rightarrow> output_exact_resource" where
  "out_ExactLowLevelOperator resource = out_ExactResource ''operator.openshift.io'' ''v1'' resource '''' ''cluster''"

definition out_ExactClusterRole :: "string \<Rightarrow> output_exact_resource" where
  "out_ExactClusterRole name = out_ExactResource ''rbac.authorization.k8s.io'' ''v1'' ''clusterroles'' '''' name"

definition out_ExactClusterRoleBinding :: "string \<Rightarrow> output_exact_resource" where
  "out_ExactClusterRoleBinding name = out_ExactResource ''rbac.authorization.k8s.io'' ''v1'' ''clusterrolebindings'' '''' name"

definition out_ExactRole :: "string \<Rightarrow> string \<Rightarrow> output_exact_resource" where
  "out_ExactRole namespace name = out_ExactResource ''rbac.authorization.k8s.io'' ''v1'' ''roles'' namespace name"

definition out_ExactRoleBinding :: "string \<Rightarrow> string \<Rightarrow> output_exact_resource" where
  "out_ExactRoleBinding namespace name = out_ExactResource ''rbac.authorization.k8s.io'' ''v1'' ''rolebindings'' namespace name"

definition out_ExactConfigResource :: "string \<Rightarrow> output_exact_resource" where
  "out_ExactConfigResource resource = out_ExactResource ''config.openshift.io'' ''v1'' resource '''' ''cluster''"

definition out_GeneratedCSR :: "string \<Rightarrow> output_generated_resource" where
  "out_GeneratedCSR generateName =
     out_GeneratedResource ''certificates.k8s.io'' ''v1'' ''certificatesigningrequests'' '''' generateName"

definition out_ExactPDB :: "string \<Rightarrow> string \<Rightarrow> output_exact_resource" where
  "out_ExactPDB namespace name = out_ExactResource ''policy'' ''v1'' ''poddisruptionbudgets'' namespace name"

definition out_ExactService :: "string \<Rightarrow> string \<Rightarrow> output_exact_resource" where
  "out_ExactService namespace name = out_ExactResource '''' ''v1'' ''services'' namespace name"

definition out_ExactOAuthClient :: "string \<Rightarrow> output_exact_resource" where
  "out_ExactOAuthClient name = out_ExactResource ''oauth.openshift.io'' ''v1'' ''oauthclients'' '''' name"

section \<open>The output-resources command\<close>

text \<open>
  \<open>outputResourcesOptions.Run\<close>: the operator's function, the YAML marshaller and the write to
  the output stream are arguments; the result is the error and what was written.
\<close>

definition outputResources_Run ::
    "output_resources option \<times> go_error option \<Rightarrow> (output_resources option \<Rightarrow> go_error + string) \<Rightarrow>
      (string \<Rightarrow> go_error option) \<Rightarrow> go_error option \<times> string list" where
  "outputResources_Run outputResourcesFn marshal fprint =
     (case outputResourcesFn of
        (result, Some err) \<Rightarrow> (Some err, [])
      | (result, None) \<Rightarrow>
          (case marshal result of
             Inl err \<Rightarrow> (Some err, [])
           | Inr outputResourcesYAML \<Rightarrow>
               (case fprint outputResourcesYAML of
                  Some err \<Rightarrow> (Some err, [])
                | None \<Rightarrow> (None, [outputResourcesYAML]))))"

lemma outputResources_Run_ok_iff:
  "fst (outputResources_Run f marshal fprint) = None \<longleftrightarrow>
     (\<exists>result yaml. f = (result, None) \<and> marshal result = Inr yaml \<and> fprint yaml = None \<and>
        outputResources_Run f marshal fprint = (None, [yaml]))"
  by (auto simp: outputResources_Run_def split: prod.splits option.splits sum.splits)

end
