(* ===== verification/Go_Path.thy ===== *)
theory Go_Path
  imports Go_Prelude
begin

text \<open>
  The lexical part of Go's \<open>path\<close> and (on Unix) \<open>path/filepath\<close> packages that the program uses
  to name files: \<open>Clean\<close> and \<open>Join\<close>. A path of components that are not empty, not dots and hold
  no slash is joined without change, and joins of such components are injective.
  Also the decimal rendering of \<open>%d\<close>.
\<close>

section \<open>Clean and Join\<close>

definition slash :: char where
  "slash = CHR 0x2F"

fun split_slash :: "string \<Rightarrow> string list" where
  "split_slash [] = [[]]"
| "split_slash (c # cs) =
     (if c = slash then [] # split_slash cs
      else (case split_slash cs of [] \<Rightarrow> [[c]] | w # ws \<Rightarrow> (c # w) # ws))"

definition clean_step :: "bool \<Rightarrow> string list \<Rightarrow> string \<Rightarrow> string list" where
  "clean_step rooted st elem =
     (if elem = [] \<or> elem = ''.'' then st
      else if elem = ''..'' then
        (case st of
           [] \<Rightarrow> (if rooted then [] else [''..''])
         | t # ts \<Rightarrow> (if t = ''..'' then ''..'' # st else ts))
      else elem # st)"

definition path_clean :: "string \<Rightarrow> string" where
  "path_clean s =
     (if s = [] then ''.''
      else let rooted = (hd s = slash);
               comps = rev (foldl (clean_step rooted) [] (split_slash s)) in
           if rooted then slash # strings_join comps [slash]
           else if comps = [] then ''.'' else strings_join comps [slash])"

definition path_join :: "string list \<Rightarrow> string" where
  "path_join elems =
     (case dropWhile (\<lambda>e. e = []) elems of
        [] \<Rightarrow> []
      | e # es \<Rightarrow> path_clean (strings_join (e # es) [slash]))"

text \<open>\<open>Dir\<close>: all but the last element, cleaned.\<close>

definition path_dir :: "string \<Rightarrow> string" where
  "path_dir s = path_clean (rev (dropWhile (\<lambda>c. c \<noteq> slash) (rev s)))"

definition plain_component :: "string \<Rightarrow> bool" where
  "plain_component p \<longleftrightarrow> p \<noteq> [] \<and> slash \<notin> set p \<and> p \<noteq> ''.'' \<and> p \<noteq> ''..''"

lemma strings_join_Cons: "strings_join (x # xs) sep = (if xs = [] then x else x @ sep @ strings_join xs sep)"
  by (cases xs) simp_all

lemma split_slash_not_Nil [simp]: "split_slash s \<noteq> []"
  by (cases s) (auto split: list.splits)

lemma split_slash_plain: "slash \<notin> set p \<Longrightarrow> split_slash p = [p]"
  by (induction p) auto

lemma split_slash_append: "slash \<notin> set p \<Longrightarrow> split_slash (p @ slash # s) = p # split_slash s"
  by (induction p) (auto split: list.splits)

lemma split_slash_join:
  "xs \<noteq> [] \<Longrightarrow> \<forall>x \<in> set xs. slash \<notin> set x \<Longrightarrow> split_slash (strings_join xs [slash]) = xs"
  by (induction xs) (auto simp: strings_join_Cons split_slash_plain split_slash_append)

lemma foldl_clean_plain:
  "\<forall>x \<in> set xs. plain_component x \<Longrightarrow> foldl (clean_step r) st xs = rev xs @ st"
  by (induction xs arbitrary: st) (auto simp: clean_step_def plain_component_def)

lemma path_clean_plain:
  assumes "xs \<noteq> []" and "\<forall>x \<in> set xs. plain_component x"
  shows "path_clean (strings_join xs [slash]) = strings_join xs [slash]"
proof -
  obtain y ys where xs: "xs = y # ys" using assms(1) by (cases xs) auto
  obtain c cs where y: "y = c # cs" "c \<noteq> slash"
    using assms(2) xs by (cases y) (auto simp: plain_component_def)
  have "split_slash (strings_join xs [slash]) = xs"
    using assms by (intro split_slash_join) (auto simp: plain_component_def)
  moreover have "strings_join xs [slash] \<noteq> []" "hd (strings_join xs [slash]) \<noteq> slash"
    using xs y by (simp_all add: strings_join_Cons)
  ultimately show ?thesis
    using assms by (simp add: path_clean_def Let_def foldl_clean_plain)
qed

lemma path_join_plain:
  assumes "xs \<noteq> []" and "\<forall>x \<in> set xs. plain_component x"
  shows "path_join xs = strings_join xs [slash]"
proof -
  have "dropWhile (\<lambda>e. e = []) xs = xs"
    using assms by (cases xs) (auto simp: plain_component_def)
  with path_clean_plain [OF assms] assms(1) show ?thesis
    by (auto simp: path_join_def split: list.splits)
qed

lemma path_join_inj:
  assumes "xs \<noteq> []" "ys \<noteq> []"
    and "\<forall>x \<in> set xs. plain_component x" "\<forall>y \<in> set ys. plain_component y"
    and "path_join xs = path_join ys"
  shows "xs = ys"
proof -
  have "strings_join xs [slash] = strings_join ys [slash]"
    using assms by (simp add: path_join_plain)
  moreover have "split_slash (strings_join xs [slash]) = xs" "split_slash (strings_join ys [slash]) = ys"
    using assms by (auto intro!: split_slash_join simp: plain_component_def)
  ultimately show ?thesis by metis
qed

lemma split_slash_last: "slash \<notin> set x \<Longrightarrow> split_slash (p @ slash # x) = split_slash p @ [x]"
  by (induction p) (auto simp: split_slash_plain split: list.splits)

lemma strings_join_snoc:
  "strings_join (xs @ [x]) sep = (if xs = [] then x else strings_join xs sep @ sep @ x)"
  by (induction xs) (auto simp: strings_join_Cons)

text \<open>The last component of a joined path is the last element joined, whatever the directory.\<close>

lemma path_join_last:
  assumes "plain_component x"
  shows "last (split_slash (path_join [dir, x])) = x"
proof (cases "dir = []")
  case True
  with assms path_join_plain [of "[x]"] show ?thesis
    by (auto simp: path_join_def plain_component_def split_slash_plain)
next
  case False
  have x: "slash \<notin> set x" "clean_step r st x = x # st" for r st
    using assms by (auto simp: plain_component_def clean_step_def)
  define comps where "comps = rev (foldl (clean_step (hd dir = slash)) [] (split_slash dir))"
  have "path_join [dir, x] =
    (if hd dir = slash then slash # strings_join (comps @ [x]) [slash]
     else strings_join (comps @ [x]) [slash])"
    using False x by (simp add: path_join_def path_clean_def split_slash_last Let_def comps_def)
  moreover have "last (split_slash (slash # strings_join (comps @ [x]) [slash])) = x"
    using x split_slash_last [of x "slash # strings_join comps [slash]"]
    by (simp add: strings_join_snoc split_slash_plain)
  moreover have "last (split_slash (strings_join (comps @ [x]) [slash])) = x"
    using x by (simp add: strings_join_snoc split_slash_plain split_slash_last)
  ultimately show ?thesis by simp
qed

lemma path_join_last_eq_iff:
  "plain_component x \<Longrightarrow> plain_component y \<Longrightarrow> path_join [dir, x] = path_join [dir, y] \<longleftrightarrow> x = y"
  by (metis path_join_last)

text \<open>Empty elements after the first disappear.\<close>

lemma foldl_clean_parts:
  "\<forall>x \<in> set xs. x = [] \<or> plain_component x \<Longrightarrow>
     foldl (clean_step r) st xs = rev (filter (\<lambda>x. x \<noteq> []) xs) @ st"
  by (induction xs arbitrary: st) (auto simp: clean_step_def plain_component_def)

lemma path_join_parts:
  assumes "plain_component x" and "\<forall>y \<in> set xs. y = [] \<or> plain_component y"
  shows "path_join (x # xs) = strings_join (filter (\<lambda>y. y \<noteq> []) (x # xs)) [slash]"
proof -
  obtain c cs where x: "x = c # cs" "c \<noteq> slash"
    using assms(1) by (cases x) (auto simp: plain_component_def)
  have "slash \<notin> set y" if "y \<in> set (x # xs)" for y
  proof -
    have "y = [] \<or> plain_component y" using that assms by (metis set_ConsD)
    then show ?thesis by (elim disjE) (simp_all only: plain_component_def list.set, simp_all)
  qed
  then have "split_slash (strings_join (x # xs) [slash]) = x # xs"
    by (intro split_slash_join) simp_all
  moreover have "strings_join (x # xs) [slash] \<noteq> []" "hd (strings_join (x # xs) [slash]) \<noteq> slash"
    using x by (simp_all add: strings_join_Cons)
  moreover have "foldl (clean_step False) [] (x # xs) = rev (filter (\<lambda>y. y \<noteq> []) (x # xs)) @ []"
    by (rule foldl_clean_parts) (use assms in auto)
  ultimately show ?thesis
    using x by (simp add: path_join_def path_clean_def Let_def del: foldl.simps)
qed

lemma split_slash_append_any: "split_slash (s @ slash # t) = split_slash s @ split_slash t"
  by (induction s) (auto split: list.splits simp: neq_Nil_conv)

lemma path_join_dot: "d \<noteq> [] \<Longrightarrow> path_join [d, ''.''] = path_clean d"
proof -
  assume d: "d \<noteq> []"
  have "split_slash (d @ slash # ''.'') = split_slash d @ [''.'']"
    using split_slash_append_any [of d "''.''"] by (simp add: slash_def)
  moreover have "hd (d @ slash # ''.'') = hd d" using d by simp
  ultimately show ?thesis
    using d by (simp add: path_join_def path_clean_def clean_step_def Let_def)
qed

lemma strings_join_plain_inj:
  assumes "xs \<noteq> []" "ys \<noteq> []" "\<forall>x \<in> set xs. slash \<notin> set x" "\<forall>y \<in> set ys. slash \<notin> set y"
    and "strings_join xs [slash] = strings_join ys [slash]"
  shows "xs = ys"
proof -
  have "xs = split_slash (strings_join xs [slash])" by (rule split_slash_join [OF assms(1,3), symmetric])
  also have "\<dots> = split_slash (strings_join ys [slash])" by (simp only: assms(5))
  also have "\<dots> = ys" by (rule split_slash_join [OF assms(2,4)])
  finally show ?thesis .
qed

section \<open>Decimal numbers\<close>

definition digit_char :: "nat \<Rightarrow> char" where
  "digit_char d = char_of (48 + d)"

fun show_nat :: "nat \<Rightarrow> string" where
  "show_nat n = (if n < 10 then [digit_char n] else show_nat (n div 10) @ [digit_char (n mod 10)])"

declare show_nat.simps [simp del]

definition show_int :: "int \<Rightarrow> string" where
  "show_int i = (if i < 0 then CHR ''-'' # show_nat (nat (- i)) else show_nat (nat i))"

end
