(* ===== verification/Client_Mutations.thy ===== *)
theory Client_Mutations
  imports Manifest_Client Output_Resources Go_Path
begin

text \<open>
  \<open>pkg/library/libraryapplyconfiguration/client_mutations.go\<close> and the interfaces of
  \<open>apply_configuration.go\<close>: the desired mutations of an operator, one reader per cluster type,
  and the filter that keeps of them what the operator declared for that cluster type. A reader is
  a tracker or a filter over a reader; both provide the reader interface.
\<close>

section \<open>Cluster types\<close>

text \<open>\<open>type ClusterType string\<close>.\<close>

datatype cluster_type = ClusterType (cluster_type_string: string)

instantiation cluster_type :: linorder
begin

definition less_eq_cluster_type :: "cluster_type \<Rightarrow> cluster_type \<Rightarrow> bool" where
  "a \<le> b \<longleftrightarrow> cluster_type_string a \<le> cluster_type_string b"

definition less_cluster_type :: "cluster_type \<Rightarrow> cluster_type \<Rightarrow> bool" where
  "a < b \<longleftrightarrow> cluster_type_string a < cluster_type_string b"

instance
  by standard (auto simp: less_eq_cluster_type_def less_cluster_type_def intro: cluster_type.expand)

end

definition ClusterTypeConfiguration :: cluster_type where
  "ClusterTypeConfiguration = ClusterType ''Configuration''"

definition ClusterTypeManagement :: cluster_type where
  "ClusterTypeManagement = ClusterType ''Management''"

definition ClusterTypeUserWorkload :: cluster_type where
  "ClusterTypeUserWorkload = ClusterType ''UserWorkload''"

definition AllClusterTypes :: "cluster_type list" where
  "AllClusterTypes = [ClusterTypeConfiguration, ClusterTypeManagement, ClusterTypeUserWorkload]"

lemmas cluster_type_defs = ClusterTypeConfiguration_def ClusterTypeManagement_def
  ClusterTypeUserWorkload_def

lemma cluster_types_distinct [simp]:
  "ClusterTypeConfiguration \<noteq> ClusterTypeManagement" "ClusterTypeManagement \<noteq> ClusterTypeConfiguration"
  "ClusterTypeConfiguration \<noteq> ClusterTypeUserWorkload" "ClusterTypeUserWorkload \<noteq> ClusterTypeConfiguration"
  "ClusterTypeManagement \<noteq> ClusterTypeUserWorkload" "ClusterTypeUserWorkload \<noteq> ClusterTypeManagement"
  by (simp_all add: cluster_type_defs)

lemma sets_List_AllClusterTypes [simp]: "sets_List AllClusterTypes = AllClusterTypes"
proof -
  have "sorted AllClusterTypes"
    by (simp add: AllClusterTypes_def cluster_type_defs less_eq_cluster_type_def)
  moreover have "distinct AllClusterTypes" by (simp add: AllClusterTypes_def)
  ultimately show ?thesis by (simp add: sets_List_def sorted_sort_id distinct_remdups_id)
qed

lemma set_AllClusterTypes:
  "set AllClusterTypes = {ClusterTypeConfiguration, ClusterTypeManagement, ClusterTypeUserWorkload}"
  by (simp add: AllClusterTypes_def)

section \<open>Which requests an allow list admits\<close>

definition coreEventGR :: group_resource where
  "coreEventGR = \<lparr>gr_Group = '''', gr_Resource = ''events''\<rparr>"

definition eventGR :: group_resource where
  "eventGR = \<lparr>gr_Group = ''events.k8s.io'', gr_Resource = ''events''\<rparr>"

text \<open>The three loops of \<open>metadataMatchesFilter\<close>, each returning at the first match.\<close>

fun matches_eventing :: "action_metadata \<Rightarrow> string list \<Rightarrow> bool" where
  "matches_eventing md [] = False"
| "matches_eventing md (cur # rest) =
     (if am_Namespace md = cur then True else matches_eventing md rest)"

fun matches_exact :: "action_metadata \<Rightarrow> output_exact_resource list \<Rightarrow> bool" where
  "matches_exact md [] = False"
| "matches_exact md (cur # rest) =
     (if length (am_GenerateName md) > 0 then matches_exact md rest
      else if gvr_Group (am_ResourceType md) = ot_Group cur \<and>
              gvr_Resource (am_ResourceType md) = ot_Resource cur \<and>
              am_Namespace md = oe_Namespace cur \<and>
              am_Name md = oe_Name cur then True
      else matches_exact md rest)"

fun matches_generated :: "action_metadata \<Rightarrow> output_generated_resource list \<Rightarrow> bool" where
  "matches_generated md [] = False"
| "matches_generated md (cur # rest) =
     (if length (am_Name md) > 0 then matches_generated md rest
      else if gvr_Group (am_ResourceType md) = ot_Group cur \<and>
              gvr_Resource (am_ResourceType md) = ot_Resource cur \<and>
              am_Namespace md = og_Namespace cur \<and>
              am_GenerateName md = og_GeneratedName cur then True
      else matches_generated md rest)"

definition metadataMatchesFilter :: "action_metadata \<Rightarrow> output_resource_list option \<Rightarrow> bool" where
  "metadataMatchesFilter md allowedResources =
     (case allowedResources of
        None \<Rightarrow> True
      | Some allowed \<Rightarrow>
          (let gr = GroupResource (am_ResourceType md) in
           if (gr = coreEventGR \<or> gr = eventGR) \<and> matches_eventing md (ol_EventingNamespaces allowed)
           then True
           else if matches_exact md (ol_ExactResources allowed) then True
           else if matches_generated md (ol_GeneratedNameResources allowed) then True
           else False))"

fun FilterSerializedRequests ::
    "serialized_requestish list \<Rightarrow> output_resource_list option \<Rightarrow> serialized_requestish list" where
  "FilterSerializedRequests [] allowedResources = []"
| "FilterSerializedRequests (cur # rest) allowedResources =
     (if metadataMatchesFilter (requestish_metadata cur) allowedResources
      then cur # FilterSerializedRequests rest allowedResources
      else FilterSerializedRequests rest allowedResources)"

fun RemoveEvents :: "serialized_requestish list \<Rightarrow> serialized_requestish list" where
  "RemoveEvents [] = []"
| "RemoveEvents (cur # rest) =
     (let gr = GroupResource (am_ResourceType (requestish_metadata cur)) in
      if gr = coreEventGR \<or> gr = eventGR then RemoveEvents rest
      else cur # RemoveEvents rest)"

text \<open>Declarative readings of the loops.\<close>

definition is_event :: "action_metadata \<Rightarrow> bool" where
  "is_event md \<longleftrightarrow> GroupResource (am_ResourceType md) \<in> {coreEventGR, eventGR}"

definition exact_entry_matches :: "action_metadata \<Rightarrow> output_exact_resource \<Rightarrow> bool" where
  "exact_entry_matches md e \<longleftrightarrow>
     am_GenerateName md = [] \<and> gvr_Group (am_ResourceType md) = ot_Group e \<and>
     gvr_Resource (am_ResourceType md) = ot_Resource e \<and> am_Namespace md = oe_Namespace e \<and>
     am_Name md = oe_Name e"

definition generated_entry_matches :: "action_metadata \<Rightarrow> output_generated_resource \<Rightarrow> bool" where
  "generated_entry_matches md e \<longleftrightarrow>
     am_Name md = [] \<and> gvr_Group (am_ResourceType md) = ot_Group e \<and>
     gvr_Resource (am_ResourceType md) = ot_Resource e \<and> am_Namespace md = og_Namespace e \<and>
     am_GenerateName md = og_GeneratedName e"

lemma matches_eventing_iff [simp]: "matches_eventing md ns \<longleftrightarrow> am_Namespace md \<in> set ns"
  by (induction ns) auto

lemma matches_exact_iff [simp]:
  "matches_exact md es \<longleftrightarrow> (\<exists>e \<in> set es. exact_entry_matches md e)"
  by (induction es) (auto simp: exact_entry_matches_def)

lemma matches_generated_iff [simp]:
  "matches_generated md es \<longleftrightarrow> (\<exists>e \<in> set es. generated_entry_matches md e)"
  by (induction es) (auto simp: generated_entry_matches_def)

lemma metadataMatchesFilter_None [simp]: "metadataMatchesFilter md None"
  by (simp add: metadataMatchesFilter_def)

lemma metadataMatchesFilter_Some:
  "metadataMatchesFilter md (Some l) \<longleftrightarrow>
     is_event md \<and> am_Namespace md \<in> set (ol_EventingNamespaces l) \<or>
     (\<exists>e \<in> set (ol_ExactResources l). exact_entry_matches md e) \<or>
     (\<exists>e \<in> set (ol_GeneratedNameResources l). generated_entry_matches md e)"
  by (auto simp: metadataMatchesFilter_def is_event_def Let_def)

lemma FilterSerializedRequests_eq_filter:
  "FilterSerializedRequests rs l = filter (\<lambda>r. metadataMatchesFilter (requestish_metadata r) l) rs"
  by (induction rs) auto

lemma RemoveEvents_eq_filter:
  "RemoveEvents rs = filter (\<lambda>r. \<not> is_event (requestish_metadata r)) rs"
  by (induction rs) (auto simp: is_event_def Let_def)


section \<open>Readers and getters\<close>

text \<open>The implementations of \<open>MutationActionReader\<close>: a tracker, or a filter over a reader.\<close>

datatype reader =
    TrackerReader all_actions_tracker
  | FilteringReader reader "output_resource_list option"

fun reader_ListActions :: "reader \<Rightarrow> action list" where
  "reader_ListActions (TrackerReader t) = ListActions t"
| "reader_ListActions (FilteringReader delegate resourceList) = reader_ListActions delegate"

fun reader_RequestsForAction :: "reader \<Rightarrow> action \<Rightarrow> serialized_requestish list outcome" where
  "reader_RequestsForAction (TrackerReader t) act = RequestsForAction t act"
| "reader_RequestsForAction (FilteringReader delegate resourceList) act =
     bind_outcome (reader_RequestsForAction delegate act)
       (\<lambda>rs. Value (FilterSerializedRequests rs resourceList))"

fun reader_AllRequests :: "action visit_order \<Rightarrow> reader \<Rightarrow> serialized_requestish list" where
  "reader_AllRequests ord (TrackerReader t) = AllRequests ord t"
| "reader_AllRequests ord (FilteringReader delegate resourceList) =
     FilterSerializedRequests (reader_AllRequests ord delegate) resourceList"

text \<open>The implementations of \<open>SingleClusterDesiredMutationGetter\<close>; a delegate may be nil.\<close>

datatype cluster_getter =
    ClientBasedClusterApplyResult cluster_type all_actions_tracker
  | DirectoryBasedClusterApplyResult cluster_type string all_actions_tracker
  | FilteringSingleClusterDesiredMutationGetter "cluster_getter option" "output_resource_list option"

fun GetClusterType :: "cluster_getter \<Rightarrow> cluster_type outcome" where
  "GetClusterType (ClientBasedClusterApplyResult ct t) = Value ct"
| "GetClusterType (DirectoryBasedClusterApplyResult ct dir t) = Value ct"
| "GetClusterType (FilteringSingleClusterDesiredMutationGetter None l) = Panicked NilDereference"
| "GetClusterType (FilteringSingleClusterDesiredMutationGetter (Some d) l) = GetClusterType d"

fun Requests :: "cluster_getter \<Rightarrow> reader outcome" where
  "Requests (ClientBasedClusterApplyResult ct t) = Value (TrackerReader t)"
| "Requests (DirectoryBasedClusterApplyResult ct dir t) = Value (TrackerReader t)"
| "Requests (FilteringSingleClusterDesiredMutationGetter None l) = Panicked NilDereference"
| "Requests (FilteringSingleClusterDesiredMutationGetter (Some d) l) =
     bind_outcome (Requests d) (\<lambda>r. Value (FilteringReader r l))"

text \<open>
  \<open>applyConfiguration\<close>. A missing key of the Go map and a nil value read the same (nil).
  A nil pointer receiver, like a nil \<open>AllDesiredMutationsGetter\<close>, panics when used.
\<close>

record apply_configuration =
  desiredMutationsByClusterType :: "cluster_type \<Rightarrow> cluster_getter option"

definition MutationsForClusterType ::
    "apply_configuration option \<Rightarrow> cluster_type \<Rightarrow> cluster_getter option outcome" where
  "MutationsForClusterType s clusterType =
     bind_outcome (deref s) (\<lambda>a. Value (desiredMutationsByClusterType a clusterType))"

definition NewApplyConfigurationFromClient :: "all_actions_tracker \<Rightarrow> apply_configuration" where
  "NewApplyConfigurationFromClient mutationTracker =
     \<lparr>desiredMutationsByClusterType =
        fold (\<lambda>clusterType m. m(clusterType \<mapsto> ClientBasedClusterApplyResult clusterType mutationTracker))
          AllClusterTypes Map.empty\<rparr>"

text \<open>The switch that picks the allow list of a cluster type.\<close>

definition cluster_type_filter ::
    "output_resources option \<Rightarrow> cluster_type \<Rightarrow> output_resource_list option outcome" where
  "cluster_type_filter allAllowedOutputResources clusterType =
     (case allAllowedOutputResources of
        None \<Rightarrow> Value None
      | Some allowed \<Rightarrow>
          (if clusterType = ClusterTypeConfiguration then Value (Some (or_ConfigurationResources allowed))
           else if clusterType = ClusterTypeManagement then Value (Some (or_ManagementResources allowed))
           else if clusterType = ClusterTypeUserWorkload then Value (Some (or_UserWorkloadResources allowed))
           else Panicked (PanicValue (''coding error: '' @ go_quote (cluster_type_string clusterType)))))"

fun filter_cluster_types ::
    "apply_configuration option \<Rightarrow> output_resources option \<Rightarrow> cluster_type list \<Rightarrow>
      (cluster_type \<Rightarrow> cluster_getter option) \<Rightarrow> (cluster_type \<Rightarrow> cluster_getter option) outcome" where
  "filter_cluster_types inp allowed [] m = Value m"
| "filter_cluster_types inp allowed (clusterType # rest) m =
     bind_outcome (cluster_type_filter allowed clusterType) (\<lambda>clusterTypeFilter.
     bind_outcome (MutationsForClusterType inp clusterType) (\<lambda>delegate.
       filter_cluster_types inp allowed rest
         (m(clusterType \<mapsto> FilteringSingleClusterDesiredMutationGetter delegate clusterTypeFilter))))"

definition FilterAllDesiredMutationsGetter ::
    "apply_configuration option \<Rightarrow> output_resources option \<Rightarrow> apply_configuration outcome" where
  "FilterAllDesiredMutationsGetter inp allAllowedOutputResources =
     bind_outcome (filter_cluster_types inp allAllowedOutputResources AllClusterTypes Map.empty)
       (\<lambda>m. Value \<lparr>desiredMutationsByClusterType = m\<rparr>)"

section \<open>Every reader meets the interface\<close>

fun reader_inv :: "reader \<Rightarrow> bool" where
  "reader_inv (TrackerReader t) = tracker_inv t"
| "reader_inv (FilteringReader delegate l) = reader_inv delegate"

lemma outcome_list_filter [simp]:
  "outcome_list (bind_outcome m (\<lambda>rs. Value (FilterSerializedRequests rs l))) =
     FilterSerializedRequests (outcome_list m) l"
  by (cases m) simp_all

lemma FilterSerializedRequests_concat:
  "FilterSerializedRequests (concat xss) l = concat (map (\<lambda>xs. FilterSerializedRequests xs l) xss)"
  by (simp add: FilterSerializedRequests_eq_filter filter_concat)

lemma mset_FilterSerializedRequests [simp]:
  "mset (FilterSerializedRequests rs l) =
     filter_mset (\<lambda>r. metadataMatchesFilter (requestish_metadata r) l) (mset rs)"
  by (simp add: FilterSerializedRequests_eq_filter)

lemma set_FilterSerializedRequests [simp]:
  "set (FilterSerializedRequests rs l) =
     {r \<in> set rs. metadataMatchesFilter (requestish_metadata r) l}"
  by (auto simp: FilterSerializedRequests_eq_filter)

interpretation readers: mutation_action_reader reader_inv reader_ListActions
  reader_RequestsForAction reader_AllRequests requestish_action
proof
  show "distinct (reader_ListActions r)" if "reader_inv r" for r
    using that by (induction r) (auto intro: tracker.distinct_actions)
  show "\<exists>qs. reader_RequestsForAction r a = Value qs"
    if "reader_inv r" "a \<in> set (reader_ListActions r)" for r a
    using that by (induction r) (auto dest: tracker.listed)
  show "reader_RequestsForAction r a = Panicked NilDereference"
    if "reader_inv r" "a \<notin> set (reader_ListActions r)" for r a
    using that by (induction r) (auto dest: tracker.unlisted)
  show "requestish_action q = a"
    if "reader_inv r" "reader_RequestsForAction r a = Value qs" "q \<in> set qs" for r a qs q
    using that by (induction r arbitrary: qs) (auto simp: outcome_simps intro: tracker.own_action)
  show "mset (reader_AllRequests ord r) =
      mset (concat (map (\<lambda>a. outcome_list (reader_RequestsForAction r a)) (reader_ListActions r)))"
    if "reader_inv r" "range_order ord" for ord r
    using that
  proof (induction r)
    case (FilteringReader d l)
    then have "mset (FilterSerializedRequests (reader_AllRequests ord d) l) =
        mset (FilterSerializedRequests
          (concat (map (\<lambda>a. outcome_list (reader_RequestsForAction d a)) (reader_ListActions d))) l)"
      by (simp only: mset_FilterSerializedRequests) simp
    then show ?case by (simp add: FilterSerializedRequests_concat o_def)
  qed (use tracker.all_requests_mset in auto)
qed

section \<open>Properties\<close>


text \<open>A generated-name entry admits no request that carries a name, whatever its prefix, and none
  whose generate name only starts with the declared one.\<close>

theorem generated_entries_need_equality:
  assumes "ol_ExactResources l = []" and "ol_EventingNamespaces l = []"
    and "am_Name md \<noteq> [] \<or> (\<forall>e \<in> set (ol_GeneratedNameResources l). am_GenerateName md \<noteq> og_GeneratedName e)"
  shows "\<not> metadataMatchesFilter md (Some l)"
  using assms by (auto simp: metadataMatchesFilter_Some generated_entry_matches_def)

definition demo_csr :: "string \<Rightarrow> string \<Rightarrow> action_metadata" where
  "demo_csr name generateName =
     \<lparr>am_Action = ActionCreate, am_ResourceType = \<lparr>gvr_Group = ''certificates.k8s.io'', gvr_Version = ''v1'',
        gvr_Resource = ''certificatesigningrequests''\<rparr>, am_Namespace = [], am_Name = name,
      am_GenerateName = generateName, am_PatchType = [], am_FieldManager = [], am_ControllerInstanceName = []\<rparr>"

theorem generated_entries_need_equality_witness:
  "\<not> metadataMatchesFilter (demo_csr ''csr-abc'' [])
      (Some (empty_output_list\<lparr>ol_GeneratedNameResources := [out_GeneratedCSR ''csr-'']\<rparr>)) \<and>
   \<not> metadataMatchesFilter (demo_csr [] ''csr-abc-'')
      (Some (empty_output_list\<lparr>ol_GeneratedNameResources := [out_GeneratedCSR ''csr-'']\<rparr>)) \<and>
   metadataMatchesFilter (demo_csr [] ''csr-'')
      (Some (empty_output_list\<lparr>ol_GeneratedNameResources := [out_GeneratedCSR ''csr-'']\<rparr>))"
proof (intro conjI)
  let ?l = "empty_output_list\<lparr>ol_GeneratedNameResources := [out_GeneratedCSR ''csr-'']\<rparr>"
  show "\<not> metadataMatchesFilter (demo_csr ''csr-abc'' []) (Some ?l)"
    by (rule generated_entries_need_equality) (simp_all add: empty_output_list_def demo_csr_def)
  show "\<not> metadataMatchesFilter (demo_csr [] ''csr-abc-'') (Some ?l)"
    by (rule generated_entries_need_equality)
      (simp_all add: empty_output_list_def demo_csr_def out_GeneratedCSR_def out_GeneratedResource_def)
  show "metadataMatchesFilter (demo_csr [] ''csr-'') (Some ?l)"
    by (simp add: metadataMatchesFilter_Some generated_entry_matches_def demo_csr_def out_GeneratedCSR_def
        out_GeneratedResource_def)
qed

end
