(* ===== verification/Run_Results.thy ===== *)
theory Run_Results
  imports Go_Prelude
begin

text \<open>
  \<open>pkg/library/libraryapplyconfiguration/types.go\<close>: the per-controller results of a run and their
  canonical order. \<open>sortControllerRunResult\<close> compares name, status and panic stack; results that
  agree in all three keep the order of the run.
\<close>

text \<open>\<open>type ControllerRunStatus string\<close>.\<close>

datatype controller_run_status = ControllerRunStatus (status_string: string)

definition ControllerRunStatusUnknown :: controller_run_status where
  "ControllerRunStatusUnknown = ControllerRunStatus ''Unknown''"
definition ControllerRunStatusSucceeded :: controller_run_status where
  "ControllerRunStatusSucceeded = ControllerRunStatus ''Succeeded''"
definition ControllerRunStatusSkipped :: controller_run_status where
  "ControllerRunStatusSkipped = ControllerRunStatus ''Skipped''"
definition ControllerRunStatusFailed :: controller_run_status where
  "ControllerRunStatusFailed = ControllerRunStatus ''Failed''"
definition ControllerRunStatusPanicked :: controller_run_status where
  "ControllerRunStatusPanicked = ControllerRunStatus ''Panicked''"

lemmas status_defs = ControllerRunStatusUnknown_def ControllerRunStatusSucceeded_def
  ControllerRunStatusSkipped_def ControllerRunStatusFailed_def ControllerRunStatusPanicked_def

record error_details =
  ed_Message :: string

record controller_run_result =
  crr_ControllerName :: string
  crr_Status :: controller_run_status
  crr_Errors :: "error_details slice"
  crr_PanicStack :: string

record run_result =
  arr_ControllerResults :: "controller_run_result slice"

definition sortControllerRunResult ::
    "controller_run_result \<Rightarrow> controller_run_result \<Rightarrow> int" where
  "sortControllerRunResult a b =
     compare_then (strings_compare (crr_ControllerName a) (crr_ControllerName b))
    (compare_then (strings_compare (status_string (crr_Status a)) (status_string (crr_Status b)))
    (compare_then (strings_compare (crr_PanicStack a) (crr_PanicStack b)) 0))"

definition CanonicalizeApplyConfigurationRunResult :: "run_result option \<Rightarrow> run_result option" where
  "CanonicalizeApplyConfigurationRunResult obj =
     (case obj of
        None \<Rightarrow> None
      | Some res \<Rightarrow> Some (res\<lparr>arr_ControllerResults :=
          map_option (sort_stable_func sortControllerRunResult) (arr_ControllerResults res)\<rparr>))"

lemma three_way_zero [compare_intros]: "three_way (\<lambda>a b. 0)"
  by unfold_locales auto

interpretation run_results: three_way sortControllerRunResult
  unfolding sortControllerRunResult_def by (intro compare_intros)

lemma sortControllerRunResult_zero:
  "sortControllerRunResult a b = 0 \<longleftrightarrow>
     crr_ControllerName a = crr_ControllerName b \<and> crr_Status a = crr_Status b \<and>
     crr_PanicStack a = crr_PanicStack b"
  by (auto simp: sortControllerRunResult_def intro: controller_run_status.expand)

lemma sortControllerRunResult_le_name:
  "sortControllerRunResult a b \<le> 0 \<Longrightarrow> crr_ControllerName a \<le> crr_ControllerName b"
  by (auto simp: sortControllerRunResult_def compare_then_def strings_compare_def
      split: if_splits)

lemma sorted_names_of_sorted:
  "run_results.sorted_by rs \<Longrightarrow> sorted (map crr_ControllerName rs)"
  by (induction rs) (auto dest: sortControllerRunResult_le_name)

section \<open>Properties\<close>

text \<open>Canonical results are the same results, sorted by name, status and panic stack; results
  that agree in these three keep their order.\<close>

theorem Canonicalize_sorts_stably:
  "CanonicalizeApplyConfigurationRunResult None = None \<and>
   (\<exists>ys. CanonicalizeApplyConfigurationRunResult (Some \<lparr>arr_ControllerResults = Some xs\<rparr>) =
      Some \<lparr>arr_ControllerResults = Some ys\<rparr> \<and>
    mset ys = mset xs \<and> sorted_wrt (\<lambda>a b. sortControllerRunResult a b \<le> 0) ys \<and>
    (\<forall>k. filter (\<lambda>r. sortControllerRunResult k r = 0) ys = filter (\<lambda>r. sortControllerRunResult k r = 0) xs))"
  by (simp add: CanonicalizeApplyConfigurationRunResult_def run_results.sorted_sort_stable
      run_results.sort_stable_segment)

end
