(* ===== verification/Operator_Launch.thy ===== *)
theory Operator_Launch
  imports Run_Results Client_Mutations
begin

text \<open>
  \<open>pkg/library/libraryapplyconfiguration/operator_launch_helpers.go\<close>: which controllers a run
  executes (\<open>isControllerEnabled\<close>, \<open>validateControllersFromFlags\<close>), the run itself
  (\<open>SimpleOperatorStarter.RunOnce\<close>) and the adapters that turn controllers into named run-once
  functions. A controller's run-once function is a function of the world: it succeeds, returns
  an error or panics, and changes the world. The shuffle of \<open>math/rand\<close> is a visit order.
\<close>

section \<open>Selecting controllers\<close>

fun enabled_loop :: "string \<Rightarrow> bool \<Rightarrow> string list \<Rightarrow> bool" where
  "enabled_loop name hasStar [] = hasStar"
| "enabled_loop name hasStar (ctrl # controllers) =
     (if ctrl = name then True
      else if ctrl = ''-'' @ name then False
      else enabled_loop name (if ctrl = ''*'' then True else hasStar) controllers)"

definition isControllerEnabled :: "string \<Rightarrow> string list \<Rightarrow> bool" where
  "isControllerEnabled name controllers = enabled_loop name False controllers"

fun validateControllersFromFlags :: "string list \<Rightarrow> string list \<Rightarrow> go_error list" where
  "validateControllersFromFlags allKnownControllersSet [] = []"
| "validateControllersFromFlags allKnownControllersSet (initialName # rest) =
     (if initialName = ''*'' then validateControllersFromFlags allKnownControllersSet rest
      else let initialNameWithoutPrefix = trim_prefix initialName ''-'';
               controllerName = initialNameWithoutPrefix in
           (if controllerName \<notin> set allKnownControllersSet
            then [errorf (go_quote initialNameWithoutPrefix @ '' is not in the list of known controllers'')]
            else []) @ validateControllersFromFlags allKnownControllersSet rest)"

section \<open>Named run-once functions\<close>

datatype run_outcome =
    RunOnceOk
  | RunOnceError go_error
  | RunOncePanic string string \<comment> \<open>the recovered value and \<open>debug.Stack()\<close>\<close>

record 'w named_run_once =
  nro_ControllerInstanceName :: string
  nro_RunOnce :: "'w \<Rightarrow> run_outcome \<times> 'w"

record 'w informer_factory =
  inf_Start :: "'w \<Rightarrow> 'w"
  inf_WaitForCacheSync :: "'w \<Rightarrow> 'w"

record 'w simple_operator_starter =
  sos_Informers :: "'w informer_factory list"
  sos_ControllerNamedRunOnceFns :: "'w named_run_once list"
  sos_ControllerRunFns :: "('w \<Rightarrow> 'w) list"

definition NewNamedRunOnce :: "string \<Rightarrow> ('w \<Rightarrow> run_outcome \<times> 'w) \<Rightarrow> 'w named_run_once" where
  "NewNamedRunOnce controllerInstanceName runOnce =
     \<lparr>nro_ControllerInstanceName = controllerInstanceName, nro_RunOnce = runOnce\<rparr>"

text \<open>
  The adapters. \<open>newSyncContext\<close> stands for \<open>factory.NewSyncContext\<close> with its fixed name. A controller
  offers \<open>ControllerInstanceName\<close> or not; \<open>AdaptNamedController\<close> panics when it does not or when
  the name is empty. \<open>typeName\<close> is what \<open>%T\<close> prints for the controller.
\<close>

definition AdaptRunFn :: "('w \<Rightarrow> nat \<Rightarrow> 'w) \<Rightarrow> ('w \<Rightarrow> 'w)" where
  "AdaptRunFn fn = (\<lambda>w. fn w 1)"

definition AdaptSyncFn ::
    "(string \<Rightarrow> 'sync) \<Rightarrow> string \<Rightarrow> ('w \<Rightarrow> 'sync \<Rightarrow> run_outcome \<times> 'w) \<Rightarrow> 'w named_run_once" where
  "AdaptSyncFn newSyncContext controllerName originalRunOnce =
     NewNamedRunOnce controllerName
       (\<lambda>w. originalRunOnce w (newSyncContext ''run-once-sync-context''))"

record ('w, 'sync) syncer =
  syn_TypeName :: string
  syn_ControllerInstanceName :: "string option"
  syn_Sync :: "'w \<Rightarrow> 'sync \<Rightarrow> run_outcome \<times> 'w"

definition AdaptNamedController ::
    "(string \<Rightarrow> 'sync) \<Rightarrow> ('w, 'sync) syncer \<Rightarrow> 'w named_run_once outcome" where
  "AdaptNamedController newSyncContext controller =
     (case syn_ControllerInstanceName controller of
        None \<Rightarrow> Panicked (PanicValue (syn_TypeName controller @
          '' doesn'' @ [CHR 0x27] @ ''t expose ControllerInstanceName() method which is required''))
      | Some controllerInstanceName \<Rightarrow>
          (if length controllerInstanceName = 0
           then Panicked (PanicValue (syn_TypeName controller @
             '' cannot return an empty ControllerInstanceName''))
           else Value (NewNamedRunOnce controllerInstanceName
             (\<lambda>w. syn_Sync controller w (newSyncContext ''run-named-once-sync-context'')))))"

section \<open>RunOnce\<close>

text \<open>The loop that collects the known names and the repeated ones.\<close>

fun known_controllers :: "string list \<Rightarrow> string list \<Rightarrow> 'w named_run_once list \<Rightarrow> string list \<times> string list" where
  "known_controllers known dups [] = (known, dups)"
| "known_controllers known dups (c # cs) =
     (if nro_ControllerInstanceName c \<in> set known
      then known_controllers known (dups @ [nro_ControllerInstanceName c]) cs
      else known_controllers (nro_ControllerInstanceName c # known) dups cs)"

text \<open>
  The body of the loop, with its deferred recovery: a panic sets the status and the stack, and
  the result is appended in every case; only an error is added to the errors of the run.
\<close>

definition run_controller ::
    "string list \<Rightarrow> 'w named_run_once \<Rightarrow> 'w \<Rightarrow> controller_run_result \<times> go_error list \<times> 'w" where
  "run_controller controllers c w =
     (let res = \<lparr>crr_ControllerName = nro_ControllerInstanceName c,
                 crr_Status = ControllerRunStatusUnknown, crr_Errors = None, crr_PanicStack = []\<rparr> in
      if \<not> isControllerEnabled (nro_ControllerInstanceName c) controllers
      then (res\<lparr>crr_Status := ControllerRunStatusSkipped\<rparr>, [], w)
      else (case nro_RunOnce c w of
              (RunOnceError err, w') \<Rightarrow>
                (res\<lparr>crr_Status := ControllerRunStatusFailed,
                     crr_Errors := slice_append (crr_Errors res) [\<lparr>ed_Message = err_text err\<rparr>]\<rparr>,
                 [Wrapf (''controller '' @ go_quote (nro_ControllerInstanceName c) @ '' failed: '') err []],
                 w')
            | (RunOnceOk, w') \<Rightarrow> (res\<lparr>crr_Status := ControllerRunStatusSucceeded\<rparr>, [], w')
            | (RunOncePanic r stack, w') \<Rightarrow>
                (res\<lparr>crr_Status := ControllerRunStatusPanicked,
                     crr_PanicStack := r @ newline @ stack\<rparr>, [], w')))"

fun run_controllers ::
    "string list \<Rightarrow> 'w named_run_once list \<Rightarrow> controller_run_result slice \<Rightarrow> go_error list \<Rightarrow> 'w \<Rightarrow>
      controller_run_result slice \<times> go_error list \<times> 'w" where
  "run_controllers controllers [] results errs w = (results, errs, w)"
| "run_controllers controllers (c # cs) results errs w =
     (case run_controller controllers c w of
        (res, errs', w') \<Rightarrow>
          run_controllers controllers cs (slice_append results [res]) (errs @ errs') w')"

text \<open>
  \<open>getMutations\<close> is \<open>input.MutationTrackingClient.GetMutations()\<close>: the requests recorded in the
  world; \<open>shuffle\<close> is \<open>shuffleNamedRunOnce\<close>.
\<close>

definition RunOnce ::
    "'w named_run_once visit_order \<Rightarrow> ('w \<Rightarrow> all_actions_tracker) \<Rightarrow> 'w simple_operator_starter \<Rightarrow>
      string list \<Rightarrow> 'w \<Rightarrow>
      (run_result option \<times> apply_configuration option \<times> go_error option) \<times> 'w" where
  "RunOnce shuffle getMutations a controllers w0 =
     (let w1 = fold inf_Start (sos_Informers a) w0;
          w2 = fold inf_WaitForCacheSync (sos_Informers a) w1;
          (known, dups) = known_controllers [] [] (sos_ControllerNamedRunOnceFns a) in
      if length dups > 0
      then ((None, None, Some (errorf
             (''the following controllers were requested to run multiple times: '' @ fmt_strings dups))), w2)
      else (let verrs = validateControllersFromFlags known controllers in
            if length verrs > 0 then ((None, None, errors_join verrs), w2)
            else (case run_controllers controllers (shuffle (sos_ControllerNamedRunOnceFns a)) None [] w2 of
                    (results, errs, w3) \<Rightarrow>
                      ((CanonicalizeApplyConfigurationRunResult (Some \<lparr>arr_ControllerResults = results\<rparr>),
                        Some (NewApplyConfigurationFromClient (getMutations w3)),
                        errors_join errs), w3))))"

text \<open>
  \<open>Start\<close> starts the informers and spawns one goroutine per run function; the model returns the
  world after the informers and the functions spawned, in order.
\<close>

definition Start :: "'w simple_operator_starter \<Rightarrow> 'w \<Rightarrow> go_error option \<times> ('w \<Rightarrow> 'w) list \<times> 'w" where
  "Start a w = (None, sos_ControllerRunFns a, fold inf_Start (sos_Informers a) w)"


section \<open>Lemmas: selection\<close>

lemma enabled_loop_find:
  "enabled_loop name h cs =
     (case List.find (\<lambda>c. c = name \<or> c = ''-'' @ name) cs of
        Some c \<Rightarrow> c = name | None \<Rightarrow> h \<or> ''*'' \<in> set cs)"
  by (induction cs arbitrary: h) (auto split: option.splits)

lemma validateControllers_Nil_iff:
  "validateControllersFromFlags known flags = [] \<longleftrightarrow>
     (\<forall>f \<in> set flags. f = ''*'' \<or> trim_prefix f ''-'' \<in> set known)"
  by (induction flags) (auto simp: Let_def)

lemma known_controllers_spec:
  "known_controllers known dups cs = (known', dups') \<Longrightarrow>
     set known' = set known \<union> nro_ControllerInstanceName ` set cs \<and>
     (dups' = [] \<longleftrightarrow> dups = [] \<and> distinct (map nro_ControllerInstanceName cs) \<and>
        set known \<inter> nro_ControllerInstanceName ` set cs = {})"
  by (induction cs arbitrary: known dups) (fastforce split: if_splits)+

section \<open>Lemmas: the run\<close>

text \<open>One controller of a run: its result and its errors from some world.\<close>

definition run_step :: "string list \<Rightarrow> 'w named_run_once \<Rightarrow> controller_run_result \<times> go_error list \<Rightarrow> bool" where
  "run_step controllers c s \<longleftrightarrow> (\<exists>w w'. run_controller controllers c w = (fst s, snd s, w'))"

lemma slice_append_Cons [simp]:
  "slice_append (slice_append s [x]) xs = slice_append s (x # xs)"
  by (simp add: slice_append_def)

lemma slice_append_Nil [simp]: "slice_append s [] = s"
  by (simp add: slice_append_def)

lemma run_controllers_steps:
  "\<exists>steps w'. run_controllers controllers cs results errs w =
     (slice_append results (map fst steps), errs @ concat (map snd steps), w') \<and>
     list_all2 (run_step controllers) cs steps"
proof (induction cs arbitrary: results errs w)
  case (Cons c cs)
  obtain r es w1 where r: "run_controller controllers c w = (r, es, w1)" by (metis prod_cases3)
  obtain steps w' where
    "run_controllers controllers cs (slice_append results [r]) (errs @ es) w1 =
      (slice_append (slice_append results [r]) (map fst steps), (errs @ es) @ concat (map snd steps), w')"
    and "list_all2 (run_step controllers) cs steps"
    using Cons.IH by blast
  moreover have "run_step controllers c (r, es)" using r by (auto simp: run_step_def)
  ultimately show ?case
    using r by (intro exI [of _ "(r, es) # steps"] exI [of _ w']) simp
qed simp

lemmas run_step_simps = run_step_def run_controller_def Let_def status_defs

lemma run_step_facts:
  assumes "run_step controllers c (r, es)"
  shows "crr_ControllerName r = nro_ControllerInstanceName c"
    and "crr_Status r \<noteq> ControllerRunStatusUnknown"
    and "crr_Status r = ControllerRunStatusSkipped \<longleftrightarrow>
      \<not> isControllerEnabled (nro_ControllerInstanceName c) controllers"
    and "es = [] \<longleftrightarrow> crr_Status r \<noteq> ControllerRunStatusFailed"
    and "crr_Errors r \<noteq> None \<longleftrightarrow> crr_Status r = ControllerRunStatusFailed"
  using assms by (auto simp: run_step_simps slice_append_def split: if_splits prod.splits run_outcome.splits)

lemma run_steps_names:
  "list_all2 (run_step controllers) cs steps \<Longrightarrow>
     map (crr_ControllerName \<circ> fst) steps = map nro_ControllerInstanceName cs"
  by (induction rule: list_all2_induct) (auto dest: run_step_facts(1))

lemma run_steps_errors:
  "list_all2 (run_step controllers) cs steps \<Longrightarrow>
     concat (map snd steps) = [] \<longleftrightarrow> (\<forall>s \<in> set steps. crr_Status (fst s) \<noteq> ControllerRunStatusFailed)"
  by (induction rule: list_all2_induct) (auto dest: run_step_facts(4))

lemma run_step_of_mem:
  "list_all2 (run_step flags) cs steps \<Longrightarrow> s \<in> set steps \<Longrightarrow> \<exists>c \<in> set cs. run_step flags c s"
  by (induction rule: list_all2_induct) auto

definition run_once_accepts :: "'w simple_operator_starter \<Rightarrow> string list \<Rightarrow> bool" where
  "run_once_accepts a flags \<longleftrightarrow>
     distinct (map nro_ControllerInstanceName (sos_ControllerNamedRunOnceFns a)) \<and>
     (\<forall>f \<in> set flags. f = ''*'' \<or>
        trim_prefix f ''-'' \<in> nro_ControllerInstanceName ` set (sos_ControllerNamedRunOnceFns a))"

definition synced_world :: "'w simple_operator_starter \<Rightarrow> 'w \<Rightarrow> 'w" where
  "synced_world a w = fold inf_WaitForCacheSync (sos_Informers a) (fold inf_Start (sos_Informers a) w)"

lemma RunOnce_accepted:
  assumes "run_once_accepts a flags"
  shows "RunOnce shuffle muts a flags w =
    (case run_controllers flags (shuffle (sos_ControllerNamedRunOnceFns a)) None [] (synced_world a w) of
       (results, errs, w3) \<Rightarrow>
         ((CanonicalizeApplyConfigurationRunResult (Some \<lparr>arr_ControllerResults = results\<rparr>),
           Some (NewApplyConfigurationFromClient (muts w3)), errors_join errs), w3))"
proof -
  obtain known dups where k: "known_controllers [] [] (sos_ControllerNamedRunOnceFns a) = (known, dups)"
    by (metis surj_pair)
  have "dups = []" "validateControllersFromFlags known flags = []"
    using assms known_controllers_spec [OF k]
    by (auto simp: run_once_accepts_def validateControllers_Nil_iff)
  with k show ?thesis by (simp add: RunOnce_def Let_def synced_world_def)
qed

lemma RunOnce_rejected:
  assumes "\<not> run_once_accepts a flags"
  shows "\<exists>e. RunOnce shuffle muts a flags w = ((None, None, Some e), synced_world a w)"
proof -
  obtain known dups where k: "known_controllers [] [] (sos_ControllerNamedRunOnceFns a) = (known, dups)"
    by (metis surj_pair)
  show ?thesis
  proof (cases "dups = []")
    case False
    with k show ?thesis by (simp add: RunOnce_def Let_def synced_world_def)
  next
    case True
    then have "validateControllersFromFlags known flags \<noteq> []"
      using assms known_controllers_spec [OF k]
      by (auto simp: run_once_accepts_def validateControllers_Nil_iff)
    with k True show ?thesis
      by (simp add: RunOnce_def Let_def synced_world_def errors_join_def)
  qed
qed

lemma run_controllers_world:
  "snd (snd (run_controllers flags cs results errs w)) =
     fold (\<lambda>c w. snd (nro_RunOnce c w))
       (filter (\<lambda>c. isControllerEnabled (nro_ControllerInstanceName c) flags) cs) w"
  by (induction cs arbitrary: results errs w)
    (auto simp: run_controller_def Let_def split: prod.splits run_outcome.splits)

text \<open>When outcomes are the same in all worlds of an invariant the run keeps, a result depends on its
  controller only.\<close>

definition independent_on :: "('w \<Rightarrow> bool) \<Rightarrow> 'w named_run_once \<Rightarrow> bool" where
  "independent_on I c \<longleftrightarrow> (\<forall>w. I w \<longrightarrow> I (snd (nro_RunOnce c w)) \<and> (\<forall>w'. I w' \<longrightarrow> fst (nro_RunOnce c w) = fst (nro_RunOnce c w')))"

lemma run_controller_independent:
  assumes "independent_on I c" and "I w" and "I w'"
  shows "fst (run_controller flags c w) = fst (run_controller flags c w')" and "I (snd (snd (run_controller flags c w)))"
proof -
  have "fst (nro_RunOnce c w) = fst (nro_RunOnce c w')" "I (snd (nro_RunOnce c w))"
    using assms unfolding independent_on_def by blast+
  then show "fst (run_controller flags c w) = fst (run_controller flags c w')" "I (snd (snd (run_controller flags c w)))"
    using assms(2) by (auto simp: run_controller_def Let_def split: prod.splits run_outcome.splits)
qed

lemma run_controllers_independent:
  "\<forall>c \<in> set cs. independent_on I c \<Longrightarrow> I w \<Longrightarrow> I w0 \<Longrightarrow>
    fst (run_controllers flags cs results errs w) = slice_append results (map (\<lambda>c. fst (run_controller flags c w0)) cs)"
proof (induction cs arbitrary: results errs w)
  case (Cons c cs)
  obtain r es w1 where run: "run_controller flags c w = (r, es, w1)" by (metis prod_cases3)
  have "r = fst (run_controller flags c w0)" "I w1"
    using run_controller_independent [of I c w w0 flags] Cons.prems by (simp_all add: run)
  with Cons.IH [of w1 "slice_append results [r]" "errs @ es"] Cons.prems show ?case by (simp add: run)
qed simp

lemma canonical_results_cong:
  assumes "mset rs = mset rs'" and "distinct (map crr_ControllerName rs)"
  shows "CanonicalizeApplyConfigurationRunResult (Some \<lparr>arr_ControllerResults = slice_append None rs\<rparr>) =
    CanonicalizeApplyConfigurationRunResult (Some \<lparr>arr_ControllerResults = slice_append None rs'\<rparr>)"
proof -
  have "sort_stable_func sortControllerRunResult rs = sort_stable_func sortControllerRunResult rs'"
    using assms
    by (intro run_results.sort_stable_canonical)
      (auto simp: sortControllerRunResult_zero distinct_map dest: inj_onD)
  moreover have "rs = [] \<longleftrightarrow> rs' = []" using assms(1) by auto
  ultimately show ?thesis
    by (simp add: CanonicalizeApplyConfigurationRunResult_def slice_append_def)
qed

lemma RunOnce_any_order:
  assumes "range_order s" and "range_order s'" and "I (synced_world a w)"
    and "\<forall>c \<in> set (sos_ControllerNamedRunOnceFns a). independent_on I c"
  shows "fst (fst (RunOnce s muts a flags w)) = fst (fst (RunOnce s' muts a flags w))"
proof (cases "run_once_accepts a flags")
  case False
  then show ?thesis using RunOnce_rejected by (metis fst_conv)
next
  case True
  let ?fns = "sos_ControllerNamedRunOnceFns a" and ?f = "\<lambda>c. fst (run_controller flags c (synced_world a w))"
  have run: "fst (fst (RunOnce s muts a flags w)) = CanonicalizeApplyConfigurationRunResult
      (Some \<lparr>arr_ControllerResults = slice_append None (map ?f (s ?fns))\<rparr>)" if "range_order s" for s
    using run_controllers_independent [of "s ?fns" I "synced_world a w" "synced_world a w" flags None "[]"] assms(3,4) that
    by (auto simp: RunOnce_accepted [OF True] split: prod.splits)
  have "map crr_ControllerName (map ?f (s ?fns)) = map nro_ControllerInstanceName (s ?fns)"
    by (auto simp: run_controller_def Let_def split: prod.splits run_outcome.splits)
  moreover have "distinct (map nro_ControllerInstanceName (s ?fns))"
    using True assms(1) by (simp add: run_once_accepts_def distinct_map)
  ultimately have "distinct (map crr_ControllerName (map ?f (s ?fns)))" by (simp only:)
  then show ?thesis
    unfolding run [OF assms(1)] run [OF assms(2)]
    by (rule canonical_results_cong [rotated]) (use assms in simp)
qed

lemma report_names:
  assumes "list_all2 (run_step flags) cs steps"
  shows "map crr_ControllerName (sort_stable_func sortControllerRunResult (map fst steps)) =
    sort (map nro_ControllerInstanceName cs)"
proof (rule properties_for_sort [symmetric])
  show "mset (map crr_ControllerName (sort_stable_func sortControllerRunResult (map fst steps))) =
      mset (map nro_ControllerInstanceName cs)"
    by (simp only: run_steps_names [OF assms, symmetric]) (simp add: multiset.map_comp)
  show "sorted (map crr_ControllerName (sort_stable_func sortControllerRunResult (map fst steps)))"
    by (rule sorted_names_of_sorted) (rule run_results.sorted_sort_stable)
qed

lemma report_status:
  assumes "list_all2 (run_step flags) cs steps" and "s \<in> set steps"
  shows "crr_Status (fst s) \<noteq> ControllerRunStatusUnknown \<and>
    (crr_Status (fst s) = ControllerRunStatusSkipped \<longleftrightarrow> \<not> isControllerEnabled (crr_ControllerName (fst s)) flags)"
proof -
  obtain c where "c \<in> set cs" and "run_step flags c (fst s, snd s)" using run_step_of_mem [OF assms] by auto
  then show ?thesis using run_step_facts by metis
qed

lemma RunOnce_report:
  assumes "run_once_accepts a flags" and "range_order shuffle"
  shows "\<exists>rs ac err w'. RunOnce shuffle muts a flags w =
      ((Some \<lparr>arr_ControllerResults = rs\<rparr>, Some ac, err), w') \<and>
    map crr_ControllerName (slice_list rs) =
      sort (map nro_ControllerInstanceName (sos_ControllerNamedRunOnceFns a)) \<and>
    (\<forall>r \<in> set (slice_list rs). crr_Status r \<noteq> ControllerRunStatusUnknown \<and>
      (crr_Status r = ControllerRunStatusSkipped \<longleftrightarrow>
        \<not> isControllerEnabled (crr_ControllerName r) flags)) \<and>
    (err = None \<longleftrightarrow> (\<forall>r \<in> set (slice_list rs). crr_Status r \<noteq> ControllerRunStatusFailed))"
proof -
  let ?fns = "sos_ControllerNamedRunOnceFns a"
  obtain steps w' where run: "run_controllers flags (shuffle ?fns) None [] (synced_world a w) =
      (slice_append None (map fst steps), [] @ concat (map snd steps), w')"
    and steps: "list_all2 (run_step flags) (shuffle ?fns) steps"
    using run_controllers_steps [of flags "shuffle ?fns" None "[]" "synced_world a w"] by blast
  define rs where "rs = map_option (sort_stable_func sortControllerRunResult)
    (slice_append None (map fst steps))"
  have rs: "slice_list rs = sort_stable_func sortControllerRunResult (map fst steps)"
    by (simp add: rs_def slice_append_def)
  have "RunOnce shuffle muts a flags w = ((Some \<lparr>arr_ControllerResults = rs\<rparr>,
      Some (NewApplyConfigurationFromClient (muts w')), errors_join (concat (map snd steps))), w')"
    using run by (simp add: RunOnce_accepted [OF assms(1)] CanonicalizeApplyConfigurationRunResult_def rs_def)
  moreover have "map crr_ControllerName (slice_list rs) = sort (map nro_ControllerInstanceName ?fns)"
    unfolding rs report_names [OF steps] using assms(2) by (intro properties_for_sort) simp_all
  ultimately show ?thesis
    using run_steps_errors [OF steps] report_status [OF steps] by (fastforce simp: rs)
qed

section \<open>Properties\<close>

text \<open>A small operator for the examples: its world is a number.\<close>

definition demo_starter :: "nat simple_operator_starter" where
  "demo_starter =
     \<lparr>sos_Informers = [\<lparr>inf_Start = (\<lambda>w. w + 1), inf_WaitForCacheSync = (\<lambda>w. w)\<rparr>],
      sos_ControllerNamedRunOnceFns =
        [NewNamedRunOnce ''b'' (\<lambda>w. (RunOnceOk, w + 1)),
         NewNamedRunOnce ''c'' (\<lambda>w. (RunOnceError (errorf ''no''), w)),
         NewNamedRunOnce ''a'' (\<lambda>w. (RunOncePanic ''r'' ''s'', 10 * w))],
      sos_ControllerRunFns = []\<rparr>"

lemma demo_accepts: "run_once_accepts demo_starter [''*'', ''-b'']"
  by (simp add: run_once_accepts_def demo_starter_def NewNamedRunOnce_def trim_prefix.simps)

text \<open>C12: a controller runs exactly if the first flag that names it, as \<open>name\<close> or \<open>-name\<close>, is the
  positive one; without such a flag it runs exactly if \<open>*\<close> is among the flags.\<close>

theorem isControllerEnabled_first_flag_decides:
  "isControllerEnabled name flags =
     (case List.find (\<lambda>f. f = name \<or> f = ''-'' @ name) flags of
        Some f \<Rightarrow> f = name | None \<Rightarrow> ''*'' \<in> set flags)"
  by (simp add: isControllerEnabled_def enabled_loop_find split: option.split)


text \<open>C11: \<open>RunOnce\<close> runs nothing and returns only an error when two controllers have one name or
  a flag names no controller; otherwise it returns results and mutations.\<close>

theorem RunOnce_rejects_bad_controllers:
  "if run_once_accepts a flags
   then \<exists>res ac err w'. RunOnce shuffle muts a flags w = ((Some res, Some ac, err), w')
   else \<exists>e. RunOnce shuffle muts a flags w = ((None, None, Some e), synced_world a w)"
proof (cases "run_once_accepts a flags")
  case True
  then show ?thesis
    by (auto simp: RunOnce_accepted CanonicalizeApplyConfigurationRunResult_def split: prod.splits)
next
  case False
  then show ?thesis using RunOnce_rejected by simp
qed





text \<open>C10: only enabled controllers touch the world, each once, in the shuffled order.\<close>

theorem RunOnce_world_enabled_only:
  assumes "run_once_accepts a flags"
  shows "snd (RunOnce shuffle muts a flags w) =
    fold (\<lambda>c w. snd (nro_RunOnce c w))
      (filter (\<lambda>c. isControllerEnabled (nro_ControllerInstanceName c) flags)
        (shuffle (sos_ControllerNamedRunOnceFns a)))
      (synced_world a w)"
  by (simp add: RunOnce_accepted [OF assms] split: prod.split)
    (metis run_controllers_world snd_conv)

theorem RunOnce_world_enabled_only_witness:
  "snd (RunOnce (\<lambda>cs. cs) (\<lambda>w. NewAllActionsTracker) demo_starter [''*'', ''-b''] 6) = 70"
  by (subst RunOnce_world_enabled_only [OF demo_accepts])
    (simp add: synced_world_def demo_starter_def NewNamedRunOnce_def isControllerEnabled_def)

end
