(* ===== verification/Apply_Configuration.thy ===== *)
theory Apply_Configuration
  imports Operator_Launch
begin

text \<open>
  \<open>pkg/library/libraryapplyconfiguration\<close>: validation and writing of desired mutations
  (\<open>apply_configuration.go\<close>), the apply-configuration run (\<open>options.go\<close>) and the checks of its
  flags (\<open>command.go\<close>). Calls that leave the program (the operator's functions, the file system,
  YAML) are arguments; what reaches the file system is returned as a list of write events.
  \<open>AllRequests\<close> ranges over a map at each call, so each call has its own visit order.
\<close>

type_synonym cluster_order = "cluster_type \<Rightarrow> action visit_order"

section \<open>Validation\<close>

fun collect_requests ::
    "cluster_order \<Rightarrow> apply_configuration option \<Rightarrow> cluster_type list \<Rightarrow> serialized_requestish list outcome" where
  "collect_requests ords getter [] = Value []"
| "collect_requests ords getter (clusterType # rest) =
     bind_outcome (MutationsForClusterType getter clusterType) (\<lambda>desiredMutationsGetter.
     bind_outcome
       (case desiredMutationsGetter of
          None \<Rightarrow> Value []
        | Some g \<Rightarrow> bind_outcome (Requests g) (\<lambda>r. Value (reader_AllRequests (ords clusterType) r)))
       (\<lambda>qs. bind_outcome (collect_requests ords getter rest) (\<lambda>qs'. Value (qs @ qs'))))"

definition combined_output_list :: "output_resources \<Rightarrow> output_resource_list" where
  "combined_output_list allowed =
     \<lparr>ol_ExactResources =
        ol_ExactResources (or_ConfigurationResources allowed) @
        ol_ExactResources (or_ManagementResources allowed) @
        ol_ExactResources (or_UserWorkloadResources allowed),
      ol_GeneratedNameResources =
        ol_GeneratedNameResources (or_ConfigurationResources allowed) @
        ol_GeneratedNameResources (or_ManagementResources allowed) @
        ol_GeneratedNameResources (or_UserWorkloadResources allowed),
      ol_EventingNamespaces =
        ol_EventingNamespaces (or_ConfigurationResources allowed) @
        ol_EventingNamespaces (or_ManagementResources allowed) @
        ol_EventingNamespaces (or_UserWorkloadResources allowed)\<rparr>"

definition UnspecifiedOutputResources ::
    "cluster_order \<Rightarrow> apply_configuration option \<Rightarrow> output_resources option \<Rightarrow>
      serialized_requestish list outcome" where
  "UnspecifiedOutputResources ords allDesiredMutationsGetter allAllowedOutputResources =
     bind_outcome (collect_requests ords allDesiredMutationsGetter (sets_List AllClusterTypes))
       (\<lambda>allMutationRequests.
     bind_outcome (deref allAllowedOutputResources) (\<lambda>allowed.
       let filteredMutationRequests =
         FilterSerializedRequests allMutationRequests (Some (combined_output_list allowed)) in
       Value (DifferenceOfSerializedRequests allMutationRequests filteredMutationRequests)))"

definition ValidateAllDesiredMutationsGetter ::
    "cluster_order \<Rightarrow> apply_configuration option \<Rightarrow> output_resources option \<Rightarrow>
      go_error option outcome" where
  "ValidateAllDesiredMutationsGetter ords allDesiredMutationsGetter allAllowedOutputResources =
     (if allDesiredMutationsGetter = None
      then Value (Some (errorf ''applyConfiguration is required''))
      else bind_outcome
        (UnspecifiedOutputResources ords allDesiredMutationsGetter allAllowedOutputResources)
        (\<lambda>unspecifiedOutputResources.
           let unspecifiedOutputIdentifiers =
             map (\<lambda>q. StringID (GetSerializedRequest q)) unspecifiedOutputResources in
           Value (errors_join
             (if length unspecifiedOutputResources > 0
              then [errorf (show_nat (length unspecifiedOutputIdentifiers) @
                '' output-resource were produced, but not present in the specified output: '' @
                strings_join unspecifiedOutputIdentifiers '', '')]
              else []))))"

section \<open>Writing\<close>

datatype write_event =
    WriteMutationDirectory string "serialized_requestish list"
  | WriteFile string string

fun write_cluster_types ::
    "(string \<Rightarrow> serialized_requestish list \<Rightarrow> go_error option) \<Rightarrow> cluster_order \<Rightarrow>
      apply_configuration option \<Rightarrow> string \<Rightarrow> cluster_type list \<Rightarrow>
      (go_error list \<times> write_event list) outcome" where
  "write_cluster_types writeDir ords desired outputDirectory [] = Value ([], [])"
| "write_cluster_types writeDir ords desired outputDirectory (clusterType # rest) =
     bind_outcome (MutationsForClusterType desired clusterType) (\<lambda>m.
     bind_outcome (deref m) (\<lambda>desiredMutations.
     bind_outcome (Requests desiredMutations) (\<lambda>r.
       let qs = reader_AllRequests (ords clusterType) r;
           dir = path_join [outputDirectory, cluster_type_string clusterType] in
       bind_outcome (write_cluster_types writeDir ords desired outputDirectory rest) (\<lambda>(errs, evs).
         Value ((case writeDir dir qs of
                   None \<Rightarrow> errs
                 | Some err \<Rightarrow> Wrapf (''failed writing requests for '' @
                     go_quote (cluster_type_string clusterType) @ '': '') err [] # errs),
                WriteMutationDirectory dir qs # evs)))))"

definition WriteApplyConfiguration ::
    "(string \<Rightarrow> serialized_requestish list \<Rightarrow> go_error option) \<Rightarrow> cluster_order \<Rightarrow>
      apply_configuration option \<Rightarrow> string \<Rightarrow> (go_error option \<times> write_event list) outcome" where
  "WriteApplyConfiguration writeDir ords desired outputDirectory =
     bind_outcome
       (write_cluster_types writeDir ords desired outputDirectory (sets_List AllClusterTypes))
       (\<lambda>(errs, evs). Value (errors_join errs, evs))"

section \<open>The run of apply-configuration\<close>

text \<open>
  Everything \<open>applyConfigurationOptions.Run\<close> calls outside the package, and the visit orders of
  its four passes over the requests.
\<close>

record run_env =
  env_MkdirAll :: "string \<Rightarrow> go_error option"
  env_outputResourcesFn :: "output_resources option \<times> go_error option"
  env_applyConfigurationFn :: "run_result option \<times> apply_configuration option \<times> go_error option"
  env_WriteMutationDirectory :: "string \<Rightarrow> serialized_requestish list \<Rightarrow> go_error option"
  env_Marshal :: "run_result option \<Rightarrow> go_error + string"
  env_WriteFile :: "string \<Rightarrow> string \<Rightarrow> go_error option"
  env_ord_unspecified :: cluster_order
  env_ord_validate :: cluster_order
  env_ord_revalidate :: cluster_order
  env_ord_write :: cluster_order

definition err_list :: "go_error option \<Rightarrow> go_error list" where
  "err_list e = (case e of None \<Rightarrow> [] | Some err \<Rightarrow> [err])"

lemma err_list_simps [simp]:
  "err_list None = []" "err_list (Some e) = [e]" "err_list x = [] \<longleftrightarrow> x = None"
  by (simp_all add: err_list_def split: option.split)

text \<open>The part after the output directory exists.\<close>

definition applyConfiguration_Run_body ::
    "run_env \<Rightarrow> string \<Rightarrow> (go_error option \<times> write_event list) outcome" where
  "applyConfiguration_Run_body env outputDirectory =
     (let (allAllowedOutputResources, err1) = env_outputResourcesFn env;
          (controllerResults, mutations, err2) = env_applyConfigurationFn env in
      bind_outcome (UnspecifiedOutputResources (env_ord_unspecified env) mutations
          allAllowedOutputResources) (\<lambda>unspecifiedOutputResources.
      bind_outcome (ValidateAllDesiredMutationsGetter (env_ord_validate env) mutations
          allAllowedOutputResources) (\<lambda>err3.
      bind_outcome (FilterAllDesiredMutationsGetter mutations allAllowedOutputResources)
        (\<lambda>filteredResult.
      bind_outcome (ValidateAllDesiredMutationsGetter (env_ord_revalidate env) (Some filteredResult)
          allAllowedOutputResources) (\<lambda>err4.
      bind_outcome (WriteApplyConfiguration (env_WriteMutationDirectory env) (env_ord_write env)
          (Some filteredResult) outputDirectory) (\<lambda>(err5, evs5).
        let unspecifiedDir = path_join [outputDirectory, ''Unspecified''];
            (err6, evs6) =
              (if length unspecifiedOutputResources > 0
               then (env_WriteMutationDirectory env unspecifiedDir unspecifiedOutputResources,
                     [WriteMutationDirectory unspecifiedDir unspecifiedOutputResources])
               else (None, []));
            resultsFile = path_join [outputDirectory, ''controller-results.yaml''];
            (err7, evs7) =
              (case env_Marshal env controllerResults of
                 Inl err \<Rightarrow> (Some (Wrapf ''failed marshalling controller results: '' err []), [])
               | Inr controllerResultBytes \<Rightarrow>
                   (case env_WriteFile env resultsFile controllerResultBytes of
                      Some err \<Rightarrow> (Some (Wrapf ''failed writing controller results: '' err []),
                        [WriteFile resultsFile controllerResultBytes])
                    | None \<Rightarrow> (None, [WriteFile resultsFile controllerResultBytes]))) in
        Value (errors_join (concat (map err_list [err1, err2, err3, err4, err5, err6, err7])),
               evs5 @ evs6 @ evs7)))))))"

definition applyConfiguration_Run ::
    "run_env \<Rightarrow> string \<Rightarrow> (go_error option \<times> write_event list) outcome" where
  "applyConfiguration_Run env outputDirectory =
     (case env_MkdirAll env outputDirectory of
        Some err \<Rightarrow>
          (if \<not> os_is_exist err
           then Value (Some (errorf (''unable to create output directory '' @
             go_quote outputDirectory @ '':'' @ err_text err)), [])
           else applyConfiguration_Run_body env outputDirectory)
      | None \<Rightarrow> applyConfiguration_Run_body env outputDirectory)"


section \<open>What a configuration produces and what is declared\<close>

text \<open>Getters without a nil delegate over trackers that keep their invariant.\<close>

fun getter_ok :: "cluster_getter \<Rightarrow> bool" where
  "getter_ok (ClientBasedClusterApplyResult ct t) = tracker_inv t"
| "getter_ok (DirectoryBasedClusterApplyResult ct dir t) = tracker_inv t"
| "getter_ok (FilteringSingleClusterDesiredMutationGetter None l) = False"
| "getter_ok (FilteringSingleClusterDesiredMutationGetter (Some d) l) = getter_ok d"

interpretation getters: single_cluster_getter reader_inv reader_ListActions
  reader_RequestsForAction reader_AllRequests requestish_action getter_ok Requests
proof
  show "\<exists>r. Requests g = Value r \<and> reader_inv r" if "getter_ok g" for g
    using that by (induction g rule: getter_ok.induct) auto
qed

definition config_ok :: "apply_configuration \<Rightarrow> bool" where
  "config_ok ac \<longleftrightarrow> (\<forall>ct \<in> set AllClusterTypes. \<forall>g.
     desiredMutationsByClusterType ac ct = Some g \<longrightarrow> getter_ok g)"

definition config_full :: "apply_configuration \<Rightarrow> bool" where
  "config_full ac \<longleftrightarrow> (\<forall>ct \<in> set AllClusterTypes. \<exists>g.
     desiredMutationsByClusterType ac ct = Some g \<and> getter_ok g)"

lemma config_full_ok: "config_full ac \<Longrightarrow> config_ok ac"
  by (fastforce simp: config_full_def config_ok_def)

definition cluster_requests ::
    "cluster_order \<Rightarrow> apply_configuration \<Rightarrow> cluster_type \<Rightarrow> serialized_requestish list" where
  "cluster_requests ords ac ct =
     (case desiredMutationsByClusterType ac ct of
        None \<Rightarrow> []
      | Some g \<Rightarrow> (case Requests g of
                     Value r \<Rightarrow> reader_AllRequests (ords ct) r | Panicked p \<Rightarrow> []))"

lemma cluster_requests_getter:
  "desiredMutationsByClusterType ac ct = Some g \<Longrightarrow>
    cluster_requests ords ac ct = getters.listed_requests (ords ct) g"
  by (simp add: cluster_requests_def getters.listed_requests_def)

definition produced :: "cluster_order \<Rightarrow> apply_configuration \<Rightarrow> serialized_requestish list" where
  "produced ords ac = concat (map (cluster_requests ords ac) AllClusterTypes)"

definition allowed_list :: "output_resources \<Rightarrow> cluster_type \<Rightarrow> output_resource_list" where
  "allowed_list allowed ct =
     (if ct = ClusterTypeConfiguration then or_ConfigurationResources allowed
      else if ct = ClusterTypeManagement then or_ManagementResources allowed
      else or_UserWorkloadResources allowed)"

definition declared_for :: "output_resources \<Rightarrow> cluster_type \<Rightarrow> serialized_requestish \<Rightarrow> bool" where
  "declared_for allowed ct q \<longleftrightarrow>
     metadataMatchesFilter (requestish_metadata q) (Some (allowed_list allowed ct))"

definition declared :: "output_resources \<Rightarrow> serialized_requestish \<Rightarrow> bool" where
  "declared allowed q \<longleftrightarrow> (\<exists>ct \<in> set AllClusterTypes. declared_for allowed ct q)"

lemma combined_output_list_matches:
  "metadataMatchesFilter (requestish_metadata q) (Some (combined_output_list allowed)) \<longleftrightarrow>
     declared allowed q"
  by (auto simp: declared_def declared_for_def set_AllClusterTypes allowed_list_def
      combined_output_list_def metadataMatchesFilter_Some)

lemma cluster_type_filter_Some:
  "ct \<in> set AllClusterTypes \<Longrightarrow>
     cluster_type_filter (Some allowed) ct = Value (Some (allowed_list allowed ct))"
  by (auto simp: cluster_type_filter_def allowed_list_def set_AllClusterTypes)

lemma collect_requests_ok:
  "config_ok ac \<Longrightarrow> set cts \<subseteq> set AllClusterTypes \<Longrightarrow>
     collect_requests ords (Some ac) cts = Value (concat (map (cluster_requests ords ac) cts))"
proof (induction cts)
  case (Cons ct cts)
  show ?case
  proof (cases "desiredMutationsByClusterType ac ct")
    case None
    with Cons show ?thesis by (simp add: MutationsForClusterType_def cluster_requests_def)
  next
    case (Some g)
    with Cons.prems have "getter_ok g" by (auto simp: config_ok_def)
    then obtain r where "Requests g = Value r" using getters.gives_reader by blast
    with Some Cons show ?thesis by (simp add: MutationsForClusterType_def cluster_requests_def)
  qed
qed simp

lemma Unspecified_eq:
  assumes "config_ok ac"
  shows "UnspecifiedOutputResources ords (Some ac) (Some allowed) =
    Value (filter (\<lambda>q. \<not> declared allowed q) (produced ords ac))"
proof -
  have "GetSerializedRequest q \<in> GetSerializedRequest ` {r \<in> set qs. declared allowed r} \<longleftrightarrow>
      declared allowed q" if "q \<in> set qs" for q qs
    using that by (auto simp: declared_def declared_for_def requestish_metadata_def)
  then have "DifferenceOfSerializedRequests qs
      (FilterSerializedRequests qs (Some (combined_output_list allowed))) =
    filter (\<lambda>q. \<not> declared allowed q) qs" for qs
    by (auto simp: Difference_eq_filter combined_output_list_matches intro!: filter_cong)
  then show ?thesis
    by (simp add: UnspecifiedOutputResources_def collect_requests_ok [OF assms] produced_def Let_def)
qed

lemma collect_requests_nil: "collect_requests ords None AllClusterTypes = Panicked NilDereference"
  by (simp add: AllClusterTypes_def MutationsForClusterType_def)

lemma Unspecified_nil:
  "UnspecifiedOutputResources ords None allowed = Panicked NilDereference"
  by (simp add: UnspecifiedOutputResources_def collect_requests_nil)

lemma Unspecified_nil_allowed:
  "config_ok ac \<Longrightarrow> UnspecifiedOutputResources ords (Some ac) None = Panicked NilDereference"
  by (simp add: UnspecifiedOutputResources_def collect_requests_ok)

lemma Validate_eq:
  assumes "config_ok ac"
  shows "ValidateAllDesiredMutationsGetter ords (Some ac) (Some allowed) =
    Value (let u = filter (\<lambda>q. \<not> declared allowed q) (produced ords ac) in
      errors_join (if u = [] then [] else [errorf (show_nat (length u) @
        '' output-resource were produced, but not present in the specified output: '' @
        strings_join (map (\<lambda>q. StringID (GetSerializedRequest q)) u) '', '')]))"
  by (simp add: ValidateAllDesiredMutationsGetter_def Unspecified_eq [OF assms] Let_def)

lemma Filter_ok:
  assumes "config_full ac"
  obtains fc where "FilterAllDesiredMutationsGetter (Some ac) (Some allowed) = Value fc"
    and "config_full fc"
    and "\<And>ords ct. ct \<in> set AllClusterTypes \<Longrightarrow> cluster_requests ords fc ct =
      FilterSerializedRequests (cluster_requests ords ac ct) (Some (allowed_list allowed ct))"
proof -
  let ?f = "\<lambda>ct. Some (FilteringSingleClusterDesiredMutationGetter
    (desiredMutationsByClusterType ac ct) (Some (allowed_list allowed ct)))"
  define fc where "fc = \<lparr>desiredMutationsByClusterType = fold (\<lambda>ct m. m(ct := ?f ct)) AllClusterTypes Map.empty\<rparr>"
  have loop: "filter_cluster_types (Some ac) (Some allowed) cts m = Value (fold (\<lambda>ct m. m(ct := ?f ct)) cts m)"
    if "set cts \<subseteq> set AllClusterTypes" for cts m
    using that by (induction cts arbitrary: m) (auto simp: cluster_type_filter_Some MutationsForClusterType_def)
  have val: "FilterAllDesiredMutationsGetter (Some ac) (Some allowed) = Value fc"
    by (simp add: FilterAllDesiredMutationsGetter_def loop fc_def)
  have look: "desiredMutationsByClusterType fc ct = ?f ct" if "ct \<in> set AllClusterTypes" for ct
    using that by (auto simp: fc_def AllClusterTypes_def)
  have full: "config_full fc"
    using assms by (fastforce simp: config_full_def look)
  have "cluster_requests ords fc ct =
      FilterSerializedRequests (cluster_requests ords ac ct) (Some (allowed_list allowed ct))"
    if ct: "ct \<in> set AllClusterTypes" for ords ct
  proof -
    obtain g where g: "desiredMutationsByClusterType ac ct = Some g" "getter_ok g"
      using assms ct by (auto simp: config_full_def)
    then obtain r where "Requests g = Value r" using getters.gives_reader by blast
    with g show ?thesis by (simp add: cluster_requests_def look [OF ct])
  qed
  with val full show thesis by (rule that)
qed

lemma produced_filtered_declared:
  assumes "\<And>ct. ct \<in> set AllClusterTypes \<Longrightarrow> cluster_requests ords fc ct =
      FilterSerializedRequests (cluster_requests ords ac ct) (Some (allowed_list allowed ct))"
  shows "filter (\<lambda>q. \<not> declared allowed q) (produced ords fc) = []"
  using assms by (fastforce simp: produced_def filter_empty_conv declared_def declared_for_def)

lemma Write_ok:
  assumes "config_full ac"
  shows "\<exists>errs. WriteApplyConfiguration writeDir ords (Some ac) dir =
    Value (errors_join errs, map (\<lambda>ct. WriteMutationDirectory
      (path_join [dir, cluster_type_string ct]) (cluster_requests ords ac ct)) AllClusterTypes) \<and>
    (errs = [] \<longleftrightarrow> (\<forall>ct \<in> set AllClusterTypes.
      writeDir (path_join [dir, cluster_type_string ct]) (cluster_requests ords ac ct) = None))"
proof -
  have "\<exists>errs. write_cluster_types writeDir ords (Some ac) dir cts =
      Value (errs, map (\<lambda>ct. WriteMutationDirectory (path_join [dir, cluster_type_string ct])
        (cluster_requests ords ac ct)) cts) \<and>
      (errs = [] \<longleftrightarrow> (\<forall>ct \<in> set cts.
        writeDir (path_join [dir, cluster_type_string ct]) (cluster_requests ords ac ct) = None))"
    if "set cts \<subseteq> set AllClusterTypes" for cts
    using that
  proof (induction cts)
    case (Cons ct cts)
    obtain g where g: "desiredMutationsByClusterType ac ct = Some g" "getter_ok g"
      using assms Cons.prems by (auto simp: config_full_def)
    then obtain r where "Requests g = Value r" using getters.gives_reader by blast
    with g Cons show ?case
      by (auto simp: MutationsForClusterType_def cluster_requests_def Let_def split: option.splits)
  qed simp
  then show ?thesis by (fastforce simp: WriteApplyConfiguration_def)
qed


section \<open>Visit orders do not matter, up to order\<close>

lemma cluster_requests_mset:
  assumes "config_ok ac" and "ct \<in> set AllClusterTypes"
    and "range_order (ords ct)" and "range_order (ords' ct)"
  shows "mset (cluster_requests ords ac ct) = mset (cluster_requests ords' ac ct)"
proof (cases "desiredMutationsByClusterType ac ct")
  case (Some g)
  with assms have "getter_ok g" by (auto simp: config_ok_def)
  with Some assms show ?thesis
    by (simp add: cluster_requests_getter getters.listed_requests_mset [of g "ords ct" "ords' ct"])
qed (simp add: cluster_requests_def)

definition order_ok :: "cluster_order \<Rightarrow> bool" where
  "order_ok ords \<longleftrightarrow> (\<forall>ct. range_order (ords ct))"

lemma order_ok_id [simp]: "order_ok (\<lambda>ct ks. ks)"
  by (simp add: order_ok_def)

text \<open>The requests of a cluster type and of a configuration, in the order the map holds them.\<close>

abbreviation requests_for :: "apply_configuration \<Rightarrow> cluster_type \<Rightarrow> serialized_requestish list" where
  "requests_for ac ct \<equiv> cluster_requests (\<lambda>ct ks. ks) ac ct"

abbreviation all_produced :: "apply_configuration \<Rightarrow> serialized_requestish list" where
  "all_produced ac \<equiv> produced (\<lambda>ct ks. ks) ac"

lemma set_cluster_requests:
  "config_ok ac \<Longrightarrow> order_ok ords \<Longrightarrow> ct \<in> set AllClusterTypes \<Longrightarrow>
     set (cluster_requests ords ac ct) = set (requests_for ac ct)"
  using cluster_requests_mset [of ac ct ords "\<lambda>ct ks. ks"]
  by (metis order_ok_def range_order_id set_mset_mset)

lemma set_produced:
  "config_ok ac \<Longrightarrow> order_ok ords \<Longrightarrow> set (produced ords ac) = set (all_produced ac)"
  using set_cluster_requests [of ac ords] by (auto simp: produced_def)

lemma client_config_full [simp]:
  "tracker_inv t \<Longrightarrow> config_full (NewApplyConfigurationFromClient t)"
  by (auto simp: config_full_def NewApplyConfigurationFromClient_def AllClusterTypes_def)

lemma client_cluster_requests:
  "ct \<in> set AllClusterTypes \<Longrightarrow>
     cluster_requests ords (NewApplyConfigurationFromClient t) ct = AllRequests (ords ct) t"
  by (auto simp: cluster_requests_def NewApplyConfigurationFromClient_def AllClusterTypes_def)

lemma mset_client_produced:
  assumes "tracker_inv t" and "order_ok ords"
  shows "mset (produced ords (NewApplyConfigurationFromClient t)) =
    repeat_mset 3 (mset (AllRequests (\<lambda>ks. ks) t))"
proof -
  have "mset (AllRequests (ords ct) t) = mset (AllRequests (\<lambda>ks. ks) t)" for ct
    using tracker.all_requests_perm assms by (simp add: order_ok_def)
  moreover have "cluster_requests ords (NewApplyConfigurationFromClient t) ct = AllRequests (ords ct) t"
    if "ct \<in> set AllClusterTypes" for ct
    using that by (rule client_cluster_requests)
  ultimately show ?thesis
    by (simp add: produced_def AllClusterTypes_def numeral_3_eq_3)
qed

section \<open>The run after the directory exists\<close>

definition env_orders_ok :: "run_env \<Rightarrow> bool" where
  "env_orders_ok env \<longleftrightarrow> order_ok (env_ord_unspecified env) \<and> order_ok (env_ord_validate env) \<and>
     order_ok (env_ord_revalidate env) \<and> order_ok (env_ord_write env)"

text \<open>What a run writes: per cluster type, then the unspecified requests, then the results.\<close>

definition run_unspecified ::
    "run_env \<Rightarrow> output_resources \<Rightarrow> apply_configuration \<Rightarrow> serialized_requestish list" where
  "run_unspecified env allowed ac =
     filter (\<lambda>q. \<not> declared allowed q) (produced (env_ord_unspecified env) ac)"

definition run_kept ::
    "run_env \<Rightarrow> output_resources \<Rightarrow> apply_configuration \<Rightarrow> cluster_type \<Rightarrow> serialized_requestish list" where
  "run_kept env allowed ac ct =
     FilterSerializedRequests (cluster_requests (env_ord_write env) ac ct)
       (Some (allowed_list allowed ct))"

definition run_writes ::
    "run_env \<Rightarrow> string \<Rightarrow> output_resources \<Rightarrow> apply_configuration \<Rightarrow> run_result option \<Rightarrow>
      write_event list" where
  "run_writes env dir allowed ac res =
     map (\<lambda>ct. WriteMutationDirectory (path_join [dir, cluster_type_string ct])
       (run_kept env allowed ac ct)) AllClusterTypes @
     (if run_unspecified env allowed ac = [] then []
      else [WriteMutationDirectory (path_join [dir, ''Unspecified'']) (run_unspecified env allowed ac)]) @
     (case env_Marshal env res of
        Inl err \<Rightarrow> []
      | Inr bytes \<Rightarrow> [WriteFile (path_join [dir, ''controller-results.yaml'']) bytes])"

definition write_ok :: "run_env \<Rightarrow> write_event \<Rightarrow> bool" where
  "write_ok env ev = (case ev of
     WriteMutationDirectory d qs \<Rightarrow> env_WriteMutationDirectory env d qs = None
   | WriteFile f b \<Rightarrow> env_WriteFile env f b = None)"

lemma declared_produced_any_order:
  assumes "config_ok ac" and "order_ok ords"
  shows "filter (\<lambda>q. \<not> declared allowed q) (produced ords ac) = [] \<longleftrightarrow>
    (\<forall>q \<in> set (all_produced ac). declared allowed q)"
  by (simp add: filter_empty_conv set_produced [OF assms])

text \<open>The errors of the two last writes of a run.\<close>

definition unspecified_error :: "run_env \<Rightarrow> string \<Rightarrow> output_resources \<Rightarrow> apply_configuration \<Rightarrow> go_error option" where
  "unspecified_error env dir allowed ac = (if run_unspecified env allowed ac = [] then None
     else env_WriteMutationDirectory env (path_join [dir, ''Unspecified'']) (run_unspecified env allowed ac))"

definition results_error :: "run_env \<Rightarrow> string \<Rightarrow> run_result option \<Rightarrow> go_error option" where
  "results_error env dir res = (case env_Marshal env res of
      Inl err \<Rightarrow> Some (Wrapf ''failed marshalling controller results: '' err [])
    | Inr bytes \<Rightarrow> map_option (\<lambda>err. Wrapf ''failed writing controller results: '' err [])
        (env_WriteFile env (path_join [dir, ''controller-results.yaml'']) bytes))"

lemma run_writes_ok_iff:
  "(\<forall>ev \<in> set (run_writes env dir allowed ac res). write_ok env ev) \<and> (\<exists>bytes. env_Marshal env res = Inr bytes) \<longleftrightarrow>
     (\<forall>ct \<in> set AllClusterTypes. env_WriteMutationDirectory env
       (path_join [dir, cluster_type_string ct]) (run_kept env allowed ac ct) = None) \<and>
     unspecified_error env dir allowed ac = None \<and> results_error env dir res = None"
  by (auto simp: run_writes_def write_ok_def unspecified_error_def results_error_def split: sum.splits)

text \<open>The filtered configuration is written, and validates.\<close>

lemma Run_filter_write:
  assumes "config_full ac"
  obtains fc errs where "FilterAllDesiredMutationsGetter (Some ac) (Some allowed) = Value fc"
    and "ValidateAllDesiredMutationsGetter ords (Some fc) (Some allowed) = Value None"
    and "WriteApplyConfiguration (env_WriteMutationDirectory env) (env_ord_write env) (Some fc) dir =
      Value (errors_join errs, map (\<lambda>ct. WriteMutationDirectory
        (path_join [dir, cluster_type_string ct]) (run_kept env allowed ac ct)) AllClusterTypes)"
    and "errs = [] \<longleftrightarrow> (\<forall>ct \<in> set AllClusterTypes. env_WriteMutationDirectory env
      (path_join [dir, cluster_type_string ct]) (run_kept env allowed ac ct) = None)"
proof -
  obtain fc where fc: "FilterAllDesiredMutationsGetter (Some ac) (Some allowed) = Value fc" "config_full fc"
    and kept: "\<And>ords ct. ct \<in> set AllClusterTypes \<Longrightarrow> cluster_requests ords fc ct =
      FilterSerializedRequests (cluster_requests ords ac ct) (Some (allowed_list allowed ct))"
    using Filter_ok [OF assms] by blast
  have kept': "cluster_requests (env_ord_write env) fc ct = run_kept env allowed ac ct"
    if "ct \<in> set AllClusterTypes" for ct
    using kept [OF that] by (simp add: run_kept_def)
  obtain errs where "WriteApplyConfiguration (env_WriteMutationDirectory env) (env_ord_write env) (Some fc) dir =
      Value (errors_join errs, map (\<lambda>ct. WriteMutationDirectory
        (path_join [dir, cluster_type_string ct]) (cluster_requests (env_ord_write env) fc ct)) AllClusterTypes)"
    and "errs = [] \<longleftrightarrow> (\<forall>ct \<in> set AllClusterTypes. env_WriteMutationDirectory env
      (path_join [dir, cluster_type_string ct]) (cluster_requests (env_ord_write env) fc ct) = None)"
    using Write_ok [OF fc(2)] by blast
  then show thesis
    by (intro that [OF fc(1)]) (simp_all add: Validate_eq [OF config_full_ok [OF fc(2)]]
        produced_filtered_declared [OF kept] kept' cong: map_cong)
qed

lemma Run_body_eq:
  assumes ac: "config_full ac" and ords: "env_orders_ok env"
    and out: "env_outputResourcesFn env = (Some allowed, err1)"
    and app: "env_applyConfigurationFn env = (res, Some ac, err2)"
  shows "\<exists>e. applyConfiguration_Run_body env dir = Value (e, run_writes env dir allowed ac res) \<and>
    (e = None \<longleftrightarrow> err1 = None \<and> err2 = None \<and> (\<forall>q \<in> set (all_produced ac). declared allowed q) \<and>
      (\<exists>bytes. env_Marshal env res = Inr bytes) \<and>
      (\<forall>ev \<in> set (run_writes env dir allowed ac res). write_ok env ev))"
proof -
  note ok = config_full_ok [OF ac]
  obtain fc errs where fc: "FilterAllDesiredMutationsGetter (Some ac) (Some allowed) = Value fc"
    and reval: "ValidateAllDesiredMutationsGetter (env_ord_revalidate env) (Some fc) (Some allowed) = Value None"
    and w: "WriteApplyConfiguration (env_WriteMutationDirectory env) (env_ord_write env) (Some fc) dir =
      Value (errors_join errs, map (\<lambda>ct. WriteMutationDirectory
        (path_join [dir, cluster_type_string ct]) (run_kept env allowed ac ct)) AllClusterTypes)"
    and werrs: "errs = [] \<longleftrightarrow> (\<forall>ct \<in> set AllClusterTypes. env_WriteMutationDirectory env
      (path_join [dir, cluster_type_string ct]) (run_kept env allowed ac ct) = None)"
    by (rule Run_filter_write [OF ac])
  have "filter (\<lambda>q. \<not> declared allowed q) (produced (env_ord_validate env) ac) = [] \<longleftrightarrow>
      (\<forall>q \<in> set (all_produced ac). declared allowed q)"
    using ords by (intro declared_produced_any_order [OF ok]) (simp add: env_orders_ok_def)
  then obtain v where v: "ValidateAllDesiredMutationsGetter (env_ord_validate env) (Some ac) (Some allowed) =
      Value v" "v = None \<longleftrightarrow> (\<forall>q \<in> set (all_produced ac). declared allowed q)"
    by (auto simp: Validate_eq [OF ok] Let_def errors_join_None_iff)
  have "applyConfiguration_Run_body env dir =
    Value (errors_join (concat (map err_list [err1, err2, v, None, errors_join errs,
        unspecified_error env dir allowed ac, results_error env dir res])),
      run_writes env dir allowed ac res)"
    using w
    by (simp add: applyConfiguration_Run_body_def out app Unspecified_eq [OF ok] v(1) reval fc
        Let_def run_writes_def run_unspecified_def [symmetric] unspecified_error_def results_error_def
        split: sum.splits option.splits)
  then show ?thesis
    using run_writes_ok_iff [of env dir allowed ac res, folded werrs] by (auto simp: errors_join_None_iff v(2))
qed

text \<open>The output directory was made, or was there.\<close>

definition dir_made :: "run_env \<Rightarrow> string \<Rightarrow> bool" where
  "dir_made env dir \<longleftrightarrow> (case env_MkdirAll env dir of None \<Rightarrow> True | Some err \<Rightarrow> os_is_exist err)"

lemma Run_after_mkdir:
  "dir_made env dir \<Longrightarrow> applyConfiguration_Run env dir = applyConfiguration_Run_body env dir"
  by (simp add: applyConfiguration_Run_def dir_made_def split: option.splits)

lemma Run_eq:
  assumes "dir_made env dir" and "config_full ac" and "env_orders_ok env"
    and "env_outputResourcesFn env = (Some allowed, err1)"
    and "env_applyConfigurationFn env = (res, Some ac, err2)"
  shows "\<exists>e. applyConfiguration_Run env dir = Value (e, run_writes env dir allowed ac res) \<and>
    (e = None \<longleftrightarrow> err1 = None \<and> err2 = None \<and> (\<forall>q \<in> set (all_produced ac). declared allowed q) \<and>
      (\<exists>bytes. env_Marshal env res = Inr bytes) \<and>
      (\<forall>ev \<in> set (run_writes env dir allowed ac res). write_ok env ev))"
  unfolding Run_after_mkdir [OF assms(1)] by (rule Run_body_eq [OF assms(2-5)])

lemma set_run_kept:
  assumes "config_ok ac" and "env_orders_ok env" and "ct \<in> set AllClusterTypes"
  shows "set (run_kept env allowed ac ct) = {q \<in> set (requests_for ac ct). declared_for allowed ct q}"
  using set_cluster_requests [OF assms(1) _ assms(3), of "env_ord_write env"] assms(2)
  by (auto simp: run_kept_def env_orders_ok_def declared_for_def)

lemma set_run_unspecified:
  assumes "config_ok ac" and "env_orders_ok env"
  shows "set (run_unspecified env allowed ac) = {q \<in> set (all_produced ac). \<not> declared allowed q}"
  using set_produced [OF assms(1), of "env_ord_unspecified env"] assms(2)
  by (auto simp: run_unspecified_def env_orders_ok_def)

text \<open>The requests written under a directory by a list of write events.\<close>

definition written_in :: "write_event list \<Rightarrow> string \<Rightarrow> serialized_requestish set" where
  "written_in evs d = {q. \<exists>qs. WriteMutationDirectory d qs \<in> set evs \<and> q \<in> set qs}"

lemma plain_cluster_dir [simp]:
  "ct \<in> set AllClusterTypes \<Longrightarrow> plain_component (cluster_type_string ct)"
  "plain_component ''Unspecified''"
  "ct \<in> set AllClusterTypes \<Longrightarrow> cluster_type_string ct \<noteq> ''Unspecified''"
  by (auto simp: set_AllClusterTypes cluster_type_defs plain_component_def slash_def)

lemma written_in_Nil [simp]: "written_in [] d = {}"
  by (simp add: written_in_def)

lemma written_in_Cons [simp]:
  "written_in (ev # evs) d = (case ev of
     WriteMutationDirectory d' qs \<Rightarrow> (if d' = d then set qs else {}) | WriteFile f b \<Rightarrow> {}) \<union> written_in evs d"
  by (auto simp: written_in_def split: write_event.splits)

lemma written_in_append [simp]: "written_in (evs @ evs') d = written_in evs d \<union> written_in evs' d"
  by (auto simp: written_in_def)

lemma cluster_type_string_eq: "cluster_type_string a = cluster_type_string b \<longleftrightarrow> a = b"
  by (cases a; cases b) simp

lemma written_in_cluster_dirs:
  "plain_component x \<Longrightarrow> set cts \<subseteq> set AllClusterTypes \<Longrightarrow>
     written_in (map (\<lambda>ct. WriteMutationDirectory (path_join [dir, cluster_type_string ct]) (f ct)) cts)
       (path_join [dir, x]) = (\<Union>ct \<in> {ct \<in> set cts. cluster_type_string ct = x}. set (f ct))"
  by (induction cts) (auto simp: path_join_last_eq_iff)

lemma written_run:
  assumes "config_ok ac" and "env_orders_ok env"
  shows "ct \<in> set AllClusterTypes \<Longrightarrow>
      written_in (run_writes env dir allowed ac res) (path_join [dir, cluster_type_string ct]) =
        {q \<in> set (requests_for ac ct). declared_for allowed ct q}"
    and "written_in (run_writes env dir allowed ac res) (path_join [dir, ''Unspecified'']) =
        {q \<in> set (all_produced ac). \<not> declared allowed q}"
proof -
  have rest: "written_in (case env_Marshal env res of Inl err \<Rightarrow> []
      | Inr bytes \<Rightarrow> [WriteFile f bytes]) d = {}" for f d
    by (simp split: sum.split)
  show "written_in (run_writes env dir allowed ac res) (path_join [dir, cluster_type_string ct]) =
      {q \<in> set (requests_for ac ct). declared_for allowed ct q}" if ct: "ct \<in> set AllClusterTypes"
  proof -
    have "{c \<in> set AllClusterTypes. cluster_type_string c = cluster_type_string ct} = {ct}"
      using ct by (auto simp: cluster_type_string_eq)
    then show ?thesis
      using ct plain_cluster_dir(3) [OF ct, symmetric]
      by (auto simp: run_writes_def rest written_in_cluster_dirs path_join_last_eq_iff
          set_run_kept [OF assms] simp del: set_filter)
  qed
  have none: "{c \<in> set AllClusterTypes. cluster_type_string c = ''Unspecified''} = {}"
    using plain_cluster_dir(3) by auto
  show "written_in (run_writes env dir allowed ac res) (path_join [dir, ''Unspecified'']) =
      {q \<in> set (all_produced ac). \<not> declared allowed q}"
    unfolding set_run_unspecified [OF assms, symmetric]
    by (auto simp: run_writes_def rest written_in_cluster_dirs none)
qed

end
