(* ===== verification/Apply_Properties.thy ===== *)
theory Apply_Properties
  imports Apply_Configuration
begin

text \<open>
  What an apply-configuration run does with the requests of an operator: which are kept under
  which cluster type, which end up as unspecified, when the run succeeds, and when it panics.
  The theorems are instances of the lemmas of \<open>Apply_Configuration\<close> about whole runs.
\<close>

section \<open>A concrete run\<close>

definition demo_metadata :: "action \<Rightarrow> string \<Rightarrow> string \<Rightarrow> string \<Rightarrow> action_metadata" where
  "demo_metadata act resource namespace name =
     \<lparr>am_Action = act, am_ResourceType = \<lparr>gvr_Group = [], gvr_Version = ''v1'', gvr_Resource = resource\<rparr>,
      am_Namespace = namespace, am_Name = name, am_GenerateName = [], am_PatchType = [],
      am_FieldManager = [], am_ControllerInstanceName = []\<rparr>"

definition demo_request :: "action \<Rightarrow> string \<Rightarrow> string \<Rightarrow> string \<Rightarrow> serialized_requestish" where
  "demo_request act resource namespace name = TrackedSerializedRequest 1
     \<lparr>sr_ActionMetadata = demo_metadata act resource namespace name,
      sr_KindType = \<lparr>gvk_Group = [], gvk_Version = ''v1'', gvk_Kind = resource\<rparr>,
      sr_Options = [], sr_Body = ''{}''\<rparr>"

definition demo_declared :: serialized_requestish where
  "demo_declared = demo_request ActionCreate ''configmaps'' ''ns'' ''cm''"

definition demo_undeclared :: serialized_requestish where
  "demo_undeclared = demo_request ActionUpdate ''secrets'' ''ns'' ''s''"

definition demo_tracker :: "serialized_requestish list \<Rightarrow> all_actions_tracker" where
  "demo_tracker qs = (case AddRequests NewAllActionsTracker qs of Value t \<Rightarrow> t | Panicked p \<Rightarrow> NewAllActionsTracker)"

definition demo_allowed :: output_resources where
  "demo_allowed =
     \<lparr>or_ConfigurationResources =
        empty_output_list\<lparr>ol_ExactResources := [out_ExactConfigMap ''ns'' ''cm'']\<rparr>,
      or_ManagementResources = empty_output_list,
      or_UserWorkloadResources = empty_output_list\<rparr>"

definition demo_env :: "output_resources option \<Rightarrow> apply_configuration option \<Rightarrow> go_error option \<Rightarrow> run_env" where
  "demo_env outs muts err =
     \<lparr>env_MkdirAll = (\<lambda>d. None), env_outputResourcesFn = (outs, None),
      env_applyConfigurationFn = (None, muts, err),
      env_WriteMutationDirectory = (\<lambda>d qs. None), env_Marshal = (\<lambda>r. Inr ''null''),
      env_WriteFile = (\<lambda>f b. None), env_ord_unspecified = (\<lambda>ct. rev), env_ord_validate = (\<lambda>ct ks. ks),
      env_ord_revalidate = (\<lambda>ct ks. ks), env_ord_write = (\<lambda>ct. rev)\<rparr>"

lemma demo_tracker_inv [simp]: "tracker_inv (demo_tracker qs)"
  using AddRequests_inv [OF tracker_inv_New, of qs] by (auto simp: demo_tracker_def)

lemma demo_env_orders [simp]: "env_orders_ok (demo_env outs muts err)"
  by (simp add: env_orders_ok_def order_ok_def demo_env_def range_order_rev)

lemma demo_env_simps [simp]:
  "dir_made (demo_env outs muts err) d"
  "env_MkdirAll (demo_env outs muts err) d = None"
  "env_outputResourcesFn (demo_env outs muts err) = (outs, None)"
  "env_applyConfigurationFn (demo_env outs muts err) = (None, muts, err)"
  "env_Marshal (demo_env outs muts err) r = Inr ''null''"
  "write_ok (demo_env outs muts err) ev"
  by (simp_all add: demo_env_def write_ok_def dir_made_def split: write_event.split)

lemmas demo_defs = demo_declared_def demo_undeclared_def demo_request_def demo_metadata_def
  ActionCreate_def ActionUpdate_def

lemma demo_declared_iff:
  "declared demo_allowed demo_declared" "\<not> declared demo_allowed demo_undeclared"
  by (auto simp: declared_def declared_for_def set_AllClusterTypes allowed_list_def demo_allowed_def
      metadataMatchesFilter_Some exact_entry_matches_def demo_defs requestish_metadata_def
      GetLookupMetadata_def out_ExactConfigMap_def out_ExactResource_def empty_output_list_def is_event_def
      GroupResource_def coreEventGR_def eventGR_def)

lemma demo_AllRequests:
  "set (AllRequests (\<lambda>ks. ks) (demo_tracker [demo_declared])) = {demo_declared}"
  "set (AllRequests (\<lambda>ks. ks) (demo_tracker [demo_declared, demo_undeclared])) =
     {demo_declared, demo_undeclared}"
  by (auto simp: demo_tracker_def NewAllActionsTracker_def AddRequest_def requestish_action_def demo_defs
      actionTracker_AddRequest_def AllRequests_def Mutations_def Let_def)

section \<open>The writes of a client-based configuration\<close>

lemma client_all_produced:
  "set (all_produced (NewApplyConfigurationFromClient t)) = set (AllRequests (\<lambda>ks. ks) t)"
  by (auto simp: produced_def client_cluster_requests set_AllClusterTypes)

lemma client_run_writes:
  fixes dir :: string and allowed :: output_resources and res :: "run_result option"
  assumes "tracker_inv t" and "env_orders_ok env"
  defines "evs \<equiv> run_writes env dir allowed (NewApplyConfigurationFromClient t) res"
  shows "\<forall>ct \<in> set AllClusterTypes. written_in evs (path_join [dir, cluster_type_string ct]) =
      {q \<in> set (AllRequests (\<lambda>ks. ks) t). declared_for allowed ct q}"
    and "written_in evs (path_join [dir, ''Unspecified'']) =
      {q \<in> set (AllRequests (\<lambda>ks. ks) t). \<not> declared allowed q}"
    and "set (AllRequests (\<lambda>ks. ks) t) = (\<Union>d. written_in evs d)"
proof -
  let ?qs = "set (AllRequests (\<lambda>ks. ks) t)"
  note ok = config_full_ok [OF client_config_full [OF assms(1)]]
  show dirs: "\<forall>ct \<in> set AllClusterTypes. written_in evs (path_join [dir, cluster_type_string ct]) =
      {q \<in> ?qs. declared_for allowed ct q}"
    by (auto simp: evs_def written_run(1) [OF ok assms(2)] client_cluster_requests)
  show uns: "written_in evs (path_join [dir, ''Unspecified'']) = {q \<in> ?qs. \<not> declared allowed q}"
    by (simp add: evs_def written_run(2) [OF ok assms(2)] client_all_produced)
  have "q \<in> (\<Union>d. written_in evs d)" if "q \<in> ?qs" for q
  proof (cases "declared allowed q")
    case True
    then obtain ct where "ct \<in> set AllClusterTypes" "declared_for allowed ct q"
      by (auto simp: declared_def)
    with that dirs show ?thesis
      by (intro UN_I [of "path_join [dir, cluster_type_string ct]"]) auto
  next
    case False
    with that uns show ?thesis by (intro UN_I [of "path_join [dir, ''Unspecified'']"]) auto
  qed
  moreover have "written_in evs d \<subseteq> ?qs" for d
    using set_run_kept [OF ok assms(2)] set_run_unspecified [OF ok assms(2), of allowed]
    by (auto simp: evs_def written_in_def run_writes_def client_all_produced client_cluster_requests
        split: if_splits sum.splits)
  ultimately show "?qs = (\<Union>d. written_in evs d)" by auto
qed

section \<open>Properties\<close>

text \<open>C5: for a client-based configuration no recorded request is lost: the directory of a cluster
  type holds exactly the recorded requests declared for that type, the directory of unspecified
  requests exactly those declared for none, and every recorded request is in one of them.\<close>

theorem Run_writes_every_client_request:
  assumes "dir_made env dir" and "tracker_inv t" and "env_orders_ok env"
    and "env_outputResourcesFn env = (Some allowed, err1)"
    and "env_applyConfigurationFn env = (res, Some (NewApplyConfigurationFromClient t), err2)"
  shows "\<exists>e evs. applyConfiguration_Run env dir = Value (e, evs) \<and>
    (\<forall>ct \<in> set AllClusterTypes. written_in evs (path_join [dir, cluster_type_string ct]) =
      {q \<in> set (AllRequests (\<lambda>ks. ks) t). declared_for allowed ct q}) \<and>
    written_in evs (path_join [dir, ''Unspecified'']) =
      {q \<in> set (AllRequests (\<lambda>ks. ks) t). \<not> declared allowed q} \<and>
    set (AllRequests (\<lambda>ks. ks) t) = (\<Union>d. written_in evs d)"
proof -
  obtain e where run: "applyConfiguration_Run env dir =
      Value (e, run_writes env dir allowed (NewApplyConfigurationFromClient t) res)"
    using Run_eq [OF assms(1) client_config_full [OF assms(2)] assms(3-5)] by blast
  show ?thesis by (intro exI conjI) (rule run client_run_writes [OF assms(2,3)])+
qed

theorem Run_writes_every_client_request_witness:
  "\<exists>e evs. applyConfiguration_Run (demo_env (Some demo_allowed)
      (Some (NewApplyConfigurationFromClient (demo_tracker [demo_declared, demo_undeclared]))) None) ''out'' =
    Value (e, evs) \<and> written_in evs (path_join [''out'', ''Unspecified'']) = {demo_undeclared} \<and>
    demo_declared \<in> written_in evs (path_join [''out'', ''Configuration''])"
proof -
  let ?t = "demo_tracker [demo_declared, demo_undeclared]"
  let ?env = "demo_env (Some demo_allowed) (Some (NewApplyConfigurationFromClient ?t)) None"
  have "\<exists>e evs. applyConfiguration_Run ?env ''out'' = Value (e, evs) \<and>
    (\<forall>ct \<in> set AllClusterTypes. written_in evs (path_join [''out'', cluster_type_string ct]) =
      {q \<in> set (AllRequests (\<lambda>ks. ks) ?t). declared_for demo_allowed ct q}) \<and>
    written_in evs (path_join [''out'', ''Unspecified'']) =
      {q \<in> set (AllRequests (\<lambda>ks. ks) ?t). \<not> declared demo_allowed q} \<and>
    set (AllRequests (\<lambda>ks. ks) ?t) = (\<Union>d. written_in evs d)"
    by (rule Run_writes_every_client_request [of ?env "''out''" ?t demo_allowed None None None]) simp_all
  then obtain e evs where run: "applyConfiguration_Run ?env ''out'' = Value (e, evs)"
    and cts: "\<forall>ct \<in> set AllClusterTypes. written_in evs (path_join [''out'', cluster_type_string ct]) =
      {q \<in> set (AllRequests (\<lambda>ks. ks) ?t). declared_for demo_allowed ct q}"
    and uns: "written_in evs (path_join [''out'', ''Unspecified'']) =
      {q \<in> set (AllRequests (\<lambda>ks. ks) ?t). \<not> declared demo_allowed q}"
    by blast
  have "declared_for demo_allowed ClusterTypeConfiguration demo_declared"
    using demo_declared_iff(1)
    by (auto simp: declared_def declared_for_def set_AllClusterTypes allowed_list_def demo_allowed_def
      empty_output_list_def metadataMatchesFilter_Some)
  then have "demo_declared \<in> written_in evs (path_join [''out'', ''Configuration''])"
    using cts by (auto simp: set_AllClusterTypes demo_AllRequests ClusterTypeConfiguration_def)
  moreover have "written_in evs (path_join [''out'', ''Unspecified'']) = {demo_undeclared}"
    unfolding uns demo_AllRequests using demo_declared_iff by auto
  ultimately show ?thesis using run by blast
qed

text \<open>C6: the run returns no error exactly when both functions succeeded, every produced request is
  declared for some cluster type, and every write and the rendering of the results succeeded.\<close>

theorem Run_succeeds_iff:
  assumes "dir_made env dir" and "config_full ac" and "env_orders_ok env"
    and "env_outputResourcesFn env = (Some allowed, err1)"
    and "env_applyConfigurationFn env = (res, Some ac, err2)"
  shows "\<exists>e. applyConfiguration_Run env dir = Value (e, run_writes env dir allowed ac res) \<and>
    (e = None \<longleftrightarrow> err1 = None \<and> err2 = None \<and> (\<forall>q \<in> set (all_produced ac). declared allowed q) \<and>
      (\<exists>bytes. env_Marshal env res = Inr bytes) \<and>
      (\<forall>ev \<in> set (run_writes env dir allowed ac res). write_ok env ev))"
  by (rule Run_eq [OF assms])

theorem Run_succeeds_iff_witness:
  "(\<exists>evs. applyConfiguration_Run (demo_env (Some demo_allowed)
      (Some (NewApplyConfigurationFromClient (demo_tracker [demo_declared]))) None) ''out'' = Value (None, evs)) \<and>
   (\<nexists>evs. applyConfiguration_Run (demo_env (Some demo_allowed)
      (Some (NewApplyConfigurationFromClient (demo_tracker [demo_declared, demo_undeclared]))) None) ''out'' =
        Value (None, evs))"
proof -
  have "\<exists>e evs. applyConfiguration_Run (demo_env (Some demo_allowed)
      (Some (NewApplyConfigurationFromClient (demo_tracker qs))) None) ''out'' = Value (e, evs) \<and>
    (e = None \<longleftrightarrow> (\<forall>q \<in> set (AllRequests (\<lambda>ks. ks) (demo_tracker qs)). declared demo_allowed q))" for qs
    using Run_succeeds_iff [of "demo_env (Some demo_allowed)
        (Some (NewApplyConfigurationFromClient (demo_tracker qs))) None" "''out''"
        "NewApplyConfigurationFromClient (demo_tracker qs)" demo_allowed None None None]
    by (simp add: client_all_produced) blast
  from this [of "[demo_declared]"] this [of "[demo_declared, demo_undeclared]"] show ?thesis
    by (auto simp: demo_AllRequests demo_declared_iff)
qed

text \<open>A run panics with a nil dereference, whatever error came with it, when the operator returns
  no mutations, and also when it declares no output resources.\<close>

theorem Run_panics_without_mutations_or_outputs:
  assumes "dir_made env dir"
    and "env_outputResourcesFn env = (outs, err1)" and "env_applyConfigurationFn env = (res, muts, err2)"
    and "muts = None \<or> outs = None \<and> (\<exists>t. tracker_inv t \<and> muts = Some (NewApplyConfigurationFromClient t))"
  shows "applyConfiguration_Run env dir = Panicked NilDereference"
  using assms(4)
  by (auto simp: Run_after_mkdir [OF assms(1)] applyConfiguration_Run_body_def assms(2,3)
      Unspecified_nil Unspecified_nil_allowed config_full_ok)

theorem Run_panics_without_mutations_or_outputs_witness:
  "applyConfiguration_Run (demo_env (Some demo_allowed) None (Some (errorf ''boom''))) ''out'' =
     Panicked NilDereference"
  using Run_panics_without_mutations_or_outputs [of "demo_env (Some demo_allowed) None (Some (errorf ''boom''))"
      "''out''" "Some demo_allowed" None None None "Some (errorf ''boom'')"]
  by simp

text \<open>C7: filtering keeps, for each cluster type, exactly the requests declared for that type, in
  order, and what it keeps passes validation, for any map order.\<close>

theorem filtered_result_is_declared_part:
  assumes "config_full ac"
  shows "\<exists>fc. FilterAllDesiredMutationsGetter (Some ac) (Some allowed) = Value fc \<and>
    cluster_requests ords fc ClusterTypeConfiguration =
      filter (declared_for allowed ClusterTypeConfiguration) (cluster_requests ords ac ClusterTypeConfiguration) \<and>
    cluster_requests ords fc ClusterTypeManagement =
      filter (declared_for allowed ClusterTypeManagement) (cluster_requests ords ac ClusterTypeManagement) \<and>
    cluster_requests ords fc ClusterTypeUserWorkload =
      filter (declared_for allowed ClusterTypeUserWorkload) (cluster_requests ords ac ClusterTypeUserWorkload) \<and>
    ValidateAllDesiredMutationsGetter ords (Some fc) (Some allowed) = Value None"
proof -
  obtain fc where fc: "FilterAllDesiredMutationsGetter (Some ac) (Some allowed) = Value fc" "config_full fc"
    and kept: "\<And>ords ct. ct \<in> set AllClusterTypes \<Longrightarrow> cluster_requests ords fc ct =
      FilterSerializedRequests (cluster_requests ords ac ct) (Some (allowed_list allowed ct))"
    using Filter_ok [OF assms] by blast
  have "cluster_requests ords fc ct = filter (declared_for allowed ct) (cluster_requests ords ac ct)"
    if "ct \<in> set AllClusterTypes" for ct
    using kept [OF that] by (simp add: FilterSerializedRequests_eq_filter declared_for_def [abs_def])
  moreover have "ValidateAllDesiredMutationsGetter ords (Some fc) (Some allowed) = Value None"
    by (simp add: Validate_eq [OF config_full_ok [OF fc(2)]] produced_filtered_declared [OF kept])
  ultimately show ?thesis using fc(1) by (simp add: set_AllClusterTypes)
qed

theorem filtered_result_is_declared_part_witness:
  "\<exists>fc. FilterAllDesiredMutationsGetter
      (Some (NewApplyConfigurationFromClient (demo_tracker [demo_undeclared]))) (Some demo_allowed) = Value fc \<and>
    cluster_requests (\<lambda>ct. rev) fc ClusterTypeManagement = [] \<and>
    ValidateAllDesiredMutationsGetter (\<lambda>ct. rev) (Some fc) (Some demo_allowed) = Value None"
proof -
  have "declared_for demo_allowed ClusterTypeManagement = (\<lambda>q. False)"
    by (auto simp: declared_for_def allowed_list_def demo_allowed_def empty_output_list_def
        metadataMatchesFilter_Some)
  then show ?thesis
    using filtered_result_is_declared_part
      [of "NewApplyConfigurationFromClient (demo_tracker [demo_undeclared])" demo_allowed "\<lambda>ct. rev"]
    by auto
qed

text \<open>With a client-based configuration every unspecified request is reported three times, once
  per cluster type, since the three types share one tracker.\<close>

theorem client_requests_counted_three_times:
  assumes "tracker_inv t" and "order_ok ords"
  shows "\<exists>u. UnspecifiedOutputResources ords (Some (NewApplyConfigurationFromClient t)) (Some allowed) = Value u \<and>
    mset u = repeat_mset 3
      (filter_mset (\<lambda>q. \<not> declared allowed q) (mset (AllRequests (\<lambda>ks. ks) t)))"
  by (simp add: Unspecified_eq config_full_ok assms mset_client_produced mset_filter)
    (simp add: numeral_3_eq_3)

theorem client_requests_counted_three_times_witness:
  "\<exists>u. UnspecifiedOutputResources (\<lambda>ct. rev)
      (Some (NewApplyConfigurationFromClient (demo_tracker [demo_undeclared]))) (Some demo_allowed) = Value u \<and>
    length u = 3"
proof -
  have "mset (AllRequests (\<lambda>ks. ks) (demo_tracker [demo_undeclared])) = {#demo_undeclared#}"
    by (simp add: demo_tracker_def NewAllActionsTracker_def AddRequest_def requestish_action_def demo_defs
        actionTracker_AddRequest_def AllRequests_def Mutations_def Let_def)
  then show ?thesis
    using client_requests_counted_three_times [of "demo_tracker [demo_undeclared]" "\<lambda>ct. rev" demo_allowed]
    by (auto simp: order_ok_def range_order_rev demo_declared_iff numeral_3_eq_3 simp flip: size_mset)
qed

text \<open>A request produced for one cluster type but declared only for another is written nowhere:
  it is dropped by the filter of its cluster type and yet it is not unspecified.\<close>

theorem Run_drops_misplaced_request:
  assumes "dir_made env dir" and "config_full ac" and "env_orders_ok env"
    and "env_outputResourcesFn env = (Some allowed, err1)"
    and "env_applyConfigurationFn env = (res, Some ac, err2)"
    and "declared allowed q"
    and "\<forall>ct \<in> set AllClusterTypes. \<not> (q \<in> set (requests_for ac ct) \<and> declared_for allowed ct q)"
  shows "\<exists>e evs. applyConfiguration_Run env dir = Value (e, evs) \<and> (\<forall>d. q \<notin> written_in evs d)"
proof -
  obtain e where "applyConfiguration_Run env dir = Value (e, run_writes env dir allowed ac res)"
    using Run_eq [OF assms(1-5)] by blast
  moreover have "q \<notin> written_in (run_writes env dir allowed ac res) d" for d
    using assms(6,7) set_run_kept [OF config_full_ok [OF assms(2)] assms(3)]
      set_run_unspecified [OF config_full_ok [OF assms(2)] assms(3), of allowed]
    by (auto simp: written_in_def run_writes_def split: if_splits sum.splits)
  ultimately show ?thesis by blast
qed

text \<open>A configuration whose requests are all for one cluster type.\<close>

definition demo_management :: "serialized_requestish list \<Rightarrow> apply_configuration" where
  "demo_management qs =
     \<lparr>desiredMutationsByClusterType = (\<lambda>ct. Some (ClientBasedClusterApplyResult ct
        (if ct = ClusterTypeManagement then demo_tracker qs else NewAllActionsTracker)))\<rparr>"

theorem Run_drops_misplaced_request_witness:
  "\<exists>e evs. applyConfiguration_Run
      (demo_env (Some demo_allowed) (Some (demo_management [demo_declared])) None) ''out'' = Value (e, evs) \<and>
    (\<forall>d. demo_declared \<notin> written_in evs d)"
proof (rule Run_drops_misplaced_request [where ac = "demo_management [demo_declared]" and allowed = demo_allowed
      and res = None and ?err1.0 = None and ?err2.0 = None])
  show "config_full (demo_management [demo_declared])"
    by (simp add: config_full_def demo_management_def)
  have "\<not> declared_for demo_allowed ClusterTypeManagement demo_declared"
    by (simp add: declared_for_def allowed_list_def demo_allowed_def empty_output_list_def
        metadataMatchesFilter_Some)
  then show "\<forall>ct \<in> set AllClusterTypes. \<not> (demo_declared \<in> set (requests_for (demo_management [demo_declared]) ct)
      \<and> declared_for demo_allowed ct demo_declared)"
    by (auto simp: cluster_requests_def demo_management_def AllRequests_def NewAllActionsTracker_def)
qed (simp_all add: demo_declared_iff)

end
