(* ===== verification/Directory_Result.thy ===== *)
theory Directory_Result
  imports Apply_Configuration
begin

text \<open>
  \<open>pkg/library/libraryapplyconfiguration/directory_apply_configuration.go\<close> and
  \<open>directory_mutations.go\<close>: the result of an apply-configuration run read back from its output
  directory. The file system below the directory, the YAML and JSON decoders and the reader of a
  mutation directory are arguments (\<open>dir_env\<close>). Reading a file gives bytes and an error, both at
  once where the file system does that. \<open>range AllClusterTypes\<close> visits a set in any order.
\<close>

record dir_env =
  fs_ReadFile :: "string \<Rightarrow> string \<times> go_error option"
  fs_ReadDir :: "(string \<times> bool) list \<times> go_error option"
  fs_Sub :: "string \<Rightarrow> go_error option"
  ReadEmbeddedMutationDirectory :: "string \<Rightarrow> go_error + all_actions_tracker"
  yaml_ToJSON :: "string \<Rightarrow> go_error + string"
  json_Unmarshal_results :: "string \<Rightarrow> go_error + run_result"
  ord_cluster_types :: "cluster_type visit_order"

section \<open>Mutations of a cluster type\<close>

definition newApplyResultFromDirectory ::
    "dir_env \<Rightarrow> cluster_type \<Rightarrow> string \<Rightarrow> go_error + cluster_getter" where
  "newApplyResultFromDirectory fs clusterType outputDirectory =
     (let clusterTypeDirName = path_join [outputDirectory, cluster_type_string clusterType] in
      case fs_Sub fs (cluster_type_string clusterType) of
        Some err \<Rightarrow> Inl (Wrapf ''unable to get subDir: '' err [])
      | None \<Rightarrow>
          (case ReadEmbeddedMutationDirectory fs (cluster_type_string clusterType) of
             Inl err \<Rightarrow> Inl (Wrapf (''unable to read actions for clusterType='' @
               go_quote (cluster_type_string clusterType) @ '' in '' @ go_quote clusterTypeDirName @ '': '') err [])
           | Inr mutationRequests \<Rightarrow>
               Inr (DirectoryBasedClusterApplyResult clusterType outputDirectory mutationRequests)))"

fun read_cluster_types ::
    "dir_env \<Rightarrow> string \<Rightarrow> cluster_type list \<Rightarrow> (cluster_type \<Rightarrow> cluster_getter option) \<Rightarrow>
      go_error list \<times> (cluster_type \<Rightarrow> cluster_getter option)" where
  "read_cluster_types fs outputDirectory [] m = ([], m)"
| "read_cluster_types fs outputDirectory (clusterType # rest) m =
     (case newApplyResultFromDirectory fs clusterType outputDirectory of
        Inl err \<Rightarrow>
          (case read_cluster_types fs outputDirectory rest (m(clusterType := None)) of
             (errs, m') \<Rightarrow> (Wrapf (''failure building '' @ go_quote (cluster_type_string clusterType)
               @ '' result: '') err [] # errs, m'))
      | Inr g \<Rightarrow> read_cluster_types fs outputDirectory rest (m(clusterType \<mapsto> g)))"

definition newApplyConfigurationFromDirectory ::
    "dir_env \<Rightarrow> string \<Rightarrow> apply_configuration option \<times> go_error option" where
  "newApplyConfigurationFromDirectory fs outputDirectory =
     (case read_cluster_types fs outputDirectory (ord_cluster_types fs AllClusterTypes) Map.empty of
        (errs, m) \<Rightarrow>
          if length errs > 0 then (None, errors_join errs)
          else (Some \<lparr>desiredMutationsByClusterType = m\<rparr>, None))"

section \<open>The result\<close>

record apply_configuration_result =
  res_err :: "go_error option"
  res_outputDirectory :: string
  res_stdout :: string
  res_stderr :: string
  res_controllerResults :: "run_result option"
  res_applyConfiguration :: "apply_configuration option"

text \<open>The methods of \<open>ApplyConfigurationResult\<close>.\<close>

definition result_Stdout :: "apply_configuration_result \<Rightarrow> string" where
  "result_Stdout s = res_stdout s"

definition result_Stderr :: "apply_configuration_result \<Rightarrow> string" where
  "result_Stderr s = res_stderr s"

definition result_Error :: "apply_configuration_result \<Rightarrow> go_error option" where
  "result_Error s = res_err s"

definition result_ControllerResults :: "apply_configuration_result \<Rightarrow> run_result option" where
  "result_ControllerResults s = res_controllerResults s"

definition result_OutputDirectory :: "apply_configuration_result \<Rightarrow> string \<times> go_error option" where
  "result_OutputDirectory s = (res_outputDirectory s, None)"

definition result_MutationsForClusterType ::
    "apply_configuration_result \<Rightarrow> cluster_type \<Rightarrow> cluster_getter option outcome" where
  "result_MutationsForClusterType s clusterType =
     MutationsForClusterType (res_applyConfiguration s) clusterType"

definition log_limit :: nat where
  "log_limit = 512 * 1024"

text \<open>Reading one of the logs: the content and the error to report.\<close>

definition read_log :: "dir_env \<Rightarrow> string \<Rightarrow> string \<Rightarrow> string \<times> go_error list" where
  "read_log fs outputDirectory name =
     (let loc = path_join [outputDirectory, name];
          (content, err) = fs_ReadFile fs name;
          errs = (case err of
                    None \<Rightarrow> []
                  | Some e \<Rightarrow> (if \<not> os_is_not_exist e
                      then [Wrapf (''failed reading '' @ go_quote loc @ '': '') e []] else [])) in
      (if length content > log_limit then drop (length content - log_limit) content else content, errs))"

definition read_controller_results :: "dir_env \<Rightarrow> string \<Rightarrow> run_result option \<times> go_error list" where
  "read_controller_results fs outputDirectory =
     (let loc = path_join [outputDirectory, ''controller-results.yaml''];
          (content, err) = fs_ReadFile fs ''controller-results.yaml'';
          errs = (case err of
                    None \<Rightarrow> []
                  | Some e \<Rightarrow> (if \<not> os_is_not_exist e
                      then [Wrapf (''failed reading '' @ go_quote loc @ '': '') e []] else [])) in
      if length content > 0 then
        (case yaml_ToJSON fs content of
           Inl e \<Rightarrow> (None, errs @ [Wrapf ''unable to convert controller-results.yaml to json: '' e []])
         | Inr asJSON \<Rightarrow>
             (case json_Unmarshal_results fs asJSON of
                Inl e \<Rightarrow> (None, errs @ [Wrapf ''unable to parse controller-results.yaml: '' e []])
              | Inr localControllerResults \<Rightarrow> (Some localControllerResults, errs)))
      else (None, errs))"

fun check_content :: "string \<Rightarrow> (string \<times> bool) list \<Rightarrow> go_error list" where
  "check_content outputDirectory [] = []"
| "check_content outputDirectory ((name, isDir) # rest) =
     (if name = ''stdout.log'' then check_content outputDirectory rest
      else if name = ''stderr.log'' then check_content outputDirectory rest
      else if name = ''controller-results.yaml'' then check_content outputDirectory rest
      else
        let err = errorf (''unexpected file '' @ go_quote (path_join [outputDirectory, name])
          @ '', only target cluster directories are: ''
          @ fmt_strings (map cluster_type_string (sets_List AllClusterTypes))) in
        if \<not> isDir then err # check_content outputDirectory rest
        else if ClusterType name \<notin> set AllClusterTypes then err # check_content outputDirectory rest
        else check_content outputDirectory rest)"

text \<open>The end of the function: how the collected errors and the error of the process are combined.\<close>

definition conclude_result ::
    "apply_configuration_result \<Rightarrow> go_error list \<Rightarrow> go_error option \<Rightarrow>
      apply_configuration_result option \<times> go_error option" where
  "conclude_result ret errs execError =
     (if length errs = 0 \<and> execError \<noteq> None then (Some ret, execError)
      else
        let errs' = (if length errs > 0 then errs @ err_list execError else errs);
            ret' = ret\<lparr>res_err := errors_join errs'\<rparr> in
        (Some ret', res_err ret'))"

definition NewApplyConfigurationResultFromDirectory ::
    "dir_env \<Rightarrow> string \<Rightarrow> go_error option \<Rightarrow> apply_configuration_result option \<times> go_error option" where
  "NewApplyConfigurationResultFromDirectory fs outputDirectory execError =
     (let (stdoutContent, errs1) = read_log fs outputDirectory ''stdout.log'';
          (stderrContent, errs2) = read_log fs outputDirectory ''stderr.log'';
          (controllerResults, errs3) = read_controller_results fs outputDirectory;
          (outputContent, err) = fs_ReadDir fs;
          ret = \<lparr>res_err = None, res_outputDirectory = outputDirectory, res_stdout = stdoutContent,
                 res_stderr = stderrContent, res_controllerResults = controllerResults,
                 res_applyConfiguration = Some \<lparr>desiredMutationsByClusterType = Map.empty\<rparr>\<rparr> in
      case err of
        Some e \<Rightarrow>
          (if err_is NotExist e \<and> execError \<noteq> None
           then (Some (ret\<lparr>res_controllerResults := None\<rparr>), execError)
           else (None, Some (Wrapf (''unable to read output-dir content '' @ go_quote outputDirectory @ '': '')
             e [])))
      | None \<Rightarrow>
          (let (ac, acErr) = newApplyConfigurationFromDirectory fs outputDirectory;
               ret1 = ret\<lparr>res_applyConfiguration := ac\<rparr>;
               errs4 = (case acErr of None \<Rightarrow> []
                        | Some e \<Rightarrow> [Wrapf ''failure building applyConfiguration result: '' e []]);
               errs5 = check_content outputDirectory outputContent;
               errs = errs1 @ errs2 @ errs3 @ errs4 @ errs5 in
           conclude_result ret1 errs execError))"

section \<open>Lemmas\<close>

lemma read_cluster_types_ok:
  assumes "\<forall>ct \<in> set cts. newApplyResultFromDirectory fs ct dir = Inr (g ct)"
  shows "read_cluster_types fs dir cts m = ([], fold (\<lambda>ct m. m(ct \<mapsto> g ct)) cts m)"
  using assms by (induction cts arbitrary: m) auto

lemma read_cluster_types_errs:
  "fst (read_cluster_types fs dir cts m) = [] \<longleftrightarrow>
     (\<forall>ct \<in> set cts. \<exists>g. newApplyResultFromDirectory fs ct dir = Inr g)"
  by (induction cts arbitrary: m) (auto split: sum.splits prod.splits)

lemma fold_map_upd: "fold (\<lambda>k m. m(k \<mapsto> g k)) ks m k = (if k \<in> set ks then Some (g k) else m k)"
  by (induction ks arbitrary: m) auto

definition cluster_dir_readable :: "dir_env \<Rightarrow> cluster_type \<Rightarrow> bool" where
  "cluster_dir_readable fs ct \<longleftrightarrow> fs_Sub fs (cluster_type_string ct) = None \<and>
     (\<exists>t. ReadEmbeddedMutationDirectory fs (cluster_type_string ct) = Inr t)"

lemma newApplyResult_Inr_iff:
  "(\<exists>g. newApplyResultFromDirectory fs ct dir = Inr g) \<longleftrightarrow> cluster_dir_readable fs ct"
  by (auto simp: newApplyResultFromDirectory_def cluster_dir_readable_def Let_def split: option.split sum.split)

lemma newApplyConfigurationFromDirectory_cases:
  assumes "range_order (ord_cluster_types fs)"
  shows "if \<forall>ct \<in> set AllClusterTypes. cluster_dir_readable fs ct
    then \<exists>ac. newApplyConfigurationFromDirectory fs dir = (Some ac, None) \<and>
      (\<forall>ct \<in> set AllClusterTypes. \<exists>t. ReadEmbeddedMutationDirectory fs (cluster_type_string ct) = Inr t \<and>
        desiredMutationsByClusterType ac ct = Some (DirectoryBasedClusterApplyResult ct dir t))
    else \<exists>e. newApplyConfigurationFromDirectory fs dir = (None, Some e)"
proof -
  let ?cts = "ord_cluster_types fs AllClusterTypes"
  have cts: "set ?cts = set AllClusterTypes"
    using assms by (metis range_order_def set_mset_mset)
  have errs: "fst (read_cluster_types fs dir ?cts Map.empty) = [] \<longleftrightarrow>
      (\<forall>ct \<in> set AllClusterTypes. cluster_dir_readable fs ct)"
    by (simp add: read_cluster_types_errs newApplyResult_Inr_iff cts)
  show ?thesis
  proof (cases "\<forall>ct \<in> set AllClusterTypes. cluster_dir_readable fs ct")
    case False
    with errs show ?thesis
      by (auto simp: newApplyConfigurationFromDirectory_def errors_join_def split: prod.split)
  next
    case True
    define g where "g ct = DirectoryBasedClusterApplyResult ct dir
      (projr (ReadEmbeddedMutationDirectory fs (cluster_type_string ct)))" for ct
    have "\<forall>ct \<in> set ?cts. newApplyResultFromDirectory fs ct dir = Inr (g ct)"
      using True cts by (auto simp: newApplyResultFromDirectory_def cluster_dir_readable_def g_def)
    note read_cluster_types_ok [OF this, of Map.empty]
    moreover have "\<exists>t. ReadEmbeddedMutationDirectory fs (cluster_type_string ct) = Inr t \<and>
        g ct = DirectoryBasedClusterApplyResult ct dir t" if "ct \<in> set AllClusterTypes" for ct
      using True that by (fastforce simp: cluster_dir_readable_def g_def)
    ultimately show ?thesis
      using True by (auto simp: newApplyConfigurationFromDirectory_def fold_map_upd cts)
  qed
qed

text \<open>The entries an output directory may hold.\<close>

definition expected_entry :: "string \<times> bool \<Rightarrow> bool" where
  "expected_entry e \<longleftrightarrow> fst e \<in> {''stdout.log'', ''stderr.log'', ''controller-results.yaml''} \<or>
     snd e \<and> ClusterType (fst e) \<in> set AllClusterTypes"

lemma check_content_Nil_iff: "check_content dir es = [] \<longleftrightarrow> (\<forall>e \<in> set es. expected_entry e)"
  by (induction es rule: check_content.induct) (auto simp: expected_entry_def Let_def)

text \<open>A file that reads, or is not there.\<close>

definition file_ok :: "dir_env \<Rightarrow> string \<Rightarrow> bool" where
  "file_ok fs name \<longleftrightarrow> (case snd (fs_ReadFile fs name) of None \<Rightarrow> True | Some e \<Rightarrow> os_is_not_exist e)"

definition results_ok :: "dir_env \<Rightarrow> bool" where
  "results_ok fs \<longleftrightarrow> file_ok fs ''controller-results.yaml'' \<and>
     (fst (fs_ReadFile fs ''controller-results.yaml'') \<noteq> [] \<longrightarrow>
       (\<exists>j r. yaml_ToJSON fs (fst (fs_ReadFile fs ''controller-results.yaml'')) = Inr j \<and>
         json_Unmarshal_results fs j = Inr r))"

lemma read_log_errs: "snd (read_log fs dir name) = [] \<longleftrightarrow> file_ok fs name"
  by (auto simp: read_log_def file_ok_def Let_def split: prod.split option.split)

lemma read_log_content:
  "\<exists>pre. fst (fs_ReadFile fs name) = pre @ fst (read_log fs dir name) \<and>
     length (fst (read_log fs dir name)) = min (length (fst (fs_ReadFile fs name))) log_limit"
proof -
  have "\<exists>pre. c = pre @ (if length c > log_limit then drop (length c - log_limit) c else c) \<and>
    length (if length c > log_limit then drop (length c - log_limit) c else c) = min (length c) log_limit" for c :: string
    using append_take_drop_id [of "length c - log_limit" c] by (auto simp: min_def intro: exI [of _ "take (length c - log_limit) c"])
  then show ?thesis by (simp add: read_log_def Let_def split: prod.split)
qed

lemma read_controller_results_errs: "snd (read_controller_results fs dir) = [] \<longleftrightarrow> results_ok fs"
  by (auto simp: read_controller_results_def results_ok_def file_ok_def Let_def
      split: prod.splits option.splits sum.splits if_splits)

text \<open>What makes a readable output directory clean.\<close>

definition clean_output :: "dir_env \<Rightarrow> bool" where
  "clean_output fs \<longleftrightarrow> file_ok fs ''stdout.log'' \<and> file_ok fs ''stderr.log'' \<and> results_ok fs \<and>
     (\<forall>ct \<in> set AllClusterTypes. cluster_dir_readable fs ct) \<and>
     (\<forall>e \<in> set (fst (fs_ReadDir fs)). expected_entry e)"

lemma NewResult_read:
  assumes "range_order (ord_cluster_types fs)" and "snd (fs_ReadDir fs) = None"
  shows "\<exists>r errs. NewApplyConfigurationResultFromDirectory fs dir execError =
      (Some r, if errs = [] then execError else Some (Joined (errs @ err_list execError))) \<and>
    (errs = [] \<longleftrightarrow> clean_output fs) \<and>
    res_err r = (if errs = [] then None else Some (Joined (errs @ err_list execError))) \<and>
    res_outputDirectory r = dir \<and>
    res_stdout r = fst (read_log fs dir ''stdout.log'') \<and> res_stderr r = fst (read_log fs dir ''stderr.log'') \<and>
    res_controllerResults r = fst (read_controller_results fs dir) \<and>
    res_applyConfiguration r = fst (newApplyConfigurationFromDirectory fs dir)"
proof -
  define errs where "errs = snd (read_log fs dir ''stdout.log'') @ snd (read_log fs dir ''stderr.log'') @
    snd (read_controller_results fs dir) @
    (case snd (newApplyConfigurationFromDirectory fs dir) of None \<Rightarrow> []
     | Some e \<Rightarrow> [Wrapf ''failure building applyConfiguration result: '' e []]) @
    check_content dir (fst (fs_ReadDir fs))"
  have "snd (newApplyConfigurationFromDirectory fs dir) = None \<longleftrightarrow>
      (\<forall>ct \<in> set AllClusterTypes. cluster_dir_readable fs ct)"
    using newApplyConfigurationFromDirectory_cases [OF assms(1), of dir] by (auto split: if_splits)
  then have "errs = [] \<longleftrightarrow> clean_output fs"
    by (auto simp: errs_def clean_output_def read_log_errs read_controller_results_errs check_content_Nil_iff
        split: option.splits)
  moreover have "\<exists>r. conclude_result ret errs execError =
      (Some r, if errs = [] then execError else Some (Joined (errs @ err_list execError))) \<and>
    r = ret\<lparr>res_err := (if errs = [] then None else Some (Joined (errs @ err_list execError)))\<rparr>"
    if "res_err ret = None" for ret
    using that by (cases ret) (auto simp: conclude_result_def errors_join_def Let_def)
  ultimately show ?thesis
    using assms(2)
    by (fastforce simp: NewApplyConfigurationResultFromDirectory_def case_prod_beta Let_def
        errs_def [symmetric])
qed

section \<open>Properties\<close>

text \<open>A directory with the given top-level entries, empty logs and empty mutation directories; the
  mutation directories of the cluster types listed in \<open>broken\<close> do not read.\<close>

definition demo_dir :: "(string \<times> bool) list \<Rightarrow> cluster_type list \<Rightarrow> dir_env" where
  "demo_dir entries broken =
     \<lparr>fs_ReadFile = (\<lambda>f. ([], Some (Leaf NotExist ''no file''))), fs_ReadDir = (entries, None),
      fs_Sub = (\<lambda>d. None),
      ReadEmbeddedMutationDirectory = (\<lambda>d. if ClusterType d \<in> set broken then Inl (errorf ''bad yaml'')
        else Inr NewAllActionsTracker),
      yaml_ToJSON = Inr, json_Unmarshal_results = (\<lambda>j. Inl (errorf ''bad json'')),
      ord_cluster_types = rev\<rparr>"

lemma demo_dir_simps [simp]:
  "ord_cluster_types (demo_dir es b) = rev" "fs_ReadDir (demo_dir es b) = (es, None)"
  "file_ok (demo_dir es b) f" "results_ok (demo_dir es b)"
  "cluster_dir_readable (demo_dir es b) ct \<longleftrightarrow> ct \<notin> set b"
  by (simp_all add: demo_dir_def file_ok_def results_ok_def cluster_dir_readable_def cluster_type.collapse)

text \<open>C18: a result read from a directory that lists is free of errors exactly when the process
  succeeded and the directory is clean: every log and the controller results read (or are missing),
  every cluster type's mutations read, and there is no entry but these. An error of the process is
  never lost: it is the error returned or the last one joined in it.\<close>

theorem directory_result_error_iff:
  assumes "range_order (ord_cluster_types fs)" and "snd (fs_ReadDir fs) = None"
  shows "\<exists>r e. NewApplyConfigurationResultFromDirectory fs dir execError = (Some r, e) \<and>
    (e = None \<longleftrightarrow> execError = None \<and> clean_output fs) \<and>
    (\<forall>x. execError = Some x \<longrightarrow> e = Some x \<or> (\<exists>errs. e = Some (Joined (errs @ [x])) \<and> res_err r = e))"
  using NewResult_read [OF assms, of dir execError] by auto

theorem directory_result_error_iff_witness:
  "(\<exists>r. NewApplyConfigurationResultFromDirectory (demo_dir [(''Management'', True)] []) ''out'' None = (Some r, None)) \<and>
   (\<exists>r e. NewApplyConfigurationResultFromDirectory (demo_dir [(''Unspecified'', True)] []) ''out'' None =
      (Some r, Some e))"
proof -
  have "clean_output (demo_dir [(''Management'', True)] [])" "\<not> clean_output (demo_dir [(''Unspecified'', True)] [])"
    by (simp_all add: clean_output_def expected_entry_def set_AllClusterTypes cluster_type_defs)
  then show ?thesis
    using directory_result_error_iff [of "demo_dir [(''Management'', True)] []" "''out''" None]
      directory_result_error_iff [of "demo_dir [(''Unspecified'', True)] []" "''out''" None]
    by (auto simp: range_order_rev)
qed

text \<open>The logs kept in a result are the last 512 KiB of the files, or all of a shorter file.\<close>

theorem directory_result_keeps_log_tails:
  assumes "range_order (ord_cluster_types fs)" and "snd (fs_ReadDir fs) = None"
  shows "\<exists>r. fst (NewApplyConfigurationResultFromDirectory fs dir execError) = Some r \<and>
    (\<exists>pre. fst (fs_ReadFile fs ''stdout.log'') = pre @ res_stdout r) \<and>
    length (res_stdout r) = min (length (fst (fs_ReadFile fs ''stdout.log''))) 524288 \<and>
    (\<exists>pre. fst (fs_ReadFile fs ''stderr.log'') = pre @ res_stderr r) \<and>
    length (res_stderr r) = min (length (fst (fs_ReadFile fs ''stderr.log''))) 524288"
proof -
  obtain r where "fst (NewApplyConfigurationResultFromDirectory fs dir execError) = Some r"
    "res_stdout r = fst (read_log fs dir ''stdout.log'')" "res_stderr r = fst (read_log fs dir ''stderr.log'')"
    using NewResult_read [OF assms, of dir execError] by auto
  then show ?thesis
    using read_log_content [of fs "''stdout.log''" dir] read_log_content [of fs "''stderr.log''" dir]
    by (simp add: log_limit_def)
qed

theorem directory_result_keeps_log_tails_witness:
  "\<exists>r. fst (NewApplyConfigurationResultFromDirectory
      ((demo_dir [] [])\<lparr>fs_ReadFile := (\<lambda>f. (replicate 600000 CHR ''x'', None))\<rparr>) ''out'' None) = Some r \<and>
    length (res_stdout r) = 524288"
  using directory_result_keeps_log_tails
    [of "(demo_dir [] [])\<lparr>fs_ReadFile := (\<lambda>f. (replicate 600000 CHR ''x'', None))\<rparr>" "''out''" None]
  by (auto simp: demo_dir_def range_order_rev)

text \<open>When the mutations of some cluster type do not read, the result still returned has no
  configuration: asking it for the mutations of any cluster type panics.\<close>

theorem unreadable_mutations_result_panics:
  assumes "range_order (ord_cluster_types fs)" and "snd (fs_ReadDir fs) = None"
    and "ct \<in> set AllClusterTypes" and "\<not> cluster_dir_readable fs ct"
  shows "\<exists>r e. NewApplyConfigurationResultFromDirectory fs dir execError = (Some r, Some e) \<and>
    result_MutationsForClusterType r ct' = Panicked NilDereference"
proof -
  have "\<not> (\<forall>ct \<in> set AllClusterTypes. cluster_dir_readable fs ct)" using assms(3,4) by blast
  then have "\<exists>e. newApplyConfigurationFromDirectory fs dir = (None, Some e)"
    using newApplyConfigurationFromDirectory_cases [OF assms(1), of dir] by (simp only: if_False)
  then have "fst (newApplyConfigurationFromDirectory fs dir) = None" by auto
  moreover have "\<not> clean_output fs" using assms(3,4) by (auto simp: clean_output_def)
  ultimately show ?thesis
    using NewResult_read [OF assms(1,2), of dir execError]
    by (auto simp: result_MutationsForClusterType_def MutationsForClusterType_def)
qed

theorem unreadable_mutations_result_panics_witness:
  "\<exists>r e. NewApplyConfigurationResultFromDirectory (demo_dir [] [ClusterTypeManagement]) ''out'' None =
      (Some r, Some e) \<and>
    result_MutationsForClusterType r ClusterTypeConfiguration = Panicked NilDereference"
  by (rule unreadable_mutations_result_panics [where ct = ClusterTypeManagement])
    (simp_all add: range_order_rev set_AllClusterTypes)

end
