(* ===== verification/Equivalence.thy ===== *)
theory Equivalence
  imports Directory_Result Apply_Properties
begin

text \<open>
  \<open>pkg/library/libraryapplyconfiguration/equivalence.go\<close>: the comparison of two apply-configuration
  results, as a list of reasons that is empty when they are equivalent. How \<open>%v\<close>, \<open>cmp.Diff\<close> and
  the YAML decoder render and read values is an argument (\<open>diff_env\<close>): only whether there is a
  reason depends on the program. \<open>%v\<close> of an error is its text.
\<close>

record diff_env =
  fmt_result :: "run_result \<Rightarrow> string"
  diff_results :: "run_result \<Rightarrow> run_result \<Rightarrow> string"
  diff_bytes :: "string \<Rightarrow> string \<Rightarrow> string"
  yaml_FieldManager :: "string \<Rightarrow> string option"
  yaml_Annotations :: "string \<Rightarrow> (string \<Rightarrow> string option) option"

definition equivalentErrors :: "string \<Rightarrow> go_error option \<Rightarrow> go_error option \<Rightarrow> string list" where
  "equivalentErrors field lhs rhs =
     (case (lhs, rhs) of
        (None, None) \<Rightarrow> []
      | (None, Some r) \<Rightarrow> [field @ '': lhs=nil, rhs='' @ err_text r]
      | (Some l, None) \<Rightarrow> [field @ '': lhs='' @ err_text l @ '', rhs=nil'']
      | (Some l, Some r) \<Rightarrow>
          (if err_text l \<noteq> err_text r then [field @ '': lhs='' @ err_text l @ '', rhs='' @ err_text r]
           else []))"

definition equivalentRunResults ::
    "diff_env \<Rightarrow> string \<Rightarrow> run_result option \<Rightarrow> run_result option \<Rightarrow> string list" where
  "equivalentRunResults env field lhs rhs =
     (case (lhs, rhs) of
        (None, None) \<Rightarrow> []
      | (None, Some r) \<Rightarrow> [field @ '': lhs=nil, rhs='' @ fmt_result env r]
      | (Some l, None) \<Rightarrow> [field @ '': lhs='' @ fmt_result env l @ '', rhs=nil'']
      | (Some l, Some r) \<Rightarrow>
          (if l \<noteq> r then [field @ '': diff: '' @ diff_results env l r] else []))"

record expanded_metadata =
  em_metadata :: action_metadata
  em_fieldManager :: string
  em_controllerInstanceName :: string

definition zero_action_metadata :: action_metadata where
  "zero_action_metadata =
     \<lparr>am_Action = Action [], am_ResourceType = \<lparr>gvr_Group = [], gvr_Version = [], gvr_Resource = []\<rparr>,
      am_Namespace = [], am_Name = [], am_GenerateName = [], am_PatchType = [],
      am_FieldManager = [], am_ControllerInstanceName = []\<rparr>"

definition is_apply :: "serialized_request \<Rightarrow> bool" where
  "is_apply sr \<longleftrightarrow> am_Action (sr_ActionMetadata sr) = ActionApply \<or>
     am_Action (sr_ActionMetadata sr) = ActionApplyStatus"

text \<open>An annotation of the body, empty when there is none.\<close>

definition annotation :: "(string \<Rightarrow> string option) \<Rightarrow> string \<Rightarrow> string" where
  "annotation anns k = (case anns k of None \<Rightarrow> [] | Some v \<Rightarrow> v)"

definition expandedMetadataFor :: "diff_env \<Rightarrow> serialized_request option \<Rightarrow> expanded_metadata" where
  "expandedMetadataFor env serializedRequest =
     (case serializedRequest of
        None \<Rightarrow> \<lparr>em_metadata = zero_action_metadata, em_fieldManager = [], em_controllerInstanceName = []\<rparr>
      | Some sr \<Rightarrow>
          (let fieldManager =
             (if is_apply sr then (case yaml_FieldManager env (sr_Options sr) of None \<Rightarrow> [] | Some f \<Rightarrow> f) else []);
           controllerInstanceName =
             (case yaml_Annotations env (sr_Body sr) of
                None \<Rightarrow> []
              | Some anns \<Rightarrow>
                  (let synthetic = annotation anns ''synthetic.mom.openshift.io/controller-instance-name'';
                       operator = annotation anns ''operator.openshift.io/controller-instance-name'';
                       n = (if length synthetic > 0 then synthetic else []) in
                   if length operator > 0 then operator else n)) in
           \<lparr>em_metadata = GetLookupMetadata sr, em_fieldManager = fieldManager,
            em_controllerInstanceName = controllerInstanceName\<rparr>))"

text \<open>
  The inner loop of \<open>reasonForDiff\<close>: whether an equivalent request was found, and the mismatches
  against the requests with the same metadata.
\<close>

fun compare_destinations ::
    "diff_env \<Rightarrow> string \<Rightarrow> serialized_request \<Rightarrow> nat \<Rightarrow> serialized_requestish list \<Rightarrow> string list \<Rightarrow>
      bool \<times> string list" where
  "compare_destinations env dest src i [] mismatchReasons = (False, mismatchReasons)"
| "compare_destinations env dest src i (d # ds) mismatchReasons =
     (let dst = GetSerializedRequest d; md = expandedMetadataFor env (Some src);
          pre = ''mutation: '' @ StringID src @ '', fieldManager='' @ em_fieldManager md
            @ '', controllerInstanceName='' @ em_controllerInstanceName md @ '', '' @ dest @ ''['' @ show_nat i @ '']: '';
          m1 = (if sr_Body src \<noteq> sr_Body dst
                then mismatchReasons @ [pre @ ''body diff: '' @ diff_bytes env (sr_Body src) (sr_Body dst)]
                else mismatchReasons);
          m2 = (if sr_Options src \<noteq> sr_Options dst
                then m1 @ [pre @ ''options diff: '' @ diff_bytes env (sr_Options src) (sr_Options dst)]
                else m1) in
      if EquivalentSerializedRequests (PlainSerializedRequest src) d then (True, [])
      else if is_apply src \<and> sr_Options src \<noteq> sr_Options dst
        then compare_destinations env dest src (i + 1) ds mismatchReasons
      else compare_destinations env dest src (i + 1) ds m2)"

fun reasonForDiff ::
    "diff_env \<Rightarrow> string \<Rightarrow> serialized_request list \<Rightarrow> serialized_requestish list \<Rightarrow> string list" where
  "reasonForDiff env nameOfDestination [] allDestinationRequests = []"
| "reasonForDiff env nameOfDestination (src # rest) allDestinationRequests =
     (let dests = RequestsForResource allDestinationRequests (GetLookupMetadata src) in
      (if length dests = 0 then [nameOfDestination @ '' is missing: '' @ StringID src]
       else
         let md = expandedMetadataFor env (Some src);
             (found, mismatchReasons) = compare_destinations env nameOfDestination src 0 dests [] in
         if found then []
         else if length mismatchReasons = 0
           then [nameOfDestination @ '' is missing equivalent request for fieldManager='' @ em_fieldManager md
             @ '' controllerInstanceName='' @ em_controllerInstanceName md @ '': '' @ StringID src]
         else mismatchReasons)
      @ reasonForDiff env nameOfDestination rest allDestinationRequests)"

text \<open>The loop that keeps the requests missing on the left whose metadata is not missing on the right too.\<close>

definition uniquely_missing ::
    "diff_env \<Rightarrow> serialized_request list \<Rightarrow> serialized_request list \<Rightarrow> serialized_request list" where
  "uniquely_missing env missingInLHS missingInRHS =
     filter (\<lambda>l. \<not> list_ex (\<lambda>r. expandedMetadataFor env (Some l) = expandedMetadataFor env (Some r)) missingInRHS)
       missingInLHS"

definition EquivalentClusterApplyResultIgnoringEvents ::
    "diff_env \<Rightarrow> (bool \<Rightarrow> action visit_order) \<Rightarrow> string \<Rightarrow> cluster_getter option \<Rightarrow> cluster_getter option \<Rightarrow>
      string list outcome" where
  "EquivalentClusterApplyResultIgnoringEvents env ord field lhs rhs =
     (case (lhs, rhs) of
        (None, None) \<Rightarrow> Value []
      | (None, Some r) \<Rightarrow>
          bind_outcome (Requests r) (\<lambda>rr.
            Value [field @ '': lhs=nil, len(rhs)='' @ show_nat (length (reader_AllRequests (ord False) rr))])
      | (Some l, None) \<Rightarrow>
          bind_outcome (Requests l) (\<lambda>lr.
            Value [field @ '': len(lhs)='' @ show_nat (length (reader_AllRequests (ord True) lr)) @ '', rhs=nil''])
      | (Some l, Some r) \<Rightarrow>
          bind_outcome (Requests l) (\<lambda>lr. bind_outcome (Requests r) (\<lambda>rr.
            let lhsAllRequests = RemoveEvents (reader_AllRequests (ord True) lr);
                rhsAllRequests = RemoveEvents (reader_AllRequests (ord False) rr);
                (equivalent, missingInRHS, missingInLHS) =
                  AreAllSerializedRequestsEquivalentWithReasons lhsAllRequests rhsAllRequests in
            if equivalent then Value []
            else
              let reasons = reasonForDiff env ''rhs'' missingInRHS rhsAllRequests
                    @ reasonForDiff env ''lhs'' (uniquely_missing env missingInLHS missingInRHS) lhsAllRequests in
              Value (map (\<lambda>cur. field @ '': '' @ cur) reasons))))"

fun equivalent_cluster_types ::
    "diff_env \<Rightarrow> (cluster_type \<Rightarrow> bool \<Rightarrow> action visit_order) \<Rightarrow> apply_configuration_result \<Rightarrow>
      apply_configuration_result \<Rightarrow> cluster_type list \<Rightarrow> string list outcome" where
  "equivalent_cluster_types env ord lhs rhs [] = Value []"
| "equivalent_cluster_types env ord lhs rhs (clusterType # rest) =
     bind_outcome (result_MutationsForClusterType lhs clusterType) (\<lambda>currLHS.
     bind_outcome (result_MutationsForClusterType rhs clusterType) (\<lambda>currRHS.
     bind_outcome (EquivalentClusterApplyResultIgnoringEvents env (ord clusterType)
       (cluster_type_string clusterType) currLHS currRHS) (\<lambda>reasons.
     bind_outcome (equivalent_cluster_types env ord lhs rhs rest) (\<lambda>reasons'.
       Value (reasons @ reasons')))))"

definition EquivalentApplyConfigurationResultIgnoringEvents ::
    "diff_env \<Rightarrow> (cluster_type \<Rightarrow> bool \<Rightarrow> action visit_order) \<Rightarrow> apply_configuration_result \<Rightarrow>
      apply_configuration_result \<Rightarrow> string list outcome" where
  "EquivalentApplyConfigurationResultIgnoringEvents env ord lhs rhs =
     bind_outcome (equivalent_cluster_types env ord lhs rhs (sets_List AllClusterTypes)) (\<lambda>reasons.
       Value (equivalentErrors ''Error'' (result_Error lhs) (result_Error rhs)
         @ equivalentRunResults env ''ControllerResults'' (result_ControllerResults lhs) (result_ControllerResults rhs)
         @ reasons))"

section \<open>Lemmas\<close>

lemma equivalentErrors_Nil_iff:
  "equivalentErrors field lhs rhs = [] \<longleftrightarrow> map_option err_text lhs = map_option err_text rhs"
  by (auto simp: equivalentErrors_def split: option.split)

lemma equivalentRunResults_Nil_iff: "equivalentRunResults env field lhs rhs = [] \<longleftrightarrow> lhs = rhs"
  by (auto simp: equivalentRunResults_def split: option.split)

lemma compare_destinations_found:
  "fst (compare_destinations env dest src i ds ms) \<longleftrightarrow> src \<in> request_set ds"
  by (induction ds arbitrary: i ms) (auto simp: Let_def)

text \<open>A request missing at its destination always gives a reason.\<close>

lemma reasonForDiff_Nil_iff:
  "(\<forall>s \<in> set srcs. s \<notin> request_set dests) \<Longrightarrow>
     reasonForDiff env name srcs dests = [] \<longleftrightarrow> srcs = []"
proof (induction srcs)
  case (Cons src srcs)
  have "request_set (RequestsForResource dests md) \<subseteq> request_set dests" for md
    by (auto simp: RequestsForResource_def)
  with Cons.prems have "\<not> fst (compare_destinations env name src 0 (RequestsForResource dests md) [])" for md
    by (auto simp: compare_destinations_found)
  then show ?case by (simp add: Let_def case_prod_beta)
qed simp

lemma uniquely_missing_Nil [simp]: "uniquely_missing env ms [] = ms"
  by (simp add: uniquely_missing_def)

lemma set_uniquely_missing: "set (uniquely_missing env ls rs) \<subseteq> set ls"
  by (auto simp: uniquely_missing_def)

text \<open>The requests of a getter that are no events, as a set of contents.\<close>

definition substance :: "cluster_getter \<Rightarrow> serialized_request set" where
  "substance g = request_set (RemoveEvents (getters.listed_requests (\<lambda>ks. ks) g))"

lemma substance_any_order:
  "getter_ok g \<Longrightarrow> range_order ord \<Longrightarrow>
    request_set (RemoveEvents (getters.listed_requests ord g)) = substance g"
  using getters.set_listed_requests [of g ord] by (simp add: substance_def RemoveEvents_eq_filter)

lemma EquivalentCluster_spec:
  assumes "\<forall>g. lhs = Some g \<longrightarrow> getter_ok g" and "\<forall>g. rhs = Some g \<longrightarrow> getter_ok g"
    and "\<forall>b. range_order (ord b)"
  shows "\<exists>reasons. EquivalentClusterApplyResultIgnoringEvents env ord field lhs rhs = Value reasons \<and>
    (reasons = [] \<longleftrightarrow> map_option substance lhs = map_option substance rhs)"
proof (cases lhs; cases rhs)
  fix l r assume both: "lhs = Some l" "rhs = Some r"
  have ok: "getter_ok l" "getter_ok r" using assms(1,2) both by auto
  obtain lr where lr: "Requests l = Value lr" "\<And>o'. reader_AllRequests o' lr = getters.listed_requests o' l"
    using getters.usable_reader [OF ok(1)] by blast
  obtain rr where rr: "Requests r = Value rr" "\<And>o'. reader_AllRequests o' rr = getters.listed_requests o' r"
    using getters.usable_reader [OF ok(2)] by blast
  define ls where "ls = RemoveEvents (getters.listed_requests (ord True) l)"
  define rs where "rs = RemoveEvents (getters.listed_requests (ord False) r)"
  have sub: "request_set ls = substance l" "request_set rs = substance r"
    unfolding ls_def rs_def using assms(3) ok substance_any_order by blast+
  define mr where "mr = map GetSerializedRequest (DifferenceOfSerializedRequests ls rs)"
  define ml where "ml = map GetSerializedRequest (DifferenceOfSerializedRequests rs ls)"
  have sets: "set mr = request_set ls - request_set rs" "set ml = request_set rs - request_set ls"
    by (simp_all add: mr_def ml_def)
  have "reasonForDiff env ''rhs'' mr rs = [] \<longleftrightarrow> mr = []"
    by (rule reasonForDiff_Nil_iff) (simp add: sets)
  moreover have "reasonForDiff env ''lhs'' (uniquely_missing env ml mr) ls = [] \<longleftrightarrow>
      uniquely_missing env ml mr = []"
    by (rule reasonForDiff_Nil_iff) (use set_uniquely_missing [of env ml mr] sets in blast)
  ultimately have reasons: "reasonForDiff env ''rhs'' mr rs @
      reasonForDiff env ''lhs'' (uniquely_missing env ml mr) ls = [] \<longleftrightarrow> mr = [] \<and> ml = []"
    by auto
  have "mr = [] \<and> ml = [] \<longleftrightarrow> substance l = substance r"
    by (auto simp: mr_def ml_def sub)
  with reasons show ?thesis
    by (auto simp: both EquivalentClusterApplyResultIgnoringEvents_def lr rr Let_def
        AreAllSerializedRequestsEquivalentWithReasons_def mr_def ml_def
        simp flip: ls_def rs_def)
qed (use assms getters.gives_reader in \<open>fastforce simp: EquivalentClusterApplyResultIgnoringEvents_def\<close>)+

lemma equivalent_cluster_types_spec:
  assumes "res_applyConfiguration lhs = Some la" and "res_applyConfiguration rhs = Some ra"
    and "config_ok la" and "config_ok ra" and "\<forall>ct b. range_order (ord ct b)"
    and "set cts \<subseteq> set AllClusterTypes"
  shows "\<exists>reasons. equivalent_cluster_types env ord lhs rhs cts = Value reasons \<and>
    (reasons = [] \<longleftrightarrow> (\<forall>ct \<in> set cts. map_option substance (desiredMutationsByClusterType la ct) =
      map_option substance (desiredMutationsByClusterType ra ct)))"
  using assms(6)
proof (induction cts)
  case (Cons ct cts)
  have "\<exists>reasons. EquivalentClusterApplyResultIgnoringEvents env (ord ct) (cluster_type_string ct)
      (desiredMutationsByClusterType la ct) (desiredMutationsByClusterType ra ct) = Value reasons \<and>
    (reasons = [] \<longleftrightarrow> map_option substance (desiredMutationsByClusterType la ct) =
      map_option substance (desiredMutationsByClusterType ra ct))"
    by (rule EquivalentCluster_spec) (use assms(3-5) Cons.prems in \<open>auto simp: config_ok_def\<close>)
  with Cons show ?case
    by (fastforce simp: result_MutationsForClusterType_def MutationsForClusterType_def assms(1,2))
qed simp

lemma equivalent_nil:
  "res_applyConfiguration lhs = None \<or> res_applyConfiguration rhs = None \<Longrightarrow>
     EquivalentApplyConfigurationResultIgnoringEvents env ord lhs rhs = Panicked NilDereference"
  by (cases "res_applyConfiguration lhs")
    (auto simp: EquivalentApplyConfigurationResultIgnoringEvents_def AllClusterTypes_def
      sets_List_AllClusterTypes [unfolded AllClusterTypes_def]
      result_MutationsForClusterType_def MutationsForClusterType_def)

lemma Equivalent_reasons:
  assumes "res_applyConfiguration lhs = Some la" and "res_applyConfiguration rhs = Some ra"
    and "config_ok la" and "config_ok ra" and "\<forall>ct b. range_order (ord ct b)"
  shows "\<exists>reasons. EquivalentApplyConfigurationResultIgnoringEvents env ord lhs rhs = Value reasons \<and>
    (reasons = [] \<longleftrightarrow> map_option err_text (res_err lhs) = map_option err_text (res_err rhs) \<and>
      res_controllerResults lhs = res_controllerResults rhs \<and>
      (\<forall>ct \<in> set AllClusterTypes. map_option substance (desiredMutationsByClusterType la ct) =
        map_option substance (desiredMutationsByClusterType ra ct)))"
  using equivalent_cluster_types_spec [OF assms subset_refl, of env]
  by (auto simp: EquivalentApplyConfigurationResultIgnoringEvents_def result_Error_def result_ControllerResults_def
      equivalentErrors_Nil_iff equivalentRunResults_Nil_iff)

section \<open>Properties\<close>

definition demo_result :: "serialized_requestish list \<Rightarrow> go_error option \<Rightarrow> apply_configuration_result" where
  "demo_result qs err =
     \<lparr>res_err = err, res_outputDirectory = ''out'', res_stdout = [], res_stderr = [],
      res_controllerResults = None,
      res_applyConfiguration = Some (NewApplyConfigurationFromClient (demo_tracker qs))\<rparr>"

definition demo_diff :: diff_env where
  "demo_diff = \<lparr>fmt_result = (\<lambda>r. []), diff_results = (\<lambda>a b. []), diff_bytes = (\<lambda>a b. []),
     yaml_FieldManager = (\<lambda>b. None), yaml_Annotations = (\<lambda>b. None)\<rparr>"

definition demo_event :: serialized_requestish where
  "demo_event = demo_request ActionCreate ''events'' ''ns'' ''e''"

lemma client_getter:
  "ct \<in> set AllClusterTypes \<Longrightarrow> desiredMutationsByClusterType (NewApplyConfigurationFromClient t) ct =
     Some (ClientBasedClusterApplyResult ct t)"
  by (auto simp: NewApplyConfigurationFromClient_def AllClusterTypes_def)

lemma demo_result_simps [simp]:
  "res_err (demo_result qs e) = e" "res_controllerResults (demo_result qs e) = None"
  "res_applyConfiguration (demo_result qs e) = Some (NewApplyConfigurationFromClient (demo_tracker qs))"
  by (simp_all add: demo_result_def)

lemma demo_AllRequests_event:
  "set (AllRequests (\<lambda>ks. ks) (demo_tracker [demo_declared, demo_event])) = {demo_declared, demo_event}"
  by (auto simp: demo_tracker_def NewAllActionsTracker_def AddRequest_def requestish_action_def demo_defs
      demo_event_def actionTracker_AddRequest_def AllRequests_def Mutations_def Let_def)

lemma demo_events:
  "is_event (requestish_metadata demo_event)" "\<not> is_event (requestish_metadata demo_declared)"
  by (simp_all add: is_event_def demo_event_def demo_defs requestish_metadata_def GetLookupMetadata_def
      GroupResource_def coreEventGR_def eventGR_def)

text \<open>C14: the comparison of two results that have a configuration never panics and gives no reason
  exactly when the errors have the same text, the controller results are equal, and for every cluster
  type both have mutations or neither has and the requests that are no events are the same set.\<close>

theorem equivalence_no_reason_iff:
  assumes "res_applyConfiguration lhs = Some la" and "res_applyConfiguration rhs = Some ra"
    and "config_ok la" and "config_ok ra" and "\<forall>ct b. range_order (ord ct b)"
  shows "\<exists>reasons. EquivalentApplyConfigurationResultIgnoringEvents env ord lhs rhs = Value reasons \<and>
    (reasons = [] \<longleftrightarrow> map_option err_text (res_err lhs) = map_option err_text (res_err rhs) \<and>
      res_controllerResults lhs = res_controllerResults rhs \<and>
      (\<forall>ct \<in> set AllClusterTypes. map_option substance (desiredMutationsByClusterType la ct) =
        map_option substance (desiredMutationsByClusterType ra ct)))"
  by (rule Equivalent_reasons [OF assms])

theorem equivalence_no_reason_iff_witness:
  "EquivalentApplyConfigurationResultIgnoringEvents demo_diff (\<lambda>ct b. if b then rev else (\<lambda>ks. ks))
      (demo_result [demo_declared] None) (demo_result [demo_declared, demo_event] None) = Value [] \<and>
   EquivalentApplyConfigurationResultIgnoringEvents demo_diff (\<lambda>ct b. if b then rev else (\<lambda>ks. ks))
      (demo_result [demo_declared] None) (demo_result [demo_declared] (Some (errorf ''e''))) \<noteq> Value []"
proof -
  let ?ord = "\<lambda>(ct :: cluster_type) b. if b then rev else (\<lambda>ks :: action list. ks)"
  have sub: "substance (ClientBasedClusterApplyResult ct (demo_tracker qs)) =
    request_set (RemoveEvents (AllRequests (\<lambda>ks. ks) (demo_tracker qs)))" for ct qs
    by (simp add: substance_def getters.listed_requests_def)
  have same: "substance (ClientBasedClusterApplyResult ct (demo_tracker [demo_declared])) =
    substance (ClientBasedClusterApplyResult ct (demo_tracker [demo_declared, demo_event]))" for ct
    using demo_events
    by (auto simp: sub RemoveEvents_eq_filter demo_AllRequests demo_AllRequests_event)
  have ord: "\<forall>ct b. range_order (?ord ct b)" by (simp add: range_order_rev)
  note spec = equivalence_no_reason_iff [where env = demo_diff and ord = ?ord and
    lhs = "demo_result [demo_declared] None", OF _ _ config_full_ok config_full_ok ord]
  have "\<exists>reasons. EquivalentApplyConfigurationResultIgnoringEvents demo_diff ?ord
      (demo_result [demo_declared] None) (demo_result [demo_declared, demo_event] None) = Value reasons \<and>
      reasons = []"
    using spec [of "NewApplyConfigurationFromClient (demo_tracker [demo_declared])"
        "demo_result [demo_declared, demo_event] None"
        "NewApplyConfigurationFromClient (demo_tracker [demo_declared, demo_event])"] same
    by (auto simp: client_getter)
  moreover have "\<exists>reasons. EquivalentApplyConfigurationResultIgnoringEvents demo_diff ?ord
      (demo_result [demo_declared] None) (demo_result [demo_declared] (Some (errorf ''e''))) = Value reasons \<and>
      reasons \<noteq> []"
    using spec [of "NewApplyConfigurationFromClient (demo_tracker [demo_declared])"
        "demo_result [demo_declared] (Some (errorf ''e''))"
        "NewApplyConfigurationFromClient (demo_tracker [demo_declared])"]
    by auto
  ultimately show ?thesis by auto
qed

text \<open>Comparing with a result that has no configuration panics.\<close>

theorem equivalence_panics_without_configuration:
  assumes "res_applyConfiguration lhs = None \<or> res_applyConfiguration rhs = None"
  shows "EquivalentApplyConfigurationResultIgnoringEvents env ord lhs rhs = Panicked NilDereference"
  using assms by (rule equivalent_nil)

theorem equivalence_panics_without_configuration_witness:
  "EquivalentApplyConfigurationResultIgnoringEvents demo_diff (\<lambda>ct b ks. ks)
     (demo_result [demo_declared] None) ((demo_result [] None)\<lparr>res_applyConfiguration := None\<rparr>) =
   Panicked NilDereference"
  by (rule equivalence_panics_without_configuration) simp

end
