(* ===== verification/Input_Resources.thy ===== *)
theory Input_Resources
  imports Output_Resources Go_Path
begin

text \<open>
  \<open>pkg/library/libraryinputresources\<close>: the resources an operator needs as input (\<open>types.go\<close>),
  constructors (\<open>easy_creation.go\<close>), validation (\<open>validation.go\<close>) and the \<open>input-resources\<close>
  command (\<open>options.go\<close>). A field path is its rendered text; a field error is its text too. The
  JSON-path compiler is an argument; label selectors keep what the source reads of them.
\<close>

section \<open>Types\<close>

record input_type_identifier =
  it_Group :: string
  it_Version :: string
  it_Resource :: string

record input_exact_resource = input_type_identifier +
  ie_Namespace :: string
  ie_Name :: string

record input_generated_resource = input_type_identifier +
  ig_Namespace :: string
  ig_GeneratedName :: string

record label_selector =
  ls_MatchLabels :: "(string \<times> string) list"
  ls_MatchExpressions :: "string list"

record label_selected_resource = input_type_identifier +
  lr_Namespace :: string
  lr_LabelSelector :: label_selector

text \<open>\<open>type ResourceReferenceType string\<close>.\<close>

datatype resource_reference_type = ResourceReferenceType (reference_type_string: string)

definition ExplicitNamespacedReferenceType :: resource_reference_type where
  "ExplicitNamespacedReferenceType = ResourceReferenceType ''ExplicitNamespacedReference''"
definition ImplicitNamespacedReferenceType :: resource_reference_type where
  "ImplicitNamespacedReferenceType = ResourceReferenceType ''ImplicitNamespacedReference''"
definition ClusterScopedReferenceType :: resource_reference_type where
  "ClusterScopedReferenceType = ResourceReferenceType ''ClusterScopedReference''"

record explicit_namespaced_reference = input_type_identifier +
  xr_NamespaceJSONPath :: string
  xr_NameJSONPath :: string

record implicit_namespaced_reference = input_type_identifier +
  mr_Namespace :: string
  mr_NameJSONPath :: string

record cluster_scoped_reference = input_type_identifier +
  cr_NameJSONPath :: string

record resource_reference =
  rr_ReferringResource :: input_exact_resource
  rr_Type :: resource_reference_type
  rr_ExplicitNamespacedReference :: "explicit_namespaced_reference option"
  rr_ImplicitNamespacedReference :: "implicit_namespaced_reference option"
  rr_ClusterScopedReference :: "cluster_scoped_reference option"

record input_resource_list =
  il_ExactResources :: "input_exact_resource list"
  il_GeneratedNameResources :: "input_generated_resource list"
  il_LabelSelectedResources :: "label_selected_resource list"
  il_ResourceReferences :: "resource_reference list"

record operand_resource_list =
  opl_ConfigurationResources :: input_resource_list
  opl_ManagementResources :: input_resource_list
  opl_UserWorkloadResources :: input_resource_list

record input_resources =
  ir_ApplyConfigurationResources :: input_resource_list
  ir_OperandResources :: operand_resource_list

definition empty_input_list :: input_resource_list where
  "empty_input_list = \<lparr>il_ExactResources = [], il_GeneratedNameResources = [],
     il_LabelSelectedResources = [], il_ResourceReferences = []\<rparr>"

definition empty_input_resources :: input_resources where
  "empty_input_resources = \<lparr>ir_ApplyConfigurationResources = empty_input_list,
     ir_OperandResources = \<lparr>opl_ConfigurationResources = empty_input_list,
       opl_ManagementResources = empty_input_list, opl_UserWorkloadResources = empty_input_list\<rparr>\<rparr>"

section \<open>Constructors\<close>

definition in_ExactResource ::
    "string \<Rightarrow> string \<Rightarrow> string \<Rightarrow> string \<Rightarrow> string \<Rightarrow> input_exact_resource" where
  "in_ExactResource grp version resource namespace name =
     \<lparr>it_Group = grp, it_Version = version, it_Resource = resource,
      ie_Namespace = namespace, ie_Name = name\<rparr>"

definition in_ExactSecret :: "string \<Rightarrow> string \<Rightarrow> input_exact_resource" where
  "in_ExactSecret namespace name = in_ExactResource '''' ''v1'' ''secrets'' namespace name"

definition in_ExactConfigMap :: "string \<Rightarrow> string \<Rightarrow> input_exact_resource" where
  "in_ExactConfigMap namespace name = in_ExactResource '''' ''v1'' ''configmaps'' namespace name"

definition in_ExactNamespace :: "string \<Rightarrow> input_exact_resource" where
  "in_ExactNamespace name = in_ExactResource '''' ''v1'' ''namespaces'' '''' name"

definition in_ExactServiceAccount :: "string \<Rightarrow> string \<Rightarrow> input_exact_resource" where
  "in_ExactServiceAccount namespace name = in_ExactResource '''' ''v1'' ''serviceaccounts'' namespace name"

definition in_ExactDeployment :: "string \<Rightarrow> string \<Rightarrow> input_exact_resource" where
  "in_ExactDeployment namespace name = in_ExactResource ''apps'' ''v1'' ''deployments'' namespace name"

definition in_ExactDaemonSet :: "string \<Rightarrow> string \<Rightarrow> input_exact_resource" where
  "in_ExactDaemonSet namespace name = in_ExactResource ''apps'' ''v1'' ''daemonsets'' namespace name"

definition in_ExactClusterOperator :: "string \<Rightarrow> input_exact_resource" where
  "in_ExactClusterOperator name = in_ExactResource ''config.openshift.io'' ''v1'' ''clusteroperators'' '''' name"

definition in_ExactLowLevelOperator :: "string \<Rightarrow> input_exact_resource" where
  "in_ExactLowLevelOperator resource = in_ExactResource ''operator.openshift.io'' ''v1'' resource '''' ''cluster''"

definition in_ExactClusterRole :: "string \<Rightarrow> input_exact_resource" where
  "in_ExactClusterRole name = in_ExactResource ''rbac.authorization.k8s.io'' ''v1'' ''clusterroles'' '''' name"

definition in_ExactClusterRoleBinding :: "string \<Rightarrow> input_exact_resource" where
  "in_ExactClusterRoleBinding name = in_ExactResource ''rbac.authorization.k8s.io'' ''v1'' ''clusterrolebindings'' '''' name"

definition in_ExactRole :: "string \<Rightarrow> string \<Rightarrow> input_exact_resource" where
  "in_ExactRole namespace name = in_ExactResource ''rbac.authorization.k8s.io'' ''v1'' ''roles'' namespace name"

definition in_ExactRoleBinding :: "string \<Rightarrow> string \<Rightarrow> input_exact_resource" where
  "in_ExactRoleBinding namespace name = in_ExactResource ''rbac.authorization.k8s.io'' ''v1'' ''rolebindings'' namespace name"

definition in_ExactConfigResource :: "string \<Rightarrow> input_exact_resource" where
  "in_ExactConfigResource resource = in_ExactResource ''config.openshift.io'' ''v1'' resource '''' ''cluster''"

definition SecretIdentifierType :: input_type_identifier where
  "SecretIdentifierType = \<lparr>it_Group = '''', it_Version = ''v1'', it_Resource = ''secrets''\<rparr>"

section \<open>Validation\<close>

type_synonym field_path = string

definition path_Child :: "field_path \<Rightarrow> string \<Rightarrow> field_path" where
  "path_Child p name = p @ ''.'' @ name"

definition path_Index :: "field_path \<Rightarrow> nat \<Rightarrow> field_path" where
  "path_Index p i = p @ ''['' @ show_nat i @ '']''"

definition field_Required :: "field_path \<Rightarrow> string \<Rightarrow> go_error" where
  "field_Required p detail = errorf (p @ '': Required value: '' @ detail)"

definition field_Forbidden :: "field_path \<Rightarrow> string \<Rightarrow> go_error" where
  "field_Forbidden p detail = errorf (p @ '': Forbidden: '' @ detail)"

definition field_Invalid :: "field_path \<Rightarrow> string \<Rightarrow> string \<Rightarrow> go_error" where
  "field_Invalid p val detail = errorf (p @ '': Invalid value: '' @ go_quote val @
     (if detail = [] then [] else '': '' @ detail))"

definition field_NotSupported :: "field_path \<Rightarrow> string \<Rightarrow> string list \<Rightarrow> go_error" where
  "field_NotSupported p val valid = errorf (p @ '': Unsupported value: '' @ go_quote val @
     (if valid = [] then [] else '': supported values: '' @ strings_join (map go_quote valid) '', ''))"

text \<open>\<open>validateInputResourceTypeIdentifier\<close>, on any record that embeds the identifier.\<close>

definition validateInputResourceTypeIdentifier ::
    "field_path \<Rightarrow> 'a input_type_identifier_scheme \<Rightarrow> go_error list" where
  "validateInputResourceTypeIdentifier p obj =
     (if length (it_Version obj) = 0 then [field_Required (path_Child p ''version'') ''must be present''] else []) @
     (if length (it_Resource obj) = 0 then [field_Required (path_Child p ''resource'') ''must be present''] else [])"

definition validateExactResourceID :: "field_path \<Rightarrow> input_exact_resource \<Rightarrow> go_error list" where
  "validateExactResourceID p obj =
     validateInputResourceTypeIdentifier p obj @
     (if length (ie_Name obj) = 0 then [field_Required (path_Child p ''name'') ''must be present''] else [])"

definition validateLabelSelectedResources :: "field_path \<Rightarrow> label_selected_resource \<Rightarrow> go_error list" where
  "validateLabelSelectedResources p obj =
     validateInputResourceTypeIdentifier p obj @
     (if length (ls_MatchExpressions (lr_LabelSelector obj)) > 0
      then [field_Forbidden (path_Child p ''matchExpressions'') ''not supported''] else [])"

text \<open>\<open>newEvaluable\<close> is \<open>builder.NewEvaluable\<close>: the error of compiling a JSON path, if any.\<close>

definition validateImplicitNamespaceReference ::
    "(string \<Rightarrow> go_error option) \<Rightarrow> field_path \<Rightarrow> implicit_namespaced_reference option \<Rightarrow>
      go_error list outcome" where
  "validateImplicitNamespaceReference newEvaluable p ref =
     bind_outcome (deref ref) (\<lambda>obj. Value (
       validateInputResourceTypeIdentifier p obj @
       (if length (mr_Namespace obj) = 0
        then [field_Required (path_Child p ''namespace'') ''must be present''] else []) @
       (case newEvaluable (mr_NameJSONPath obj) of
          None \<Rightarrow> []
        | Some err \<Rightarrow> [field_Invalid (path_Child p ''nameJSONPath'') (mr_NameJSONPath obj) (err_text err)])))"

definition validateResourceReference ::
    "(string \<Rightarrow> go_error option) \<Rightarrow> field_path \<Rightarrow> resource_reference \<Rightarrow> go_error list outcome" where
  "validateResourceReference newEvaluable p obj =
     (let errs = validateExactResourceID (path_Child p ''referringResource'') (rr_ReferringResource obj) in
      if rr_Type obj = ImplicitNamespacedReferenceType then
        bind_outcome (validateImplicitNamespaceReference newEvaluable
            (path_Child p ''implicitNamespacedReference'') (rr_ImplicitNamespacedReference obj))
          (\<lambda>errs'. Value (errs @ errs'))
      else Value (errs @ [field_NotSupported (path_Child p ''type'') (reference_type_string (rr_Type obj))
        [reference_type_string ImplicitNamespacedReferenceType]]))"

text \<open>\<open>for i, curr := range xs\<close> with a body that appends errors and may panic.\<close>

fun validate_each :: "(nat \<Rightarrow> 'a \<Rightarrow> go_error list outcome) \<Rightarrow> nat \<Rightarrow> 'a list \<Rightarrow> go_error list outcome" where
  "validate_each f i [] = Value []"
| "validate_each f i (x # xs) =
     bind_outcome (f i x) (\<lambda>errs. bind_outcome (validate_each f (i + 1) xs) (\<lambda>errs'. Value (errs @ errs')))"

definition validateResourceList ::
    "(string \<Rightarrow> go_error option) \<Rightarrow> field_path \<Rightarrow> input_resource_list \<Rightarrow> go_error list outcome" where
  "validateResourceList newEvaluable p obj =
     bind_outcome (validate_each (\<lambda>i x. Value (validateExactResourceID
         (path_Index (path_Child p ''exactResources'') i) x)) 0 (il_ExactResources obj)) (\<lambda>errs1.
     bind_outcome (validate_each (\<lambda>i x. Value (validateLabelSelectedResources
         (path_Index (path_Child p ''labelSelectedResources'') i) x)) 0 (il_LabelSelectedResources obj)) (\<lambda>errs2.
     bind_outcome (validate_each (\<lambda>i x. validateResourceReference newEvaluable
         (path_Index (path_Child p ''resourceReferences'') i) x) 0 (il_ResourceReferences obj)) (\<lambda>errs3.
       Value (errs1 @ errs2 @ errs3))))"

definition validateOperandResourceList ::
    "(string \<Rightarrow> go_error option) \<Rightarrow> field_path \<Rightarrow> operand_resource_list \<Rightarrow> go_error list outcome" where
  "validateOperandResourceList newEvaluable p obj =
     bind_outcome (validateResourceList newEvaluable (path_Child p ''configurationResources'')
       (opl_ConfigurationResources obj)) (\<lambda>errs1.
     bind_outcome (validateResourceList newEvaluable (path_Child p ''managementResources'')
       (opl_ManagementResources obj)) (\<lambda>errs2.
     bind_outcome (validateResourceList newEvaluable (path_Child p ''userWorkloadResources'')
       (opl_UserWorkloadResources obj)) (\<lambda>errs3.
       Value (errs1 @ errs2 @ errs3))))"

definition validateInputResources ::
    "(string \<Rightarrow> go_error option) \<Rightarrow> input_resources option \<Rightarrow> go_error list outcome" where
  "validateInputResources newEvaluable ptr =
     bind_outcome (deref ptr) (\<lambda>obj.
     bind_outcome (validateResourceList newEvaluable ''applyConfigurationResources''
       (ir_ApplyConfigurationResources obj)) (\<lambda>errs1.
     bind_outcome (validateOperandResourceList newEvaluable ''operandResources''
       (ir_OperandResources obj)) (\<lambda>errs2.
       Value (errs1 @ errs2))))"

section \<open>The input-resources command\<close>

definition convert_exact :: "output_exact_resource \<Rightarrow> input_exact_resource" where
  "convert_exact cur = \<lparr>it_Group = ot_Group cur, it_Version = ot_Version cur, it_Resource = ot_Resource cur,
     ie_Namespace = oe_Namespace cur, ie_Name = oe_Name cur\<rparr>"

definition convert_generated :: "output_generated_resource \<Rightarrow> input_generated_resource" where
  "convert_generated cur = \<lparr>it_Group = ot_Group cur, it_Version = ot_Version cur, it_Resource = ot_Resource cur,
     ig_Namespace = og_Namespace cur, ig_GeneratedName = og_GeneratedName cur\<rparr>"

fun convert_lists :: "output_resource_list list \<Rightarrow> input_resource_list \<Rightarrow> input_resource_list" where
  "convert_lists [] acc = acc"
| "convert_lists (l # ls) acc = convert_lists ls
     (acc\<lparr>il_ExactResources := il_ExactResources acc @ map convert_exact (ol_ExactResources l),
          il_GeneratedNameResources :=
            il_GeneratedNameResources acc @ map convert_generated (ol_GeneratedNameResources l)\<rparr>)"

definition convertOutputToInput :: "output_resources option \<Rightarrow> input_resources outcome" where
  "convertOutputToInput outputResources =
     bind_outcome (deref outputResources) (\<lambda>o'.
       Value (empty_input_resources\<lparr>ir_ApplyConfigurationResources :=
         convert_lists [or_ConfigurationResources o'] empty_input_list\<rparr>))"

text \<open>The arguments of the run; the result is the error and what was written to the output stream.\<close>

record input_env =
  ine_inputResourcesFn :: "input_resources option \<times> go_error option"
  ine_outputResourcesFn :: "output_resources option \<times> go_error option"
  ine_NewEvaluable :: "string \<Rightarrow> go_error option"
  ine_Marshal :: "input_resources \<Rightarrow> go_error + string"
  ine_Fprint :: "string \<Rightarrow> go_error option"

definition add_converted :: "input_resources \<Rightarrow> input_resources \<Rightarrow> input_resources" where
  "add_converted inputResources converted =
     inputResources\<lparr>ir_ApplyConfigurationResources := (ir_ApplyConfigurationResources inputResources)
       \<lparr>il_ExactResources := il_ExactResources (ir_ApplyConfigurationResources inputResources)
          @ il_ExactResources (ir_ApplyConfigurationResources converted),
        il_GeneratedNameResources := il_GeneratedNameResources (ir_ApplyConfigurationResources inputResources)
          @ il_GeneratedNameResources (ir_ApplyConfigurationResources converted)\<rparr>\<rparr>"

definition inputResources_Run :: "input_env \<Rightarrow> (go_error option \<times> string) outcome" where
  "inputResources_Run env =
     (let (inputResources, err1) = ine_inputResourcesFn env;
          (outputResources, err2) = ine_outputResourcesFn env;
          wrap = (\<lambda>pre err. case err of None \<Rightarrow> [] | Some e \<Rightarrow> [Wrapf pre e []]) in
      bind_outcome (convertOutputToInput outputResources) (\<lambda>convertedResources.
      bind_outcome (deref inputResources) (\<lambda>inputResources0.
        let inputResources' = add_converted inputResources0 convertedResources in
        bind_outcome (validateInputResources (ine_NewEvaluable env) (Some inputResources')) (\<lambda>verrs.
          let (inputResourcesYAML, merr) =
                (case ine_Marshal env inputResources' of Inl e \<Rightarrow> ([], Some e) | Inr y \<Rightarrow> (y, None));
              perr = ine_Fprint env inputResourcesYAML in
          Value (errors_join (
              wrap ''failed generating input resources: '' err1
            @ wrap ''failed generating input resources: '' err2
            @ verrs
            @ wrap ''failed marshalling input resources: '' merr
            @ wrap ''failed outputing input resources: '' perr),
            inputResourcesYAML)))))"

section \<open>What validation accepts\<close>

definition valid_type :: "'a input_type_identifier_scheme \<Rightarrow> bool" where
  "valid_type i \<longleftrightarrow> it_Version i \<noteq> [] \<and> it_Resource i \<noteq> []"

definition valid_exact :: "input_exact_resource \<Rightarrow> bool" where
  "valid_exact e \<longleftrightarrow> valid_type e \<and> ie_Name e \<noteq> []"

definition valid_label_selected :: "label_selected_resource \<Rightarrow> bool" where
  "valid_label_selected l \<longleftrightarrow> valid_type l \<and> ls_MatchExpressions (lr_LabelSelector l) = []"

text \<open>A reference the validator dereferences although it is nil.\<close>

definition dangling :: "resource_reference \<Rightarrow> bool" where
  "dangling r \<longleftrightarrow> rr_Type r = ImplicitNamespacedReferenceType \<and> rr_ImplicitNamespacedReference r = None"

definition valid_reference :: "(string \<Rightarrow> go_error option) \<Rightarrow> resource_reference \<Rightarrow> bool" where
  "valid_reference newEvaluable r \<longleftrightarrow> valid_exact (rr_ReferringResource r) \<and>
     rr_Type r = ImplicitNamespacedReferenceType \<and>
     (case rr_ImplicitNamespacedReference r of
        None \<Rightarrow> False
      | Some m \<Rightarrow> valid_type m \<and> mr_Namespace m \<noteq> [] \<and> newEvaluable (mr_NameJSONPath m) = None)"

definition valid_list :: "(string \<Rightarrow> go_error option) \<Rightarrow> input_resource_list \<Rightarrow> bool" where
  "valid_list newEvaluable l \<longleftrightarrow> list_all valid_exact (il_ExactResources l) \<and>
     list_all valid_label_selected (il_LabelSelectedResources l) \<and>
     list_all (valid_reference newEvaluable) (il_ResourceReferences l)"

definition input_lists :: "input_resources \<Rightarrow> input_resource_list list" where
  "input_lists obj = [ir_ApplyConfigurationResources obj,
     opl_ConfigurationResources (ir_OperandResources obj), opl_ManagementResources (ir_OperandResources obj),
     opl_UserWorkloadResources (ir_OperandResources obj)]"

lemma validate_type_Nil_iff [simp]: "validateInputResourceTypeIdentifier p i = [] \<longleftrightarrow> valid_type i"
  by (simp add: validateInputResourceTypeIdentifier_def valid_type_def)

lemma validate_exact_Nil_iff [simp]: "validateExactResourceID p e = [] \<longleftrightarrow> valid_exact e"
  by (simp add: validateExactResourceID_def valid_exact_def)

lemma validate_label_Nil_iff [simp]: "validateLabelSelectedResources p l = [] \<longleftrightarrow> valid_label_selected l"
  by (simp add: validateLabelSelectedResources_def valid_label_selected_def)

lemma validate_reference_spec:
  "if dangling r then validateResourceReference nev p r = Panicked NilDereference
   else \<exists>errs. validateResourceReference nev p r = Value errs \<and> (errs = [] \<longleftrightarrow> valid_reference nev r)"
  by (auto simp: dangling_def validateResourceReference_def validateImplicitNamespaceReference_def
      valid_reference_def Let_def split: option.splits)

text \<open>The outcome of a validator: a panic where \<open>d\<close> holds, else errors that are empty where \<open>v\<close> does.\<close>

definition validates :: "go_error list outcome \<Rightarrow> bool \<Rightarrow> bool \<Rightarrow> bool" where
  "validates m d v \<longleftrightarrow> (if d then m = Panicked NilDereference else \<exists>errs. m = Value errs \<and> (errs = [] \<longleftrightarrow> v))"

lemma validates_Value [simp]: "validates (Value errs) False v \<longleftrightarrow> (errs = [] \<longleftrightarrow> v)"
  by (simp add: validates_def)

lemma validates_append:
  "validates m d v \<Longrightarrow> validates m' d' v' \<Longrightarrow>
     validates (bind_outcome m (\<lambda>errs. bind_outcome m' (\<lambda>errs'. Value (errs @ errs')))) (d \<or> d') (v \<and> v')"
  by (auto simp: validates_def split: if_splits)

lemma validate_each_validates:
  "(\<And>i x. x \<in> set xs \<Longrightarrow> validates (f i x) (d x) (v x)) \<Longrightarrow>
     validates (validate_each f i xs) (\<exists>x \<in> set xs. d x) (list_all v xs)"
proof (induction xs arbitrary: i)
  case (Cons x xs)
  then show ?case
    using validates_append [of "f i x" "d x" "v x" "validate_each f (i + 1) xs"] by (simp del: list_all_iff)
qed simp

lemma bind_append3:
  "bind_outcome a (\<lambda>x. bind_outcome b (\<lambda>y. bind_outcome c (\<lambda>z. Value (x @ y @ z)))) =
   bind_outcome a (\<lambda>x. bind_outcome (bind_outcome b (\<lambda>y. bind_outcome c (\<lambda>z. Value (y @ z)))) (\<lambda>yz. Value (x @ yz)))"
  by (cases a; cases b; cases c) simp_all

lemma validates_append3:
  assumes "validates a d1 v1" and "validates b d2 v2" and "validates c d3 v3"
  shows "validates (bind_outcome a (\<lambda>x. bind_outcome b (\<lambda>y. bind_outcome c (\<lambda>z. Value (x @ y @ z)))))
    (d1 \<or> d2 \<or> d3) (v1 \<and> v2 \<and> v3)"
  unfolding bind_append3 by (intro validates_append assms)

lemma validate_list_validates:
  "validates (validateResourceList nev p l) (\<exists>r \<in> set (il_ResourceReferences l). dangling r) (valid_list nev l)"
proof -
  have "validates (validate_each (\<lambda>i x. Value (validateExactResourceID
      (path_Index (path_Child p ''exactResources'') i) x)) 0 (il_ExactResources l))
      False (list_all valid_exact (il_ExactResources l))"
    using validate_each_validates [where d = "\<lambda>x. False" and v = valid_exact] by simp
  moreover have "validates (validate_each (\<lambda>i x. Value (validateLabelSelectedResources
      (path_Index (path_Child p ''labelSelectedResources'') i) x)) 0 (il_LabelSelectedResources l))
      False (list_all valid_label_selected (il_LabelSelectedResources l))"
    using validate_each_validates [where d = "\<lambda>x. False" and v = valid_label_selected] by simp
  moreover have "validates (validate_each (\<lambda>i x. validateResourceReference nev
      (path_Index (path_Child p ''resourceReferences'') i) x) 0 (il_ResourceReferences l))
      (\<exists>r \<in> set (il_ResourceReferences l). dangling r) (list_all (valid_reference nev) (il_ResourceReferences l))"
    by (rule validate_each_validates) (use validate_reference_spec in \<open>simp add: validates_def\<close>)
  ultimately show ?thesis
    unfolding validateResourceList_def valid_list_def using validates_append3 by fastforce
qed

lemma validate_inputs_validates:
  "validates (validateInputResources nev (Some obj))
     (\<exists>l \<in> set (input_lists obj). \<exists>r \<in> set (il_ResourceReferences l). dangling r)
     (list_all (valid_list nev) (input_lists obj))"
proof -
  have "validates (validateOperandResourceList nev p ops)
      ((\<exists>r \<in> set (il_ResourceReferences (opl_ConfigurationResources ops)). dangling r) \<or>
       (\<exists>r \<in> set (il_ResourceReferences (opl_ManagementResources ops)). dangling r) \<or>
       (\<exists>r \<in> set (il_ResourceReferences (opl_UserWorkloadResources ops)). dangling r))
      (valid_list nev (opl_ConfigurationResources ops) \<and> valid_list nev (opl_ManagementResources ops) \<and>
       valid_list nev (opl_UserWorkloadResources ops))" for p ops
    unfolding validateOperandResourceList_def by (intro validates_append3 validate_list_validates)
  from validates_append [OF validate_list_validates this]
  show ?thesis
    by (simp add: validateInputResources_def input_lists_def)
qed

lemma convertOutputToInput_Some:
  "convertOutputToInput (Some allowed) = Value (empty_input_resources\<lparr>ir_ApplyConfigurationResources :=
     empty_input_list\<lparr>il_ExactResources := map convert_exact (ol_ExactResources (or_ConfigurationResources allowed)),
       il_GeneratedNameResources :=
         map convert_generated (ol_GeneratedNameResources (or_ConfigurationResources allowed))\<rparr>\<rparr>)"
  by (simp add: convertOutputToInput_def empty_input_list_def)

text \<open>The inputs a run validates and prints.\<close>

definition run_inputs :: "input_resources \<Rightarrow> output_resources \<Rightarrow> input_resources" where
  "run_inputs inputs outputs =
     inputs\<lparr>ir_ApplyConfigurationResources := (ir_ApplyConfigurationResources inputs)
       \<lparr>il_ExactResources := il_ExactResources (ir_ApplyConfigurationResources inputs)
          @ map convert_exact (ol_ExactResources (or_ConfigurationResources outputs)),
        il_GeneratedNameResources := il_GeneratedNameResources (ir_ApplyConfigurationResources inputs)
          @ map convert_generated (ol_GeneratedNameResources (or_ConfigurationResources outputs))\<rparr>\<rparr>"

text \<open>A run of two functions that return their resources.\<close>

lemma inputResources_Run_eq:
  assumes "ine_inputResourcesFn env = (Some inputs, err1)" and "ine_outputResourcesFn env = (Some outputs, err2)"
    and "\<forall>l \<in> set (input_lists inputs). \<forall>r \<in> set (il_ResourceReferences l). \<not> dangling r"
  shows "\<exists>e out. inputResources_Run env = Value (e, out) \<and>
    out = (case ine_Marshal env (run_inputs inputs outputs) of Inl me \<Rightarrow> [] | Inr yaml \<Rightarrow> yaml) \<and>
    (e = None \<longleftrightarrow> err1 = None \<and> err2 = None \<and>
      (\<forall>l \<in> set (input_lists (run_inputs inputs outputs)). valid_list (ine_NewEvaluable env) l) \<and>
      (\<exists>yaml. ine_Marshal env (run_inputs inputs outputs) = Inr yaml) \<and> ine_Fprint env out = None)"
proof -
  have add: "add_converted inputs (empty_input_resources\<lparr>ir_ApplyConfigurationResources :=
     empty_input_list\<lparr>il_ExactResources := map convert_exact (ol_ExactResources (or_ConfigurationResources outputs)),
       il_GeneratedNameResources :=
         map convert_generated (ol_GeneratedNameResources (or_ConfigurationResources outputs))\<rparr>\<rparr>) =
    run_inputs inputs outputs"
    by (simp add: add_converted_def run_inputs_def)
  have "\<not> (\<exists>l \<in> set (input_lists (run_inputs inputs outputs)). \<exists>r \<in> set (il_ResourceReferences l). dangling r)"
    using assms(3) by (auto simp: input_lists_def run_inputs_def)
  then obtain verrs where "validateInputResources (ine_NewEvaluable env) (Some (run_inputs inputs outputs)) = Value verrs"
    "verrs = [] \<longleftrightarrow> (\<forall>l \<in> set (input_lists (run_inputs inputs outputs)). valid_list (ine_NewEvaluable env) l)"
    using validate_inputs_validates [of "ine_NewEvaluable env" "run_inputs inputs outputs"]
    by (auto simp: validates_def list_all_iff)
  then show ?thesis
    by (auto simp: inputResources_Run_def assms(1,2) convertOutputToInput_Some add Let_def
        split: sum.splits option.splits)
qed

section \<open>Properties\<close>

text \<open>C27: validation returns no error exactly when every list of the inputs is well formed, and it
  panics exactly when some implicit namespaced reference is nil.\<close>

theorem validateInputResources_iff:
  "(validateInputResources newEvaluable (Some obj) = Value [] \<longleftrightarrow>
      (\<forall>l \<in> set (input_lists obj). valid_list newEvaluable l)) \<and>
   (validateInputResources newEvaluable (Some obj) = Panicked NilDereference \<longleftrightarrow>
      (\<exists>l \<in> set (input_lists obj). \<exists>r \<in> set (il_ResourceReferences l). dangling r))"
proof -
  have "\<not> dangling r" if "valid_list nev l" "r \<in> set (il_ResourceReferences l)" for nev l r
    using that by (auto simp: valid_list_def list_all_iff valid_reference_def dangling_def split: option.splits)
  then show ?thesis
    using validate_inputs_validates [of newEvaluable obj]
    by (auto simp: validates_def list_all_iff split: if_splits)
qed

theorem validateInputResources_iff_witness:
  "validateInputResources (\<lambda>p. None) (Some (empty_input_resources\<lparr>ir_ApplyConfigurationResources :=
      empty_input_list\<lparr>il_ExactResources := [in_ExactSecret ''ns'' ''s'']\<rparr>\<rparr>)) = Value []"
  by (subst validateInputResources_iff [THEN conjunct1])
    (simp add: input_lists_def empty_input_resources_def empty_input_list_def valid_list_def valid_exact_def
      valid_type_def in_ExactSecret_def in_ExactResource_def)


definition demo_input_env :: "input_resources option \<Rightarrow> output_resources option \<Rightarrow> input_env" where
  "demo_input_env inputs outputs =
     \<lparr>ine_inputResourcesFn = (inputs, None), ine_outputResourcesFn = (outputs, None),
      ine_NewEvaluable = (\<lambda>p. None), ine_Marshal = (\<lambda>i. Inr ''yaml''), ine_Fprint = (\<lambda>s. None)\<rparr>"

definition demo_outputs :: output_resources where
  "demo_outputs = \<lparr>or_ConfigurationResources =
       empty_output_list\<lparr>ol_ExactResources := [out_ExactConfigMap ''ns'' ''cm'']\<rparr>,
     or_ManagementResources = empty_output_list, or_UserWorkloadResources = empty_output_list\<rparr>"


text \<open>An input-resources run panics, and the error of the failed function is lost, when the
  operator's inputs or outputs are nil.\<close>

theorem inputResources_Run_panics_on_nil:
  assumes "fst (ine_inputResourcesFn env) = None \<or> fst (ine_outputResourcesFn env) = None"
  shows "inputResources_Run env = Panicked NilDereference"
  using assms
  by (cases "fst (ine_outputResourcesFn env)")
    (auto simp: inputResources_Run_def case_prod_beta Let_def convertOutputToInput_def)

theorem inputResources_Run_panics_on_nil_witness:
  "inputResources_Run ((demo_input_env None (Some demo_outputs))
     \<lparr>ine_inputResourcesFn := (None, Some (errorf ''no inputs''))\<rparr>) = Panicked NilDereference"
  by (rule inputResources_Run_panics_on_nil) (simp add: demo_input_env_def)

end
