(* ===== verification/Process_Exec.thy ===== *)
theory Process_Exec
  imports Equivalence Input_Resources
begin

text \<open>
  \<open>pkg/applyconfiguration/execer.go\<close>: running an operator's apply-configuration as a process, and the
  result read from its output directory. The process and the file system are arguments. A time is the
  text \<open>--now\<close> gets, and no text is the zero time.
\<close>

section \<open>Running the process\<close>

record flag_values =
  fv_InputDirectory :: string
  fv_OutputDirectory :: string
  fv_Now :: "string option"
  fv_Controllers :: "string list"

definition exec_args :: "flag_values \<Rightarrow> string list" where
  "exec_args flagValues =
     [''apply-configuration'',
      ''--input-dir'', fv_InputDirectory flagValues,
      ''--output-dir'', fv_OutputDirectory flagValues] @
     (case fv_Now flagValues of None \<Rightarrow> [] | Some now \<Rightarrow> [''--now'', now]) @
     (if length (fv_Controllers flagValues) > 0
      then [''--controllers'', strings_join (fv_Controllers flagValues) '','']
      else [])"

record exec_env =
  ex_OpenFile :: "string \<Rightarrow> go_error option"
  ex_Start :: "string \<Rightarrow> string list \<Rightarrow> go_error option"
  ex_Wait :: "string \<Rightarrow> string list \<Rightarrow> go_error option"
  ex_CmdString :: "string \<Rightarrow> string list \<Rightarrow> string"
  ex_ExitStderr :: "go_error \<Rightarrow> string"
  ex_DirFS :: "string \<Rightarrow> dir_env"

definition ExecApplyConfiguration ::
    "exec_env \<Rightarrow> string \<Rightarrow> flag_values \<Rightarrow> apply_configuration_result option \<times> go_error option" where
  "ExecApplyConfiguration env binaryPath flagValues =
     (let out = fv_OutputDirectory flagValues; args = exec_args flagValues;
          result = NewApplyConfigurationResultFromDirectory (ex_DirFS env out) out in
      case ex_OpenFile env (path_join [out, ''stdout.log'']) of
        Some err \<Rightarrow> (None, Some (Wrapf ''unable to open stdout.log: '' err []))
      | None \<Rightarrow>
     (case ex_OpenFile env (path_join [out, ''stderr.log'']) of
        Some err \<Rightarrow> (None, Some (Wrapf ''unable to open stderr.log: '' err []))
      | None \<Rightarrow>
     (case ex_Start env binaryPath args of
        Some err \<Rightarrow> (None, Some (Wrapf ''failed to start process: '' err []))
      | None \<Rightarrow>
     (case ex_Wait env binaryPath args of
        Some err \<Rightarrow>
          (if err_as_exit err \<noteq> None
           then result (Some (Wrapf (''failed to wait for process '' @ ex_CmdString env binaryPath args @ '': '') err
             ('' stderr: '' @ ex_ExitStderr env err)))
           else result (Some (Wrapf ''failed to wait for process: '' err [])))
      | None \<Rightarrow> result None))))"

section \<open>The exit code\<close>

text \<open>A process that exits with a code and leaves a clean output directory yields a result, and
  the error returned carries that exit code.\<close>

theorem Exec_keeps_exit_code:
  assumes "\<forall>p. ex_OpenFile env p = None" and "ex_Start env bin (exec_args fv) = None"
    and "ex_Wait env bin (exec_args fv) = Some (Leaf (ExitError code) msg)"
    and "range_order (ord_cluster_types (ex_DirFS env (fv_OutputDirectory fv)))"
    and "snd (fs_ReadDir (ex_DirFS env (fv_OutputDirectory fv))) = None"
    and "clean_output (ex_DirFS env (fv_OutputDirectory fv))"
  shows "\<exists>r e. ExecApplyConfiguration env bin fv = (Some r, Some e) \<and> err_as_exit e = Some code \<and>
    res_err r = None \<and> res_applyConfiguration r \<noteq> None"
proof -
  let ?fs = "ex_DirFS env (fv_OutputDirectory fv)"
  obtain ac where ac: "newApplyConfigurationFromDirectory ?fs (fv_OutputDirectory fv) = (Some ac, None)"
    using newApplyConfigurationFromDirectory_cases [OF assms(4), of "fv_OutputDirectory fv"] assms(6)
    by (auto simp: clean_output_def)
  have "\<exists>r. NewApplyConfigurationResultFromDirectory ?fs (fv_OutputDirectory fv) (Some e) = (Some r, Some e) \<and>
      res_err r = None \<and> res_applyConfiguration r \<noteq> None" for e
    using NewResult_read [OF assms(4,5), of "fv_OutputDirectory fv" "Some e"] assms(6) ac by auto
  moreover define e where "e = Wrapf (''failed to wait for process '' @ ex_CmdString env bin (exec_args fv) @ '': '')
    (Leaf (ExitError code) msg) ('' stderr: '' @ ex_ExitStderr env (Leaf (ExitError code) msg))"
  ultimately obtain r where "NewApplyConfigurationResultFromDirectory ?fs (fv_OutputDirectory fv) (Some e) =
      (Some r, Some e)" "res_err r = None" "res_applyConfiguration r \<noteq> None"
    by blast
  moreover have "ExecApplyConfiguration env bin fv =
      NewApplyConfigurationResultFromDirectory ?fs (fv_OutputDirectory fv) (Some e)"
    by (simp add: ExecApplyConfiguration_def assms(1-3) err_as_exit_def Let_def e_def)
  moreover have "err_as_exit e = Some code" by (simp add: e_def err_as_exit_def)
  ultimately show ?thesis by auto
qed

definition demo_exec :: exec_env where
  "demo_exec = \<lparr>ex_OpenFile = (\<lambda>p. None), ex_Start = (\<lambda>b a. None),
     ex_Wait = (\<lambda>b a. Some (Leaf (ExitError 1) ''exit status 1'')), ex_CmdString = (\<lambda>b a. b),
     ex_ExitStderr = (\<lambda>e. []), ex_DirFS = (\<lambda>d. demo_dir [] [])\<rparr>"

theorem Exec_keeps_exit_code_witness:
  "\<exists>r e. ExecApplyConfiguration demo_exec ''bin''
      \<lparr>fv_InputDirectory = ''in'', fv_OutputDirectory = ''out'', fv_Now = None, fv_Controllers = []\<rparr> = (Some r, Some e) \<and>
    err_as_exit e = Some 1 \<and> res_err r = None \<and> res_applyConfiguration r \<noteq> None"
  by (rule Exec_keeps_exit_code) (simp_all add: demo_exec_def range_order_rev clean_output_def)

end
