(* ===== verification/Exec_Tester.thy ===== *)
theory Exec_Tester
  imports Process_Exec
begin

text \<open>
  \<open>pkg/test/testapplyconfiguration\<close>: running one test of an operator's apply-configuration against an
  expected output directory, and a run of tests with its report. The file system and the decoders are
  arguments; the wall clock enters as the measured duration.
\<close>

section \<open>Tests\<close>

datatype test_type = TestType (test_type_string: string)
datatype desired_error = ErrorType (error_type_string: string)
datatype preserve_policy = PreservePolicy (preserve_policy_string: string)

definition TestTypeApplyConfiguration :: test_type where
  "TestTypeApplyConfiguration = TestType ''ApplyConfiguration''"
definition AllTestTypes :: "test_type list" where
  "AllTestTypes = [TestTypeApplyConfiguration]"
definition NoError :: desired_error where "NoError = ErrorType []"
definition NonZeroReturn :: desired_error where "NonZeroReturn = ErrorType ''NonZeroReturn''"
definition PreservePolicyReplaceExpectedOutput :: preserve_policy where
  "PreservePolicyReplaceExpectedOutput = PreservePolicy ''ReplaceExpectedOutput''"

record test_description =
  td_BinaryName :: string
  td_TestName :: string
  td_Description :: string
  td_TestType :: test_type
  td_DesiredError :: desired_error
  td_Now :: "string option"
  td_Controllers :: "string list"

record test_options =
  to_Description :: test_description
  to_TestDirectory :: string
  to_OutputDirectory :: string

record failure_output =
  fo_Message :: string
  fo_Output :: string

record junit_case =
  jc_Name :: string
  jc_FailureOutput :: "failure_output option"
  jc_SystemOut :: string
  jc_SystemErr :: string
  jc_Duration :: int

definition failed :: "string \<Rightarrow> string \<Rightarrow> junit_case \<Rightarrow> junit_case" where
  "failed msg out c = c\<lparr>jc_FailureOutput := Some \<lparr>fo_Message = msg, fo_Output = out\<rparr>\<rparr>"

definition lf :: string where "lf = newline"

definition fmt_quoted_strings :: "string list \<Rightarrow> string" where
  "fmt_quoted_strings ss = ''['' @ strings_join (map go_quote ss) '' '' @ '']''"

record test_env =
  te_RemoveAll :: "string \<Rightarrow> go_error option"
  te_MkdirAll :: "string \<Rightarrow> go_error option"
  te_Exec :: "string \<Rightarrow> flag_values \<Rightarrow> apply_configuration_result option \<times> go_error option"
  te_DirFS :: "string \<Rightarrow> dir_env"
  te_diff :: diff_env
  te_ord :: "cluster_type \<Rightarrow> bool \<Rightarrow> action visit_order"
  te_seconds :: int

text \<open>The end of a test: the expected output is read and compared.\<close>

definition compare_with_expected ::
    "test_env \<Rightarrow> test_options \<Rightarrow> apply_configuration_result \<Rightarrow> junit_case \<Rightarrow> junit_case outcome" where
  "compare_with_expected env o' actualResult currJunit =
     (let expectedOutputDir = path_join [to_TestDirectory o', ''expected-output''] in
      case NewApplyConfigurationResultFromDirectory (te_DirFS env expectedOutputDir) expectedOutputDir None of
        (expectedResult, Some execErr) \<Rightarrow>
          (let msg = ''failed to read expected output:'' @ lf @ err_text execErr @ lf in
           Value (failed msg msg currJunit))
      | (expectedResult, None) \<Rightarrow>
          bind_outcome (deref expectedResult) (\<lambda>expected.
          bind_outcome (EquivalentApplyConfigurationResultIgnoringEvents (te_diff env) (te_ord env)
            expected actualResult) (\<lambda>differences.
            Value (if length differences > 0
              then failed (''expected results mismatch '' @ show_nat (length differences)
                  @ '' times with actual results'') (strings_join differences lf) currJunit
              else currJunit))))"

text \<open>The \<open>switch\<close> on the outcome of the process.\<close>

definition judge_exec ::
    "test_env \<Rightarrow> test_options \<Rightarrow> apply_configuration_result option \<times> go_error option \<Rightarrow> junit_case \<Rightarrow>
      junit_case outcome" where
  "judge_exec env o' exec currJunit =
     (let wants_error = (td_DesiredError (to_Description o') = NonZeroReturn);
          report = (\<lambda>execErr c. failed (err_text execErr @ lf @ jc_SystemErr c)
            (''ERROR:'' @ err_text execErr @ lf @ lf @ ''STDERR:'' @ lf @ jc_SystemErr c @ lf @ lf
              @ ''STDOUT:'' @ lf @ '':'' @ jc_SystemOut c @ lf) c) in
      case exec of
        (Some actualResult, None) \<Rightarrow>
          compare_with_expected env o' actualResult
            (if wants_error
             then failed ''test requires non-zero exit code from apply-configuration''
               ''test requires non-zero exit code from apply-configuration'' currJunit
             else currJunit)
      | (None, None) \<Rightarrow>
          Value (failed ''No result or error from apply-configuration''
            ''No result or error from apply-configuration'' currJunit)
      | (Some actualResult, Some execErr) \<Rightarrow>
          (let c = currJunit\<lparr>jc_SystemOut := result_Stdout actualResult, jc_SystemErr := result_Stderr actualResult\<rparr>;
               c' = (if \<not> wants_error then report execErr c else c) in
           if err_as_exit execErr = None then Value (report execErr c')
           else compare_with_expected env o' actualResult c')
      | (None, Some execErr) \<Rightarrow>
          (if \<not> wants_error then Value (report execErr currJunit)
           else (case err_as_exit execErr of
                   Some code \<Rightarrow> (if code \<noteq> 0 then Value currJunit else Value (report execErr currJunit))
                 | None \<Rightarrow> Value (report execErr currJunit))))"

definition runTest :: "test_env \<Rightarrow> preserve_policy \<Rightarrow> test_options \<Rightarrow> junit_case outcome" where
  "runTest env preservePolicy o' =
     (let d = to_Description o';
          junitTestName = td_TestName d @ '' [Binary:'' @ go_quote (td_BinaryName d) @ ''] [Controllers:''
            @ fmt_quoted_strings (td_Controllers d) @ ''] [Directory:'' @ go_quote (to_TestDirectory o') @ '']'';
          currJunit = \<lparr>jc_Name = junitTestName, jc_FailureOutput = None, jc_SystemOut = [], jc_SystemErr = [],
            jc_Duration = 0\<rparr>;
          replace = (preservePolicy = PreservePolicyReplaceExpectedOutput);
          removed = (if replace then te_RemoveAll env (to_OutputDirectory o') else None);
          unable = (\<lambda>what err. ''unable to '' @ what @ '' output directory '' @ go_quote (to_OutputDirectory o')
            @ '':'' @ lf @ err_text err @ lf) in
      case (case removed of Some err \<Rightarrow> if \<not> os_is_not_exist err then Some err else None | None \<Rightarrow> None) of
        Some err \<Rightarrow> Value (failed (unable ''delete'' err) (unable ''delete'' err) currJunit)
      | None \<Rightarrow>
     (case te_MkdirAll env (to_OutputDirectory o') of
        Some err \<Rightarrow> Value (failed (unable ''create'' err) (unable ''create'' err) currJunit)
      | None \<Rightarrow>
          (let args = \<lparr>fv_InputDirectory = path_join [to_TestDirectory o', ''input-dir''],
                       fv_OutputDirectory = to_OutputDirectory o', fv_Now = td_Now d,
                       fv_Controllers = td_Controllers d\<rparr>;
               exec = te_Exec env (td_BinaryName d) args;
               c = currJunit\<lparr>jc_Duration := te_seconds env\<rparr> in
           if replace then Value c else judge_exec env o' exec c)))"

section \<open>A run of tests\<close>

definition PreservePolicyNone :: preserve_policy where "PreservePolicyNone = PreservePolicy []"

text \<open>\<open>strings.ReplaceAll(s, "\n", by)\<close>.\<close>

definition replace_newlines :: "string \<Rightarrow> string \<Rightarrow> string" where
  "replace_newlines by s = concat (map (\<lambda>c. if [c] = newline then by else [c]) s)"

definition tab :: string where "tab = [CHR 0x09]"

definition failed_text :: "failure_output \<Rightarrow> string" where
  "failed_text f = tab @ replace_newlines (newline @ tab) (fo_Message f) @ newline @ tab @ tab
     @ replace_newlines (newline @ tab @ tab) (fo_Output f)"

text \<open>
  What a run does to the file system, in order: a test runs (and makes its output directory), and the
  directory of a passed test is removed. A later write depends on it.
\<close>

datatype suite_event = RanTest test_options | RemovedDir string

record suite_env =
  su_RemoveAll :: "string \<Rightarrow> go_error option"
  su_MkdirAll :: "string \<Rightarrow> go_error option"
  su_ctx_Err :: "nat \<Rightarrow> go_error option"
  su_runTest :: "test_options \<Rightarrow> junit_case outcome"
  su_Marshal :: "junit_case list \<Rightarrow> go_error + string"
  su_WriteFile :: "suite_event list \<Rightarrow> string \<Rightarrow> string \<Rightarrow> go_error option"

definition setup_case :: "string \<Rightarrow> go_error option \<Rightarrow> junit_case" where
  "setup_case name err =
     \<lparr>jc_Name = name,
      jc_FailureOutput = map_option (\<lambda>e. \<lparr>fo_Message = err_text e, fo_Output = err_text e\<rparr>) err,
      jc_SystemOut = [], jc_SystemErr = [], jc_Duration = 0\<rparr>"

text \<open>
  The loop over the tests: the cases, the failed tests by name in a map (a later failure of the same
  name replaces an earlier one), and the events. \<open>su_ctx_Err i\<close> is
  \<open>ctx.Err()\<close> before the i-th test. The error of a cleanup is only logged.
\<close>

fun run_tests ::
    "suite_env \<Rightarrow> preserve_policy \<Rightarrow> nat \<Rightarrow> test_options list \<Rightarrow> junit_case list \<Rightarrow> (string \<times> string) list \<Rightarrow>
      suite_event list \<Rightarrow> (junit_case list \<times> (string \<times> string) list \<times> suite_event list) outcome" where
  "run_tests env policy i [] cases fails evs = Value (cases, fails, evs)"
| "run_tests env policy i (t # ts) cases fails evs =
     (if su_ctx_Err env i \<noteq> None then Value (cases, fails, evs)
      else bind_outcome (su_runTest env t) (\<lambda>c.
        (case jc_FailureOutput c of
           Some f \<Rightarrow> run_tests env policy (i + 1) ts (cases @ [c]) (map_set (jc_Name c) (failed_text f) fails)
             (evs @ [RanTest t])
         | None \<Rightarrow> run_tests env policy (i + 1) ts (cases @ [c]) fails
             (evs @ RanTest t # (if length (preserve_policy_string policy) = 0
                then [RemovedDir (to_OutputDirectory t)] else [])))))"

text \<open>The errors of removing the old output directory and of creating the new one.\<close>

definition remove_error :: "suite_env \<Rightarrow> string \<Rightarrow> go_error option" where
  "remove_error env outputDirectory =
     (case su_RemoveAll env outputDirectory of
        Some e \<Rightarrow> (if \<not> os_is_not_exist e
          then Some (errorf (''unable to remove output directory '' @ go_quote outputDirectory @ '':'' @ err_text e))
          else None)
      | None \<Rightarrow> None)"

definition create_error :: "suite_env \<Rightarrow> string \<Rightarrow> go_error option" where
  "create_error env outputDirectory =
     (case su_MkdirAll env outputDirectory of
        Some e \<Rightarrow> (if \<not> os_is_exist e
          then Some (errorf (''unable to create output directory '' @ go_quote outputDirectory @ '':'' @ err_text e))
          else None)
      | None \<Rightarrow> None)"

definition first_cases :: "suite_env \<Rightarrow> string \<Rightarrow> junit_case list" where
  "first_cases env outputDirectory =
     [setup_case ''remove output directory'' (remove_error env outputDirectory),
      setup_case ''ensure output directory'' (create_error env outputDirectory)]"

text \<open>
  After the loop: the report is written, then failures and a cancellation are reported. The result is
  the error, the cases of the report, and what goes to the error stream. The deferred function of
  \<open>Run\<close> writes the report once more and only logs its error; it is left out.
\<close>

definition conclude_suite ::
    "suite_env \<Rightarrow> suite_event list \<Rightarrow> string \<Rightarrow> nat \<Rightarrow> junit_case list \<Rightarrow> (string \<times> string) list \<Rightarrow>
      go_error option \<times> junit_case list \<times> string" where
  "conclude_suite env evs junitFile n cases fails =
     (case su_Marshal env cases of
        Inl e \<Rightarrow> (Some e, cases, [])
      | Inr junitBytes \<Rightarrow>
          (case su_WriteFile env evs junitFile junitBytes of
             Some e \<Rightarrow> (Some e, cases, [])
           | None \<Rightarrow>
               (if length fails > 0 then
                  (Some (errorf (show_nat (length fails) @ '' tests failed'')), cases,
                   show_nat (length fails) @ '' tests failed:'' @ newline @
                   concat (map (\<lambda>testName. ''test: '' @ testName @ newline
                       @ (case map_of fails testName of None \<Rightarrow> [] | Some output \<Rightarrow> output) @ newline @ newline)
                     (sets_List (map fst fails))))
                else (case su_ctx_Err env n of
                        Some e \<Rightarrow> (Some e, cases, ''failing due to cancellation (possibly timeout): '' @ err_text e)
                      | None \<Rightarrow> (None, cases, [])))))"

definition suite_Run ::
    "suite_env \<Rightarrow> preserve_policy \<Rightarrow> string \<Rightarrow> test_options list \<Rightarrow>
      (go_error option \<times> junit_case list \<times> string) outcome" where
  "suite_Run env policy outputDirectory tests =
     (case create_error env outputDirectory of
        Some e \<Rightarrow> Value (Some e, first_cases env outputDirectory, [])
      | None \<Rightarrow>
          bind_outcome (run_tests env policy 0 tests (first_cases env outputDirectory) [] [])
            (\<lambda>(cases, fails, evs). Value (conclude_suite env evs
               (path_join [outputDirectory, ''junit.xml'']) (length tests) cases fails)))"

section \<open>Lemmas\<close>

lemma failed_simps [simp]:
  "jc_FailureOutput (failed msg out c) = Some \<lparr>fo_Message = msg, fo_Output = out\<rparr>"
  "jc_Name (failed msg out c) = jc_Name c"
  by (simp_all add: failed_def)

text \<open>The expected output matches: it reads without error and the comparison gives no reason.\<close>

definition matches_expected :: "test_env \<Rightarrow> test_options \<Rightarrow> apply_configuration_result \<Rightarrow> bool" where
  "matches_expected env o' actual \<longleftrightarrow>
     (let d = path_join [to_TestDirectory o', ''expected-output''] in
      \<exists>expected. NewApplyConfigurationResultFromDirectory (te_DirFS env d) d None = (Some expected, None) \<and>
        EquivalentApplyConfigurationResultIgnoringEvents (te_diff env) (te_ord env) expected actual = Value [])"

lemma compare_with_expected_pass:
  assumes "compare_with_expected env o' actual c = Value c'"
  shows "jc_FailureOutput c' = None \<longleftrightarrow> jc_FailureOutput c = None \<and> matches_expected env o' actual"
  using assms
  by (auto simp: compare_with_expected_def matches_expected_def Let_def outcome_simps deref_def
      split: prod.splits option.splits if_splits)

definition wants_error :: "test_options \<Rightarrow> bool" where
  "wants_error o' \<longleftrightarrow> td_DesiredError (to_Description o') = NonZeroReturn"

definition passes :: "test_env \<Rightarrow> test_options \<Rightarrow> apply_configuration_result option \<times> go_error option \<Rightarrow> bool" where
  "passes env o' exec \<longleftrightarrow>
     (case exec of
        (Some actual, None) \<Rightarrow> \<not> wants_error o' \<and> matches_expected env o' actual
      | (Some actual, Some err) \<Rightarrow> wants_error o' \<and> err_as_exit err \<noteq> None \<and> matches_expected env o' actual
      | (None, Some err) \<Rightarrow> wants_error o' \<and> (\<exists>code. err_as_exit err = Some code \<and> code \<noteq> 0)
      | (None, None) \<Rightarrow> False)"

lemma judge_exec_pass:
  assumes "judge_exec env o' exec c = Value c'" and "jc_FailureOutput c = None"
  shows "jc_FailureOutput c' = None \<longleftrightarrow> passes env o' exec"
  using assms
  by (cases exec)
    (auto simp: judge_exec_def passes_def wants_error_def Let_def dest!: compare_with_expected_pass
      split: option.splits if_splits)


definition test_args :: "test_options \<Rightarrow> flag_values" where
  "test_args o' = \<lparr>fv_InputDirectory = path_join [to_TestDirectory o', ''input-dir''],
     fv_OutputDirectory = to_OutputDirectory o', fv_Now = td_Now (to_Description o'),
     fv_Controllers = td_Controllers (to_Description o')\<rparr>"

definition test_exec :: "test_env \<Rightarrow> test_options \<Rightarrow> apply_configuration_result option \<times> go_error option" where
  "test_exec env o' = te_Exec env (td_BinaryName (to_Description o')) (test_args o')"

lemma runTest_judges:
  assumes "policy \<noteq> PreservePolicyReplaceExpectedOutput" and "te_MkdirAll env (to_OutputDirectory o') = None"
  shows "\<exists>c. jc_FailureOutput c = None \<and> runTest env policy o' = judge_exec env o' (test_exec env o') c"
  using assms
  by (simp add: runTest_def test_exec_def test_args_def Let_def) (rule exI, rule conjI [rotated], rule refl, simp)

lemma map_set_not_Nil [simp]: "map_set k v m \<noteq> []"
  by (cases "(k, v, m)" rule: map_set.cases) auto

text \<open>The events of tests with the results \<open>r\<close>.\<close>

definition suite_events :: "preserve_policy \<Rightarrow> (test_options \<Rightarrow> junit_case) \<Rightarrow> test_options list \<Rightarrow> suite_event list" where
  "suite_events policy r ts = concat (map (\<lambda>t. RanTest t #
     (if jc_FailureOutput (r t) = None \<and> preserve_policy_string policy = [] then [RemovedDir (to_OutputDirectory t)] else [])) ts)"

lemma run_tests_spec:
  assumes "\<forall>t. su_runTest env t = Value (r t)"
  shows "\<exists>k fails'. k \<le> length ts \<and> (\<forall>j < k. su_ctx_Err env (i + j) = None) \<and>
    (k < length ts \<longrightarrow> su_ctx_Err env (i + k) \<noteq> None) \<and>
    run_tests env policy i ts cases fails evs =
      Value (cases @ map r (take k ts), fails', evs @ suite_events policy r (take k ts)) \<and>
    (fails' = [] \<longleftrightarrow> fails = [] \<and> (\<forall>t \<in> set (take k ts). jc_FailureOutput (r t) = None))"
proof (induction ts arbitrary: i cases fails evs)
  case (Cons t ts)
  show ?case
  proof (cases "su_ctx_Err env i = None")
    case False
    then show ?thesis by (intro exI [of _ 0] exI [of _ fails]) (simp add: suite_events_def)
  next
    case True
    define fails1 where "fails1 = (case jc_FailureOutput (r t) of
      Some f \<Rightarrow> map_set (jc_Name (r t)) (failed_text f) fails | None \<Rightarrow> fails)"
    have step: "run_tests env policy i (t # ts) cases fails evs =
        run_tests env policy (i + 1) ts (cases @ [r t]) fails1 (evs @ suite_events policy r [t])"
      using True assms by (simp add: fails1_def suite_events_def split: option.split)
    obtain k fails' where k: "k \<le> length ts" "\<forall>j < k. su_ctx_Err env (i + 1 + j) = None"
      "k < length ts \<longrightarrow> su_ctx_Err env (i + 1 + k) \<noteq> None"
      and run: "run_tests env policy (i + 1) ts (cases @ [r t]) fails1 (evs @ suite_events policy r [t]) =
        Value ((cases @ [r t]) @ map r (take k ts), fails',
          (evs @ suite_events policy r [t]) @ suite_events policy r (take k ts))"
      and f: "fails' = [] \<longleftrightarrow> fails1 = [] \<and> (\<forall>t \<in> set (take k ts). jc_FailureOutput (r t) = None)"
      using Cons.IH [of "i + 1" "cases @ [r t]" fails1 "evs @ suite_events policy r [t]"] by blast
    have "\<forall>j < Suc k. su_ctx_Err env (i + j) = None"
      using True k(2) by (auto simp: less_Suc_eq_0_disj)
    with k run f step show ?thesis
      by (intro exI [of _ "Suc k"] exI [of _ fails'])
        (auto simp: fails1_def suite_events_def split: option.splits)
  qed
qed (simp add: suite_events_def)

lemma conclude_suite_spec:
  "\<exists>e out. conclude_suite env evs f n cases fails = (e, cases, out) \<and>
    (e = None \<longleftrightarrow> fails = [] \<and> su_ctx_Err env n = None \<and>
      (\<exists>bytes. su_Marshal env cases = Inr bytes \<and> su_WriteFile env evs f bytes = None))"
  by (simp add: conclude_suite_def split: sum.split option.split)

lemma create_error_None_iff:
  "create_error env dir = None \<longleftrightarrow> (case su_MkdirAll env dir of None \<Rightarrow> True | Some me \<Rightarrow> os_is_exist me)"
  by (simp add: create_error_def split: option.split)

lemma first_cases_names:
  "map jc_Name (first_cases env dir) = [''remove output directory'', ''ensure output directory'']"
  by (simp add: first_cases_def setup_case_def)

text \<open>The tests that run are a prefix, which is all of them when the context is alive at the end.\<close>

lemma run_tests_prefix:
  assumes "\<forall>t. su_runTest env t = Value (r t)"
    and "\<forall>i j. i \<le> j \<longrightarrow> su_ctx_Err env i \<noteq> None \<longrightarrow> su_ctx_Err env j \<noteq> None"
  obtains ts fails where "run_tests env policy 0 tests cases [] [] = Value (cases @ map r ts, fails, suite_events policy r ts)"
    and "fails = [] \<longleftrightarrow> (\<forall>t \<in> set ts. jc_FailureOutput (r t) = None)"
    and "su_ctx_Err env (length tests) = None \<longrightarrow> ts = tests"
proof -
  obtain k fails where k: "k \<le> length tests" "k < length tests \<longrightarrow> su_ctx_Err env k \<noteq> None"
    and run: "run_tests env policy 0 tests cases [] [] =
      Value (cases @ map r (take k tests), fails, suite_events policy r (take k tests))"
    "fails = [] \<longleftrightarrow> (\<forall>t \<in> set (take k tests). jc_FailureOutput (r t) = None)"
    using run_tests_spec [OF assms(1), of tests 0 policy cases "[]" "[]"] by auto
  have "su_ctx_Err env (length tests) = None \<longrightarrow> take k tests = tests"
    using k assms(2) by (metis le_neq_implies_less order_refl take_all_iff)
  with run show thesis by (rule that)
qed

lemma suite_Run_verdict:
  assumes "\<forall>t. su_runTest env t = Value (r t)"
    and "\<forall>i j. i \<le> j \<longrightarrow> su_ctx_Err env i \<noteq> None \<longrightarrow> su_ctx_Err env j \<noteq> None"
  shows "\<exists>e cases out. suite_Run env policy dir tests = Value (e, cases, out) \<and>
    (e = None \<longleftrightarrow> (case su_MkdirAll env dir of None \<Rightarrow> True | Some me \<Rightarrow> os_is_exist me) \<and>
      (\<forall>t \<in> set tests. jc_FailureOutput (r t) = None) \<and> su_ctx_Err env (length tests) = None \<and>
      (\<exists>bytes. su_Marshal env cases = Inr bytes \<and>
        su_WriteFile env (suite_events policy r tests) (path_join [dir, ''junit.xml'']) bytes = None)) \<and>
    (e = None \<longrightarrow> map jc_Name cases =
      [''remove output directory'', ''ensure output directory''] @ map (jc_Name \<circ> r) tests)"
proof (cases "create_error env dir")
  case (Some ce)
  then show ?thesis by (simp add: suite_Run_def create_error_None_iff [symmetric])
next
  case None
  obtain ts fails where run: "run_tests env policy 0 tests (first_cases env dir) [] [] =
      Value (first_cases env dir @ map r ts, fails, suite_events policy r ts)"
    and fails: "fails = [] \<longleftrightarrow> (\<forall>t \<in> set ts. jc_FailureOutput (r t) = None)"
    and all: "su_ctx_Err env (length tests) = None \<longrightarrow> ts = tests"
    by (rule run_tests_prefix [OF assms, of policy tests "first_cases env dir"])
  obtain e out where "conclude_suite env (suite_events policy r ts) (path_join [dir, ''junit.xml'']) (length tests)
      (first_cases env dir @ map r ts) fails = (e, first_cases env dir @ map r ts, out)"
    and e: "e = None \<longleftrightarrow> fails = [] \<and> su_ctx_Err env (length tests) = None \<and>
      (\<exists>bytes. su_Marshal env (first_cases env dir @ map r ts) = Inr bytes \<and>
        su_WriteFile env (suite_events policy r ts) (path_join [dir, ''junit.xml'']) bytes = None)"
    using conclude_suite_spec [of env "suite_events policy r ts" "path_join [dir, ''junit.xml'']" "length tests"
        "first_cases env dir @ map r ts" fails]
    by (elim exE conjE) (rule that)
  then have "suite_Run env policy dir tests = Value (e, first_cases env dir @ map r ts, out)"
    using None by (simp add: suite_Run_def run)
  then show ?thesis
    unfolding create_error_None_iff [symmetric] using e fails all None first_cases_names [of env dir]
    by (cases "su_ctx_Err env (length tests)") auto
qed

section \<open>Properties\<close>


definition demo_test :: "desired_error \<Rightarrow> test_options" where
  "demo_test desired =
     \<lparr>to_Description = \<lparr>td_BinaryName = ''bin'', td_TestName = ''t'', td_Description = ''d'',
        td_TestType = TestTypeApplyConfiguration, td_DesiredError = desired, td_Now = None, td_Controllers = []\<rparr>,
      to_TestDirectory = ''tests/t'', to_OutputDirectory = ''out/t''\<rparr>"

definition demo_test_env :: "apply_configuration_result option \<times> go_error option \<Rightarrow> test_env" where
  "demo_test_env exec =
     \<lparr>te_RemoveAll = (\<lambda>p. None), te_MkdirAll = (\<lambda>p. None), te_Exec = (\<lambda>b a. exec),
      te_DirFS = (\<lambda>d. demo_dir [] []), te_diff = demo_diff, te_ord = (\<lambda>ct b ks. ks), te_seconds = 1\<rparr>"


text \<open>When the process failed with an exit code and left mutations that do not read, the test
  harness itself panics instead of reporting a failed test.\<close>

theorem runTest_panics_on_unreadable_output:
  assumes "policy \<noteq> PreservePolicyReplaceExpectedOutput" and "te_MkdirAll env (to_OutputDirectory o') = None"
    and "test_exec env o' = (Some actual, Some err)" and "err_as_exit err \<noteq> None"
    and "res_applyConfiguration actual = None"
    and "NewApplyConfigurationResultFromDirectory (te_DirFS env (path_join [to_TestDirectory o', ''expected-output'']))
      (path_join [to_TestDirectory o', ''expected-output'']) None = (Some expected, None)"
  shows "runTest env policy o' = Panicked NilDereference"
proof -
  have "EquivalentApplyConfigurationResultIgnoringEvents d ord expected actual = Panicked NilDereference" for d ord
    using assms(5) by (simp add: equivalent_nil)
  then show ?thesis
    using runTest_judges [OF assms(1,2)] assms(4)
    by (auto simp: assms(3,6) judge_exec_def compare_with_expected_def Let_def)
qed

theorem runTest_panics_on_unreadable_output_witness:
  "runTest (demo_test_env (Some ((demo_result [] None)\<lparr>res_applyConfiguration := None\<rparr>),
      Some (Leaf (ExitError 1) ''exit status 1''))) PreservePolicyNone (demo_test NonZeroReturn) =
    Panicked NilDereference"
proof -
  have "clean_output (demo_dir [] [])" by (simp add: clean_output_def)
  then obtain expected where
    "\<And>d. NewApplyConfigurationResultFromDirectory (demo_dir [] []) ''tests/t/expected-output'' None = (Some expected, None)"
    using NewResult_read [of "demo_dir [] []" "''tests/t/expected-output''" None] by (auto simp: range_order_rev)
  moreover have "path_join [''tests/t'', ''expected-output''] = ''tests/t/expected-output''" by code_simp
  ultimately show ?thesis
    by (intro runTest_panics_on_unreadable_output [where expected = expected
        and actual = "(demo_result [] None)\<lparr>res_applyConfiguration := None\<rparr>"
        and err = "Leaf (ExitError 1) ''exit status 1''"])
      (simp_all add: PreservePolicyNone_def PreservePolicyReplaceExpectedOutput_def demo_test_env_def
        demo_test_def test_exec_def err_as_exit_def)
qed

text \<open>C17: a run of tests returns no error exactly when the output directory was created, the report was
  rendered and written, every test passed and the context is not cancelled at the end; a failed
  removal of the old output is in the report but does not fail the run. The write of the report comes
  after the tests ran and the directories of passed tests were removed.\<close>

theorem suite_Run_succeeds_iff:
  assumes "\<forall>t. su_runTest env t = Value (r t)"
    and "\<forall>i j. i \<le> j \<longrightarrow> su_ctx_Err env i \<noteq> None \<longrightarrow> su_ctx_Err env j \<noteq> None"
  shows "\<exists>e cases out. suite_Run env policy dir tests = Value (e, cases, out) \<and>
    (e = None \<longleftrightarrow> (case su_MkdirAll env dir of None \<Rightarrow> True | Some me \<Rightarrow> os_is_exist me) \<and>
      (\<forall>t \<in> set tests. jc_FailureOutput (r t) = None) \<and> su_ctx_Err env (length tests) = None \<and>
      (\<exists>bytes. su_Marshal env cases = Inr bytes \<and>
        su_WriteFile env (suite_events policy r tests) (path_join [dir, ''junit.xml'']) bytes = None)) \<and>
    (e = None \<longrightarrow> map jc_Name cases =
      [''remove output directory'', ''ensure output directory''] @ map (jc_Name \<circ> r) tests)"
  by (rule suite_Run_verdict [OF assms])

definition demo_suite :: "(test_options \<Rightarrow> junit_case) \<Rightarrow> suite_env" where
  "demo_suite r = \<lparr>su_RemoveAll = (\<lambda>p. Some (errorf ''busy'')), su_MkdirAll = (\<lambda>p. None),
     su_ctx_Err = (\<lambda>i. None), su_runTest = (\<lambda>t. Value (r t)), su_Marshal = (\<lambda>cs. Inr []),
     su_WriteFile = (\<lambda>evs f b. None)\<rparr>"

theorem suite_Run_succeeds_iff_witness:
  "(\<exists>cases out. suite_Run (demo_suite (\<lambda>t. setup_case ''ok'' None)) PreservePolicyNone ''out'' [demo_test NoError] =
      Value (None, cases, out)) \<and>
   \<not> (\<exists>cases out. suite_Run (demo_suite (\<lambda>t. setup_case ''bad'' (Some (errorf ''e'')))) PreservePolicyNone ''out''
      [demo_test NoError] = Value (None, cases, out))"
  using suite_Run_succeeds_iff [of "demo_suite (\<lambda>t. setup_case ''ok'' None)" "\<lambda>t. setup_case ''ok'' None"
      PreservePolicyNone "''out''" "[demo_test NoError]"]
    suite_Run_succeeds_iff [of "demo_suite (\<lambda>t. setup_case ''bad'' (Some (errorf ''e'')))"
      "\<lambda>t. setup_case ''bad'' (Some (errorf ''e''))" PreservePolicyNone "''out''" "[demo_test NoError]"]
  by (auto simp: demo_suite_def setup_case_def)

end
