(* ===== verification/Test_Discovery.thy ===== *)
theory Test_Discovery
  imports Exec_Tester
begin

text \<open>
  \<open>pkg/cmd/multi-operator-manager/test/apply-configuration\<close> and \<open>ReadPotentialTestDir\<close>: the flags of the
  tester and the search for tests below a directory. The walk and the decoders are arguments.
\<close>

section \<open>Finding tests\<close>

text \<open>\<open>rd_Lstat\<close> tells whether a path is a directory.\<close>

record find_env =
  rd_ReadDir :: "string \<Rightarrow> go_error + string list"
  rd_ReadFile :: "string \<Rightarrow> go_error + string"
  rd_Unmarshal :: "string \<Rightarrow> go_error + test_description"
  rd_Lstat :: "string \<Rightarrow> go_error + bool"

definition requiredTestContent :: "string list" where
  "requiredTestContent = [''test.yaml'', ''input-dir'', ''expected-output'']"

text \<open>The test in a directory, if any; whether there is one; the error.\<close>

definition ReadPotentialTestDir ::
    "find_env \<Rightarrow> string \<Rightarrow> bool \<Rightarrow> test_options option \<times> bool \<times> go_error option" where
  "ReadPotentialTestDir env path replaceExpectedOutput =
     (case rd_ReadDir env path of
        Inl err \<Rightarrow> (None, False, Some err)
      | Inr actualContent \<Rightarrow>
     (if \<not> list_ex (\<lambda>n. n = ''test.yaml'') actualContent then (None, False, None)
      else
        let missingContent = filter (\<lambda>requiredName.
              \<not> (replaceExpectedOutput \<and> requiredName = ''expected-output'') \<and>
              \<not> list_ex (\<lambda>n. n = requiredName) actualContent) requiredTestContent in
        if length missingContent > 0
        then (None, True, Some (errorf (go_quote path @ '' is missing: '' @ fmt_strings (sets_List missingContent))))
        else
     (case rd_ReadFile env (path_join [path, ''test.yaml'']) of
        Inl err \<Rightarrow> (None, True, Some (Wrapf ''unable to read test.yaml: '' err []))
      | Inr testYamlBytes \<Rightarrow>
     (case rd_Unmarshal env testYamlBytes of
        Inl err \<Rightarrow> (None, True, Some (Wrapf ''unable to decode test.yaml: '' err []))
      | Inr testDescription \<Rightarrow>
     (case rd_Lstat env (path_join [path, ''input-dir'']) of
        Inl err \<Rightarrow> (None, True, Some (Wrapf ''unable to read inputDir: '' err []))
      | Inr isDir \<Rightarrow>
     (if \<not> isDir then (None, True, Some (errorf ''input-dir must be a directory''))
      else
        let found = (Some \<lparr>to_Description = testDescription, to_TestDirectory = path, to_OutputDirectory = []\<rparr>,
                     True, None :: go_error option) in
        if \<not> replaceExpectedOutput then
          (case rd_Lstat env (path_join [path, ''expected-output'']) of
             Inl err \<Rightarrow> (None, True, Some (Wrapf ''unable to read expected-output: '' err []))
           | Inr isDir' \<Rightarrow>
               (if \<not> isDir' then (None, True, Some (errorf ''expected-output must be a directory''))
                else found))
        else found))))))"

definition validateTest :: "field_path \<Rightarrow> test_options \<Rightarrow> go_error list" where
  "validateTest p testOptions =
     (let d = to_Description testOptions in
      (if length (td_BinaryName d) = 0 then [field_Required (path_Child p ''binaryName'') ''must be present''] else []) @
      (if length (td_TestName d) = 0 then [field_Required (path_Child p ''testName'') ''must be present''] else []) @
      (if length (td_Description d) = 0 then [field_Required (path_Child p ''description'') ''must be present''] else []) @
      (if td_TestType d \<notin> set AllTestTypes
       then [field_NotSupported (path_Child p ''testType'') (test_type_string (td_TestType d))
         (map test_type_string AllTestTypes)]
       else []))"

record test_flags =
  tf_TestDirectory :: string
  tf_OutputDirectory :: string
  tf_PreservePolicy :: string
  tf_ReplaceExpectedOutput :: bool

definition test_flags_Validate :: "test_flags \<Rightarrow> go_error option" where
  "test_flags_Validate f =
     (if length (tf_TestDirectory f) = 0 then Some (errorf ''--test-dir is required'')
      else if length (tf_OutputDirectory f) = 0 then Some (errorf ''--output-dir is required'')
      else None)"

text \<open>
  The callback of \<open>filepath.WalkDir\<close>, over the entries the walk visits: path, whether it is a
  directory, and the error of reading it. It never stops the walk.
\<close>

definition walk_test ::
    "find_env \<Rightarrow> (string \<Rightarrow> string \<Rightarrow> string option) \<Rightarrow> test_flags \<Rightarrow> string \<times> bool \<times> go_error option \<Rightarrow>
      test_options list \<times> go_error list" where
  "walk_test env rel f entry =
     (case entry of
        (path, isDir, Some err) \<Rightarrow> ([], [Wrapf (go_quote path @ '': '') err []])
      | (path, isDir, None) \<Rightarrow>
          (if \<not> isDir then ([], [])
           else case ReadPotentialTestDir env path (tf_ReplaceExpectedOutput f) of
             (t, isTest, Some err) \<Rightarrow> ([], [Wrapf (go_quote path @ '': '') err []])
           | (None, isTest, None) \<Rightarrow> ([], [])
           | (Some currTest, isTest, None) \<Rightarrow>
               (let validationErrs = validateTest path currTest in
                if length validationErrs > 0
                then ([], map (\<lambda>e. Wrapf (go_quote path @ '': ''
                  @ go_quote (td_TestName (to_Description currTest)) @ '': '') e []) validationErrs)
                else
                  let out = (if \<not> tf_ReplaceExpectedOutput f
                        then (case rel (tf_TestDirectory f) path of
                                Some r \<Rightarrow> path_join [tf_OutputDirectory f, r]
                              | None \<Rightarrow> tf_OutputDirectory f)
                        else path_join [path, ''expected-output'']) in
                  ([currTest\<lparr>to_OutputDirectory := out\<rparr>], []))))"

record suite_options =
  so_Tests :: "test_options list"
  so_OutputDirectory :: string
  so_PreservePolicy :: preserve_policy

fun walk_tests ::
    "find_env \<Rightarrow> (string \<Rightarrow> string \<Rightarrow> string option) \<Rightarrow> test_flags \<Rightarrow> (string \<times> bool \<times> go_error option) list \<Rightarrow>
      test_options list \<times> go_error list" where
  "walk_tests env rel f [] = ([], [])"
| "walk_tests env rel f (e # es) =
     (let (ts, errs) = walk_test env rel f e; (ts', errs') = walk_tests env rel f es in (ts @ ts', errs @ errs'))"

definition test_flags_ToOptions ::
    "find_env \<Rightarrow> (string \<Rightarrow> string \<Rightarrow> string option) \<Rightarrow> (string \<times> bool \<times> go_error option) list \<Rightarrow> test_flags \<Rightarrow>
      suite_options option \<times> go_error option" where
  "test_flags_ToOptions env rel walk f =
     (case walk_tests env rel f walk of
        (tests, errs) \<Rightarrow>
          if length errs > 0 then (None, errors_join errs)
          else
            let preservePolicy = (if tf_ReplaceExpectedOutput f then PreservePolicyReplaceExpectedOutput
                                  else PreservePolicy (tf_PreservePolicy f)) in
            (Some \<lparr>so_Tests = tests, so_OutputDirectory = tf_OutputDirectory f,
                   so_PreservePolicy = preservePolicy\<rparr>, None))"

section \<open>Lemmas\<close>

text \<open>Where the output of a test goes.\<close>

definition test_output :: "(string \<Rightarrow> string \<Rightarrow> string option) \<Rightarrow> test_flags \<Rightarrow> string \<Rightarrow> string" where
  "test_output rel f path =
     (if tf_ReplaceExpectedOutput f then path_join [path, ''expected-output'']
      else case rel (tf_TestDirectory f) path of Some r \<Rightarrow> path_join [tf_OutputDirectory f, r] | None \<Rightarrow> tf_OutputDirectory f)"

lemma walk_test_accepts:
  assumes "walk_test env rel f e = (ts, [])" and "t \<in> set ts"
  shows "\<exists>t0. e = (to_TestDirectory t, True, None) \<and>
    ReadPotentialTestDir env (to_TestDirectory t) (tf_ReplaceExpectedOutput f) = (Some t0, True, None) \<and>
    validateTest (to_TestDirectory t) t0 = [] \<and> to_Description t = to_Description t0 \<and>
    rd_Lstat env (path_join [to_TestDirectory t, ''input-dir'']) = Inr True \<and>
    to_OutputDirectory t = test_output rel f (to_TestDirectory t)"
proof -
  have read: "b = True \<and> to_TestDirectory t0 = path \<and> rd_Lstat env (path_join [path, ''input-dir'']) = Inr True"
    if "ReadPotentialTestDir env path rep = (Some t0, b, None)" for path rep t0 b
    using that by (auto simp: ReadPotentialTestDir_def Let_def split: sum.splits if_splits)
  obtain path isDir err where e: "e = (path, isDir, err)" by (cases e) auto
  obtain t0 b where "isDir" "err = None"
    and r: "ReadPotentialTestDir env path (tf_ReplaceExpectedOutput f) = (Some t0, b, None)"
    and t: "ts = [t]" "t = t0\<lparr>to_OutputDirectory := to_OutputDirectory t\<rparr>" "validateTest path t0 = []"
      "to_OutputDirectory t = test_output rel f path"
    using assms e by (auto simp: walk_test_def test_output_def Let_def split: option.splits prod.splits if_splits)
  moreover have "to_TestDirectory t = to_TestDirectory t0" "to_Description t = to_Description t0"
    using t(2) by (metis test_options.select_convs test_options.simps(8,7) test_options.ext_inject test_options.surjective test_options.update_convs(3))+
  ultimately show ?thesis using e read [OF r] by auto
qed

lemma walk_tests_spec:
  "snd (walk_tests env rel f es) = [] \<Longrightarrow> t \<in> set (fst (walk_tests env rel f es)) \<Longrightarrow>
     \<exists>e \<in> set es. \<exists>ts. walk_test env rel f e = (ts, []) \<and> t \<in> set ts"
proof (induction es)
  case (Cons e es)
  then show ?case by (cases "walk_test env rel f e") (auto simp: Let_def split: prod.splits)
qed simp

lemma ToOptions_walk:
  assumes "test_flags_ToOptions env rel walk f = (Some so, None)" and "t \<in> set (so_Tests so)"
  shows "\<exists>e \<in> set walk. \<exists>ts. walk_test env rel f e = (ts, []) \<and> t \<in> set ts"
proof -
  have "snd (walk_tests env rel f walk) = []" "t \<in> set (fst (walk_tests env rel f walk))"
    using assms by (auto simp: test_flags_ToOptions_def Let_def split: prod.splits if_splits)
  then show ?thesis by (rule walk_tests_spec)
qed

section \<open>Properties\<close>

text \<open>When the options are built, every test found is a directory the walk visited that has a
  readable test description and an input directory, its description names a binary, a test and a
  description and has the known type, and its output goes to its expectation when that is replaced, else
  to its place below the output directory.\<close>

theorem ToOptions_tests_are_valid:
  assumes "test_flags_ToOptions env rel walk f = (Some so, None)" and "t \<in> set (so_Tests so)"
  shows "(to_TestDirectory t, True, None) \<in> set walk \<and>
    rd_Lstat env (path_join [to_TestDirectory t, ''input-dir'']) = Inr True \<and>
    td_BinaryName (to_Description t) \<noteq> [] \<and> td_TestName (to_Description t) \<noteq> [] \<and>
    td_Description (to_Description t) \<noteq> [] \<and> td_TestType (to_Description t) = TestTypeApplyConfiguration \<and>
    to_OutputDirectory t = test_output rel f (to_TestDirectory t)"
proof -
  obtain e ts where e: "e \<in> set walk" "walk_test env rel f e = (ts, [])" "t \<in> set ts"
    using ToOptions_walk [OF assms] by blast
  obtain t0 where "e = (to_TestDirectory t, True, None)" "validateTest (to_TestDirectory t) t0 = []"
    "to_Description t = to_Description t0"
    "rd_Lstat env (path_join [to_TestDirectory t, ''input-dir'']) = Inr True"
    "to_OutputDirectory t = test_output rel f (to_TestDirectory t)"
    using walk_test_accepts [OF e(2,3)] by blast
  with e(1) show ?thesis
    by (auto simp: validateTest_def Let_def AllTestTypes_def split: if_splits)
qed

definition demo_find :: find_env where
  "demo_find = \<lparr>rd_ReadDir = (\<lambda>p. Inr [''expected-output'', ''input-dir'', ''test.yaml'']),
     rd_ReadFile = (\<lambda>p. Inr ''yaml''), rd_Unmarshal = (\<lambda>b. Inr (to_Description (demo_test NoError))),
     rd_Lstat = (\<lambda>p. Inr True)\<rparr>"

definition demo_flags :: test_flags where
  "demo_flags = \<lparr>tf_TestDirectory = ''tests'', tf_OutputDirectory = ''out'', tf_PreservePolicy = [],
     tf_ReplaceExpectedOutput = True\<rparr>"

theorem ToOptions_tests_are_valid_witness:
  "\<exists>so t. test_flags_ToOptions demo_find (\<lambda>b p. None) [(''tests'', True, None)] demo_flags = (Some so, None) \<and>
    so_Tests so = [t] \<and> to_OutputDirectory t = path_join [''tests'', ''expected-output'']"
proof -
  let ?m = "test_flags_ToOptions demo_find (\<lambda>b p. None) [(''tests'', True, None)] demo_flags"
  let ?t = "(demo_test NoError)\<lparr>to_TestDirectory := ''tests'',
    to_OutputDirectory := path_join [''tests'', ''expected-output'']\<rparr>"
  let ?so = "\<lparr>so_Tests = [?t], so_OutputDirectory = ''out'',
    so_PreservePolicy = PreservePolicyReplaceExpectedOutput\<rparr>"
  have m: "?m = (Some ?so, None)"
    by (simp add: test_flags_ToOptions_def walk_test_def ReadPotentialTestDir_def demo_find_def demo_flags_def
        demo_test_def requiredTestContent_def validateTest_def AllTestTypes_def Let_def)
  have "to_OutputDirectory ?t = path_join [to_TestDirectory ?t, ''expected-output'']"
    using ToOptions_tests_are_valid [OF m, of ?t] by (simp add: demo_flags_def test_output_def)
  then show ?thesis using m by (intro exI [of _ ?so] exI [of _ ?t]) simp
qed

end
