(* ===== verification/Unstructured.thy ===== *)
theory Unstructured
  imports Manifest_Client Go_Path "HOL-Library.Finite_Map"
begin

text \<open>
  What the program uses of \<open>k8s.io/apimachinery\<close>'s unstructured objects: JSON values, of which an
  object is a finite map (so equality of objects is \<open>reflect.DeepEqual\<close>), and the accessors for
  name, namespace, kind, API version and list items. A number with a fraction is kept as its text.
\<close>

datatype json =
    JNull
  | JBool bool
  | JInt int
  | JFloat string
  | JString string
  | JArray "json list"
  | JObject "(string, json) fmap"

type_synonym unstructured = "(string, json) fmap"

definition get_string :: "unstructured \<Rightarrow> string \<Rightarrow> string" where
  "get_string obj f = (case fmlookup obj f of Some (JString s) \<Rightarrow> s | _ \<Rightarrow> [])"

definition get_metadata_string :: "unstructured \<Rightarrow> string \<Rightarrow> string" where
  "get_metadata_string obj f = (case fmlookup obj ''metadata'' of Some (JObject m) \<Rightarrow> get_string m f | _ \<Rightarrow> [])"

definition GetName :: "unstructured \<Rightarrow> string" where
  "GetName obj = get_metadata_string obj ''name''"

definition GetNamespace :: "unstructured \<Rightarrow> string" where
  "GetNamespace obj = get_metadata_string obj ''namespace''"

definition GetGenerateName :: "unstructured \<Rightarrow> string" where
  "GetGenerateName obj = get_metadata_string obj ''generateName''"

text \<open>\<open>schema.ParseGroupVersion\<close>; more than one slash is an error.\<close>

definition ParseGroupVersion :: "string \<Rightarrow> (string \<times> string) option" where
  "ParseGroupVersion gv =
     (if gv = [] \<or> gv = [slash] then Some ([], [])
      else case split_slash gv of
        [v] \<Rightarrow> Some ([], v) | [g, v] \<Rightarrow> Some (g, v) | _ \<Rightarrow> None)"

definition GroupVersionKind :: "unstructured \<Rightarrow> group_version_kind" where
  "GroupVersionKind obj =
     (case ParseGroupVersion (get_string obj ''apiVersion'') of
        None \<Rightarrow> \<lparr>gvk_Group = [], gvk_Version = [], gvk_Kind = []\<rparr>
      | Some (g, v) \<Rightarrow> \<lparr>gvk_Group = g, gvk_Version = v, gvk_Kind = get_string obj ''kind''\<rparr>)"

definition group_version_string :: "group_version_kind \<Rightarrow> string" where
  "group_version_string gvk =
     (if length (gvk_Group gvk) > 0 then gvk_Group gvk @ [slash] @ gvk_Version gvk else gvk_Version gvk)"

text \<open>\<open>GroupKind\<close> and its text.\<close>

record group_kind =
  gk_Group :: string
  gk_Kind :: string

definition GroupKind :: "group_version_kind \<Rightarrow> group_kind" where
  "GroupKind gvk = \<lparr>gk_Group = gvk_Group gvk, gk_Kind = gvk_Kind gvk\<rparr>"

definition group_kind_string :: "group_kind \<Rightarrow> string" where
  "group_kind_string gk = (if length (gk_Group gk) = 0 then gk_Kind gk else gk_Kind gk @ ''.'' @ gk_Group gk)"

definition IsList :: "unstructured \<Rightarrow> bool" where
  "IsList obj \<longleftrightarrow> (case fmlookup obj ''items'' of Some (JArray xs) \<Rightarrow> True | _ \<Rightarrow> False)"

fun list_items :: "json list \<Rightarrow> go_error + unstructured list" where
  "list_items [] = Inr []"
| "list_items (JObject m # rest) = (case list_items rest of Inl e \<Rightarrow> Inl e | Inr ms \<Rightarrow> Inr (m # ms))"
| "list_items (j # rest) = Inl (errorf ''items member is not an object: map[string]interface {}'')"

text \<open>The items of \<open>ToList\<close>; an object that is no list has none.\<close>

definition ToList :: "unstructured \<Rightarrow> go_error + unstructured list" where
  "ToList obj = (case fmlookup obj ''items'' of Some (JArray xs) \<Rightarrow> list_items xs | _ \<Rightarrow> Inr [])"

text \<open>
  \<open>UnstructuredContent\<close> of an \<open>UnstructuredList\<close> whose object holds the kind and the API version.
\<close>

definition list_content :: "group_version_kind \<Rightarrow> unstructured list \<Rightarrow> unstructured" where
  "list_content gvk items =
     fmupd ''items'' (JArray (map JObject items))
       (fmupd ''kind'' (JString (gvk_Kind gvk))
         (fmupd ''apiVersion'' (JString (group_version_string gvk)) fmempty))"

lemma list_items_objects [simp]: "list_items (map JObject ms) = Inr ms"
  by (induction ms) simp_all

lemma ToList_list_content [simp]: "ToList (list_content gvk items) = Inr items"
  by (simp add: ToList_def list_content_def)

lemma IsList_list_content [simp]: "IsList (list_content gvk items)"
  by (simp add: IsList_def list_content_def)

end
