(* ===== verification/Must_Gather.thy ===== *)
theory Must_Gather
  imports Input_Resources Unstructured
begin

text \<open>
  \<open>pkg/library/libraryinputresources/resource.go\<close> and \<open>prune_mustgather.go\<close>: the resources an
  operator reads, selected from a cluster dump and written back in must-gather layout. The dynamic
  client, the JSON-path evaluator, the decoders and the file system are arguments. A pointer to a
  resource is nil or not; the content of a resource is never nil. A \<open>range\<close> over a map has its order.
\<close>

section \<open>Resources\<close>

record resource =
  rs_Filename :: string
  rs_ResourceType :: group_version_resource
  rs_Content :: unstructured

definition resource_ID :: "resource \<Rightarrow> string" where
  "resource_ID r =
     (let name = GetName (rs_Content r); namespace = GetNamespace (rs_Content r);
          namespace' = (if namespace = [] then ''_cluster_scoped_resource_'' else namespace) in
      gvr_Group (rs_ResourceType r) @ ''/'' @ gvr_Resource (rs_ResourceType r) @ ''/'' @ namespace' @ ''/'' @ name)"

definition IdentifyResource :: "resource \<Rightarrow> string" where
  "IdentifyResource r =
     (let gvk = GroupVersionKind (rs_Content r) in
      gvk_Kind gvk @ ''.'' @ gvk_Version gvk @ ''.'' @ gvk_Group gvk @ ''/'' @ GetName (rs_Content r)
        @ ''['' @ GetNamespace (rs_Content r) @ '']'' @ ''('' @ rs_Filename r @ '')'')"

record unique_resource_set =
  urs_seen :: "string list"
  urs_resources :: "resource list"

fun urs_Insert :: "resource option list \<Rightarrow> unique_resource_set \<Rightarrow> unique_resource_set" where
  "urs_Insert [] u = u"
| "urs_Insert (None # rest) u = urs_Insert rest u"
| "urs_Insert (Some r # rest) u =
     (if resource_ID r \<in> set (urs_seen u) then urs_Insert rest u
      else urs_Insert rest (u\<lparr>urs_resources := urs_resources u @ [r], urs_seen := resource_ID r # urs_seen u\<rparr>))"

definition NewUniqueResourceSet :: "resource option list \<Rightarrow> unique_resource_set" where
  "NewUniqueResourceSet resources = urs_Insert resources \<lparr>urs_seen = [], urs_resources = []\<rparr>"

definition urs_List :: "unique_resource_set \<Rightarrow> resource list" where
  "urs_List u = urs_resources u"

section \<open>Reading resources from files\<close>

type_synonym gvk_index = "(group_version_kind \<times> group_version_resource list) list"

definition gvk_lookup :: "gvk_index \<Rightarrow> group_version_kind \<Rightarrow> group_version_resource list" where
  "gvk_lookup m gvk = (case map_of m gvk of None \<Rightarrow> [] | Some rs \<Rightarrow> rs)"

text \<open>
  The two loops of \<open>discoverResourcesFromMustGather\<close>: the API resources of each group version,
  by name and kind, in the order the map is visited. Names with a slash are subresources.
\<close>

fun index_resources :: "string \<times> string \<Rightarrow> (string \<times> string) list \<Rightarrow> gvk_index \<Rightarrow> gvk_index" where
  "index_resources gv [] m = m"
| "index_resources gv ((name, kind) # rest) m =
     (if slash \<in> set name then index_resources gv rest m
      else let gvk = \<lparr>gvk_Group = fst gv, gvk_Version = snd gv, gvk_Kind = kind\<rparr> in
           index_resources gv rest (map_set gvk (gvk_lookup m gvk @
             [\<lparr>gvr_Group = fst gv, gvr_Version = snd gv, gvr_Resource = name\<rparr>]) m))"

fun index_group_versions :: "((string \<times> string) \<times> (string \<times> string) list) list \<Rightarrow> gvk_index \<Rightarrow> gvk_index" where
  "index_group_versions [] m = m"
| "index_group_versions ((gv, rs) # rest) m = index_group_versions rest (index_resources gv rs m)"

definition findGVR :: "gvk_index \<Rightarrow> group_version_kind \<Rightarrow> go_error + group_version_resource" where
  "findGVR gvkToResources gvk =
     (let text = '' resources found for Group: '' @ go_quote (gvk_Group gvk) @ '', Version: ''
            @ go_quote (gvk_Version gvk) @ '', Kind: '' @ go_quote (gvk_Kind gvk) in
      case gvk_lookup gvkToResources gvk of
        [r] \<Rightarrow> Inr r
      | [] \<Rightarrow> Inl (errorf (''no'' @ text))
      | _ \<Rightarrow> Inl (errorf (''multiple'' @ text)))"

record file_env =
  fe_ReadFile :: "string \<Rightarrow> go_error + string"
  fe_DecodeJSON :: "string \<Rightarrow> go_error + unstructured"
  fe_YAMLToJSON :: "string \<Rightarrow> go_error + string"

fun resources_of_items ::
    "gvk_index \<Rightarrow> string \<Rightarrow> unstructured list \<Rightarrow> go_error + resource list" where
  "resources_of_items idx filename [] = Inr []"
| "resources_of_items idx filename (item # rest) =
     (case findGVR idx (GroupVersionKind item) of
        Inl err \<Rightarrow> Inl (Wrapf ''failed to find gvr: '' err [])
      | Inr gvr \<Rightarrow>
          (case resources_of_items idx filename rest of
             Inl err \<Rightarrow> Inl err
           | Inr rs \<Rightarrow> Inr (\<lparr>rs_Filename = filename, rs_ResourceType = gvr, rs_Content = item\<rparr> # rs)))"

definition decode_file :: "file_env \<Rightarrow> string \<Rightarrow> string \<Rightarrow> go_error + unstructured" where
  "decode_file env location content =
     (case fe_DecodeJSON env content of
        Inr obj \<Rightarrow> Inr obj
      | Inl jsonErr \<Rightarrow>
          (case fe_YAMLToJSON env content of
             Inl err \<Rightarrow> Inl (Wrapf (''unable to decode '' @ go_quote location @ '' as json: '') jsonErr [])
           | Inr jsonString \<Rightarrow>
               (case fe_DecodeJSON env jsonString of
                  Inl err \<Rightarrow> Inl (Wrapf (''unable to decode '' @ go_quote location @ '' as yaml: '') err [])
                | Inr obj \<Rightarrow> Inr obj)))"

definition ResourcesFromFile ::
    "file_env \<Rightarrow> gvk_index \<Rightarrow> string \<Rightarrow> string \<Rightarrow> go_error + resource list" where
  "ResourcesFromFile env gvkToResources location fileTrimPrefix =
     (case fe_ReadFile env location of
        Inl err \<Rightarrow> Inl (Wrapf (''unable to read '' @ go_quote location @ '': '') err [])
      | Inr content \<Rightarrow>
     (case decode_file env location content of
        Inl err \<Rightarrow> Inl err
      | Inr retContent \<Rightarrow>
          let retFilename = trim_prefix (trim_prefix location fileTrimPrefix) ''/'' in
          if \<not> IsList retContent then
            (case findGVR gvkToResources (GroupVersionKind retContent) of
               Inl err \<Rightarrow> Inl (Wrapf ''failed to find gvr: '' err [])
             | Inr gvr \<Rightarrow> Inr [\<lparr>rs_Filename = retFilename, rs_ResourceType = gvr, rs_Content = retContent\<rparr>])
          else
            (case ToList retContent of
               Inl err \<Rightarrow> Inl (Wrapf ''unable to convert resource content to list: '' err [])
             | Inr items \<Rightarrow> resources_of_items gvkToResources retFilename items)))"

text \<open>
  The walk of \<open>LenientResourcesFromDirRecursive\<close>, over the calls of the callback: location, the
  directory entry (name and whether it is a directory; nil when the root cannot be read) and the error
  of reading it. An error of a file ends the walk and becomes its error.
\<close>

fun walk_resources ::
    "file_env \<Rightarrow> gvk_index \<Rightarrow> string \<Rightarrow> (string \<times> (string \<times> bool) option \<times> go_error option) list \<Rightarrow>
      (resource list \<times> go_error list \<times> go_error option) outcome" where
  "walk_resources env idx location [] = Value ([], [], None)"
| "walk_resources env idx location ((currLocation, currFile, err) # rest) =
     (let errs = (case err of None \<Rightarrow> [] | Some e \<Rightarrow> [e]) in
      bind_outcome (deref currFile) (\<lambda>(name, isDir).
        if isDir \<or> (\<not> has_suffix name ''.yaml'' \<and> \<not> has_suffix name ''.json'') then
          bind_outcome (walk_resources env idx location rest) (\<lambda>(rs, errs', werr). Value (rs, errs @ errs', werr))
        else
          (case ResourcesFromFile env idx currLocation location of
             Inl e \<Rightarrow> Value ([], errs, Some (Wrapf (''error deserializing '' @ go_quote currLocation @ '': '') e []))
           | Inr currResource \<Rightarrow>
               bind_outcome (walk_resources env idx location rest) (\<lambda>(rs, errs', werr).
                 Value (currResource @ rs, errs @ errs', werr)))))"

definition LenientResourcesFromDirRecursive ::
    "file_env \<Rightarrow> go_error + gvk_index \<Rightarrow> (string \<times> (string \<times> bool) option \<times> go_error option) list \<Rightarrow> string \<Rightarrow>
      (resource list \<times> go_error option) outcome" where
  "LenientResourcesFromDirRecursive env discovered walk location =
     (case discovered of
        Inl err \<Rightarrow> Value ([], Some (Wrapf ''failed to discover resources from must-gather: '' err []))
      | Inr gvkToResources \<Rightarrow>
          bind_outcome (walk_resources env gvkToResources location walk) (\<lambda>(rs, errs, werr).
            Value (rs, errors_join (errs @ (case werr of None \<Rightarrow> [] | Some e \<Rightarrow> [e])))))"

section \<open>Writing and comparing resources\<close>

record write_env =
  we_MkdirAll :: "string \<Rightarrow> go_error option"
  we_Marshal :: "unstructured \<Rightarrow> go_error + string"
  we_WriteFile :: "string \<Rightarrow> string \<Rightarrow> go_error option"

text \<open>The error, and the file written with its bytes.\<close>

definition WriteResource ::
    "write_env \<Rightarrow> resource \<Rightarrow> string \<Rightarrow> go_error option \<times> (string \<times> string) list" where
  "WriteResource env r parentDir =
     (if length (rs_Filename r) = 0 then (Some (errorf (IdentifyResource r @ '' is missing filename'')), [])
      else
     (case we_MkdirAll env (path_join [parentDir, path_dir (rs_Filename r)]) of
        Some err \<Rightarrow> (Some (Wrapf (''error creating dir for '' @ IdentifyResource r @ '': '') err []), [])
      | None \<Rightarrow>
     (case we_Marshal env (rs_Content r) of
        Inl err \<Rightarrow> (Some (Wrapf (''error serializing '' @ IdentifyResource r @ '': '') err []), [])
      | Inr resourceYaml \<Rightarrow>
          let f = path_join [parentDir, rs_Filename r] in
          (case we_WriteFile env f resourceYaml of
             Some err \<Rightarrow> (Some (Wrapf (''error writing '' @ IdentifyResource r @ '': '') err []), [])
           | None \<Rightarrow> (None, [(f, resourceYaml)])))))"

fun findResource :: "resource list \<Rightarrow> string \<Rightarrow> resource option" where
  "findResource [] filename = None"
| "findResource (r # rs) filename = (if rs_Filename r = filename then Some r else findResource rs filename)"

fun equivalent_lhs ::
    "(unstructured \<Rightarrow> unstructured \<Rightarrow> string) \<Rightarrow> string \<Rightarrow> nat \<Rightarrow> resource list \<Rightarrow> resource list \<Rightarrow> string list" where
  "equivalent_lhs diff field i [] rhses = []"
| "equivalent_lhs diff field i (lhs # rest) rhses =
     (case findResource rhses (rs_Filename lhs) of
        None \<Rightarrow> [field @ ''['' @ show_nat i @ '']: '' @ go_quote (rs_Filename lhs) @ '' missing in rhs'']
      | Some rhs \<Rightarrow> (if rs_Content lhs \<noteq> rs_Content rhs
          then [field @ ''['' @ show_nat i @ '']: does not match: '' @ diff (rs_Content lhs) (rs_Content rhs)]
          else [])) @ equivalent_lhs diff field (i + 1) rest rhses"

fun equivalent_rhs :: "string \<Rightarrow> nat \<Rightarrow> resource list \<Rightarrow> resource list \<Rightarrow> string list" where
  "equivalent_rhs field i lhses [] = []"
| "equivalent_rhs field i lhses (rhs # rest) =
     (case findResource lhses (rs_Filename rhs) of
        None \<Rightarrow> [field @ ''['' @ show_nat i @ '']: '' @ go_quote (rs_Filename rhs) @ '' missing in lhs'']
      | Some lhs \<Rightarrow> []) @ equivalent_rhs field (i + 1) lhses rest"

definition EquivalentResources ::
    "(unstructured \<Rightarrow> unstructured \<Rightarrow> string) \<Rightarrow> string \<Rightarrow> resource list \<Rightarrow> resource list \<Rightarrow> string list" where
  "EquivalentResources diff field lhses rhses =
     equivalent_lhs diff field 0 lhses rhses @ equivalent_rhs field 0 lhses rhses"

section \<open>Lemmas\<close>

lemma urs_Insert_append: "urs_Insert (xs @ ys) u = urs_Insert ys (urs_Insert xs u)"
  by (induction xs u rule: urs_Insert.induct) auto

text \<open>The set keeps the IDs of its resources, and the first resource of each ID.\<close>

definition urs_inv :: "unique_resource_set \<Rightarrow> bool" where
  "urs_inv u \<longleftrightarrow> distinct (map resource_ID (urs_resources u)) \<and>
     set (urs_seen u) = resource_ID ` set (urs_resources u)"

lemma urs_Insert_inv:
  "urs_inv u \<Longrightarrow> urs_inv (urs_Insert rs u) \<and>
     resource_ID ` set (urs_resources (urs_Insert rs u)) =
       resource_ID ` set (urs_resources u) \<union> resource_ID ` {r. Some r \<in> set rs} \<and>
     (\<forall>r \<in> set (urs_resources (urs_Insert rs u)). r \<in> set (urs_resources u) \<or> Some r \<in> set rs) \<and>
     (\<exists>zs. urs_resources (urs_Insert rs u) = urs_resources u @ zs)"
proof (induction rs u rule: urs_Insert.induct)
  case (3 r rs u)
  show ?case
  proof (cases "resource_ID r \<in> set (urs_seen u)")
    case True
    with 3 show ?thesis by (auto simp: urs_inv_def)
  next
    case False
    let ?u = "u\<lparr>urs_resources := urs_resources u @ [r], urs_seen := resource_ID r # urs_seen u\<rparr>"
    have "urs_inv ?u" using 3(3) False by (auto simp: urs_inv_def)
    from "3.IH"(2) [OF False this] False show ?thesis by auto
  qed
qed auto

lemma NewUniqueResourceSet_spec:
  "distinct (map resource_ID (urs_List (NewUniqueResourceSet rs))) \<and>
   resource_ID ` set (urs_List (NewUniqueResourceSet rs)) = resource_ID ` {r. Some r \<in> set rs} \<and>
   (\<forall>r \<in> set (urs_List (NewUniqueResourceSet rs)). Some r \<in> set rs)"
proof -
  have "urs_inv \<lparr>urs_seen = [], urs_resources = []\<rparr>" by (simp add: urs_inv_def)
  from urs_Insert_inv [OF this, of rs] show ?thesis
    by (simp add: NewUniqueResourceSet_def urs_List_def urs_inv_def)
qed

lemma findResource_Some: "findResource rs f = Some r \<Longrightarrow> r \<in> set rs \<and> rs_Filename r = f"
  by (induction rs) (auto split: if_splits)

lemma findResource_None_iff: "findResource rs f = None \<longleftrightarrow> f \<notin> rs_Filename ` set rs"
  by (induction rs) auto

lemma equivalent_lhs_Nil_iff:
  "equivalent_lhs diff field i lhses rhses = [] \<longleftrightarrow>
     (\<forall>l \<in> set lhses. \<exists>r. findResource rhses (rs_Filename l) = Some r \<and> rs_Content l = rs_Content r)"
  by (induction lhses arbitrary: i) (auto split: option.splits)

lemma equivalent_rhs_Nil_iff:
  "equivalent_rhs field i lhses rhses = [] \<longleftrightarrow> rs_Filename ` set rhses \<subseteq> rs_Filename ` set lhses"
proof (induction rhses arbitrary: i)
  case (Cons r rs)
  then show ?case
    using findResource_None_iff [of lhses "rs_Filename r"]
    by (cases "findResource lhses (rs_Filename r)") simp_all
qed simp

lemma findResource_distinct:
  "distinct (map rs_Filename rs) \<Longrightarrow> r \<in> set rs \<Longrightarrow> findResource rs (rs_Filename r) = Some r"
  by (induction rs) (auto simp: image_iff)

lemma resources_of_items_spec:
  "resources_of_items idx f items = Inr rs \<Longrightarrow>
     map rs_Content rs = items \<and> (\<forall>r \<in> set rs. rs_Filename r = f \<and>
       gvk_lookup idx (GroupVersionKind (rs_Content r)) = [rs_ResourceType r])"
proof (induction items arbitrary: rs)
  case (Cons item items)
  then show ?case
    by (auto simp: findGVR_def Let_def split: sum.splits list.splits)
qed simp

section \<open>Properties\<close>

text \<open>A unique resource set holds one resource per ID, for exactly the IDs inserted, and each
  resource it holds was inserted.\<close>

theorem UniqueResourceSet_one_per_ID:
  "distinct (map resource_ID (urs_List (NewUniqueResourceSet rs))) \<and>
   resource_ID ` set (urs_List (NewUniqueResourceSet rs)) = resource_ID ` {r. Some r \<in> set rs} \<and>
   set (urs_List (NewUniqueResourceSet rs)) \<subseteq> {r. Some r \<in> set rs} \<and>
   (\<exists>zs. urs_List (NewUniqueResourceSet (rs @ rs')) = urs_List (NewUniqueResourceSet rs) @ zs)"
proof -
  have "urs_inv \<lparr>urs_seen = [], urs_resources = []\<rparr>" by (simp add: urs_inv_def)
  then have "urs_inv (NewUniqueResourceSet rs)"
    using urs_Insert_inv [of _ rs] by (simp add: NewUniqueResourceSet_def)
  then have "\<exists>zs. urs_List (NewUniqueResourceSet (rs @ rs')) = urs_List (NewUniqueResourceSet rs) @ zs"
    using urs_Insert_inv [of "NewUniqueResourceSet rs" rs']
    by (simp add: NewUniqueResourceSet_def urs_List_def urs_Insert_append)
  then show ?thesis using NewUniqueResourceSet_spec [of rs] by blast
qed

text \<open>Two resource lists without repeated filenames are equivalent, with no reason given, exactly
  when they are the same map from filenames to contents.\<close>

theorem EquivalentResources_iff:
  assumes "distinct (map rs_Filename lhses)" and "distinct (map rs_Filename rhses)"
  shows "EquivalentResources diff field lhses rhses = [] \<longleftrightarrow>
    (\<lambda>r. (rs_Filename r, rs_Content r)) ` set lhses = (\<lambda>r. (rs_Filename r, rs_Content r)) ` set rhses"
proof -
  let ?f = "\<lambda>r. (rs_Filename r, rs_Content r)"
  have lhs: "(\<exists>r. findResource rhses (rs_Filename l) = Some r \<and> rs_Content l = rs_Content r) \<longleftrightarrow> ?f l \<in> ?f ` set rhses" for l
  proof
    assume "\<exists>r. findResource rhses (rs_Filename l) = Some r \<and> rs_Content l = rs_Content r"
    then obtain r where r: "findResource rhses (rs_Filename l) = Some r" "rs_Content l = rs_Content r" by blast
    show "?f l \<in> ?f ` set rhses"
      by (rule image_eqI [of _ _ r]) (use findResource_Some [OF r(1)] r(2) in simp_all)
  next
    assume "?f l \<in> ?f ` set rhses"
    then obtain r where "r \<in> set rhses" "rs_Filename l = rs_Filename r" "rs_Content l = rs_Content r"
      by (elim imageE) simp
    then show "\<exists>r. findResource rhses (rs_Filename l) = Some r \<and> rs_Content l = rs_Content r"
      by (simp add: findResource_distinct [OF assms(2)])
  qed
  have "EquivalentResources diff field lhses rhses = [] \<longleftrightarrow>
      ?f ` set lhses \<subseteq> ?f ` set rhses \<and> rs_Filename ` set rhses \<subseteq> rs_Filename ` set lhses"
    by (auto simp: EquivalentResources_def equivalent_lhs_Nil_iff equivalent_rhs_Nil_iff lhs)
  moreover have "?f ` set rhses \<subseteq> ?f ` set lhses"
    if sub: "?f ` set lhses \<subseteq> ?f ` set rhses" and fn: "rs_Filename ` set rhses \<subseteq> rs_Filename ` set lhses"
  proof (rule image_subsetI)
    fix r assume r: "r \<in> set rhses"
    then obtain l where l: "l \<in> set lhses" "rs_Filename l = rs_Filename r" using fn by auto
    then obtain r' where r': "r' \<in> set rhses" "?f l = ?f r'" using sub by auto
    then have "r' = r" using r l assms(2) by (auto simp: distinct_map dest: inj_onD)
    with r' show "?f r \<in> ?f ` set lhses" by (intro image_eqI [of _ _ l] l(1)) simp
  qed
  moreover have "rs_Filename ` set rhses \<subseteq> rs_Filename ` set lhses" if "?f ` set lhses = ?f ` set rhses"
  proof -
    have "rs_Filename ` set rs = fst ` ?f ` set rs" for rs by (simp add: image_image)
    from this [of lhses] this [of rhses] show ?thesis by (simp only: that order_refl)
  qed
  ultimately show ?thesis by blast
qed

definition demo_file :: "string \<Rightarrow> resource" where
  "demo_file f = \<lparr>rs_Filename = f, rs_ResourceType = \<lparr>gvr_Group = [], gvr_Version = ''v1'', gvr_Resource = ''pods''\<rparr>,
     rs_Content = fmempty\<rparr>"

theorem EquivalentResources_iff_witness:
  "EquivalentResources (\<lambda>a b. []) ''f'' [demo_file ''a'', demo_file ''b''] [demo_file ''b'', demo_file ''a''] = [] \<and>
   EquivalentResources (\<lambda>a b. []) ''f'' [demo_file ''a''] [demo_file ''b''] \<noteq> []"
proof
  show "EquivalentResources (\<lambda>a b. []) ''f'' [demo_file ''a'', demo_file ''b''] [demo_file ''b'', demo_file ''a''] = []"
    by (subst EquivalentResources_iff) (auto simp: demo_file_def)
  show "EquivalentResources (\<lambda>a b. []) ''f'' [demo_file ''a''] [demo_file ''b''] \<noteq> []"
    by (subst EquivalentResources_iff) (auto simp: demo_file_def)
qed

text \<open>A file that holds a list gives one resource per item, in order, with the file's name and the
  only resource type served for the item's kind; a file that holds one object gives that object.\<close>

theorem ResourcesFromFile_spec:
  assumes "ResourcesFromFile env idx location prefix = Inr rs"
  shows "\<exists>content obj. fe_ReadFile env location = Inr content \<and> decode_file env location content = Inr obj \<and>
    (if IsList obj then ToList obj = Inr (map rs_Content rs) else map rs_Content rs = [obj]) \<and>
    (\<forall>r \<in> set rs. rs_Filename r = trim_prefix (trim_prefix location prefix) ''/'' \<and>
      gvk_lookup idx (GroupVersionKind (rs_Content r)) = [rs_ResourceType r])"
proof -
  obtain content obj where c: "fe_ReadFile env location = Inr content" "decode_file env location content = Inr obj"
    using assms by (auto simp: ResourcesFromFile_def split: sum.splits)
  show ?thesis
  proof (cases "IsList obj")
    case True
    then obtain items where "ToList obj = Inr items"
      "resources_of_items idx (trim_prefix (trim_prefix location prefix) ''/'') items = Inr rs"
      using assms c by (auto simp: ResourcesFromFile_def Let_def split: sum.splits)
    with c True show ?thesis using resources_of_items_spec by fastforce
  next
    case False
    with assms c show ?thesis
      by (auto simp: ResourcesFromFile_def Let_def findGVR_def split: sum.splits list.splits)
  qed
qed

definition demo_pod :: "string \<Rightarrow> string \<Rightarrow> unstructured" where
  "demo_pod namespace name = fmap_of_list [(''apiVersion'', JString ''v1''), (''kind'', JString ''Pod''),
     (''metadata'', JObject (fmap_of_list [(''name'', JString name), (''namespace'', JString namespace)]))]"

definition demo_pods :: group_version_resource where
  "demo_pods = \<lparr>gvr_Group = [], gvr_Version = ''v1'', gvr_Resource = ''pods''\<rparr>"

definition demo_pod_kind :: group_version_kind where
  "demo_pod_kind = \<lparr>gvk_Group = [], gvk_Version = ''v1'', gvk_Kind = ''Pod''\<rparr>"

lemma demo_pod_simps [simp]:
  "GroupVersionKind (demo_pod ns n) = demo_pod_kind" "GetNamespace (demo_pod ns n) = ns" "GetName (demo_pod ns n) = n"
  "\<not> IsList (demo_pod ns n)"
  by (simp_all add: GroupVersionKind_def demo_pod_def get_string_def ParseGroupVersion_def slash_def
      demo_pod_kind_def GetNamespace_def GetName_def get_metadata_string_def IsList_def fmlookup_of_list)

definition demo_files :: file_env where
  "demo_files = \<lparr>fe_ReadFile = (\<lambda>f. Inr ''x''), fe_DecodeJSON = (\<lambda>c. Inr (demo_pod ''ns'' ''p'')),
     fe_YAMLToJSON = (\<lambda>c. Inl (errorf ''not yaml''))\<rparr>"

theorem ResourcesFromFile_spec_witness:
  "\<exists>r. ResourcesFromFile demo_files [(demo_pod_kind, [demo_pods])] ''/mg/pods.yaml'' ''/mg'' = Inr [r] \<and>
    rs_Filename r = ''pods.yaml'' \<and> rs_ResourceType r = demo_pods"
proof -
  have "\<exists>r. ResourcesFromFile demo_files [(demo_pod_kind, [demo_pods])] ''/mg/pods.yaml'' ''/mg'' = Inr [r]"
    by (simp add: ResourcesFromFile_def demo_files_def decode_file_def findGVR_def gvk_lookup_def Let_def)
  then obtain r where r: "ResourcesFromFile demo_files [(demo_pod_kind, [demo_pods])] ''/mg/pods.yaml'' ''/mg'' = Inr [r]" ..
  from ResourcesFromFile_spec [OF r] have "rs_Filename r = trim_prefix (trim_prefix ''/mg/pods.yaml'' ''/mg'') ''/''"
    and "rs_ResourceType r = demo_pods"
    by (auto simp: demo_files_def decode_file_def gvk_lookup_def)
  with r show ?thesis by (auto simp: trim_prefix.simps)
qed

end
