(* ===== verification/Prune.thy ===== *)
theory Prune
  imports Must_Gather
begin

text \<open>
  \<open>pkg/library/libraryinputresources/prune_mustgather.go\<close>: the selection of the resources an input
  resource list names, through a dynamic client, and their regrouping into the files of a must-gather
  directory, one list per kind and namespace.
\<close>

section \<open>Selecting the required resources\<close>

datatype eval_result =
    EvalString string
  | EvalStrings "string list"
  | EvalValues "json list"
  | EvalOther json

record client_env =
  ce_Get :: "group_version_resource \<Rightarrow> string \<Rightarrow> string \<Rightarrow> go_error + unstructured"
  ce_List :: "group_version_resource \<Rightarrow> string \<Rightarrow> string \<Rightarrow> go_error + unstructured list"
  ce_LabelSelectorAsSelector :: "label_selector \<Rightarrow> go_error + string"
  ce_NewEvaluable :: "string \<Rightarrow> go_error + (json \<Rightarrow> go_error + eval_result)"
  ce_fmt_value :: "json \<Rightarrow> string"
  ce_fmt_ref :: "input_exact_resource \<Rightarrow> string"
  ce_fmt_unexpected :: "json \<Rightarrow> string"

definition IdentifierForExactResourceRef :: "input_exact_resource \<Rightarrow> string" where
  "IdentifierForExactResourceRef r =
     it_Resource r @ ''.'' @ it_Version r @ ''.'' @ it_Group r @ ''/'' @ ie_Name r @ ''['' @ ie_Namespace r @ '']''"

definition input_gvr :: "'a input_type_identifier_scheme \<Rightarrow> group_version_resource" where
  "input_gvr i = \<lparr>gvr_Group = it_Group i, gvr_Version = it_Version i, gvr_Resource = it_Resource i\<rparr>"

definition getExactResource :: "client_env \<Rightarrow> input_exact_resource \<Rightarrow> go_error + resource" where
  "getExactResource env ref =
     (case ce_Get env (input_gvr ref) (ie_Namespace ref) (ie_Name ref) of
        Inl err \<Rightarrow> Inl (Wrapf (''failed getting '' @ IdentifierForExactResourceRef ref @ '': '') err [])
      | Inr obj \<Rightarrow> Inr \<lparr>rs_Filename = [], rs_ResourceType = input_gvr ref, rs_Content = obj\<rparr>)"

definition getResourcesByLabelSelector ::
    "client_env \<Rightarrow> label_selected_resource \<Rightarrow> go_error + resource list" where
  "getResourcesByLabelSelector env l =
     (case ce_LabelSelectorAsSelector env (lr_LabelSelector l) of
        Inl err \<Rightarrow> Inl err
      | Inr selector \<Rightarrow>
          (case ce_List env (input_gvr l) (lr_Namespace l) selector of
             Inl err \<Rightarrow> Inl (Wrapf (''failed getting list of resources with labelSelector '' @ go_quote selector @ '': '') err [])
           | Inr items \<Rightarrow> Inr (map (\<lambda>item. \<lparr>rs_Filename = [], rs_ResourceType = input_gvr l,
               rs_Content = item\<rparr>) items)))"

text \<open>The set of instances found so far and the errors.\<close>

type_synonym selection = "unique_resource_set \<times> go_error list"

text \<open>The end of each loop body: nothing for a missing resource, else an error or the resources.\<close>

definition record_found :: "go_error + resource list \<Rightarrow> selection \<Rightarrow> selection" where
  "record_found res s =
     (case res of
        Inl err \<Rightarrow> (if err_is ApiNotFound err then s else (fst s, snd s @ [err]))
      | Inr rs \<Rightarrow> (urs_Insert (map Some rs) (fst s), snd s))"

definition get_one :: "client_env \<Rightarrow> input_exact_resource \<Rightarrow> go_error + resource list" where
  "get_one env ref = (case getExactResource env ref of Inl err \<Rightarrow> Inl err | Inr r \<Rightarrow> Inr [r])"

text \<open>The names a JSON path gives, and the error of an unexpected type.\<close>

definition result_names :: "client_env \<Rightarrow> field_path \<Rightarrow> eval_result \<Rightarrow> string list \<times> go_error list" where
  "result_names env path results =
     (case results of
        EvalString s \<Rightarrow> ([s], [])
      | EvalStrings ss \<Rightarrow> (ss, [])
      | EvalValues vs \<Rightarrow> (map (ce_fmt_value env) vs, [])
      | EvalOther v \<Rightarrow> ([], [errorf (''['' @ path @ ''] unexpected error type '' @ ce_fmt_unexpected env v)]))"

definition target_ref :: "implicit_namespaced_reference \<Rightarrow> string \<Rightarrow> input_exact_resource" where
  "target_ref m name = \<lparr>it_Group = it_Group m, it_Version = it_Version m, it_Resource = it_Resource m,
     ie_Namespace = mr_Namespace m, ie_Name = name\<rparr>"

definition follow_reference ::
    "client_env \<Rightarrow> field_path \<Rightarrow> implicit_namespaced_reference \<Rightarrow> resource \<Rightarrow> selection \<Rightarrow> selection" where
  "follow_reference env path m referring s =
     (case ce_NewEvaluable env (mr_NameJSONPath m) of
        Inl err \<Rightarrow> (fst s, snd s @ [Wrapf (''error parsing ['' @ path @ '']: '' @ go_quote (mr_NameJSONPath m) @ '': '') err []])
      | Inr evaluator \<Rightarrow>
          (case evaluator (JObject (rs_Content referring)) of
             Inl err \<Rightarrow> (fst s, snd s @ [Wrapf (''unexpected error finding value for '' @ path
               @ '' from TODO with jsonPath: '') err []])
           | Inr results \<Rightarrow>
               (let (names, errs) = result_names env path results in
                fold (\<lambda>name. record_found (get_one env (target_ref m name))) names (fst s, snd s @ errs))))"

definition select_reference :: "client_env \<Rightarrow> nat \<Rightarrow> resource_reference \<Rightarrow> selection \<Rightarrow> selection" where
  "select_reference env i ref s =
     (let path = path_Index (path_Child ''.'' ''resourceReference'') i in
      case getExactResource env (rr_ReferringResource ref) of
        Inl err \<Rightarrow>
          (if err_is ApiNotFound err then s
           else (fst s, snd s @ [Wrapf (''failed reading referringResource ['' @ path @ ''] ''
             @ ce_fmt_ref env (rr_ReferringResource ref) @ '': '') err []]))
      | Inr referring \<Rightarrow>
          (let s' = (urs_Insert [Some referring] (fst s), snd s) in
           case rr_ImplicitNamespacedReference ref of
             None \<Rightarrow> s'
           | Some m \<Rightarrow> follow_reference env path m referring s'))"

fun select_references :: "client_env \<Rightarrow> nat \<Rightarrow> resource_reference list \<Rightarrow> selection \<Rightarrow> selection" where
  "select_references env i [] s = s"
| "select_references env i (ref # rest) s = select_references env (i + 1) rest (select_reference env i ref s)"

definition GetRequiredInputResourcesForResourceList ::
    "client_env \<Rightarrow> input_resource_list \<Rightarrow> resource list \<times> go_error option" where
  "GetRequiredInputResourcesForResourceList env l =
     (let s0 = (NewUniqueResourceSet [], []);
          s1 = fold (\<lambda>ref. record_found (get_one env ref)) (il_ExactResources l) s0;
          s2 = fold (\<lambda>sel. record_found (getResourcesByLabelSelector env sel)) (il_LabelSelectedResources l) s1;
          s3 = select_references env 0 (il_ResourceReferences l) s2 in
      (urs_List (fst s3), errors_join (snd s3)))"

section \<open>The must-gather layout\<close>

definition guessListKind :: "unstructured \<Rightarrow> group_version_kind" where
  "guessListKind obj =
     \<lparr>gvk_Group = gvk_Group (GroupVersionKind obj), gvk_Version = gvk_Version (GroupVersionKind obj),
      gvk_Kind = gvk_Kind (GroupVersionKind obj) @ ''List''\<rparr>"

text \<open>
  The three maps of \<open>unstructuredToMustGatherFormat\<close>: versions and resource by group kind, and the
  list of each group kind and namespace.
\<close>

record gather_state =
  gs_versions :: "(group_kind \<times> string list) list"
  gs_resource :: "(group_kind \<times> group_version_resource) list"
  gs_lists :: "((group_kind \<times> string) \<times> (group_version_kind \<times> unstructured list)) list"

definition gather_one :: "resource \<Rightarrow> gather_state \<Rightarrow> gather_state" where
  "gather_one cur s =
     (let obj = rs_Content cur; gvk = GroupVersionKind obj; gk = GroupKind gvk;
          existingVersions = (case map_of (gs_versions s) gk of None \<Rightarrow> [] | Some vs \<Rightarrow> vs);
          key = (gk, GetNamespace obj);
          (listGVK, items) = (case map_of (gs_lists s) key of
             None \<Rightarrow> (guessListKind obj, []) | Some existing \<Rightarrow> existing) in
      \<lparr>gs_versions = map_set gk (List.insert (gvk_Version gvk) existingVersions) (gs_versions s),
       gs_resource = map_set gk (rs_ResourceType cur) (gs_resource s),
       gs_lists = map_set key (listGVK, items @ [obj]) (gs_lists s)\<rparr>)"

definition gather_all :: "resource list \<Rightarrow> gather_state" where
  "gather_all rs = fold gather_one rs \<lparr>gs_versions = [], gs_resource = [], gs_lists = []\<rparr>"

fun version_errors :: "(group_kind \<Rightarrow> string list) \<Rightarrow> group_kind list \<Rightarrow> go_error list" where
  "version_errors versions [] = []"
| "version_errors versions (gk # rest) =
     (if length (versions gk) = 1 then version_errors versions rest
      else errorf (''groupKind='' @ group_kind_string gk @ '' has multiple versions: ''
        @ fmt_strings (sets_List (versions gk)) @ '', which prevents serialization'') # version_errors versions rest)"

definition gather_filename :: "group_kind \<Rightarrow> string \<Rightarrow> group_version_resource \<Rightarrow> string" where
  "gather_filename gk namespace resourceType =
     (let namespacedString = (if length namespace > 0 then ''namespaces'' else ''cluster-scoped-resources'');
          groupString = (if length (gk_Group gk) = 0 then ''core'' else gk_Group gk) in
      path_join [namespacedString, namespace, groupString, gvr_Resource resourceType @ ''.yaml''])"

definition zero_gvr :: group_version_resource where
  "zero_gvr = \<lparr>gvr_Group = [], gvr_Version = [], gvr_Resource = []\<rparr>"

definition gather_file :: "gather_state \<Rightarrow> group_kind \<times> string \<Rightarrow> resource" where
  "gather_file s key =
     (let (listGVK, items) = (case map_of (gs_lists s) key of
            None \<Rightarrow> (\<lparr>gvk_Group = [], gvk_Version = [], gvk_Kind = []\<rparr>, []) | Some l \<Rightarrow> l);
          resourceType = (case map_of (gs_resource s) (fst key) of None \<Rightarrow> zero_gvr | Some r \<Rightarrow> r) in
      \<lparr>rs_Filename = gather_filename (fst key) (snd key) resourceType, rs_ResourceType = resourceType,
       rs_Content = list_content listGVK items\<rparr>)"

definition unstructuredToMustGatherFormat ::
    "group_kind visit_order \<Rightarrow> (group_kind \<times> string) visit_order \<Rightarrow> resource list \<Rightarrow>
      resource list \<times> go_error option" where
  "unstructuredToMustGatherFormat ord_versions ord_lists rs =
     (let s = gather_all rs;
          versions = (\<lambda>gk. case map_of (gs_versions s) gk of None \<Rightarrow> [] | Some vs \<Rightarrow> vs);
          errs = version_errors versions (ord_versions (map fst (gs_versions s))) in
      if length errs > 0 then ([], errors_join errs)
      else (map (gather_file s) (ord_lists (map fst (gs_lists s))), None))"

section \<open>From a must-gather to a directory\<close>

definition GetRequiredInputResourcesFromMustGather ::
    "group_kind visit_order \<Rightarrow> (group_kind \<times> string) visit_order \<Rightarrow> go_error + client_env \<Rightarrow>
      input_resources option \<Rightarrow> (resource list \<times> go_error option) outcome" where
  "GetRequiredInputResourcesFromMustGather ord_versions ord_lists dynamicClient inputResources =
     (case dynamicClient of
        Inl err \<Rightarrow> Value ([], Some err)
      | Inr env \<Rightarrow>
          bind_outcome (deref inputResources) (\<lambda>inputs.
            (case GetRequiredInputResourcesForResourceList env (ir_ApplyConfigurationResources inputs) of
               (rs, Some err) \<Rightarrow> Value ([], Some err)
             | (rs, None) \<Rightarrow> Value (unstructuredToMustGatherFormat ord_versions ord_lists rs))))"

fun write_resources ::
    "write_env \<Rightarrow> string \<Rightarrow> resource list \<Rightarrow> go_error list \<times> (string \<times> string) list" where
  "write_resources env targetDir [] = ([], [])"
| "write_resources env targetDir (r # rest) =
     (let (err, files) = WriteResource env r targetDir; (errs, files') = write_resources env targetDir rest in
      ((case err of None \<Rightarrow> errs | Some e \<Rightarrow> e # errs), files @ files'))"

definition WriteRequiredInputResourcesFromMustGather ::
    "group_kind visit_order \<Rightarrow> (group_kind \<times> string) visit_order \<Rightarrow> go_error + client_env \<Rightarrow> write_env \<Rightarrow>
      input_resources option \<Rightarrow> string \<Rightarrow> (go_error option \<times> (string \<times> string) list) outcome" where
  "WriteRequiredInputResourcesFromMustGather ord_versions ord_lists dynamicClient wenv inputResources targetDir =
     bind_outcome (GetRequiredInputResourcesFromMustGather ord_versions ord_lists dynamicClient inputResources)
       (\<lambda>(actualResources, err).
         (case err of
            Some e \<Rightarrow> Value (Some e, [])
          | None \<Rightarrow>
              (case we_MkdirAll wenv targetDir of
                 Some e \<Rightarrow> Value (Some (Wrapf (''unable to create '' @ go_quote targetDir @ '': '') e []), [])
               | None \<Rightarrow>
                   (let (errs, files) = write_resources wenv targetDir actualResources in
                    Value (errors_join errs, files)))))"

section \<open>Lemmas: selection\<close>

text \<open>What one request to the cluster finds, and the error it counts; a missing resource is neither.\<close>

definition found :: "go_error + resource list \<Rightarrow> resource list" where
  "found res = (case res of Inl err \<Rightarrow> [] | Inr rs \<Rightarrow> rs)"

definition failures :: "go_error + resource list \<Rightarrow> go_error list" where
  "failures res = (case res of Inl err \<Rightarrow> if err_is ApiNotFound err then [] else [err] | Inr rs \<Rightarrow> [])"

lemma record_found_eq:
  "record_found res s = (urs_Insert (map Some (found res)) (fst s), snd s @ failures res)"
  by (cases s) (simp add: record_found_def found_def failures_def split: sum.split)

lemma fold_record_found:
  "fold (\<lambda>x. record_found (f x)) xs s =
     (urs_Insert (map Some (concat (map (found \<circ> f) xs))) (fst s), snd s @ concat (map (failures \<circ> f) xs))"
  by (induction xs arbitrary: s) (simp_all add: record_found_eq urs_Insert_append)

text \<open>What a reference finds and the errors it counts.\<close>

definition reference_names ::
    "client_env \<Rightarrow> field_path \<Rightarrow> implicit_namespaced_reference \<Rightarrow> resource \<Rightarrow> string list \<times> go_error list" where
  "reference_names env path m referring =
     (case ce_NewEvaluable env (mr_NameJSONPath m) of
        Inl err \<Rightarrow> ([], [Wrapf (''error parsing ['' @ path @ '']: '' @ go_quote (mr_NameJSONPath m) @ '': '') err []])
      | Inr evaluator \<Rightarrow>
          (case evaluator (JObject (rs_Content referring)) of
             Inl err \<Rightarrow> ([], [Wrapf (''unexpected error finding value for '' @ path @ '' from TODO with jsonPath: '') err []])
           | Inr results \<Rightarrow> result_names env path results))"

definition reference_targets ::
    "client_env \<Rightarrow> field_path \<Rightarrow> resource_reference \<Rightarrow> resource \<Rightarrow> input_exact_resource list \<times> go_error list" where
  "reference_targets env path ref referring =
     (case rr_ImplicitNamespacedReference ref of
        None \<Rightarrow> ([], [])
      | Some m \<Rightarrow> (map (target_ref m) (fst (reference_names env path m referring)),
          snd (reference_names env path m referring)))"

definition reference_path :: "nat \<Rightarrow> field_path" where
  "reference_path i = path_Index (path_Child ''.'' ''resourceReference'') i"

definition reference_found :: "client_env \<Rightarrow> nat \<Rightarrow> resource_reference \<Rightarrow> resource list" where
  "reference_found env i ref =
     (case getExactResource env (rr_ReferringResource ref) of
        Inl err \<Rightarrow> []
      | Inr referring \<Rightarrow> referring # concat (map (found \<circ> get_one env)
          (fst (reference_targets env (reference_path i) ref referring))))"

definition reference_errors :: "client_env \<Rightarrow> nat \<Rightarrow> resource_reference \<Rightarrow> go_error list" where
  "reference_errors env i ref =
     (case getExactResource env (rr_ReferringResource ref) of
        Inl err \<Rightarrow> (if err_is ApiNotFound err then []
          else [Wrapf (''failed reading referringResource ['' @ reference_path i @ ''] ''
            @ ce_fmt_ref env (rr_ReferringResource ref) @ '': '') err []])
      | Inr referring \<Rightarrow> snd (reference_targets env (reference_path i) ref referring)
          @ concat (map (failures \<circ> get_one env) (fst (reference_targets env (reference_path i) ref referring))))"

lemma follow_reference_eq:
  "follow_reference env path m referring s =
     (urs_Insert (map Some (concat (map (found \<circ> get_one env)
        (map (target_ref m) (fst (reference_names env path m referring)))))) (fst s),
      snd s @ snd (reference_names env path m referring) @ concat (map (failures \<circ> get_one env)
        (map (target_ref m) (fst (reference_names env path m referring)))))"
proof -
  have "fold (\<lambda>name. record_found (get_one env (target_ref m name))) names s =
      (urs_Insert (map Some (concat (map (found \<circ> get_one env) (map (target_ref m) names)))) (fst s),
       snd s @ concat (map (failures \<circ> get_one env) (map (target_ref m) names)))" for names and s :: selection
    using fold_record_found [of "\<lambda>name. get_one env (target_ref m name)" names s] by (simp add: o_def)
  then show ?thesis
    by (simp add: follow_reference_def reference_names_def split: sum.split prod.split)
qed

lemma select_reference_eq:
  "select_reference env i ref s =
     (urs_Insert (map Some (reference_found env i ref)) (fst s), snd s @ reference_errors env i ref)"
  by (cases s)
    (simp add: select_reference_def reference_found_def reference_errors_def reference_targets_def
      follow_reference_eq Let_def flip: reference_path_def split: sum.split option.split)

fun references_found :: "client_env \<Rightarrow> nat \<Rightarrow> resource_reference list \<Rightarrow> resource list" where
  "references_found env i [] = []"
| "references_found env i (ref # rest) = reference_found env i ref @ references_found env (i + 1) rest"

fun references_errors :: "client_env \<Rightarrow> nat \<Rightarrow> resource_reference list \<Rightarrow> go_error list" where
  "references_errors env i [] = []"
| "references_errors env i (ref # rest) = reference_errors env i ref @ references_errors env (i + 1) rest"

lemma select_references_eq:
  "select_references env i refs s =
     (urs_Insert (map Some (references_found env i refs)) (fst s), snd s @ references_errors env i refs)"
  by (induction refs arbitrary: i s) (simp_all add: select_reference_eq urs_Insert_append)

text \<open>Everything a list finds, in the order of the loops, and all its errors.\<close>

definition required :: "client_env \<Rightarrow> input_resource_list \<Rightarrow> resource list" where
  "required env l =
     concat (map (found \<circ> get_one env) (il_ExactResources l)) @
     concat (map (found \<circ> getResourcesByLabelSelector env) (il_LabelSelectedResources l)) @
     references_found env 0 (il_ResourceReferences l)"

definition required_errors :: "client_env \<Rightarrow> input_resource_list \<Rightarrow> go_error list" where
  "required_errors env l =
     concat (map (failures \<circ> get_one env) (il_ExactResources l)) @
     concat (map (failures \<circ> getResourcesByLabelSelector env) (il_LabelSelectedResources l)) @
     references_errors env 0 (il_ResourceReferences l)"

lemma GetRequired_eq:
  "GetRequiredInputResourcesForResourceList env l =
     (urs_List (NewUniqueResourceSet (map Some (required env l))), errors_join (required_errors env l))"
  by (simp add: GetRequiredInputResourcesForResourceList_def fold_record_found [of "get_one env"]
      fold_record_found [of "getResourcesByLabelSelector env"] select_references_eq Let_def required_def
      required_errors_def NewUniqueResourceSet_def urs_Insert_append)


section \<open>Lemmas: grouping\<close>

definition gk_of :: "resource \<Rightarrow> group_kind" where
  "gk_of r = GroupKind (GroupVersionKind (rs_Content r))"

definition version_of :: "resource \<Rightarrow> string" where
  "version_of r = gvk_Version (GroupVersionKind (rs_Content r))"

definition key_of :: "resource \<Rightarrow> group_kind \<times> string" where
  "key_of r = (gk_of r, GetNamespace (rs_Content r))"

text \<open>
  A map that groups a list by a key: its keys are those of the list, and what it holds for a key is
  related to the elements with that key.
\<close>

definition grouped_by :: "('a \<Rightarrow> 'k) \<Rightarrow> ('a list \<Rightarrow> 'v \<Rightarrow> bool) \<Rightarrow> 'a list \<Rightarrow> ('k \<times> 'v) list \<Rightarrow> bool" where
  "grouped_by key P xs m \<longleftrightarrow> distinct (map fst m) \<and> set (map fst m) = key ` set xs \<and>
     (\<forall>x \<in> set xs. \<exists>v. map_of m (key x) = Some v \<and> P (filter (\<lambda>y. key y = key x) xs) v)"

lemma grouped_by_Nil [simp]: "grouped_by key P [] []"
  by (simp add: grouped_by_def)

lemma grouped_by_lookup:
  assumes "grouped_by key P xs m" and "x \<in> set xs"
  obtains v where "map_of m (key x) = Some v" and "P (filter (\<lambda>y. key y = key x) xs) v"
  using assms by (auto simp: grouped_by_def)

lemma grouped_by_step:
  assumes g: "grouped_by key P xs m"
    and step: "case map_of m (key x) of None \<Rightarrow> P [x] v | Some w \<Rightarrow> (\<forall>ys. P ys w \<longrightarrow> P (ys @ [x]) v)"
  shows "grouped_by key P (xs @ [x]) (map_set (key x) v m)"
  unfolding grouped_by_def
proof (intro conjI ballI)
  show "distinct (map fst (map_set (key x) v m))" "set (map fst (map_set (key x) v m)) = key ` set (xs @ [x])"
    using g by (auto simp: grouped_by_def keys_map_set)
  fix y
  assume y: "y \<in> set (xs @ [x])"
  show "\<exists>v'. map_of (map_set (key x) v m) (key y) = Some v' \<and> P (filter (\<lambda>z. key z = key y) (xs @ [x])) v'"
  proof (cases "key y = key x")
    case False
    with y have "y \<in> set xs" by auto
    with g obtain v' where "map_of m (key y) = Some v'" "P (filter (\<lambda>z. key z = key y) xs) v'"
      by (rule grouped_by_lookup)
    with False show ?thesis by simp
  next
    case True
    have "P (filter (\<lambda>z. key z = key x) xs @ [x]) v"
    proof (cases "map_of m (key x)")
      case None
      with g have "key x \<notin> key ` set xs" by (auto simp: grouped_by_def map_of_eq_None_iff)
      then have none: "filter (\<lambda>z. key z = key x) xs = []" by (metis (mono_tags, lifting) filter_False image_eqI)
      show ?thesis unfolding none using step None by simp
    next
      case (Some w)
      then have "key x \<in> set (map fst m)" by (metis domI dom_map_of_conv_image_fst list.set_map)
      with g have "key x \<in> key ` set xs" by (simp only: grouped_by_def)
      then obtain z where "z \<in> set xs" "key x = key z" by auto
      with g obtain w' where "map_of m (key x) = Some w'" "P (filter (\<lambda>z. key z = key x) xs) w'"
        by (metis grouped_by_lookup)
      with Some have "P (filter (\<lambda>z. key z = key x) xs) w" by simp
      with step Some show ?thesis by simp
    qed
    with True show ?thesis by simp
  qed
qed

text \<open>What the maps hold after a list of resources.\<close>

definition gathered :: "resource list \<Rightarrow> gather_state \<Rightarrow> bool" where
  "gathered rs s \<longleftrightarrow>
     grouped_by gk_of (\<lambda>ys vs. distinct vs \<and> set vs = version_of ` set ys) rs (gs_versions s) \<and>
     grouped_by gk_of (\<lambda>ys t. t \<in> rs_ResourceType ` set ys) rs (gs_resource s) \<and>
     grouped_by key_of (\<lambda>ys l. snd l = map rs_Content ys) rs (gs_lists s)"

lemma gathered_step:
  assumes "gathered rs s"
  shows "gathered (rs @ [r]) (gather_one r s)"
proof -
  define vs where "vs = (case map_of (gs_versions s) (gk_of r) of None \<Rightarrow> [] | Some vs \<Rightarrow> vs)"
  obtain lgvk items where l: "(case map_of (gs_lists s) (key_of r) of None \<Rightarrow> (guessListKind (rs_Content r), [])
      | Some existing \<Rightarrow> existing) = (lgvk, items)" by fastforce
  have s': "gather_one r s = \<lparr>gs_versions = map_set (gk_of r) (List.insert (version_of r) vs) (gs_versions s),
      gs_resource = map_set (gk_of r) (rs_ResourceType r) (gs_resource s),
      gs_lists = map_set (key_of r) (lgvk, items @ [rs_Content r]) (gs_lists s)\<rparr>"
    using l by (simp add: gather_one_def Let_def vs_def gk_of_def key_of_def version_of_def)
  show ?thesis
    using assms l unfolding gathered_def s' gather_state.select_convs
    by (intro conjI grouped_by_step; elim conjE) (auto simp: vs_def split: option.splits)
qed

lemma gathered_all: "gathered rs (gather_all rs)"
proof (induction rs rule: rev_induct)
  case Nil
  show ?case by (simp add: gathered_def gather_all_def)
next
  case (snoc r rs)
  then show ?case using gathered_step by (simp add: gather_all_def)
qed

lemma version_errors_Nil_iff:
  "version_errors versions gks = [] \<longleftrightarrow> (\<forall>gk \<in> set gks. length (versions gk) = 1)"
  by (induction gks) auto

text \<open>Every kind comes in one version.\<close>

definition one_version :: "resource list \<Rightarrow> bool" where
  "one_version rs \<longleftrightarrow> (\<forall>r \<in> set rs. \<forall>r' \<in> set rs. gk_of r = gk_of r' \<longrightarrow> version_of r = version_of r')"

lemma length_one_iff: "distinct vs \<Longrightarrow> length vs = 1 \<longleftrightarrow> (\<exists>v. set vs = {v})"
  by (metis card_1_singleton_iff distinct_card One_nat_def)

lemma singleton_image_iff:
  "r \<in> A \<Longrightarrow> P r \<Longrightarrow> (\<exists>v. f ` {x \<in> A. P x} = {v}) \<longleftrightarrow> (\<forall>x \<in> A. P x \<longrightarrow> f x = f r)"
  by (auto simp: image_def set_eq_iff) metis

lemma gather_versions_ok:
  assumes "range_order ord"
  shows "version_errors (\<lambda>gk. case map_of (gs_versions (gather_all rs)) gk of None \<Rightarrow> [] | Some vs \<Rightarrow> vs)
      (ord (map fst (gs_versions (gather_all rs)))) = [] \<longleftrightarrow> one_version rs"
proof -
  have g: "grouped_by gk_of (\<lambda>ys vs. distinct vs \<and> set vs = version_of ` set ys) rs (gs_versions (gather_all rs))"
    using gathered_all [of rs] by (simp add: gathered_def)
  let ?vs = "\<lambda>gk. case map_of (gs_versions (gather_all rs)) gk of None \<Rightarrow> [] | Some vs \<Rightarrow> vs"
  have "set (ord (map fst (gs_versions (gather_all rs)))) = gk_of ` set rs"
    using assms g by (simp add: grouped_by_def)
  moreover have "length (?vs (gk_of r)) = 1 \<longleftrightarrow> (\<forall>r' \<in> set rs. gk_of r' = gk_of r \<longrightarrow> version_of r' = version_of r)"
    if r: "r \<in> set rs" for r
  proof -
    obtain vs where vs: "map_of (gs_versions (gather_all rs)) (gk_of r) = Some vs" "distinct vs"
      "set vs = version_of ` {r' \<in> set rs. gk_of r' = gk_of r}"
      by (rule grouped_by_lookup [OF g r]) auto
    have "(\<exists>v. version_of ` {r' \<in> set rs. gk_of r' = gk_of r} = {v}) \<longleftrightarrow>
        (\<forall>r' \<in> set rs. gk_of r' = gk_of r \<longrightarrow> version_of r' = version_of r)"
      using r by (rule singleton_image_iff) simp
    with vs(1,3) show ?thesis using length_one_iff [OF vs(2)] by simp
  qed
  ultimately show ?thesis
    by (auto simp: version_errors_Nil_iff one_version_def)
qed

text \<open>The items of a written list.\<close>

definition file_items :: "resource \<Rightarrow> unstructured list" where
  "file_items f = (case ToList (rs_Content f) of Inl e \<Rightarrow> [] | Inr ms \<Rightarrow> ms)"

lemma gather_file_of:
  assumes "r \<in> set rs"
  shows "file_items (gather_file (gather_all rs) (key_of r)) = map rs_Content (filter (\<lambda>r'. key_of r' = key_of r) rs)"
    and "\<exists>r' \<in> set rs. gk_of r' = gk_of r \<and> rs_Filename (gather_file (gather_all rs) (key_of r)) =
      gather_filename (gk_of r) (GetNamespace (rs_Content r)) (rs_ResourceType r')"
proof -
  note g = gathered_all [of rs, unfolded gathered_def]
  obtain gvk where l: "map_of (gs_lists (gather_all rs)) (key_of r) =
      Some (gvk, map rs_Content (filter (\<lambda>r'. key_of r' = key_of r) rs))"
    using g assms by (auto elim!: grouped_by_lookup)
  then show "file_items (gather_file (gather_all rs) (key_of r)) = map rs_Content (filter (\<lambda>r'. key_of r' = key_of r) rs)"
    by (simp add: file_items_def gather_file_def Let_def split: option.split)
  obtain r' where "r' \<in> set rs" "gk_of r' = gk_of r"
    "map_of (gs_resource (gather_all rs)) (gk_of r) = Some (rs_ResourceType r')"
    using g assms by (auto elim!: grouped_by_lookup)
  then show "\<exists>r' \<in> set rs. gk_of r' = gk_of r \<and> rs_Filename (gather_file (gather_all rs) (key_of r)) =
      gather_filename (gk_of r) (GetNamespace (rs_Content r)) (rs_ResourceType r')"
    using l by (intro bexI [of _ r']) (simp_all add: gather_file_def key_of_def Let_def)
qed

lemma gather_keys:
  assumes "range_order ord"
  shows "set (ord (map fst (gs_lists (gather_all rs)))) = key_of ` set rs"
    and "distinct (ord (map fst (gs_lists (gather_all rs))))"
  using gathered_all [of rs] assms by (auto simp: gathered_def grouped_by_def)

lemma gather_filename_inj:
  assumes "gather_filename gk ns rt = gather_filename gk' ns' rt'"
    and "ns = [] \<or> plain_component ns" and "ns' = [] \<or> plain_component ns'"
    and "gk_Group gk = [] \<or> plain_component (gk_Group gk) \<and> gk_Group gk \<noteq> ''core''"
    and "gk_Group gk' = [] \<or> plain_component (gk_Group gk') \<and> gk_Group gk' \<noteq> ''core''"
    and "slash \<notin> set (gvr_Resource rt)" and "slash \<notin> set (gvr_Resource rt')"
  shows "ns = ns' \<and> gk_Group gk = gk_Group gk' \<and> gvr_Resource rt = gvr_Resource rt'"
proof -
  define parts where "parts gk ns rt = (if ns = [] then [''cluster-scoped-resources''] else [''namespaces'', ns]) @
    [if gk_Group gk = [] then ''core'' else gk_Group gk, gvr_Resource rt @ ''.yaml'']"
    for gk :: group_kind and ns and rt :: group_version_resource
  have yaml: "plain_component (x @ ''.yaml'')" if "slash \<notin> set x" for x
    using that by (auto simp: plain_component_def slash_def Cons_eq_append_conv append_eq_Cons_conv)
  have dirs: "plain_component ''namespaces''" "plain_component ''cluster-scoped-resources''" "plain_component ''core''"
    by (simp_all add: plain_component_def slash_def)
  have name: "gather_filename gk ns rt = strings_join (parts gk ns rt) [slash] \<and>
      (\<forall>x \<in> set (parts gk ns rt). slash \<notin> set x) \<and> parts gk ns rt \<noteq> []"
    if "ns = [] \<or> plain_component ns" "gk_Group gk = [] \<or> plain_component (gk_Group gk)"
      "slash \<notin> set (gvr_Resource rt)" for gk :: group_kind and ns and rt :: group_version_resource
  proof -
    let ?g = "if gk_Group gk = [] then ''core'' else gk_Group gk"
    have g: "plain_component ?g" using that dirs by auto
    have ne: "?g \<noteq> []" "gvr_Resource rt @ ''.yaml'' \<noteq> []" using g by (auto simp: plain_component_def)
    have "gather_filename gk ns rt = strings_join (filter (\<lambda>y. y \<noteq> [])
        [if ns = [] then ''cluster-scoped-resources'' else ''namespaces'', ns, ?g, gvr_Resource rt @ ''.yaml'']) [slash]"
      unfolding gather_filename_def Let_def
      by (subst path_join_parts [symmetric]) (use that g yaml dirs in auto)
    also have "filter (\<lambda>y. y \<noteq> [])
        [if ns = [] then ''cluster-scoped-resources'' else ''namespaces'', ns, ?g, gvr_Resource rt @ ''.yaml''] =
      parts gk ns rt"
      using ne by (simp add: parts_def)
    finally show ?thesis
      using that g dirs yaml [of "gvr_Resource rt"] by (auto simp: parts_def plain_component_def slash_def)
  qed
  have "parts gk ns rt = parts gk' ns' rt'"
    using name [of ns gk rt] name [of ns' gk' rt'] assms by (intro strings_join_plain_inj) auto
  then show ?thesis
    using assms(4,5) by (auto simp: parts_def split: if_splits)
qed

lemma regrouped_items:
  assumes "range_order ord" and "range_order ord'"
  shows "\<exists>files err. unstructuredToMustGatherFormat ord ord' rs = (files, err) \<and>
    (err = None \<longleftrightarrow> one_version rs) \<and>
    (err = None \<longrightarrow> mset (concat (map file_items files)) = mset (map rs_Content rs) \<and>
      (\<forall>f \<in> set files. \<exists>gk ns. \<forall>obj \<in> set (file_items f).
        GroupKind (GroupVersionKind obj) = gk \<and> GetNamespace obj = ns))"
proof (cases "one_version rs")
  case False
  with gather_versions_ok [OF assms(1), of rs] show ?thesis
    by (simp add: unstructuredToMustGatherFormat_def Let_def)
next
  case True
  let ?s = "gather_all rs" and ?keys = "ord' (map fst (gs_lists (gather_all rs)))"
  have res: "unstructuredToMustGatherFormat ord ord' rs = (map (gather_file ?s) ?keys, None)"
    using gather_versions_ok [OF assms(1), of rs] True by (simp add: unstructuredToMustGatherFormat_def Let_def)
  note keys = gather_keys [OF assms(2), of rs]
  have items: "file_items (gather_file ?s k) = map rs_Content (filter (\<lambda>r. key_of r = k) rs)" if "k \<in> set ?keys" for k
    using that keys gather_file_of(1) by auto
  have all: "concat (map file_items (map (gather_file ?s) ?keys)) =
      map rs_Content (concat (map (\<lambda>k. filter (\<lambda>r. key_of r = k) rs) ?keys))"
    using items by (simp add: map_concat o_def cong: map_cong)
  have perm: "mset (concat (map (\<lambda>k. filter (\<lambda>r. key_of r = k) rs) ?keys)) = mset rs"
    unfolding mset_concat_filter_keys [OF keys(2)] keys(1) by (simp flip: mset_filter)
  have "mset (concat (map file_items (map (gather_file ?s) ?keys))) = mset (map rs_Content rs)"
    by (simp only: all mset_map perm)
  moreover have "\<exists>gk ns. \<forall>obj \<in> set (file_items f). GroupKind (GroupVersionKind obj) = gk \<and> GetNamespace obj = ns"
    if f: "f \<in> set (map (gather_file ?s) ?keys)" for f
  proof -
    obtain k where "k \<in> set ?keys" "f = gather_file ?s k" using f by auto
    then show ?thesis
      using items by (intro exI [of _ "fst k"] exI [of _ "snd k"]) (auto simp: key_of_def gk_of_def)
  qed
  ultimately show ?thesis using res True by blast
qed

section \<open>Properties\<close>

text \<open>C24: the selection returns each required resource once, by ID: the IDs it returns are those of the
  exact, label-selected, referring and referred resources that exist, and its error joins the failures
  of these requests, in which a missing resource does not count.\<close>

theorem GetRequired_selects_each_once:
  "\<exists>rs err. GetRequiredInputResourcesForResourceList env l = (rs, err) \<and>
    distinct (map resource_ID rs) \<and> resource_ID ` set rs = resource_ID ` set (required env l) \<and>
    set rs \<subseteq> set (required env l) \<and>
    err = errors_join (required_errors env l) \<and>
    (err = None \<longleftrightarrow>
      (\<forall>ref \<in> set (il_ExactResources l). failures (get_one env ref) = []) \<and>
      (\<forall>sel \<in> set (il_LabelSelectedResources l). failures (getResourcesByLabelSelector env sel) = []) \<and>
      references_errors env 0 (il_ResourceReferences l) = [])"
  using NewUniqueResourceSet_spec [of "map Some (required env l)"]
  by (auto simp: GetRequired_eq required_errors_def)

definition demo_client :: client_env where
  "demo_client =
     \<lparr>ce_Get = (\<lambda>gvr ns name. if name = ''p'' then Inr (demo_pod ns name) else Inl (Leaf ApiNotFound ''not found'')),
      ce_List = (\<lambda>gvr ns sel. Inr []), ce_LabelSelectorAsSelector = (\<lambda>l. Inr []),
      ce_NewEvaluable = (\<lambda>p. Inl (errorf ''bad path'')), ce_fmt_value = (\<lambda>v. []), ce_fmt_ref = (\<lambda>r. []),
      ce_fmt_unexpected = (\<lambda>v. [])\<rparr>"

definition demo_inputs :: input_resource_list where
  "demo_inputs = empty_input_list\<lparr>il_ExactResources :=
     [in_ExactResource [] ''v1'' ''pods'' ''ns'' ''p'', in_ExactResource [] ''v1'' ''pods'' ''ns'' ''gone'']\<rparr>"

theorem GetRequired_selects_each_once_witness:
  "\<exists>rs. GetRequiredInputResourcesForResourceList demo_client demo_inputs = (rs, None) \<and> distinct (map resource_ID rs)"
proof -
  have "references_errors demo_client 0 (il_ResourceReferences demo_inputs) = []"
    "\<forall>ref \<in> set (il_ExactResources demo_inputs). failures (get_one demo_client ref) = []"
    "\<forall>sel \<in> set (il_LabelSelectedResources demo_inputs). failures (getResourcesByLabelSelector demo_client sel) = []"
    by code_simp+
  then show ?thesis
    using GetRequired_selects_each_once [of demo_client demo_inputs] by (elim exE conjE) simp
qed

text \<open>An exact resource that exists is in the selection (or one with its ID), one that is missing
  adds nothing and is no error.\<close>

theorem exact_resource_selected:
  assumes "ref \<in> set (il_ExactResources l)"
    and "ce_Get env (input_gvr ref) (ie_Namespace ref) (ie_Name ref) = Inr obj"
  shows "resource_ID \<lparr>rs_Filename = [], rs_ResourceType = input_gvr ref, rs_Content = obj\<rparr>
    \<in> resource_ID ` set (fst (GetRequiredInputResourcesForResourceList env l))"
proof -
  have "\<lparr>rs_Filename = [], rs_ResourceType = input_gvr ref, rs_Content = obj\<rparr> \<in> set (found (get_one env ref))"
    by (simp add: found_def get_one_def getExactResource_def assms(2))
  then have "\<lparr>rs_Filename = [], rs_ResourceType = input_gvr ref, rs_Content = obj\<rparr> \<in> set (required env l)"
    using assms(1) by (auto simp: required_def)
  then show ?thesis
    using NewUniqueResourceSet_spec [of "map Some (required env l)"] by (auto simp: GetRequired_eq)
qed

theorem exact_resource_selected_witness:
  "resource_ID \<lparr>rs_Filename = [], rs_ResourceType = demo_pods, rs_Content = demo_pod ''ns'' ''p''\<rparr>
    \<in> resource_ID ` set (fst (GetRequiredInputResourcesForResourceList demo_client demo_inputs))"
proof -
  have "input_gvr (in_ExactResource [] ''v1'' ''pods'' ''ns'' ''p'') = demo_pods"
    by (simp add: input_gvr_def in_ExactResource_def demo_pods_def)
  then show ?thesis
    using exact_resource_selected [of "in_ExactResource [] ''v1'' ''pods'' ''ns'' ''p''" demo_inputs demo_client
        "demo_pod ''ns'' ''p''"]
    by (simp add: demo_inputs_def demo_client_def in_ExactResource_def)
qed

text \<open>C23: regrouping fails exactly when some kind comes in two versions; otherwise no resource is lost
  or made up: the lists written hold the given objects, each as often as given, and every list holds
  objects of one kind and one namespace.\<close>

theorem regrouping_loses_nothing:
  assumes "range_order ord" and "range_order ord'"
  shows "\<exists>files err. unstructuredToMustGatherFormat ord ord' rs = (files, err) \<and>
    (err = None \<longleftrightarrow> one_version rs) \<and>
    (err = None \<longrightarrow> mset (concat (map file_items files)) = mset (map rs_Content rs) \<and>
      (\<forall>f \<in> set files. \<exists>gk ns. \<forall>obj \<in> set (file_items f).
        GroupKind (GroupVersionKind obj) = gk \<and> GetNamespace obj = ns))"
  by (rule regrouped_items [OF assms])

definition demo_resource :: "string \<Rightarrow> string \<Rightarrow> resource" where
  "demo_resource ns name = \<lparr>rs_Filename = [], rs_ResourceType = demo_pods, rs_Content = demo_pod ns name\<rparr>"

theorem regrouping_loses_nothing_witness:
  "\<exists>files. unstructuredToMustGatherFormat rev rev
      [demo_resource ''a'' ''x'', demo_resource ''b'' ''y'', demo_resource ''a'' ''z''] = (files, None) \<and>
    mset (concat (map file_items files)) = {#demo_pod ''a'' ''x'', demo_pod ''b'' ''y'', demo_pod ''a'' ''z''#}"
proof -
  let ?rs = "[demo_resource ''a'' ''x'', demo_resource ''b'' ''y'', demo_resource ''a'' ''z'']"
  have "one_version ?rs" by (auto simp: one_version_def demo_resource_def version_of_def)
  then show ?thesis
    using regrouping_loses_nothing [OF range_order_rev range_order_rev, of ?rs]
    by (auto simp: demo_resource_def)
qed

text \<open>The files of a regrouping have distinct names when names are plain path components, no group
  is called \<open>core\<close>, and within a group a resource name stands for one kind.\<close>

theorem regrouped_filenames_distinct:
  assumes "unstructuredToMustGatherFormat ord ord' rs = (files, None)"
    and "range_order ord" and "range_order ord'"
    and "\<forall>r \<in> set rs. GetNamespace (rs_Content r) = [] \<or> plain_component (GetNamespace (rs_Content r))"
    and "\<forall>r \<in> set rs. gk_Group (gk_of r) = [] \<or> plain_component (gk_Group (gk_of r)) \<and> gk_Group (gk_of r) \<noteq> ''core''"
    and "\<forall>r \<in> set rs. slash \<notin> set (gvr_Resource (rs_ResourceType r))"
    and "\<forall>r \<in> set rs. \<forall>r' \<in> set rs. gk_Group (gk_of r) = gk_Group (gk_of r') \<and>
      gvr_Resource (rs_ResourceType r) = gvr_Resource (rs_ResourceType r') \<longrightarrow> gk_of r = gk_of r'"
  shows "distinct (map rs_Filename files)"
proof -
  let ?s = "gather_all rs" and ?keys = "ord' (map fst (gs_lists (gather_all rs)))"
  have files: "files = map (gather_file ?s) ?keys"
    using assms(1) by (auto simp: unstructuredToMustGatherFormat_def Let_def split: if_splits)
  note keys = gather_keys [OF assms(3), of rs]
  have "inj_on (rs_Filename \<circ> gather_file ?s) (key_of ` set rs)"
  proof (rule inj_onI)
    fix k k' assume "k \<in> key_of ` set rs" "k' \<in> key_of ` set rs"
      and same: "(rs_Filename \<circ> gather_file ?s) k = (rs_Filename \<circ> gather_file ?s) k'"
    then obtain r r' where r: "r \<in> set rs" "k = key_of r" and r': "r' \<in> set rs" "k' = key_of r'" by auto
    obtain t where t: "t \<in> set rs" "gk_of t = gk_of r" "rs_Filename (gather_file ?s k) =
        gather_filename (gk_of r) (GetNamespace (rs_Content r)) (rs_ResourceType t)"
      using gather_file_of(2) [OF r(1)] r(2) by blast
    obtain t' where t': "t' \<in> set rs" "gk_of t' = gk_of r'" "rs_Filename (gather_file ?s k') =
        gather_filename (gk_of r') (GetNamespace (rs_Content r')) (rs_ResourceType t')"
      using gather_file_of(2) [OF r'(1)] r'(2) by blast
    have "GetNamespace (rs_Content r) = GetNamespace (rs_Content r') \<and> gk_Group (gk_of r) = gk_Group (gk_of r') \<and>
        gvr_Resource (rs_ResourceType t) = gvr_Resource (rs_ResourceType t')"
      by (rule gather_filename_inj) (use assms(4-6) r r' t t' same in auto)
    with assms(7) t t' have "gk_of r = gk_of r'" "GetNamespace (rs_Content r) = GetNamespace (rs_Content r')" by metis+
    then show "k = k'" using r r' by (simp add: key_of_def)
  qed
  with keys show ?thesis by (simp add: files distinct_map)
qed

theorem regrouped_filenames_distinct_witness:
  "\<exists>files. unstructuredToMustGatherFormat rev rev [demo_resource ''a'' ''x'', demo_resource [] ''y''] = (files, None) \<and>
    distinct (map rs_Filename files)"
proof -
  let ?rs = "[demo_resource ''a'' ''x'', demo_resource [] ''y'']"
  have "one_version ?rs" by (auto simp: one_version_def demo_resource_def version_of_def)
  then obtain files where files: "unstructuredToMustGatherFormat rev rev ?rs = (files, None)"
    using gather_versions_ok [OF range_order_rev, of ?rs] by (auto simp: unstructuredToMustGatherFormat_def Let_def)
  have "distinct (map rs_Filename files)"
    by (rule regrouped_filenames_distinct [OF files range_order_rev range_order_rev])
      (auto simp: demo_resource_def gk_of_def demo_pod_kind_def GroupKind_def demo_pods_def slash_def plain_component_def)
  with files show ?thesis by blast
qed

end
