(* ===== verification/Flags.thy ===== *)
theory Flags
  imports Prune
begin

text \<open>
  The flags of the commands: \<open>pkg/flagtypes/time.go\<close> (a time given in one of several formats),
  the checks of \<open>libraryapplyconfiguration/command.go\<close> and the from-must-gather command of
  \<open>pkg/cmd/multi-operator-manager/create-input-resources\<close>. \<open>time.Parse\<close> is an argument; a time is any
  type with a zero. \<open>Programs\<close> registers the flags on the commands.
\<close>

section \<open>Time flags\<close>

record 't time_value =
  tv_Time :: 't
  tv_formats :: "string list"

definition NewTimeValue :: "'t \<Rightarrow> string list \<Rightarrow> 't time_value" where
  "NewTimeValue val formats = \<lparr>tv_Time = val, tv_formats = formats\<rparr>"

definition backquoted :: "string \<Rightarrow> string" where
  "backquoted s = CHR 0x60 # s @ [CHR 0x60]"

fun try_formats :: "(string \<Rightarrow> string \<Rightarrow> go_error + 't) \<Rightarrow> string \<Rightarrow> string list \<Rightarrow> 't option" where
  "try_formats parse s [] = None"
| "try_formats parse s (f # fs) = (case parse f s of Inl err \<Rightarrow> try_formats parse s fs | Inr v \<Rightarrow> Some v)"

definition TimeValue_Set ::
    "(string \<Rightarrow> string \<Rightarrow> go_error + 't) \<Rightarrow> 't time_value \<Rightarrow> string \<Rightarrow> 't time_value \<times> go_error option" where
  "TimeValue_Set parse d s0 =
     (let s = trim_space s0 in
      case try_formats parse s (tv_formats d) of
        Some v \<Rightarrow> (d\<lparr>tv_Time := v\<rparr>, None)
      | None \<Rightarrow> (d, Some (errorf (''invalid time format '' @ backquoted s @ '' must be one of: ''
          @ strings_join (map backquoted (tv_formats d)) '', ''))))"

section \<open>The apply-configuration command\<close>

record apply_flags =
  af_inputDirectory :: string
  af_outputDirectory :: string
  af_controllers :: "string list"
  af_now :: "string option" \<comment> \<open>None is the zero time\<close>

definition apply_flags_Validate :: "apply_flags \<Rightarrow> go_error option" where
  "apply_flags_Validate f =
     (if length (af_inputDirectory f) = 0 then Some (errorf ''--input-dir is required'')
      else if length (af_outputDirectory f) = 0 then Some (errorf ''--output-dir is required'')
      else if af_now f = None then Some (errorf ''--now is required'')
      else None)"

section \<open>The from-must-gather command\<close>

record must_gather_flags =
  mf_MustGatherDirectory :: string
  mf_OutputDirectory :: string
  mf_InputResourcesFile :: string
  mf_OperatorBinary :: string

definition must_gather_Validate :: "must_gather_flags \<Rightarrow> go_error option" where
  "must_gather_Validate f =
     (if length (mf_MustGatherDirectory f) = 0 then Some (errorf ''--must-gather-dir is required'')
      else if length (mf_OutputDirectory f) = 0 then Some (errorf ''--output-dir is required'')
      else
        let file = (length (mf_InputResourcesFile f) \<noteq> 0); binary = (length (mf_OperatorBinary f) \<noteq> 0) in
        if \<not> file \<and> \<not> binary
          then Some (errorf ''exactly one of --pertinent-resources and --operator-binary is required'')
        else if \<not> file \<and> binary then Some (errorf ''not yet wired through'')
        else if file \<and> \<not> binary then None
        else Some (errorf ''exactly one of --pertinent-resources and --operator-binary is required''))"

text \<open>
  \<open>parse\<close> is \<open>yaml.Unmarshal\<close> into a pointer to the inputs, which the document \<open>null\<close> sets to nil.
\<close>

definition must_gather_Run ::
    "(string \<Rightarrow> go_error + string) \<Rightarrow> (string \<Rightarrow> go_error + input_resources option) \<Rightarrow>
      group_kind visit_order \<Rightarrow> (group_kind \<times> string) visit_order \<Rightarrow> (string \<Rightarrow> go_error + client_env) \<Rightarrow>
      write_env \<Rightarrow> must_gather_flags \<Rightarrow> (go_error option \<times> (string \<times> string) list) outcome" where
  "must_gather_Run readFile parse ord_versions ord_lists newClient wenv f =
     (case readFile (mf_InputResourcesFile f) of
        Inl err \<Rightarrow> Value (Some (Wrapf (''unable to read pertinent resources ''
          @ go_quote (mf_InputResourcesFile f) @ '': '') err []), [])
      | Inr bytes \<Rightarrow>
          (case parse bytes of
             Inl err \<Rightarrow> Value (Some (Wrapf (''unable to parse pertinent resources ''
               @ go_quote (mf_InputResourcesFile f) @ '': '') err []), [])
           | Inr pertinentResources \<Rightarrow>
               WriteRequiredInputResourcesFromMustGather ord_versions ord_lists
                 (newClient (mf_MustGatherDirectory f)) wenv pertinentResources (mf_OutputDirectory f)))"

section \<open>Lemmas\<close>

lemma try_formats_Some:
  "try_formats parse s fs = Some v \<Longrightarrow>
     \<exists>f pre post. fs = pre @ f # post \<and> parse f s = Inr v \<and> (\<forall>g \<in> set pre. \<exists>e. parse g s = Inl e)"
proof (induction fs)
  case (Cons f fs)
  show ?case
  proof (cases "parse f s")
    case (Inl e)
    with Cons obtain g pre post where "fs = pre @ g # post" "parse g s = Inr v"
      "\<forall>g \<in> set pre. \<exists>e. parse g s = Inl e" by auto
    with Inl show ?thesis by (intro exI [of _ g] exI [of _ "f # pre"] exI [of _ post]) simp
  next
    case (Inr w)
    with Cons.prems show ?thesis by (intro exI [of _ f] exI [of _ "[]"] exI [of _ fs]) simp
  qed
qed simp

lemma try_formats_None_iff: "try_formats parse s fs = None \<longleftrightarrow> (\<forall>f \<in> set fs. \<exists>e. parse f s = Inl e)"
  by (induction fs) (auto split: sum.splits)

text \<open>What write_resources writes when nothing fails.\<close>

definition resource_file :: "string \<Rightarrow> resource \<Rightarrow> string" where
  "resource_file dir r = path_join [dir, rs_Filename r]"

lemma write_resources_ok:
  assumes "fst (write_resources env dir rs) = []"
  shows "map fst (snd (write_resources env dir rs)) = map (resource_file dir) rs \<and>
    (\<forall>r \<in> set rs. \<exists>y. we_Marshal env (rs_Content r) = Inr y \<and> (resource_file dir r, y) \<in> set (snd (write_resources env dir rs)))"
  using assms
proof (induction rs)
  case (Cons r rs)
  obtain e fs where w: "WriteResource env r dir = (e, fs)" by fastforce
  obtain es fs' where ws: "write_resources env dir rs = (es, fs')" by fastforce
  have none: "e = None" "es = []" using Cons.prems w ws by (auto split: option.splits)
  then obtain y where "we_Marshal env (rs_Content r) = Inr y" "fs = [(resource_file dir r, y)]"
    using w by (auto simp: WriteResource_def resource_file_def Let_def split: if_splits option.splits sum.splits)
  with Cons.IH w ws none show ?case by auto
qed simp

section \<open>Properties\<close>

text \<open>Setting a time flag takes the first format that parses the trimmed text, and when none does
  leaves the time as it was and reports an error.\<close>

theorem TimeValue_Set_first_format:
  "case TimeValue_Set parse d s of
     (d', None) \<Rightarrow> tv_formats d' = tv_formats d \<and>
       (\<exists>f pre post. tv_formats d = pre @ f # post \<and> parse f (trim_space s) = Inr (tv_Time d') \<and>
          (\<forall>g \<in> set pre. \<exists>e. parse g (trim_space s) = Inl e))
   | (d', Some err) \<Rightarrow> d' = d \<and> (\<forall>f \<in> set (tv_formats d). \<exists>e. parse f (trim_space s) = Inl e)"
proof (cases "try_formats parse (trim_space s) (tv_formats d)")
  case None
  then show ?thesis by (simp add: TimeValue_Set_def Let_def flip: try_formats_None_iff)
next
  case (Some v)
  then show ?thesis
    using try_formats_Some [OF Some] by (simp add: TimeValue_Set_def Let_def)
qed

theorem TimeValue_Set_first_format_witness:
  "\<exists>f pre post. [''a'', ''b''] = pre @ f # post \<and>
     (if f = ''b'' then Inr 7 else Inl (errorf ''no'')) = (Inr (7 :: nat) :: go_error + nat) \<and>
     (\<forall>g \<in> set pre. \<exists>e. (if g = ''b'' then Inr 7 else Inl (errorf ''no'')) = (Inl e :: go_error + nat))"
proof -
  have "TimeValue_Set (\<lambda>f s. if f = ''b'' then Inr 7 else Inl (errorf ''no'')) (NewTimeValue (0 :: nat) [''a'', ''b'']) ''x''
      = (NewTimeValue 7 [''a'', ''b''], None)"
    by code_simp
  then show ?thesis
    using TimeValue_Set_first_format [where parse = "\<lambda>f s. if f = ''b'' then Inr 7 else Inl (errorf ''no'')"
        and d = "NewTimeValue (0 :: nat) [''a'', ''b'']" and s = "''x''"]
    by (simp add: NewTimeValue_def)
qed

text \<open>The from-must-gather command accepts exactly a source directory, a target directory and an
  input resources file without an operator binary.\<close>

theorem must_gather_Validate_iff:
  "must_gather_Validate f = None \<longleftrightarrow>
     mf_MustGatherDirectory f \<noteq> [] \<and> mf_OutputDirectory f \<noteq> [] \<and> mf_InputResourcesFile f \<noteq> [] \<and>
     mf_OperatorBinary f = []"
  by (auto simp: must_gather_Validate_def Let_def)


definition demo_write_env :: write_env where
  "demo_write_env = \<lparr>we_MkdirAll = (\<lambda>d. None), we_Marshal = (\<lambda>u. Inr ''y''), we_WriteFile = (\<lambda>f c. None)\<rparr>"

definition demo_must_gather :: must_gather_flags where
  "demo_must_gather = \<lparr>mf_MustGatherDirectory = ''m'', mf_OutputDirectory = ''o'', mf_InputResourcesFile = ''i'',
     mf_OperatorBinary = []\<rparr>"

definition demo_required :: input_resources where
  "demo_required = empty_input_resources\<lparr>ir_ApplyConfigurationResources := demo_inputs\<rparr>"

lemma demo_must_gather_runs:
  "must_gather_Run Inr (\<lambda>b. Inr (Some demo_required)) rev rev (\<lambda>d. Inr demo_client) demo_write_env demo_must_gather =
     Value (None, [(''o/namespaces/ns/core/pods.yaml'', ''y'')])"
  by code_simp


end
