(* ===== verification/Go_Strconv.thy ===== *)
theory Go_Strconv
  imports Go_Path "HOL-Library.Word"
begin

text \<open>
  \<open>strconv.Atoi\<close> of the Go standard library on a 64-bit platform, with its two errors, and the round
  trip with the decimal printing of integers. The result keeps its width, so that arithmetic on it
  wraps as in Go.
\<close>

section \<open>Parsing\<close>

datatype num_error = ErrSyntax | ErrRange

definition is_digit :: "char \<Rightarrow> bool" where
  "is_digit c \<longleftrightarrow> 48 \<le> (of_char c :: nat) \<and> (of_char c :: nat) \<le> 57"

definition max_uint :: nat where "max_uint = 18446744073709551615"
definition uint_cutoff :: nat where "uint_cutoff = max_uint div 10 + 1"
definition int_cutoff :: nat where "int_cutoff = 9223372036854775808"

fun parse_uint :: "nat \<Rightarrow> string \<Rightarrow> num_error + nat" where
  "parse_uint n [] = Inr n"
| "parse_uint n (c # cs) =
     (if \<not> is_digit c then Inl ErrSyntax
      else if n \<ge> uint_cutoff then Inl ErrRange
      else let n1 = n * 10 + (of_char c - 48) in
           if n1 > max_uint then Inl ErrRange else parse_uint n1 cs)"

definition num_error_text :: "num_error \<Rightarrow> string" where
  "num_error_text e = (case e of ErrSyntax \<Rightarrow> ''invalid syntax'' | ErrRange \<Rightarrow> ''value out of range'')"

definition atoi_error :: "string \<Rightarrow> num_error \<Rightarrow> go_error" where
  "atoi_error s e = errorf (''strconv.Atoi: parsing '' @ go_quote s @ '': '' @ num_error_text e)"

definition unsigned_part :: "string \<Rightarrow> string" where
  "unsigned_part s = (case s of [] \<Rightarrow> [] | c # cs \<Rightarrow> if c = CHR ''-'' \<or> c = CHR ''+'' then cs else s)"

definition Atoi :: "string \<Rightarrow> go_error + 64 word" where
  "Atoi s =
     (let neg = (case s of [] \<Rightarrow> False | c # cs \<Rightarrow> c = CHR ''-'');
          digits = unsigned_part s in
      if digits = [] then Inl (atoi_error s ErrSyntax)
      else (case parse_uint 0 digits of
              Inl e \<Rightarrow> Inl (atoi_error s e)
            | Inr un \<Rightarrow>
                (if \<not> neg \<and> un \<ge> int_cutoff then Inl (atoi_error s ErrRange)
                 else if neg \<and> un > int_cutoff then Inl (atoi_error s ErrRange)
                 else Inr (word_of_int (if neg then - int un else int un)))))"

section \<open>Lemmas\<close>

lemma Atoi_Nil [simp]: "Atoi [] = Inl (atoi_error [] ErrSyntax)"
  by (simp add: Atoi_def unsigned_part_def)

lemma digit_char [simp]:
  assumes "d < 10"
  shows "is_digit (digit_char d)" and "(of_char (digit_char d) :: nat) = 48 + d"
  using assms by (simp_all add: is_digit_def digit_char_def)

lemma show_nat_ne [simp]: "show_nat n \<noteq> []"
  by (subst show_nat.simps) simp

lemma show_nat_digits: "\<forall>c \<in> set (show_nat n). is_digit c"
proof (induction n rule: show_nat.induct)
  case (1 n)
  then show ?case by (subst show_nat.simps) auto
qed

lemma parse_uint_snoc:
  "parse_uint m (cs @ [c]) = (case parse_uint m cs of Inl e \<Rightarrow> Inl e | Inr n \<Rightarrow> parse_uint n [c])"
  by (induction m cs rule: parse_uint.induct) (simp_all add: Let_def)

lemma parse_uint_show_nat: "n \<le> max_uint \<Longrightarrow> parse_uint 0 (show_nat n) = Inr n"
proof (induction n rule: show_nat.induct)
  case (1 n)
  show ?case
  proof (cases "n < 10")
    case True
    then show ?thesis by (subst show_nat.simps) (simp add: uint_cutoff_def max_uint_def Let_def)
  next
    case False
    have "n div 10 \<le> max_uint" "n div 10 < uint_cutoff"
      using 1 div_le_mono [OF 1(2), of 10] by (auto simp: uint_cutoff_def)
    with 1 False have "parse_uint 0 (show_nat (n div 10)) = Inr (n div 10)" by simp
    with \<open>n div 10 < uint_cutoff\<close> 1(2) show ?thesis
      by (subst show_nat.simps) (simp add: False parse_uint_snoc Let_def)
  qed
qed

lemma not_sign: "is_digit c \<Longrightarrow> c \<noteq> CHR ''-'' \<and> c \<noteq> CHR ''+''"
  by (auto simp: is_digit_def)

lemma show_nat_Cons: "\<exists>c cs. show_nat n = c # cs \<and> c \<noteq> CHR ''-'' \<and> c \<noteq> CHR ''+''"
  using show_nat_digits [of n] show_nat_ne [of n] not_sign by (metis list.exhaust list.set_intros(1))

text \<open>Parsing undoes printing on the range of a 64-bit integer.\<close>

lemma Atoi_show_int:
  assumes "- 9223372036854775808 \<le> i" and "i < 9223372036854775808"
  shows "Atoi (show_int i) = Inr (word_of_int i)"
proof (cases "i < 0")
  case True
  define n where "n = nat (- i)"
  have n: "n \<le> int_cutoff" "int n = - i" using assms True by (auto simp: n_def int_cutoff_def)
  then have "n \<le> max_uint" by (simp add: int_cutoff_def max_uint_def)
  then show ?thesis
    using n True by (simp add: Atoi_def show_int_def unsigned_part_def parse_uint_show_nat flip: n_def)
next
  case False
  define n where "n = nat i"
  have n: "n < int_cutoff" "int n = i" using assms False by (auto simp: n_def int_cutoff_def)
  then have "n \<le> max_uint" by (simp add: int_cutoff_def max_uint_def)
  moreover obtain c cs where "show_nat n = c # cs" "c \<noteq> CHR ''-''" "c \<noteq> CHR ''+''"
    using show_nat_Cons by blast
  ultimately show ?thesis
    using n False parse_uint_show_nat [of n]
    by (simp add: Atoi_def show_int_def unsigned_part_def flip: n_def)
qed

lemma sint_range_64: "- 9223372036854775808 \<le> sint (w :: 64 word)" "sint (w :: 64 word) < 9223372036854775808"
  using sint_greater_eq [of w] sint_less [of w] by simp_all

lemma Atoi_show_word [simp]: "Atoi (show_int (sint (w :: 64 word))) = Inr w"
  using Atoi_show_int [OF sint_range_64 [of w]] by simp

end
