(* ===== verification/Sample_Controllers.thy ===== *)
theory Sample_Controllers
  imports Operator_Launch Go_Strconv
begin

text \<open>
  \<open>pkg/sampleoperator/sampleapplyconfiguration/controllers.go\<close>: the three controllers of the sample
  operator. The clients and the event recorder act on a world \<open>'w\<close> through the operations of
  \<open>sample_clients\<close>. A lister returns a pointer into the informer's cache, so the assignment to the
  counter changes the cached object before the update is sent; \<open>sc_ConfigMap_Store\<close> is that write.
  Log output is not modelled.
\<close>

section \<open>Clients\<close>

record config_map =
  cm_Name :: string
  cm_Namespace :: string
  cm_Data :: "(string \<rightharpoonup> string) option" \<comment> \<open>None is the nil map\<close>

record 'w sample_clients =
  sc_ConfigMap_Get :: "string \<Rightarrow> string \<Rightarrow> 'w \<Rightarrow> go_error + config_map"
  sc_ConfigMap_Store :: "config_map \<Rightarrow> 'w \<Rightarrow> 'w"
  sc_ConfigMap_Create :: "string \<Rightarrow> config_map \<Rightarrow> 'w \<Rightarrow> go_error option \<times> 'w"
  sc_ConfigMap_Update :: "string \<Rightarrow> config_map \<Rightarrow> 'w \<Rightarrow> go_error option \<times> 'w"
  sc_Ingress_Create :: "string \<Rightarrow> 'w \<Rightarrow> go_error option \<times> 'w"
  sc_Event :: "string \<Rightarrow> string \<Rightarrow> 'w \<Rightarrow> 'w"
  sc_Stack :: string

definition returns :: "go_error option \<times> 'w \<Rightarrow> run_outcome \<times> 'w" where
  "returns r = (case r of (None, w) \<Rightarrow> (RunOnceOk, w) | (Some err, w) \<Rightarrow> (RunOnceError err, w))"

definition nil_dereference :: string where
  "nil_dereference = ''runtime error: invalid memory address or nil pointer dereference''"

definition nil_map_write :: string where
  "nil_map_write = ''assignment to entry in nil map''"

text \<open>\<open>factory.ControllerInstanceName\<close> and the controllers \<open>factory.New()\<close> builds.\<close>

definition ControllerInstanceName :: "string \<Rightarrow> string \<Rightarrow> string" where
  "ControllerInstanceName instanceName controllerName = instanceName @ ''-'' @ controllerName"

definition factory_controller :: "string \<Rightarrow> ('w \<Rightarrow> run_outcome \<times> 'w) \<Rightarrow> ('w, 'sync) syncer" where
  "factory_controller controllerInstanceName syncFn =
     \<lparr>syn_TypeName = ''*factory.baseController'', syn_ControllerInstanceName = Some controllerInstanceName,
      syn_Sync = (\<lambda>w syncCtx. syncFn w)\<rparr>"

section \<open>The failure generator and the ingress creator\<close>

definition failure_sync :: "'w sample_clients \<Rightarrow> 'w \<Rightarrow> run_outcome \<times> 'w" where
  "failure_sync c w0 =
     (let w = sc_Event c ''must'' ''event'' w0 in
      case sc_ConfigMap_Get c ''openshift-authentication'' ''fail-check'' w of
        Inl err \<Rightarrow> (if err_is ApiNotFound err then (RunOnceOk, w) else (RunOnceError err, w))
      | Inr cm \<Rightarrow> (RunOnceError (errorf ''fail the process''), w))"

definition newFailureGeneratorController :: "string \<Rightarrow> 'w sample_clients \<Rightarrow> ('w, 'sync) syncer" where
  "newFailureGeneratorController instanceName c =
     factory_controller (ControllerInstanceName instanceName ''FailureGenerator'') (failure_sync c)"

definition ingress_sync :: "'w sample_clients \<Rightarrow> 'w \<Rightarrow> run_outcome \<times> 'w" where
  "ingress_sync c w = returns (sc_Ingress_Create c ''cluster'' w)"

definition newIngressCreatorController :: "string \<Rightarrow> 'w sample_clients \<Rightarrow> ('w, 'sync) syncer" where
  "newIngressCreatorController instanceName c =
     factory_controller (ControllerInstanceName instanceName ''IngressCreator'') (ingress_sync c)"

section \<open>The demo controller\<close>

definition makeConfigMap :: "string \<Rightarrow> config_map" where
  "makeConfigMap name = \<lparr>cm_Name = name, cm_Namespace = ''openshift-authentication'',
     cm_Data = Some [''counter'' \<mapsto> ''1'']\<rparr>"

text \<open>\<open>configMap.Data["counter"]\<close>: a missing key and the nil map read as the empty string.\<close>

definition counter_string :: "config_map \<Rightarrow> string" where
  "counter_string cm = (case cm_Data cm of None \<Rightarrow> []
     | Some d \<Rightarrow> (case d ''counter'' of None \<Rightarrow> [] | Some s \<Rightarrow> s))"

definition set_counter :: "64 word \<Rightarrow> config_map \<Rightarrow> config_map option" where
  "set_counter counter cm = (case cm_Data cm of None \<Rightarrow> None
     | Some d \<Rightarrow> Some (cm\<lparr>cm_Data := Some (d(''counter'' \<mapsto> show_int (sint counter)))\<rparr>))"

text \<open>
  An error of the lister other than a missing object leaves the pointer nil, and the code goes on to
  read through it.
\<close>

definition demo_Sync :: "'w sample_clients \<Rightarrow> 'w \<Rightarrow> run_outcome \<times> 'w" where
  "demo_Sync c w =
     (case sc_ConfigMap_Get c ''openshift-authentication'' ''foo'' w of
        Inl err \<Rightarrow>
          (if err_is ApiNotFound err
           then returns (sc_ConfigMap_Create c ''openshift-authentication'' (makeConfigMap ''foo'') w)
           else (RunOncePanic nil_dereference (sc_Stack c), w))
      | Inr configMap \<Rightarrow>
          (case Atoi (counter_string configMap) of
             Inl err \<Rightarrow> (RunOnceError err, w)
           | Inr n \<Rightarrow>
               (let counter = n + 1 in
                case set_counter counter configMap of
                  None \<Rightarrow> (RunOncePanic nil_map_write (sc_Stack c), w)
                | Some configMap' \<Rightarrow>
                    returns (sc_ConfigMap_Update c ''openshift-authentication'' configMap'
                      (sc_ConfigMap_Store c configMap' w)))))"

definition newDemoController :: "string \<Rightarrow> 'w sample_clients \<Rightarrow> ('w, 'sync) syncer" where
  "newDemoController instanceName c =
     factory_controller (ControllerInstanceName instanceName ''Demo'') (demo_Sync c)"

section \<open>Lemmas: one sync\<close>

text \<open>The number a config map carries, if it carries one.\<close>

definition counter_of :: "config_map \<Rightarrow> 64 word option" where
  "counter_of cm = (case Atoi (counter_string cm) of Inl e \<Rightarrow> None | Inr n \<Rightarrow> Some n)"

lemma counter_makeConfigMap [simp]: "counter_of (makeConfigMap name) = Some 1"
proof -
  have "''1'' = show_int (sint (1 :: 64 word))"
    by (simp add: show_int_def show_nat.simps digit_char_def char_of_def bit_0)
  then have "Atoi ''1'' = Inr 1" using Atoi_show_word by metis
  then show ?thesis by (simp add: counter_of_def counter_string_def makeConfigMap_def)
qed

lemma counter_of_set [simp]: "set_counter n cm = Some cm' \<Longrightarrow> counter_of cm' = Some n"
  by (auto simp: set_counter_def counter_of_def counter_string_def split: option.splits)

lemma counter_needs_data: "counter_of cm = Some n \<Longrightarrow> cm_Data cm \<noteq> None"
  by (cases "cm_Data cm") (auto simp: counter_of_def counter_string_def)

lemma set_counter_some: "counter_of cm = Some n \<Longrightarrow> \<exists>cm'. set_counter m cm = Some cm'"
  using counter_needs_data [of cm n] by (auto simp: set_counter_def)

text \<open>A sync with a readable counter: what is stored in the cache and sent.\<close>

lemma demo_Sync_counts:
  assumes "sc_ConfigMap_Get c ''openshift-authentication'' ''foo'' w = Inr cm" and "counter_of cm = Some n"
  shows "\<exists>cm'. set_counter (n + 1) cm = Some cm' \<and> demo_Sync c w = returns
    (sc_ConfigMap_Update c ''openshift-authentication'' cm' (sc_ConfigMap_Store c cm' w))"
proof -
  obtain cm' where "set_counter (n + 1) cm = Some cm'" using set_counter_some [OF assms(2)] by blast
  moreover have "Atoi (counter_string cm) = Inr n"
    using assms(2) by (auto simp: counter_of_def split: sum.splits)
  ultimately show ?thesis using assms(1) by (simp add: demo_Sync_def Let_def)
qed

lemma demo_Sync_unreadable:
  assumes "sc_ConfigMap_Get c ''openshift-authentication'' ''foo'' w = Inr cm" and "counter_of cm = None"
  shows "\<exists>err. demo_Sync c w = (RunOnceError err, w)"
  using assms by (auto simp: demo_Sync_def counter_of_def split: sum.splits)

lemma demo_Sync_missing:
  assumes "sc_ConfigMap_Get c ''openshift-authentication'' ''foo'' w = Inl err" and "err_is ApiNotFound err"
  shows "demo_Sync c w = returns (sc_ConfigMap_Create c ''openshift-authentication'' (makeConfigMap ''foo'') w)"
  using assms by (simp add: demo_Sync_def)

end
