(* ===== verification/Demo_Machine.thy ===== *)
theory Demo_Machine
  imports Sample_Controllers
begin

text \<open>
  The demo controller in a cluster, as a state machine. Its steps are one sync, which is
  \<open>demoController.Sync\<close> in any outcome, and one delivery of the informer, which brings the cache up
  to date; they come in any order, as with the resync of \<open>newDemoController\<close>. What the API server
  and the informer do is documented behaviour of code outside the repository, and is stated once, as
  \<open>cluster_laws\<close>: \<open>cached\<close> and \<open>stored\<close> read the object \<open>foo\<close> in the cache and on the server.
\<close>

section \<open>The cluster\<close>

definition cluster_laws ::
    "'w sample_clients \<Rightarrow> ('w \<Rightarrow> config_map option) \<Rightarrow> ('w \<Rightarrow> config_map option) \<Rightarrow> ('w \<Rightarrow> 'w) \<Rightarrow> bool" where
  "cluster_laws c cached stored refresh \<longleftrightarrow>
     (\<forall>w. case cached w of
        None \<Rightarrow> \<exists>err. sc_ConfigMap_Get c ''openshift-authentication'' ''foo'' w = Inl err \<and> err_is ApiNotFound err
      | Some cm \<Rightarrow> sc_ConfigMap_Get c ''openshift-authentication'' ''foo'' w = Inr cm) \<and>
     (\<forall>w cm. cached (sc_ConfigMap_Store c cm w) = Some cm \<and> stored (sc_ConfigMap_Store c cm w) = stored w) \<and>
     (\<forall>w cm r w'. sc_ConfigMap_Create c ''openshift-authentication'' cm w = (r, w') \<longrightarrow>
        cached w' = cached w \<and> stored w' = (if r = None then Some cm else stored w)) \<and>
     (\<forall>w cm r w'. sc_ConfigMap_Update c ''openshift-authentication'' cm w = (r, w') \<longrightarrow>
        cached w' = cached w \<and> stored w' = (if r = None then Some cm else stored w)) \<and>
     (\<forall>w. cached (refresh w) = stored w \<and> stored (refresh w) = stored w)"

inductive demo_run :: "'w sample_clients \<Rightarrow> ('w \<Rightarrow> 'w) \<Rightarrow> 'w \<Rightarrow> nat \<Rightarrow> 'w \<Rightarrow> bool"
  for c refresh w0 where
  start: "demo_run c refresh w0 0 w0"
| sync: "demo_run c refresh w0 n w \<Longrightarrow> demo_Sync c w = (res, w') \<Longrightarrow> demo_run c refresh w0 (Suc n) w'"
| deliver: "demo_run c refresh w0 n w \<Longrightarrow> demo_run c refresh w0 n (refresh w)"

inductive_cases demo_runE: "demo_run c refresh w0 n w"

section \<open>Lemmas\<close>

definition counter_value :: "config_map \<Rightarrow> int option" where
  "counter_value cm = map_option sint (counter_of cm)"

text \<open>Adding one to a signed 64-bit integer, with the wrap-around.\<close>

lemma sint_plus_one:
  "sint (n + 1 :: 64 word) = (if sint n = 9223372036854775807 then - 9223372036854775808 else sint n + 1)"
proof -
  have "sint (n + 1) = signed_take_bit 63 (sint n + 1)"
    by (simp add: sint_word_ariths)
  then show ?thesis
  proof (cases "sint n = 9223372036854775807")
    case True
    with \<open>sint (n + 1) = _\<close> show ?thesis
      by (simp add: signed_take_bit_eq_take_bit_shift take_bit_eq_mod)
  next
    case False
    then have "signed_take_bit 63 (sint n + 1) = sint n + 1"
      using sint_range_64 [of n] by (intro signed_take_bit_int_eq_self) simp_all
    with False \<open>sint (n + 1) = _\<close> show ?thesis by simp
  qed
qed

lemma cluster_get:
  assumes "cluster_laws c cached stored refresh"
  shows "cached w = Some cm \<Longrightarrow> sc_ConfigMap_Get c ''openshift-authentication'' ''foo'' w = Inr cm"
    and "cached w = None \<Longrightarrow>
      \<exists>err. sc_ConfigMap_Get c ''openshift-authentication'' ''foo'' w = Inl err \<and> err_is ApiNotFound err"
proof -
  have "case cached w of
        None \<Rightarrow> \<exists>err. sc_ConfigMap_Get c ''openshift-authentication'' ''foo'' w = Inl err \<and> err_is ApiNotFound err
      | Some cm \<Rightarrow> sc_ConfigMap_Get c ''openshift-authentication'' ''foo'' w = Inr cm"
    using assms unfolding cluster_laws_def by (elim conjE) (erule allE, assumption)
  then show "cached w = Some cm \<Longrightarrow> sc_ConfigMap_Get c ''openshift-authentication'' ''foo'' w = Inr cm"
    and "cached w = None \<Longrightarrow>
      \<exists>err. sc_ConfigMap_Get c ''openshift-authentication'' ''foo'' w = Inl err \<and> err_is ApiNotFound err"
    by simp_all
qed

lemma cluster_effects:
  assumes "cluster_laws c cached stored refresh"
  shows "cached (sc_ConfigMap_Store c cm w) = Some cm" and "stored (sc_ConfigMap_Store c cm w) = stored w"
    and "sc_ConfigMap_Create c ''openshift-authentication'' cm w = (r, w') \<Longrightarrow>
      cached w' = cached w \<and> stored w' = (if r = None then Some cm else stored w)"
    and "sc_ConfigMap_Update c ''openshift-authentication'' cm w = (r, w') \<Longrightarrow>
      cached w' = cached w \<and> stored w' = (if r = None then Some cm else stored w)"
    and "cached (refresh w) = stored w" and "stored (refresh w) = stored w"
  using assms unfolding cluster_laws_def by blast+

lemma returns_eq: "returns (r, w) = ((case r of None \<Rightarrow> RunOnceOk | Some err \<Rightarrow> RunOnceError err), w)"
  by (simp add: returns_def split: option.split)

text \<open>One sync, in every case.\<close>

lemma demo_step_missing:
  assumes laws: "cluster_laws c cached stored refresh" and "cached w = None" and step: "demo_Sync c w = (res, w')"
  shows "cached w' = None" and "if res = RunOnceOk then stored w' = Some (makeConfigMap ''foo'')
    else stored w' = stored w \<and> (\<exists>err. res = RunOnceError err)"
proof -
  obtain err where "sc_ConfigMap_Get c ''openshift-authentication'' ''foo'' w = Inl err" "err_is ApiNotFound err"
    using cluster_get(2) [OF laws assms(2)] by blast
  note demo_Sync_missing [OF this]
  moreover obtain r v where "sc_ConfigMap_Create c ''openshift-authentication'' (makeConfigMap ''foo'') w = (r, v)"
    by fastforce
  ultimately show "cached w' = None" "if res = RunOnceOk then stored w' = Some (makeConfigMap ''foo'')
    else stored w' = stored w \<and> (\<exists>err. res = RunOnceError err)"
    using cluster_effects(3) [OF laws] step assms(2) by (auto simp: returns_eq split: option.splits)
qed

lemma demo_step_counts:
  assumes laws: "cluster_laws c cached stored refresh" and "cached w = Some cm" and "counter_value cm = Some v"
    and step: "demo_Sync c w = (res, w')"
  shows "\<exists>cm'. counter_value cm' = Some (if v = 9223372036854775807 then - 9223372036854775808 else v + 1) \<and>
    cached w' = Some cm' \<and>
    (if res = RunOnceOk then stored w' = Some cm' else stored w' = stored w \<and> (\<exists>err. res = RunOnceError err))"
proof -
  obtain n where n: "counter_of cm = Some n" "v = sint n"
    using assms(3) by (auto simp: counter_value_def)
  obtain cm' where cm': "set_counter (n + 1) cm = Some cm'" and sync: "demo_Sync c w = returns
      (sc_ConfigMap_Update c ''openshift-authentication'' cm' (sc_ConfigMap_Store c cm' w))"
    using demo_Sync_counts [OF cluster_get(1) [OF laws assms(2)] n(1)] by blast
  obtain r u where u: "sc_ConfigMap_Update c ''openshift-authentication'' cm' (sc_ConfigMap_Store c cm' w) = (r, u)"
    by fastforce
  have "cached u = Some cm'" "stored u = (if r = None then Some cm' else stored w)"
    using cluster_effects(4) [OF laws u] cluster_effects(1,2) [OF laws, of cm' w] by simp_all
  moreover have "counter_value cm' = Some (if v = 9223372036854775807 then - 9223372036854775808 else v + 1)"
    using cm' n(2) by (simp add: counter_value_def sint_plus_one)
  ultimately show ?thesis
    using sync step u by (intro exI [of _ cm']) (auto simp: returns_eq split: option.splits)
qed

text \<open>The invariant: the counters in the cache and on the server lie between one and the number of syncs.\<close>

definition counts_at_most :: "nat \<Rightarrow> config_map option \<Rightarrow> bool" where
  "counts_at_most n x \<longleftrightarrow> (case x of None \<Rightarrow> True
     | Some cm \<Rightarrow> \<exists>v. counter_value cm = Some v \<and> 1 \<le> v \<and> v \<le> int n)"

lemma counts_at_most_simps [simp]:
  "counts_at_most n None" "counts_at_most (Suc n) (Some (makeConfigMap name))"
  by (simp_all add: counts_at_most_def counter_value_def)

lemma counts_at_most_Suc: "counts_at_most n x \<Longrightarrow> counts_at_most (Suc n) x"
  by (auto simp: counts_at_most_def split: option.splits)

lemma demo_step_invariant:
  assumes laws: "cluster_laws c cached stored refresh" and "int n < 9223372036854775807"
    and inv: "counts_at_most n (cached w)" "counts_at_most n (stored w)"
    and step: "demo_Sync c w = (res, w')"
  shows "counts_at_most (Suc n) (cached w') \<and> counts_at_most (Suc n) (stored w') \<and> (\<forall>p s. res \<noteq> RunOncePanic p s)"
proof (cases "cached w")
  case None
  from demo_step_missing [OF laws this step] inv show ?thesis
    by (auto intro: counts_at_most_Suc split: if_splits)
next
  case (Some cm)
  then obtain v where v: "counter_value cm = Some v" "1 \<le> v" "v \<le> int n"
    using inv(1) by (auto simp: counts_at_most_def)
  obtain cm' where cm': "counter_value cm' = Some (v + 1)" "cached w' = Some cm'"
    "if res = RunOnceOk then stored w' = Some cm' else stored w' = stored w \<and> (\<exists>err. res = RunOnceError err)"
    using demo_step_counts [OF laws Some v(1) step] v(3) assms(2) by auto
  then have "counts_at_most (Suc n) (Some cm')" using v by (simp add: counts_at_most_def)
  with cm' inv show ?thesis by (auto intro: counts_at_most_Suc split: if_splits)
qed

lemma demo_run_invariant:
  assumes "cluster_laws c cached stored refresh" and "demo_run c refresh w0 n w"
    and "cached w0 = None" and "stored w0 = None"
  shows "int n \<le> 9223372036854775807 \<Longrightarrow> counts_at_most n (cached w) \<and> counts_at_most n (stored w)"
  using assms(2)
proof (induction rule: demo_run.induct)
  case start
  then show ?case using assms(3,4) by simp
next
  case (sync n w res w')
  then show ?case using demo_step_invariant [OF assms(1) _ _ _ sync.hyps(2), of n] by simp
next
  case (deliver n w)
  then show ?case using cluster_effects(5,6) [OF assms(1), of w] by simp
qed

lemma demo_step_no_panic:
  assumes "cluster_laws c cached stored refresh" and "counts_at_most n (cached w)"
  shows "fst (demo_Sync c w) \<noteq> RunOncePanic p s"
proof -
  obtain res w' where step: "demo_Sync c w = (res, w')" by fastforce
  show ?thesis
  proof (cases "cached w")
    case None
    from demo_step_missing [OF assms(1) this step] step show ?thesis by (auto split: if_splits)
  next
    case (Some cm)
    then obtain v where "counter_value cm = Some v" using assms(2) by (auto simp: counts_at_most_def)
    from demo_step_counts [OF assms(1) Some this step] step show ?thesis by (auto split: if_splits)
  qed
qed

text \<open>Rounds of a sync and a delivery, when the server accepts everything.\<close>

definition demo_round :: "'w sample_clients \<Rightarrow> ('w \<Rightarrow> 'w) \<Rightarrow> 'w \<Rightarrow> 'w" where
  "demo_round c refresh w = refresh (snd (demo_Sync c w))"

definition accepts_all :: "'w sample_clients \<Rightarrow> bool" where
  "accepts_all c \<longleftrightarrow> (\<forall>ns cm w. fst (sc_ConfigMap_Create c ns cm w) = None \<and> fst (sc_ConfigMap_Update c ns cm w) = None)"

lemma returns_ok: "fst r = None \<Longrightarrow> fst (returns r) = RunOnceOk"
  by (cases r) (simp add: returns_def)

lemma accepted_sync:
  assumes laws: "cluster_laws c cached stored refresh" and acc: "accepts_all c"
    and "cached w = None \<or> (\<exists>cm v. cached w = Some cm \<and> counter_value cm = Some v)"
  shows "fst (demo_Sync c w) = RunOnceOk"
proof (cases "cached w")
  case None
  then obtain err where "sc_ConfigMap_Get c ''openshift-authentication'' ''foo'' w = Inl err" "err_is ApiNotFound err"
    using cluster_get(2) [OF laws] by blast
  note demo_Sync_missing [OF this]
  then show ?thesis using acc by (simp add: accepts_all_def returns_ok)
next
  case (Some cm)
  then obtain n where "counter_of cm = Some n" using assms(3) by (auto simp: counter_value_def)
  then obtain cm' where "demo_Sync c w = returns
      (sc_ConfigMap_Update c ''openshift-authentication'' cm' (sc_ConfigMap_Store c cm' w))"
    using demo_Sync_counts [OF cluster_get(1) [OF laws Some]] by blast
  then show ?thesis using acc by (simp add: accepts_all_def returns_ok)
qed

lemma demo_round_first:
  assumes laws: "cluster_laws c cached stored refresh" and acc: "accepts_all c" and "cached w = None"
  shows "\<exists>cm. cached (demo_round c refresh w) = Some cm \<and> stored (demo_round c refresh w) = Some cm \<and> counter_value cm = Some 1"
proof -
  obtain res w' where step: "demo_Sync c w = (res, w')" by fastforce
  moreover have "res = RunOnceOk" using accepted_sync [OF laws acc, of w] assms(3) step by simp
  ultimately have "stored w' = Some (makeConfigMap ''foo'')"
    using demo_step_missing(2) [OF laws assms(3) step] by simp
  then show ?thesis using step cluster_effects(5,6) [OF laws, of w'] by (simp add: demo_round_def counter_value_def)
qed

lemma demo_round_next:
  assumes laws: "cluster_laws c cached stored refresh" and acc: "accepts_all c"
    and "cached w = Some cm" and "counter_value cm = Some v" and "v < 9223372036854775807"
  shows "\<exists>cm'. cached (demo_round c refresh w) = Some cm' \<and> stored (demo_round c refresh w) = Some cm' \<and>
    counter_value cm' = Some (v + 1)"
proof -
  obtain res w' where step: "demo_Sync c w = (res, w')" by fastforce
  moreover have "res = RunOnceOk" using accepted_sync [OF laws acc, of w] assms(3,4) step by simp
  ultimately obtain cm' where "counter_value cm' = Some (v + 1)" "stored w' = Some cm'"
    using demo_step_counts [OF laws assms(3,4) step] assms(5) by auto
  then show ?thesis using step cluster_effects(5,6) [OF laws, of w'] by (simp add: demo_round_def)
qed

section \<open>Properties\<close>

text \<open>A cluster that keeps the cached and the stored object, and either accepts every write or none.\<close>

definition demo_cluster :: "bool \<Rightarrow> (config_map option \<times> config_map option) sample_clients" where
  "demo_cluster accepting =
     (let write = (\<lambda>ns cm w. if accepting then (None, (fst w, Some cm)) else (Some (errorf ''conflict''), w)) in
      \<lparr>sc_ConfigMap_Get = (\<lambda>ns name w. case fst w of None \<Rightarrow> Inl (Leaf ApiNotFound ''not found'') | Some cm \<Rightarrow> Inr cm),
       sc_ConfigMap_Store = (\<lambda>cm w. (Some cm, snd w)), sc_ConfigMap_Create = write, sc_ConfigMap_Update = write,
       sc_Ingress_Create = (\<lambda>name w. (None, w)), sc_Event = (\<lambda>r m w. w), sc_Stack = []\<rparr>)"

definition demo_deliver :: "config_map option \<times> config_map option \<Rightarrow> config_map option \<times> config_map option" where
  "demo_deliver w = (snd w, snd w)"

lemma demo_cluster_laws: "cluster_laws (demo_cluster accepting) fst snd demo_deliver"
  by (auto simp: cluster_laws_def demo_cluster_def Let_def demo_deliver_def err_is_def split: option.splits)

lemma demo_cluster_accepts: "accepts_all (demo_cluster True)"
  by (simp add: accepts_all_def demo_cluster_def Let_def)





text \<open>C33: a sync adds one to the cached counter, wrapping from the largest signed 64-bit integer to the
  smallest, and it does so even when the update fails and the server keeps the old object.\<close>

theorem demo_sync_changes_cache:
  assumes "cluster_laws c cached stored refresh" and "cached w = Some cm" and "counter_value cm = Some v"
    and "demo_Sync c w = (res, w')"
  shows "\<exists>cm'. counter_value cm' = Some (if v = 9223372036854775807 then - 9223372036854775808 else v + 1) \<and>
    cached w' = Some cm' \<and>
    (if res = RunOnceOk then stored w' = Some cm' else stored w' = stored w \<and> (\<exists>err. res = RunOnceError err))"
  by (rule demo_step_counts [OF assms])

definition full_counter :: config_map where
  "full_counter = (makeConfigMap ''foo'')\<lparr>cm_Data := Some [''counter'' \<mapsto> show_int 9223372036854775807]\<rparr>"

theorem demo_sync_changes_cache_witness:
  "\<exists>w' cm'. demo_Sync (demo_cluster False) (Some full_counter, Some full_counter) = (RunOnceError (errorf ''conflict''), w') \<and>
     fst w' = Some cm' \<and> counter_value cm' = Some (- 9223372036854775808) \<and> snd w' = Some full_counter"
proof -
  let ?w = "(Some full_counter, Some full_counter)"
  have "Atoi (counter_string full_counter) = Inr (word_of_int 9223372036854775807)"
    by (simp add: counter_string_def full_counter_def Atoi_show_int)
  then have v: "counter_value full_counter = Some 9223372036854775807"
    by (simp add: counter_value_def counter_of_def sint_uint word_of_int_eq_iff signed_take_bit_eq_take_bit_shift take_bit_eq_mod)
  obtain res w' where step: "demo_Sync (demo_cluster False) ?w = (res, w')"
    by (cases "demo_Sync (demo_cluster False) ?w")
  have "res = RunOnceError (errorf ''conflict'')"
  proof -
    obtain n where "counter_of full_counter = Some n" using v by (auto simp: counter_value_def)
    from demo_Sync_counts [OF _ this, of "demo_cluster False" ?w] step show ?thesis
      by (auto simp: demo_cluster_def Let_def returns_def)
  qed
  moreover obtain cm' where "counter_value cm' = Some (- 9223372036854775808)" "fst w' = Some cm'"
    "if res = RunOnceOk then snd w' = Some cm' else snd w' = snd ?w \<and> (\<exists>err. res = RunOnceError err)"
    using demo_sync_changes_cache [OF demo_cluster_laws _ v step] by auto
  ultimately show ?thesis using step by simp
qed

end
