(* ===== verification/Sample_Operator.thy ===== *)
theory Sample_Operator
  imports Sample_Controllers Input_Resources Output_Resources Client_Mutations
begin

text \<open>
  The sample operator, \<open>pkg/sampleoperator\<close>: the resources it declares as inputs and outputs, the
  controllers \<open>CreateOperatorStarter\<close> puts together and \<open>SampleRunApplyConfiguration\<close>. The clients,
  informers and the two controllers of library-go are arguments; so are the conversions of the
  operator's own resource. The version recorder is written and never read, so it is left out.
\<close>

section \<open>Declared resources\<close>

definition SampleRunOutputResources :: "output_resources option \<times> go_error option" where
  "SampleRunOutputResources =
     (Some \<lparr>or_ConfigurationResources = empty_output_list\<lparr>ol_ExactResources := [out_ExactConfigResource ''ingresses'']\<rparr>,
            or_ManagementResources = empty_output_list
              \<lparr>ol_ExactResources := [out_ExactLowLevelOperator ''authentications''],
               ol_EventingNamespaces := [''openshift-example-operator'']\<rparr>,
            or_UserWorkloadResources = empty_output_list
              \<lparr>ol_ExactResources :=
                 [out_ExactResource ''oauth.openshift.io'' ''v1'' ''oauthclients'' '''' ''openshift-browser-client'',
                  out_ExactConfigMap ''openshift-authentication'' ''foo'']\<rparr>\<rparr>,
      None)"

definition revision_selector :: label_selector where
  "revision_selector = \<lparr>ls_MatchLabels =
      [(''operator.openshift.io/controller-instance-name'', ''oauth-apiserver-RevisionController'')],
     ls_MatchExpressions = []\<rparr>"

definition sample_route_path :: string where
  "sample_route_path = ''$.spec.componentRoutes[?(@.name == '' @ [CHR 0x22] @ ''my-route'' @ [CHR 0x22]
     @ '' && @.namespace == '' @ [CHR 0x22] @ ''openshift-authentication'' @ [CHR 0x22]
     @ '')].servingCertKeyPairSecret.name''"

definition SampleRunInputResources :: "input_resources option \<times> go_error option" where
  "SampleRunInputResources =
     (Some \<lparr>ir_ApplyConfigurationResources = empty_input_list
              \<lparr>il_ExactResources :=
                 [in_ExactSecret ''openshift-authentication'' ''v4-0-config-system-ocp-branding-template'',
                  in_ExactConfigResource ''authentications'',
                  in_ExactConfigResource ''proxies'',
                  in_ExactConfigResource ''consoles'',
                  in_ExactConfigResource ''oauths'',
                  in_ExactConfigMap ''openshift-authentication'' ''fail-check'',
                  in_ExactConfigMap ''openshift-authentication'' ''foo''],
               il_LabelSelectedResources :=
                 [\<lparr>it_Group = '''', it_Version = ''v1'', it_Resource = ''configmaps'',
                   lr_Namespace = ''openshift-oauth-apiserver'', lr_LabelSelector = revision_selector\<rparr>,
                  \<lparr>it_Group = '''', it_Version = ''v1'', it_Resource = ''secrets'',
                   lr_Namespace = ''openshift-oauth-apiserver'', lr_LabelSelector = revision_selector\<rparr>],
               il_ResourceReferences :=
                 [\<lparr>rr_ReferringResource = in_ExactConfigResource ''ingresses'',
                   rr_Type = ResourceReferenceType ''ImplicitNamespacedReference'',
                   rr_ExplicitNamespacedReference = None,
                   rr_ImplicitNamespacedReference = Some
                     \<lparr>it_Group = it_Group SecretIdentifierType, it_Version = it_Version SecretIdentifierType,
                      it_Resource = it_Resource SecretIdentifierType, mr_Namespace = ''openshift-config'',
                      mr_NameJSONPath = sample_route_path\<rparr>,
                   rr_ClusterScopedReference = None\<rparr>]\<rparr>,
            ir_OperandResources =
              \<lparr>opl_ConfigurationResources = empty_input_list,
               opl_ManagementResources = empty_input_list
                 \<lparr>il_ExactResources := [in_ExactDeployment ''openshift-authentication'' ''oauth-server'']\<rparr>,
               opl_UserWorkloadResources = empty_input_list\<rparr>\<rparr>,
      None)"

section \<open>The operator\<close>

text \<open>
  What the operator is built from: the outcome of each client construction, the informer factories,
  the clients of its controllers, the read of the cluster operator, and the two library controllers.
\<close>

record ('w, 'sync) sample_env =
  se_kubeClient_NewForConfigAndClient :: "go_error option"
  se_configClient_NewForConfigAndClient :: "go_error option"
  se_operatorClient_NewForConfigAndClient :: "go_error option"
  se_NewOperatorClientWithClient :: "go_error + 'w informer_factory"
  se_kubeInformersForNamespaces :: "'w informer_factory"
  se_operatorConfigInformers :: "'w informer_factory"
  se_clients :: "'w sample_clients"
  se_ClusterOperators_Get :: "string \<Rightarrow> 'w \<Rightarrow> go_error option"
  se_resourceSyncer_Run :: "'w \<Rightarrow> nat \<Rightarrow> 'w"
  se_resourceSyncer_Sync :: "'w \<Rightarrow> 'sync \<Rightarrow> run_outcome \<times> 'w"
  se_staleConditions_sync :: "string list \<Rightarrow> 'w \<Rightarrow> run_outcome \<times> 'w"
  se_NewSyncContext :: "string \<Rightarrow> 'sync"

record 'w example_operator_input =
  eo_informers :: "'w informer_factory list"

definition CreateOperatorInputFromMOM :: "('w, 'sync) sample_env \<Rightarrow> go_error + 'w example_operator_input" where
  "CreateOperatorInputFromMOM env =
     (case se_kubeClient_NewForConfigAndClient env of Some err \<Rightarrow> Inl err | None \<Rightarrow>
     (case se_configClient_NewForConfigAndClient env of Some err \<Rightarrow> Inl err | None \<Rightarrow>
     (case se_operatorClient_NewForConfigAndClient env of Some err \<Rightarrow> Inl err | None \<Rightarrow>
     (case se_NewOperatorClientWithClient env of Inl err \<Rightarrow> Inl err
      | Inr dynamicInformers \<Rightarrow> Inr \<lparr>eo_informers = [dynamicInformers]\<rparr>))))"

text \<open>The name \<open>NewResourceSyncController\<close> and \<open>NewRemoveStaleConditionsController\<close> give.\<close>

definition resourceSyncer_Name :: string where
  "resourceSyncer_Name = ControllerInstanceName ''sample-operator-example'' ''ResourceSync''"

definition staleConditionsController :: "('w, 'sync) sample_env \<Rightarrow> ('w, 'sync) syncer" where
  "staleConditionsController env =
     factory_controller (ControllerInstanceName ''sample-operator'' ''RemoveStaleConditions'')
       (se_staleConditions_sync env [''WebhookAuthenticatorCertApprover_OpenShiftAuthenticatorDegraded''])"

text \<open>
  The controllers adapted with \<open>AdaptNamedController\<close>, in the order they are appended. Adapting
  panics when a controller has no instance name.
\<close>

definition named_controllers :: "('w, 'sync) sample_env \<Rightarrow> 'w named_run_once list outcome" where
  "named_controllers env =
     mapM_outcome (AdaptNamedController (se_NewSyncContext env))
       [newIngressCreatorController ''sample-operator'' (se_clients env),
        newFailureGeneratorController ''sample-operator'' (se_clients env),
        newDemoController ''sample-operator'' (se_clients env),
        staleConditionsController env]"

definition CreateOperatorStarter ::
    "('w, 'sync) sample_env \<Rightarrow> 'w example_operator_input \<Rightarrow> 'w \<Rightarrow>
      (go_error + 'w simple_operator_starter) outcome" where
  "CreateOperatorStarter env inp w =
     (let informers = eo_informers inp @ [se_kubeInformersForNamespaces env] @ [se_operatorConfigInformers env] in
      case (case se_ClusterOperators_Get env ''example'' w of
              None \<Rightarrow> None | Some err \<Rightarrow> if \<not> err_is ApiNotFound err then Some err else None) of
        Some err \<Rightarrow> Value (Inl err)
      | None \<Rightarrow>
          bind_outcome (named_controllers env) (\<lambda>named.
            Value (Inr \<lparr>sos_Informers = informers,
                        sos_ControllerNamedRunOnceFns =
                          AdaptSyncFn (se_NewSyncContext env) resourceSyncer_Name (se_resourceSyncer_Sync env) # named,
                        sos_ControllerRunFns = [AdaptRunFn (se_resourceSyncer_Run env)]\<rparr>)))"

definition SampleRunApplyConfiguration ::
    "('w, 'sync) sample_env \<Rightarrow> 'w named_run_once visit_order \<Rightarrow> ('w \<Rightarrow> all_actions_tracker) \<Rightarrow> string list \<Rightarrow> 'w \<Rightarrow>
      ((run_result option \<times> apply_configuration option \<times> go_error option) \<times> 'w) outcome" where
  "SampleRunApplyConfiguration env shuffle getMutations controllers w =
     (case CreateOperatorInputFromMOM env of
        Inl err \<Rightarrow> Value ((None, None, Some (Wrapf ''unable to configure operator input: '' err [])), w)
      | Inr authenticationOperatorInput \<Rightarrow>
          bind_outcome (CreateOperatorStarter env authenticationOperatorInput w) (\<lambda>r.
            (case r of
               Inl err \<Rightarrow> Value ((None, None, Some (Wrapf ''unable to configure operators: '' err [])), w)
             | Inr operatorStarter \<Rightarrow> Value (RunOnce shuffle getMutations operatorStarter controllers w))))"

section \<open>Conversions of the operator's resource\<close>

text \<open>
  \<open>extractOperatorSpec\<close> and \<open>extractOperatorStatus\<close>: \<open>convert\<close> is the conversion to the typed object,
  \<open>extract\<close> gives the part the field manager owns, whose spec or status may be missing.
\<close>

definition extract_part ::
    "('u \<Rightarrow> go_error + 'a) \<Rightarrow> ('a \<Rightarrow> string \<Rightarrow> go_error + 'part option) \<Rightarrow> 'u \<Rightarrow> string \<Rightarrow> go_error + 'part option" where
  "extract_part convert extract obj fieldManager =
     (case convert obj of
        Inl err \<Rightarrow> Inl (Wrapf ''unable to convert to Authentication: '' err [])
      | Inr castObj \<Rightarrow>
          (case extract castObj fieldManager of
             Inl err \<Rightarrow> Inl (Wrapf (''unable to extract fields for '' @ go_quote fieldManager @ '': '') err [])
           | Inr None \<Rightarrow> Inr None
           | Inr (Some part) \<Rightarrow> Inr (Some part)))"

definition extractOperatorSpec ::
    "('u \<Rightarrow> go_error + 'a) \<Rightarrow> ('a \<Rightarrow> string \<Rightarrow> go_error + 'spec option) \<Rightarrow> 'u \<Rightarrow> string \<Rightarrow> go_error + 'spec option" where
  "extractOperatorSpec convert extractAuthentication = extract_part convert extractAuthentication"

definition extractOperatorStatus ::
    "('u \<Rightarrow> go_error + 'a) \<Rightarrow> ('a \<Rightarrow> string \<Rightarrow> go_error + 'status option) \<Rightarrow> 'u \<Rightarrow> string \<Rightarrow> go_error + 'status option" where
  "extractOperatorStatus convert extractAuthenticationStatus = extract_part convert extractAuthenticationStatus"

section \<open>Lemmas\<close>

text \<open>The names of the five controllers.\<close>

definition sample_names :: "string list" where
  "sample_names =
     [''sample-operator-example-ResourceSync'', ''sample-operator-IngressCreator'',
      ''sample-operator-FailureGenerator'', ''sample-operator-Demo'', ''sample-operator-RemoveStaleConditions'']"

lemma distinct_sample_names: "distinct sample_names"
  by (simp add: sample_names_def)

lemma Adapt_factory_controller:
  "AdaptNamedController ctx (factory_controller (ControllerInstanceName inst n) f) =
     Value (NewNamedRunOnce (ControllerInstanceName inst n) f)"
  by (simp add: AdaptNamedController_def factory_controller_def ControllerInstanceName_def)

lemma named_controllers_eq:
  "named_controllers env = Value
     [NewNamedRunOnce (ControllerInstanceName ''sample-operator'' ''IngressCreator'') (ingress_sync (se_clients env)),
      NewNamedRunOnce (ControllerInstanceName ''sample-operator'' ''FailureGenerator'') (failure_sync (se_clients env)),
      NewNamedRunOnce (ControllerInstanceName ''sample-operator'' ''Demo'') (demo_Sync (se_clients env)),
      NewNamedRunOnce (ControllerInstanceName ''sample-operator'' ''RemoveStaleConditions'')
        (se_staleConditions_sync env [''WebhookAuthenticatorCertApprover_OpenShiftAuthenticatorDegraded''])]"
  by (simp add: named_controllers_def newIngressCreatorController_def newFailureGeneratorController_def
      newDemoController_def staleConditionsController_def Adapt_factory_controller outcome_simps)

lemma CreateOperatorStarter_names:
  "case CreateOperatorStarter env inp w of
     Panicked p \<Rightarrow> False
   | Value (Inl err) \<Rightarrow> se_ClusterOperators_Get env ''example'' w = Some err \<and> \<not> err_is ApiNotFound err
   | Value (Inr a) \<Rightarrow> map nro_ControllerInstanceName (sos_ControllerNamedRunOnceFns a) = sample_names"
  by (auto simp: CreateOperatorStarter_def named_controllers_eq outcome_simps AdaptSyncFn_def NewNamedRunOnce_def
      ControllerInstanceName_def resourceSyncer_Name_def sample_names_def split: option.splits if_splits)

text \<open>When the operator is built: its clients construct and the cluster operator is read or missing.\<close>

definition sample_builds :: "('w, 'sync) sample_env \<Rightarrow> 'w \<Rightarrow> bool" where
  "sample_builds env w \<longleftrightarrow>
     se_kubeClient_NewForConfigAndClient env = None \<and> se_configClient_NewForConfigAndClient env = None \<and>
     se_operatorClient_NewForConfigAndClient env = None \<and> (\<exists>inf. se_NewOperatorClientWithClient env = Inr inf) \<and>
     (case se_ClusterOperators_Get env ''example'' w of None \<Rightarrow> True | Some err \<Rightarrow> err_is ApiNotFound err)"

lemma SampleRun_built:
  assumes "sample_builds env w"
  shows "\<exists>a. SampleRunApplyConfiguration env shuffle muts flags w = Value (RunOnce shuffle muts a flags w) \<and>
    map nro_ControllerInstanceName (sos_ControllerNamedRunOnceFns a) = sample_names"
proof -
  obtain inp where inp: "CreateOperatorInputFromMOM env = Inr inp"
    using assms by (auto simp: sample_builds_def CreateOperatorInputFromMOM_def)
  obtain a where "CreateOperatorStarter env inp w = Value (Inr a)"
    using assms by (auto simp: sample_builds_def CreateOperatorStarter_def named_controllers_eq outcome_simps
        split: option.splits)
  with inp CreateOperatorStarter_names [where env = env and inp = inp and w = w] show ?thesis
    by (intro exI [of _ a]) (simp add: SampleRunApplyConfiguration_def outcome_simps)
qed

lemma SampleRun_not_built:
  assumes "\<not> sample_builds env w"
  shows "\<exists>err. SampleRunApplyConfiguration env shuffle muts flags w = Value ((None, None, Some err), w)"
  using assms
  by (auto simp: SampleRunApplyConfiguration_def CreateOperatorInputFromMOM_def sample_builds_def
      CreateOperatorStarter_def outcome_simps split: option.splits sum.splits)

section \<open>Properties\<close>

text \<open>The sample operator either fails to build, and then returns only an error and has done
  nothing, or its run names every flag against the five controllers: with a flag that names none of
  them it returns only an error, else it reports the five controllers in order.\<close>

theorem sample_run_reports_five:
  assumes "range_order shuffle"
  shows "\<exists>res mutations err w'.
    SampleRunApplyConfiguration env shuffle muts flags w = Value ((res, mutations, err), w') \<and>
    (if sample_builds env w \<and> (\<forall>f \<in> set flags. f = ''*'' \<or> trim_prefix f ''-'' \<in> set sample_names)
     then mutations \<noteq> None \<and>
       map_option (\<lambda>r. map crr_ControllerName (slice_list (arr_ControllerResults r))) res = Some (sort sample_names)
     else res = None \<and> mutations = None \<and> err \<noteq> None) \<and>
    (\<not> sample_builds env w \<longrightarrow> w' = w)"
proof (cases "sample_builds env w")
  case False
  from SampleRun_not_built [OF this, of shuffle muts flags] False show ?thesis by auto
next
  case True
  obtain a where a: "SampleRunApplyConfiguration env shuffle muts flags w = Value (RunOnce shuffle muts a flags w)"
    and names: "map nro_ControllerInstanceName (sos_ControllerNamedRunOnceFns a) = sample_names"
    using SampleRun_built [OF True] by blast
  have accepts: "run_once_accepts a flags \<longleftrightarrow> (\<forall>f \<in> set flags. f = ''*'' \<or> trim_prefix f ''-'' \<in> set sample_names)"
    using names distinct_sample_names by (simp add: run_once_accepts_def flip: names)
  show ?thesis
  proof (cases "run_once_accepts a flags")
    case False
    then obtain e where "RunOnce shuffle muts a flags w = ((None, None, Some e), synced_world a w)"
      using RunOnce_rejected [OF False, of shuffle muts w] by blast
    then show ?thesis using a True False by (simp only: accepts) auto
  next
    case accepted: True
    obtain rs ac err w' where "RunOnce shuffle muts a flags w = ((Some \<lparr>arr_ControllerResults = rs\<rparr>, Some ac, err), w')"
      "map crr_ControllerName (slice_list rs) = sort (map nro_ControllerInstanceName (sos_ControllerNamedRunOnceFns a))"
      using RunOnce_report [OF accepted assms, of muts w] by blast
    then show ?thesis using a True accepted names by (simp only: accepts) auto
  qed
qed

definition sample_demo_env :: "(nat, unit) sample_env" where
  "sample_demo_env =
     \<lparr>se_kubeClient_NewForConfigAndClient = None, se_configClient_NewForConfigAndClient = None,
      se_operatorClient_NewForConfigAndClient = None,
      se_NewOperatorClientWithClient = Inr \<lparr>inf_Start = (\<lambda>w. w), inf_WaitForCacheSync = (\<lambda>w. w)\<rparr>,
      se_kubeInformersForNamespaces = \<lparr>inf_Start = (\<lambda>w. w), inf_WaitForCacheSync = (\<lambda>w. w)\<rparr>,
      se_operatorConfigInformers = \<lparr>inf_Start = (\<lambda>w. w), inf_WaitForCacheSync = (\<lambda>w. w)\<rparr>,
      se_clients = \<lparr>sc_ConfigMap_Get = (\<lambda>ns n w. Inl (Leaf ApiNotFound ''not found'')), sc_ConfigMap_Store = (\<lambda>cm w. w),
        sc_ConfigMap_Create = (\<lambda>ns cm w. (None, w + 1)), sc_ConfigMap_Update = (\<lambda>ns cm w. (None, w + 1)),
        sc_Ingress_Create = (\<lambda>n w. (None, w + 1)), sc_Event = (\<lambda>r m w. w + 1), sc_Stack = []\<rparr>,
      se_ClusterOperators_Get = (\<lambda>n w. Some (Leaf ApiNotFound ''not found'')),
      se_resourceSyncer_Run = (\<lambda>w n. w), se_resourceSyncer_Sync = (\<lambda>w s. (RunOnceOk, w)),
      se_staleConditions_sync = (\<lambda>ts w. (RunOnceOk, w)), se_NewSyncContext = (\<lambda>n. ())\<rparr>"

theorem sample_run_reports_five_witness:
  "\<exists>res ac err w'. SampleRunApplyConfiguration sample_demo_env rev (\<lambda>w. NewAllActionsTracker) [''*'', ''-sample-operator-Demo''] 0 =
      Value ((Some res, Some ac, err), w') \<and>
     map crr_ControllerName (slice_list (arr_ControllerResults res)) =
       [''sample-operator-Demo'', ''sample-operator-FailureGenerator'', ''sample-operator-IngressCreator'',
        ''sample-operator-RemoveStaleConditions'', ''sample-operator-example-ResourceSync'']"
proof -
  have "sample_builds sample_demo_env (0 :: nat)"
    by (simp add: sample_builds_def sample_demo_env_def err_is_def)
  moreover have "\<forall>f \<in> set [''*'', ''-sample-operator-Demo'']. f = ''*'' \<or> trim_prefix f ''-'' \<in> set sample_names"
    by (simp add: sample_names_def trim_prefix.simps)
  moreover have "sort sample_names = [''sample-operator-Demo'', ''sample-operator-FailureGenerator'', ''sample-operator-IngressCreator'',
        ''sample-operator-RemoveStaleConditions'', ''sample-operator-example-ResourceSync'']"
    by (rule properties_for_sort) (simp_all add: sample_names_def)
  ultimately show ?thesis
    using sample_run_reports_five [OF range_order_rev, of sample_demo_env "\<lambda>w. NewAllActionsTracker"
        "[''*'', ''-sample-operator-Demo'']" "0 :: nat"]
    by (elim exE conjE) (simp only: if_True simp_thms, auto)
qed

text \<open>The declared inputs of the sample operator are well formed, so that the input-resources
  command accepts them, exactly when the JSON path of its one reference parses.\<close>

theorem sample_inputs_valid:
  "\<exists>inputs. SampleRunInputResources = (Some inputs, None) \<and>
     (validateInputResources newEvaluable (Some inputs) = Value [] \<longleftrightarrow> newEvaluable sample_route_path = None)"
proof -
  obtain inputs where inputs: "SampleRunInputResources = (Some inputs, None)"
    by (simp add: SampleRunInputResources_def)
  then have "\<not> (\<exists>l \<in> set (input_lists inputs). \<exists>r \<in> set (il_ResourceReferences l). dangling r)"
    by (auto simp: SampleRunInputResources_def input_lists_def dangling_def empty_input_list_def)
  moreover have "list_all (valid_list newEvaluable) (input_lists inputs) \<longleftrightarrow> newEvaluable sample_route_path = None"
    using inputs
    by (auto simp: SampleRunInputResources_def input_lists_def valid_list_def valid_exact_def valid_type_def
        valid_label_selected_def valid_reference_def empty_input_list_def in_ExactSecret_def in_ExactConfigResource_def
        in_ExactConfigMap_def in_ExactDeployment_def in_ExactResource_def revision_selector_def SecretIdentifierType_def
        ImplicitNamespacedReferenceType_def)
  ultimately show ?thesis
    using validate_inputs_validates [of newEvaluable inputs] inputs by (auto simp: validates_def)
qed


end
