(* ===== verification/Commands.thy ===== *)
theory Commands
  imports Flags Apply_Properties Test_Discovery Sample_Operator
begin

text \<open>
  The commands: the \<open>RunE\<close> functions of \<open>libraryapplyconfiguration/command.go\<close>,
  \<open>libraryinputresources/command.go\<close>, \<open>libraryoutputresources/command.go\<close>, of the tester and of
  from-must-gather, each the composition of the checks of its flags, the options built from them and
  the run. Here a command starts from its flags; \<open>Programs\<close> adds the command line.
\<close>

section \<open>apply-configuration\<close>

text \<open>
  The input of an operator: the client is built over the input directory, the clock is fixed at the
  given time.
\<close>

record apply_input =
  ai_MutationTrackingClient_dir :: string
  ai_Clock_Now :: "string option"
  ai_Controllers :: "string list"

definition apply_ToOptions :: "apply_flags \<Rightarrow> apply_input \<times> string" where
  "apply_ToOptions f =
     (\<lparr>ai_MutationTrackingClient_dir = af_inputDirectory f, ai_Clock_Now = af_now f,
       ai_Controllers = af_controllers f\<rparr>,
      af_outputDirectory f)"

text \<open>
  The operator's function takes the input and may panic. The output resources function and the
  operator's function are called in \<open>Run\<close>, after the output directory was made; \<open>env\<close> holds the rest.
\<close>

definition apply_RunE ::
    "run_env \<Rightarrow> (apply_input \<Rightarrow> (run_result option \<times> apply_configuration option \<times> go_error option) outcome) \<Rightarrow>
      apply_flags \<Rightarrow> (go_error option \<times> write_event list) outcome" where
  "apply_RunE env applyConfigurationFn f =
     (case apply_flags_Validate f of
        Some err \<Rightarrow> Value (Some err, [])
      | None \<Rightarrow>
          (let (input, outputDirectory) = apply_ToOptions f in
           if \<not> dir_made env outputDirectory then applyConfiguration_Run env outputDirectory
           else bind_outcome (applyConfigurationFn input) (\<lambda>result.
             applyConfiguration_Run (env\<lparr>env_applyConfigurationFn := result\<rparr>) outputDirectory)))"

section \<open>input-resources and output-resources\<close>

text \<open>These commands have nothing to check; their options are the functions and streams of their flags.\<close>

definition newInputResourcesOptions ::
    "input_resources option \<times> go_error option \<Rightarrow> output_resources option \<times> go_error option \<Rightarrow> input_env \<Rightarrow> input_env" where
  "newInputResourcesOptions inputResourcesFn outputResourcesFn streams =
     streams\<lparr>ine_inputResourcesFn := inputResourcesFn, ine_outputResourcesFn := outputResourcesFn\<rparr>"

definition input_flags_Validate :: "input_env \<Rightarrow> go_error option" where
  "input_flags_Validate f = None"

definition input_flags_ToOptions :: "input_env \<Rightarrow> input_env \<times> go_error option" where
  "input_flags_ToOptions f = (newInputResourcesOptions (ine_inputResourcesFn f) (ine_outputResourcesFn f) f, None)"

definition input_RunE :: "input_env \<Rightarrow> (go_error option \<times> string) outcome" where
  "input_RunE f =
     (case input_flags_Validate f of
        Some err \<Rightarrow> Value (Some err, [])
      | None \<Rightarrow>
          (case input_flags_ToOptions f of
             (o', Some err) \<Rightarrow> Value (Some err, [])
           | (o', None) \<Rightarrow> inputResources_Run o'))"

lemma input_RunE_eq: "input_RunE f = inputResources_Run f"
  by (simp add: input_RunE_def input_flags_Validate_def input_flags_ToOptions_def newInputResourcesOptions_def)

type_synonym output_fn = "output_resources option \<times> go_error option"

definition output_flags_Validate :: "output_fn \<Rightarrow> go_error option" where
  "output_flags_Validate f = None"

definition newOutputResourcesOptions :: "output_fn \<Rightarrow> output_fn" where
  "newOutputResourcesOptions outputResourcesFn = outputResourcesFn"

definition output_flags_ToOptions :: "output_fn \<Rightarrow> output_fn \<times> go_error option" where
  "output_flags_ToOptions f = (newOutputResourcesOptions f, None)"

definition output_RunE ::
    "output_fn \<Rightarrow> (output_resources option \<Rightarrow> go_error + string) \<Rightarrow> (string \<Rightarrow> go_error option) \<Rightarrow>
      go_error option \<times> string list" where
  "output_RunE f marshal fprint =
     (case output_flags_Validate f of
        Some err \<Rightarrow> (Some err, [])
      | None \<Rightarrow>
          (case output_flags_ToOptions f of
             (o', Some err) \<Rightarrow> (Some err, [])
           | (o', None) \<Rightarrow> outputResources_Run o' marshal fprint))"

lemma output_RunE_eq: "output_RunE f marshal fprint = outputResources_Run f marshal fprint"
  by (simp add: output_RunE_def output_flags_Validate_def output_flags_ToOptions_def newOutputResourcesOptions_def)

section \<open>test apply-configuration and from-must-gather\<close>

definition test_RunE ::
    "find_env \<Rightarrow> (string \<Rightarrow> string \<Rightarrow> string option) \<Rightarrow> (string \<times> bool \<times> go_error option) list \<Rightarrow>
      (preserve_policy \<Rightarrow> suite_env) \<Rightarrow> test_flags \<Rightarrow> (go_error option \<times> junit_case list \<times> string) outcome" where
  "test_RunE fenv rel walk senv f =
     (case test_flags_Validate f of
        Some err \<Rightarrow> Value (Some err, [], [])
      | None \<Rightarrow>
          (case test_flags_ToOptions fenv rel walk f of
             (so, Some err) \<Rightarrow> Value (Some err, [], [])
           | (so, None) \<Rightarrow>
               bind_outcome (deref so) (\<lambda>o'. suite_Run (senv (so_PreservePolicy o')) (so_PreservePolicy o')
                 (so_OutputDirectory o') (so_Tests o'))))"

definition must_gather_RunE ::
    "(string \<Rightarrow> go_error + string) \<Rightarrow> (string \<Rightarrow> go_error + input_resources option) \<Rightarrow>
      group_kind visit_order \<Rightarrow> (group_kind \<times> string) visit_order \<Rightarrow> (string \<Rightarrow> go_error + client_env) \<Rightarrow>
      write_env \<Rightarrow> must_gather_flags \<Rightarrow> (go_error option \<times> (string \<times> string) list) outcome" where
  "must_gather_RunE readFile parse ord ord' newClient wenv f =
     (case must_gather_Validate f of
        Some err \<Rightarrow> Value (Some err, [])
      | None \<Rightarrow> must_gather_Run readFile parse ord ord' newClient wenv f)"

section \<open>The sample operator's command\<close>

text \<open>
  \<open>NewSampleOperatorApplyConfigurationCommand\<close> joins the two functions of the sample operator. Its
  run-once changes the world; what the command returns is read off the result.
\<close>

definition sample_applyFn ::
    "('w, 'sync) sample_env \<Rightarrow> 'w named_run_once visit_order \<Rightarrow> ('w \<Rightarrow> all_actions_tracker) \<Rightarrow> 'w \<Rightarrow> apply_input \<Rightarrow>
      (run_result option \<times> apply_configuration option \<times> go_error option) outcome" where
  "sample_applyFn senv shuffle muts w input =
     bind_outcome (SampleRunApplyConfiguration senv shuffle muts (ai_Controllers input) w) (\<lambda>(r, w'). Value r)"

definition sample_apply_RunE ::
    "run_env \<Rightarrow> ('w, 'sync) sample_env \<Rightarrow> 'w named_run_once visit_order \<Rightarrow> ('w \<Rightarrow> all_actions_tracker) \<Rightarrow> 'w \<Rightarrow>
      apply_flags \<Rightarrow> (go_error option \<times> write_event list) outcome" where
  "sample_apply_RunE env senv shuffle muts w f =
     apply_RunE (env\<lparr>env_outputResourcesFn := SampleRunOutputResources\<rparr>) (sample_applyFn senv shuffle muts w) f"

definition sample_input_RunE ::
    "(string \<Rightarrow> go_error option) \<Rightarrow> (input_resources \<Rightarrow> go_error + string) \<Rightarrow> (string \<Rightarrow> go_error option) \<Rightarrow>
      (go_error option \<times> string) outcome" where
  "sample_input_RunE newEvaluable marshal fprint =
     input_RunE \<lparr>ine_inputResourcesFn = SampleRunInputResources, ine_outputResourcesFn = SampleRunOutputResources,
       ine_NewEvaluable = newEvaluable, ine_Marshal = marshal, ine_Fprint = fprint\<rparr>"

definition sample_output_RunE ::
    "(output_resources option \<Rightarrow> go_error + string) \<Rightarrow> (string \<Rightarrow> go_error option) \<Rightarrow>
      go_error option \<times> string list" where
  "sample_output_RunE marshal fprint = output_RunE SampleRunOutputResources marshal fprint"

section \<open>Lemmas\<close>

lemma env_updates [simp]:
  "dir_made (env\<lparr>env_outputResourcesFn := o'\<rparr>) d = dir_made env d"
  "dir_made (env\<lparr>env_applyConfigurationFn := a\<rparr>) d = dir_made env d"
  "env_orders_ok (env\<lparr>env_outputResourcesFn := o'\<rparr>) = env_orders_ok env"
  "env_orders_ok (env\<lparr>env_applyConfigurationFn := a\<rparr>) = env_orders_ok env"
  "write_ok (env\<lparr>env_outputResourcesFn := o'\<rparr>) = write_ok env"
  "write_ok (env\<lparr>env_applyConfigurationFn := a\<rparr>) = write_ok env"
  by (auto simp: dir_made_def env_orders_ok_def write_ok_def fun_eq_iff split: write_event.split)

lemmas sample_input_simps = SampleRunInputResources_def empty_input_list_def in_ExactSecret_def in_ExactConfigResource_def
  in_ExactConfigMap_def in_ExactDeployment_def in_ExactResource_def revision_selector_def SecretIdentifierType_def
  ImplicitNamespacedReferenceType_def valid_list_def valid_exact_def valid_type_def valid_label_selected_def
  valid_reference_def

lemmas sample_output_simps = SampleRunOutputResources_def empty_output_list_def out_ExactConfigResource_def
  out_ExactLowLevelOperator_def out_ExactConfigMap_def out_ExactResource_def convert_exact_def

text \<open>The command after its flags are accepted and the output directory exists.\<close>

lemma sample_apply_RunE_eq:
  assumes "apply_flags_Validate f = None" and "dir_made env (af_outputDirectory f)"
    and "SampleRunApplyConfiguration senv shuffle muts (af_controllers f) w = Value (r, w')"
  shows "sample_apply_RunE env senv shuffle muts w f = applyConfiguration_Run
    (env\<lparr>env_outputResourcesFn := SampleRunOutputResources, env_applyConfigurationFn := r\<rparr>) (af_outputDirectory f)"
  using assms by (simp add: sample_apply_RunE_def apply_RunE_def apply_ToOptions_def sample_applyFn_def outcome_simps)

text \<open>A run panics when the operator returns no mutations.\<close>

lemma Run_nil_mutations:
  assumes "dir_made env dir" and "env_applyConfigurationFn env = (res, None, err)"
  shows "applyConfiguration_Run env dir = Panicked NilDereference"
  by (cases "env_outputResourcesFn env")
    (simp add: Run_after_mkdir [OF assms(1)] applyConfiguration_Run_body_def assms(2) Unspecified_nil)

lemma SampleRun_rejects:
  assumes "\<not> (sample_builds senv w \<and> (\<forall>f \<in> set flags. f = ''*'' \<or> trim_prefix f ''-'' \<in> set sample_names))"
  shows "\<exists>err w'. SampleRunApplyConfiguration senv shuffle muts flags w = Value ((None, None, Some err), w')"
proof (cases "sample_builds senv w")
  case False
  from SampleRun_not_built [OF this, of shuffle muts flags] show ?thesis by blast
next
  case True
  obtain a where a: "SampleRunApplyConfiguration senv shuffle muts flags w = Value (RunOnce shuffle muts a flags w)"
    "map nro_ControllerInstanceName (sos_ControllerNamedRunOnceFns a) = sample_names"
    using SampleRun_built [OF True] by blast
  have "\<not> run_once_accepts a flags"
    using assms True by (auto simp: run_once_accepts_def simp flip: a(2))
  from RunOnce_rejected [OF this, of shuffle muts w] a(1) show ?thesis by auto
qed

lemma SampleRun_accepts:
  assumes "sample_builds senv w" and "\<forall>f \<in> set flags. f = ''*'' \<or> trim_prefix f ''-'' \<in> set sample_names"
    and "range_order shuffle"
  shows "\<exists>res err w'. SampleRunApplyConfiguration senv shuffle muts flags w =
      Value ((Some res, Some (NewApplyConfigurationFromClient (muts w')), err), w') \<and>
    map crr_ControllerName (slice_list (arr_ControllerResults res)) = sort sample_names \<and>
    (err = None \<longleftrightarrow> (\<forall>r \<in> set (slice_list (arr_ControllerResults res)). crr_Status r \<noteq> ControllerRunStatusFailed))"
proof -
  obtain a where a: "SampleRunApplyConfiguration senv shuffle muts flags w = Value (RunOnce shuffle muts a flags w)"
    and names: "map nro_ControllerInstanceName (sos_ControllerNamedRunOnceFns a) = sample_names"
    using SampleRun_built [OF assms(1)] by blast
  have accepts: "run_once_accepts a flags"
    using assms(2) distinct_sample_names by (simp add: run_once_accepts_def flip: names)
  obtain rs ac err w' where run: "RunOnce shuffle muts a flags w = ((Some \<lparr>arr_ControllerResults = rs\<rparr>, Some ac, err), w')"
    and rs: "map crr_ControllerName (slice_list rs) = sort (map nro_ControllerInstanceName (sos_ControllerNamedRunOnceFns a))"
    "err = None \<longleftrightarrow> (\<forall>r \<in> set (slice_list rs). crr_Status r \<noteq> ControllerRunStatusFailed)"
    using RunOnce_report [OF accepts assms(3), of muts w] by blast
  moreover have "ac = NewApplyConfigurationFromClient (muts w')"
    using run by (auto simp: RunOnce_accepted [OF accepts] split: prod.splits)
  ultimately show ?thesis
    using a by (intro exI [of _ "\<lparr>arr_ControllerResults = rs\<rparr>"] exI [of _ err] exI [of _ w']) (simp add: names)
qed

section \<open>Properties\<close>

text \<open>C29: the sample operator's command, from its flags to what it writes. With flags that pass the
  checks and name known controllers, and an operator that builds, it never panics, reports the five
  controllers, and returns no error exactly when no controller failed, every request its client
  recorded is declared, and the results and every file were written.\<close>

theorem sample_command_succeeds_iff:
  assumes "apply_flags_Validate f = None" and "dir_made env (af_outputDirectory f)" and "env_orders_ok env"
    and "range_order shuffle" and "\<forall>w. tracker_inv (muts w)" and "sample_builds senv w"
    and "\<forall>c \<in> set (af_controllers f). c = ''*'' \<or> trim_prefix c ''-'' \<in> set sample_names"
  shows "\<exists>res err w' out e evs.
    SampleRunApplyConfiguration senv shuffle muts (af_controllers f) w =
      Value ((Some res, Some (NewApplyConfigurationFromClient (muts w')), err), w') \<and>
    map crr_ControllerName (slice_list (arr_ControllerResults res)) = sort sample_names \<and>
    SampleRunOutputResources = (Some out, None) \<and>
    sample_apply_RunE env senv shuffle muts w f = Value (e, evs) \<and>
    (e = None \<longleftrightarrow>
      (\<forall>r \<in> set (slice_list (arr_ControllerResults res)). crr_Status r \<noteq> ControllerRunStatusFailed) \<and>
      (\<forall>q \<in> set (AllRequests (\<lambda>ks. ks) (muts w')). declared out q) \<and>
      (\<exists>bytes. env_Marshal env (Some res) = Inr bytes) \<and> (\<forall>ev \<in> set evs. write_ok env ev))"
proof -
  obtain res err w' where run: "SampleRunApplyConfiguration senv shuffle muts (af_controllers f) w =
      Value ((Some res, Some (NewApplyConfigurationFromClient (muts w')), err), w')"
    and names: "map crr_ControllerName (slice_list (arr_ControllerResults res)) = sort sample_names"
    and err: "err = None \<longleftrightarrow> (\<forall>r \<in> set (slice_list (arr_ControllerResults res)). crr_Status r \<noteq> ControllerRunStatusFailed)"
    using SampleRun_accepts [OF assms(6,7,4)] by blast
  obtain out where out: "SampleRunOutputResources = (Some out, None)" by (simp add: SampleRunOutputResources_def)
  let ?env = "env\<lparr>env_outputResourcesFn := SampleRunOutputResources,
    env_applyConfigurationFn := (Some res, Some (NewApplyConfigurationFromClient (muts w')), err)\<rparr>"
  let ?ac = "NewApplyConfigurationFromClient (muts w')"
  have "set (all_produced ?ac) = set (AllRequests (\<lambda>ks. ks) (muts w'))"
    by (auto simp: produced_def client_cluster_requests set_AllClusterTypes)
  moreover obtain e where "applyConfiguration_Run ?env (af_outputDirectory f) =
      Value (e, run_writes ?env (af_outputDirectory f) out ?ac (Some res))"
    "e = None \<longleftrightarrow> (None :: go_error option) = None \<and> err = None \<and> (\<forall>q \<in> set (all_produced ?ac). declared out q) \<and>
      (\<exists>bytes. env_Marshal ?env (Some res) = Inr bytes) \<and>
      (\<forall>ev \<in> set (run_writes ?env (af_outputDirectory f) out ?ac (Some res)). write_ok ?env ev)"
    using Run_eq [of ?env "af_outputDirectory f" ?ac out None "Some res" err] assms(2,3,5) out
    by (auto simp: client_config_full)
  ultimately show ?thesis
    using run names err out sample_apply_RunE_eq [OF assms(1,2) run] by simp blast
qed

definition demo_apply_flags :: "string list \<Rightarrow> apply_flags" where
  "demo_apply_flags controllers = \<lparr>af_inputDirectory = ''in'', af_outputDirectory = ''out'',
     af_controllers = controllers, af_now = Some ''2024-10-14T22:38:20Z''\<rparr>"

lemma demo_apply_flags_valid [simp]: "apply_flags_Validate (demo_apply_flags cs) = None"
  "af_controllers (demo_apply_flags cs) = cs"
  by (simp_all add: demo_apply_flags_def apply_flags_Validate_def)

lemma sample_demo_builds: "sample_builds sample_demo_env (0 :: nat)"
  by (simp add: sample_builds_def sample_demo_env_def err_is_def)

theorem sample_command_succeeds_iff_witness:
  "\<exists>(res :: run_result) out e evs. sample_apply_RunE (demo_env None None None) sample_demo_env rev (\<lambda>w. NewAllActionsTracker) 0
      (demo_apply_flags [''*'', ''-sample-operator-Demo'']) = Value (e, evs) \<and>
    map crr_ControllerName (slice_list (arr_ControllerResults res)) = sort sample_names \<and>
    SampleRunOutputResources = (Some out, None)"
proof -
  let ?f = "demo_apply_flags [''*'', ''-sample-operator-Demo'']"
  have flags: "\<forall>c \<in> set (af_controllers ?f). c = ''*'' \<or> trim_prefix c ''-'' \<in> set sample_names"
    by (simp add: sample_names_def trim_prefix.simps)
  have dir: "dir_made (demo_env None None None) (af_outputDirectory ?f)"
    and ord: "env_orders_ok (demo_env None None None)" and inv: "\<forall>w :: nat. tracker_inv NewAllActionsTracker"
    by simp_all
  obtain res :: run_result and out e evs where
    "map crr_ControllerName (slice_list (arr_ControllerResults res)) = sort sample_names"
    "SampleRunOutputResources = (Some out, None)"
    "sample_apply_RunE (demo_env None None None) sample_demo_env rev (\<lambda>w. NewAllActionsTracker) 0 ?f = Value (e, evs)"
    using sample_command_succeeds_iff [OF demo_apply_flags_valid(1) dir ord range_order_rev inv sample_demo_builds flags]
    by blast
  then show ?thesis by blast
qed

text \<open>A controllers flag that names no controller, or an operator that does not build, makes the
  sample operator's command panic with a nil dereference: the error that says what is wrong is lost.\<close>

theorem sample_command_panics_on_rejected_flag:
  assumes "apply_flags_Validate f = None" and "dir_made env (af_outputDirectory f)"
    and "\<not> (sample_builds senv w \<and> (\<forall>c \<in> set (af_controllers f). c = ''*'' \<or> trim_prefix c ''-'' \<in> set sample_names))"
  shows "sample_apply_RunE env senv shuffle muts w f = Panicked NilDereference \<and>
    (\<exists>err w'. SampleRunApplyConfiguration senv shuffle muts (af_controllers f) w = Value ((None, None, Some err), w'))"
proof -
  obtain err w' where run: "SampleRunApplyConfiguration senv shuffle muts (af_controllers f) w = Value ((None, None, Some err), w')"
    using SampleRun_rejects [OF assms(3)] by blast
  have "applyConfiguration_Run (env\<lparr>env_outputResourcesFn := SampleRunOutputResources,
      env_applyConfigurationFn := (None, None, Some err)\<rparr>) (af_outputDirectory f) = Panicked NilDereference"
    by (rule Run_nil_mutations) (use assms(2) in simp_all)
  with run sample_apply_RunE_eq [OF assms(1,2) run] show ?thesis by simp
qed

theorem sample_command_panics_on_rejected_flag_witness:
  "sample_apply_RunE (demo_env None None None) sample_demo_env rev (\<lambda>w. NewAllActionsTracker) 0
      (demo_apply_flags [''typo'']) = Panicked NilDereference"
  using sample_command_panics_on_rejected_flag [of "demo_apply_flags [''typo'']" "demo_env None None None"
      sample_demo_env "0 :: nat" rev "\<lambda>w. NewAllActionsTracker"]
  by (simp add: sample_names_def trim_prefix.simps)

text \<open>The sample operator's input-resources command prints its inputs followed by the ingress
  configuration it writes, and returns no error exactly when the JSON path of its reference parses and
  the inputs were rendered and printed; its output-resources command prints the rendered outputs or
  nothing.\<close>

theorem sample_resource_commands:
  "\<exists>inputs outputs e out. SampleRunInputResources = (Some inputs, None) \<and> SampleRunOutputResources = (Some outputs, None) \<and>
    il_ExactResources (ir_ApplyConfigurationResources (run_inputs inputs outputs)) =
      il_ExactResources (ir_ApplyConfigurationResources inputs) @ [in_ExactConfigResource ''ingresses''] \<and>
    sample_input_RunE newEvaluable marshal fprint = Value (e, out) \<and>
    out = (case marshal (run_inputs inputs outputs) of Inl me \<Rightarrow> [] | Inr yaml \<Rightarrow> yaml) \<and>
    (e = None \<longleftrightarrow> newEvaluable sample_route_path = None \<and>
      (\<exists>yaml. marshal (run_inputs inputs outputs) = Inr yaml) \<and> fprint out = None) \<and>
    snd (sample_output_RunE marshal_out fprint) =
      (case marshal_out (Some outputs) of Inl me \<Rightarrow> [] | Inr yaml \<Rightarrow> if fprint yaml = None then [yaml] else [])"
proof -
  obtain inputs outputs where fns: "SampleRunInputResources = (Some inputs, None)" "SampleRunOutputResources = (Some outputs, None)"
    by (simp add: SampleRunInputResources_def SampleRunOutputResources_def)
  let ?env = "\<lparr>ine_inputResourcesFn = SampleRunInputResources, ine_outputResourcesFn = SampleRunOutputResources,
    ine_NewEvaluable = newEvaluable, ine_Marshal = marshal, ine_Fprint = fprint\<rparr>"
  have "\<forall>l \<in> set (input_lists inputs). \<forall>r \<in> set (il_ResourceReferences l). \<not> dangling r"
    using fns(1) by (auto simp: SampleRunInputResources_def input_lists_def dangling_def empty_input_list_def)
  then obtain e out where run: "inputResources_Run ?env = Value (e, out)"
    "out = (case marshal (run_inputs inputs outputs) of Inl me \<Rightarrow> [] | Inr yaml \<Rightarrow> yaml)"
    "e = None \<longleftrightarrow> (\<forall>l \<in> set (input_lists (run_inputs inputs outputs)). valid_list newEvaluable l) \<and>
      (\<exists>yaml. marshal (run_inputs inputs outputs) = Inr yaml) \<and> fprint out = None"
    using inputResources_Run_eq [of ?env inputs None outputs None] by (auto simp: fns)
  have exact: "il_ExactResources (ir_ApplyConfigurationResources (run_inputs inputs outputs)) =
      il_ExactResources (ir_ApplyConfigurationResources inputs) @ [in_ExactConfigResource ''ingresses'']"
    using fns(2) by (auto simp: run_inputs_def SampleRunOutputResources_def convert_exact_def out_ExactConfigResource_def
        in_ExactConfigResource_def out_ExactResource_def in_ExactResource_def)
  have "(\<forall>l \<in> set (input_lists (run_inputs inputs outputs)). valid_list newEvaluable l) \<longleftrightarrow>
      newEvaluable sample_route_path = None"
    using fns by (auto simp: input_lists_def run_inputs_def sample_input_simps sample_output_simps)
  moreover have "snd (sample_output_RunE marshal_out fprint) =
      (case marshal_out (Some outputs) of Inl me \<Rightarrow> [] | Inr yaml \<Rightarrow> if fprint yaml = None then [yaml] else [])"
    by (simp add: sample_output_RunE_def output_RunE_eq outputResources_Run_def fns split: sum.split option.split)
  ultimately show ?thesis
    using fns exact run
    by (intro exI [of _ inputs] exI [of _ outputs] exI [of _ e] exI [of _ out] conjI)
      (simp_all add: sample_input_RunE_def input_RunE_eq)
qed

text \<open>A test that lies at the root of the test directory has the output directory of the run as its
  own. When it passes and nothing is to be preserved, its cleanup removes that directory, and the run
  returns an error although no test failed, because the report can no longer be written.\<close>

theorem root_test_loses_report:
  assumes "test_flags_Validate f = None" and "test_flags_ToOptions fenv rel walk f = (Some so, None)"
    and "so_Tests so = [t]" and "to_TestDirectory t = tf_TestDirectory f"
    and "rel (tf_TestDirectory f) (tf_TestDirectory f) = Some ''.''"
    and "\<not> tf_ReplaceExpectedOutput f" and "tf_PreservePolicy f = []"
    and "\<forall>p t. su_runTest (senv p) t = Value (r t)" and "jc_FailureOutput (r t) = None"
    and "\<forall>p i. su_ctx_Err (senv p) i = None" and "\<forall>p d. su_MkdirAll (senv p) d = None"
    and "\<forall>p evs d x b. path_clean d = x \<longrightarrow>
      su_WriteFile (senv p) (evs @ [RemovedDir x]) (path_join [d, ''junit.xml'']) b \<noteq> None"
  shows "\<exists>e cases out. test_RunE fenv rel walk senv f = Value (Some e, cases, out)"
proof -
  obtain e ts where "walk_test fenv rel f e = (ts, [])" "t \<in> set ts"
    using ToOptions_walk [OF assms(2), of t] assms(3) by auto
  then have out: "to_OutputDirectory t = path_join [tf_OutputDirectory f, ''.'']"
    using walk_test_accepts assms(4-6) by (fastforce simp: test_output_def)
  have so: "so_OutputDirectory so = tf_OutputDirectory f" "so_PreservePolicy so = PreservePolicy []"
    using assms(2,6,7) by (auto simp: test_flags_ToOptions_def Let_def split: prod.splits if_splits)
  have events: "suite_events (PreservePolicy []) r [t] = [RanTest t] @ [RemovedDir (to_OutputDirectory t)]"
    using assms(9) by (simp add: suite_events_def)
  have clean: "path_clean (tf_OutputDirectory f) = to_OutputDirectory t"
    using assms(1) out by (simp add: test_flags_Validate_def path_join_dot split: if_splits)
  let ?env = "senv (PreservePolicy [])"
  obtain e cases out where run: "suite_Run ?env (PreservePolicy []) (tf_OutputDirectory f) [t] = Value (e, cases, out)"
    and e: "e = None \<longrightarrow> (\<exists>bytes. su_WriteFile ?env (suite_events (PreservePolicy []) r [t])
      (path_join [tf_OutputDirectory f, ''junit.xml'']) bytes = None)"
    using suite_Run_verdict [of ?env r "PreservePolicy []" "tf_OutputDirectory f" "[t]"] assms(8,10,11) by auto
  have "e \<noteq> None"
    using e assms(12) clean unfolding events by blast
  then show ?thesis
    using run assms(1-3) so by (auto simp: test_RunE_def outcome_simps deref_def)
qed

definition demo_root_flags :: test_flags where
  "demo_root_flags = \<lparr>tf_TestDirectory = ''tests'', tf_OutputDirectory = ''out'', tf_PreservePolicy = [],
     tf_ReplaceExpectedOutput = False\<rparr>"

definition removed_last :: "suite_event list \<Rightarrow> bool" where
  "removed_last evs \<longleftrightarrow> (\<exists>d. evs \<noteq> [] \<and> last evs = RemovedDir d)"

theorem root_test_loses_report_witness:
  "\<exists>e cases out. test_RunE demo_find (\<lambda>b p. Some ''.'') [(''tests'', True, None)]
     (\<lambda>p. (demo_suite (\<lambda>t. setup_case ''ok'' None))\<lparr>su_WriteFile :=
        (\<lambda>evs f b. if removed_last evs then Some (errorf ''no such directory'') else None)\<rparr>) demo_root_flags =
   Value (Some e, cases, out)"
proof -
  let ?t = "(demo_test NoError)\<lparr>to_TestDirectory := ''tests'',
    to_OutputDirectory := path_join [''out'', ''.'']\<rparr>"
  have m: "test_flags_ToOptions demo_find (\<lambda>b p. Some ''.'') [(''tests'', True, None)] demo_root_flags =
      (Some \<lparr>so_Tests = [?t], so_OutputDirectory = ''out'', so_PreservePolicy = PreservePolicy []\<rparr>, None)"
    by (simp add: test_flags_ToOptions_def walk_test_def ReadPotentialTestDir_def demo_find_def demo_root_flags_def
        demo_test_def requiredTestContent_def validateTest_def AllTestTypes_def Let_def)
  show ?thesis
    by (rule root_test_loses_report [where r = "\<lambda>t. setup_case ''ok'' None" and t = ?t, OF _ m])
      (simp_all add: demo_root_flags_def test_flags_Validate_def demo_suite_def removed_last_def setup_case_def)
qed

end
