(* ===== verification/Mutation_Writer.thy ===== *)
theory Mutation_Writer
  imports Manifest_Client Go_Path
begin

text \<open>
  How requests are laid out in a mutation directory: \<open>suggestedFilenames\<close> of the vendored
  \<open>serialized_request.go\<close> and \<open>mutation_directory_writer.go\<close>. A request has a metadata file, a body file
  and, when it has options, an options file, whose names hold its action, namespace, group,
  resource, name and two bytes of a hash of its content. SHA-256, the YAML encoder and the text
  that \<open>%v\<close> prints for a value are arguments; the file system is a state of any type, changed by
  \<open>MkdirAll\<close> and \<open>WriteFile\<close>.
\<close>

section \<open>File names\<close>

definition MakeFilenameGoModSafe :: "string \<Rightarrow> string" where
  "MakeFilenameGoModSafe s = concat (map (\<lambda>c. if c = CHR '':'' then ''-COLON-'' else [c]) s)"

text \<open>\<open>%x\<close> of a byte slice.\<close>

definition hex_bytes :: "string \<Rightarrow> string" where
  "hex_bytes s = concat (map (\<lambda>c. [hex_digit (of_char c div 16), hex_digit (of_char c mod 16)]) s)"

definition hashForFilenamePrefix :: "(string \<Rightarrow> string) \<Rightarrow> string \<Rightarrow> string" where
  "hashForFilenamePrefix sha256 data =
     (if length data = 0 then ''MISSING''
      else let hashBytes = sha256 data in hex_bytes (drop (length hashBytes - 2) hashBytes))"

definition hashRequestToPrefix :: "(string \<Rightarrow> string) \<Rightarrow> string \<Rightarrow> string \<Rightarrow> string" where
  "hashRequestToPrefix sha256 data options =
     (if length data > 0 then hashForFilenamePrefix sha256 data
      else if length options > 0 then hashForFilenamePrefix sha256 options
      else ''MISSING'')"

definition suggestedFilenames :: "(string \<Rightarrow> string) \<Rightarrow> serialized_request \<Rightarrow> string \<times> string \<times> string" where
  "suggestedFilenames sha256 a =
     (let md = sr_ActionMetadata a;
          bodyHash = hashRequestToPrefix sha256 (sr_Body a) (sr_Options a);
          groupName = (if length (gvr_Group (am_ResourceType md)) = 0 then ''core'' else gvr_Group (am_ResourceType md));
          scopingString = (if length (am_Namespace md) > 0 then path_join [''namespaces'', am_Namespace md]
                           else path_join [''cluster-scoped-resources'']);
          filename = (\<lambda>kind. MakeFilenameGoModSafe (path_join [action_string (am_Action md), scopingString, groupName,
            gvr_Resource (am_ResourceType md),
            bodyHash @ ''-'' @ kind @ ''-'' @ am_Name md @ am_GenerateName md @ ''.yaml''])) in
      (filename ''metadata'', filename ''body'', if length (sr_Options a) > 0 then filename ''options'' else []))"

fun SuggestedFilenames :: "(string \<Rightarrow> string) \<Rightarrow> serialized_requestish \<Rightarrow> string \<times> string \<times> string" where
  "SuggestedFilenames sha256 (FileOriginatedSerializedRequest metadataFilename bodyFilename optionsFilename sr) =
     (metadataFilename, bodyFilename, optionsFilename)"
| "SuggestedFilenames sha256 (TrackedSerializedRequest n sr) = suggestedFilenames sha256 sr"
| "SuggestedFilenames sha256 (PlainSerializedRequest sr) = suggestedFilenames sha256 sr"

section \<open>Writing\<close>

record 'fs mutation_writer =
  mw_sha256 :: "string \<Rightarrow> string"
  mw_Marshal :: "action_metadata \<Rightarrow> go_error + string"
  mw_fmt_metadata :: "action_metadata \<Rightarrow> string"
  mw_fmt_request :: "serialized_requestish \<Rightarrow> string"
  mw_MkdirAll :: "string \<Rightarrow> 'fs \<Rightarrow> go_error option \<times> 'fs"
  mw_WriteFile :: "string \<Rightarrow> string \<Rightarrow> 'fs \<Rightarrow> go_error option \<times> 'fs"

text \<open>A failed call adds one error to the list.\<close>

definition failing :: "string \<Rightarrow> go_error option \<Rightarrow> go_error list" where
  "failing msg err = (case err of None \<Rightarrow> [] | Some e \<Rightarrow> [Wrapf msg e []])"

definition write_request ::
    "'fs mutation_writer \<Rightarrow> string \<Rightarrow> serialized_requestish \<Rightarrow> 'fs \<Rightarrow> go_error list \<times> 'fs" where
  "write_request W mutationDirectory request fs =
     (case SuggestedFilenames (mw_sha256 W) request of
        (metadataFilename, bodyFilename, optionsFilename) \<Rightarrow>
          let bodyPath = path_join [mutationDirectory, bodyFilename];
              metadataPath = path_join [mutationDirectory, metadataFilename];
              sr = GetSerializedRequest request;
              written = ''unable to write body '' @ mw_fmt_request W request @ '': '' in
          (case mw_Marshal W (GetLookupMetadata sr) of
             Inl err \<Rightarrow> ([Wrapf (''unable to serialize metadata '' @ mw_fmt_metadata W (sr_ActionMetadata sr) @ '': '') err []], fs)
           | Inr metadataBytes \<Rightarrow>
               let parentDir = path_dir bodyPath in
               (case mw_MkdirAll W parentDir fs of
                  (Some err, fs1) \<Rightarrow> ([Wrapf (''unable to create parentDir '' @ go_quote parentDir @ '': '') err []], fs1)
                | (None, fs1) \<Rightarrow>
                    let (err2, fs2) = mw_WriteFile W metadataPath metadataBytes fs1;
                        (err3, fs3) = mw_WriteFile W bodyPath (sr_Body sr) fs2;
                        (err4, fs4) = (if length (sr_Options sr) > 0
                          then mw_WriteFile W (path_join [mutationDirectory, optionsFilename]) (sr_Options sr) fs3
                          else (None, fs3)) in
                    (failing written err2 @ failing written err3
                       @ failing (''unable to write options '' @ mw_fmt_request W request @ '': '') err4, fs4))))"

fun write_requests ::
    "'fs mutation_writer \<Rightarrow> string \<Rightarrow> serialized_requestish list \<Rightarrow> 'fs \<Rightarrow> go_error list \<times> 'fs" where
  "write_requests W mutationDirectory [] fs = ([], fs)"
| "write_requests W mutationDirectory (request # requests) fs =
     (let (errs, fs1) = write_request W mutationDirectory request fs;
          (errs', fs2) = write_requests W mutationDirectory requests fs1 in
      (errs @ errs', fs2))"

definition WriteMutationDirectory_files ::
    "'fs mutation_writer \<Rightarrow> string \<Rightarrow> serialized_requestish list \<Rightarrow> 'fs \<Rightarrow> go_error option \<times> 'fs" where
  "WriteMutationDirectory_files W mutationDirectory requests fs =
     (case write_requests W mutationDirectory requests fs of (errs, fs') \<Rightarrow> (errors_join errs, fs'))"

section \<open>The components of a file name\<close>

lemma safe_simps [simp]:
  "MakeFilenameGoModSafe [] = []"
  "MakeFilenameGoModSafe (s @ t) = MakeFilenameGoModSafe s @ MakeFilenameGoModSafe t"
  "MakeFilenameGoModSafe (c # s) = (if c = CHR '':'' then ''-COLON-'' else [c]) @ MakeFilenameGoModSafe s"
  by (simp_all add: MakeFilenameGoModSafe_def)

lemma safe_id: "CHR '':'' \<notin> set s \<Longrightarrow> MakeFilenameGoModSafe s = s"
  by (induction s) auto

lemma safe_Nil_iff [simp]: "MakeFilenameGoModSafe s = [] \<longleftrightarrow> s = []"
  by (cases s) auto

lemma slash_in_safe [simp]: "slash \<in> set (MakeFilenameGoModSafe s) \<longleftrightarrow> slash \<in> set s"
  by (induction s) (auto simp: slash_def)

lemma length_safe: "CHR '':'' \<in> set s \<Longrightarrow> 7 \<le> length (MakeFilenameGoModSafe s)"
  by (induction s) auto

lemma plain_safe [simp]: "plain_component (MakeFilenameGoModSafe s) \<longleftrightarrow> plain_component s"
proof (cases "CHR '':'' \<in> set s")
  case True
  then have "7 \<le> length (MakeFilenameGoModSafe s)" by (rule length_safe)
  then have "MakeFilenameGoModSafe s \<noteq> ''.''" "MakeFilenameGoModSafe s \<noteq> ''..''" by auto
  with True show ?thesis by (auto simp: plain_component_def)
qed (simp add: safe_id)

lemma safe_strings_join:
  "MakeFilenameGoModSafe (strings_join xs [slash]) = strings_join (map MakeFilenameGoModSafe xs) [slash]"
  by (induction xs) (auto simp: strings_join_Cons slash_def)

lemma strings_join_concat:
  "[] \<notin> set xss \<Longrightarrow> strings_join (map (\<lambda>xs. strings_join xs s) xss) s = strings_join (concat xss) s"
proof (induction xss)
  case (Cons xs xss)
  have app: "strings_join (xs @ ys) s = strings_join xs s @ s @ strings_join ys s" if "xs \<noteq> []" "ys \<noteq> []" for xs ys
    using that by (induction xs) (auto simp: strings_join_Cons)
  have "concat xss \<noteq> []" if "xss \<noteq> []" using Cons.prems that by (cases xss) auto
  then have "strings_join (xs @ concat xss) s = strings_join xs s @ s @ strings_join (concat xss) s" if "xss \<noteq> []"
    using Cons.prems that by (intro app) auto
  with Cons show ?case by (cases "xss = []") (simp_all add: strings_join_Cons)
qed simp

lemma path_join_joins:
  assumes "xss \<noteq> []" and "\<forall>xs \<in> set xss. xs \<noteq> [] \<and> (\<forall>x \<in> set xs. plain_component x)"
  shows "path_join (map (\<lambda>xs. strings_join xs [slash]) xss) = strings_join (concat xss) [slash]"
proof -
  obtain xs yss where xss: "xss = xs # yss" "xs \<noteq> []" using assms by (cases xss) auto
  then obtain x ys where xs: "xs = x # ys" "x \<noteq> []"
    using assms(2) by (cases xs) (auto simp: plain_component_def)
  then have ne: "strings_join xs [slash] \<noteq> []" by (simp add: strings_join_Cons)
  have "path_join (map (\<lambda>xs. strings_join xs [slash]) xss) =
      path_clean (strings_join (map (\<lambda>xs. strings_join xs [slash]) xss) [slash])"
    using xss ne by (simp add: path_join_def)
  also have "strings_join (map (\<lambda>xs. strings_join xs [slash]) xss) [slash] = strings_join (concat xss) [slash]"
    using assms(2) by (intro strings_join_concat) auto
  also have "path_clean \<dots> = strings_join (concat xss) [slash]"
    using assms xss xs by (intro path_clean_plain) auto
  finally show ?thesis .
qed

section \<open>The files of a request\<close>

definition scope_comps :: "string \<Rightarrow> string list" where
  "scope_comps ns = (if ns = [] then [''cluster-scoped-resources''] else [''namespaces'', ns])"

definition group_dir :: "string \<Rightarrow> string" where
  "group_dir g = (if g = [] then ''core'' else g)"

definition request_hash :: "(string \<Rightarrow> string) \<Rightarrow> serialized_request \<Rightarrow> string" where
  "request_hash sha256 a = hashRequestToPrefix sha256 (sr_Body a) (sr_Options a)"

definition object_name :: "serialized_request \<Rightarrow> string" where
  "object_name a = am_Name (sr_ActionMetadata a) @ am_GenerateName (sr_ActionMetadata a)"

definition base_name :: "(string \<Rightarrow> string) \<Rightarrow> string \<Rightarrow> serialized_request \<Rightarrow> string" where
  "base_name sha256 kind a = request_hash sha256 a @ ''-'' @ kind @ ''-'' @ MakeFilenameGoModSafe (object_name a) @ ''.yaml''"

text \<open>The directory of a request below that of its action.\<close>

definition dir_comps :: "serialized_request \<Rightarrow> string list" where
  "dir_comps a = (let md = sr_ActionMetadata a in
     map MakeFilenameGoModSafe
       (scope_comps (am_Namespace md) @ [group_dir (gvr_Group (am_ResourceType md)), gvr_Resource (am_ResourceType md)]))"

definition action_dir :: "action \<Rightarrow> string" where
  "action_dir act = MakeFilenameGoModSafe (action_string act)"

definition file_comps :: "(string \<Rightarrow> string) \<Rightarrow> string \<Rightarrow> serialized_request \<Rightarrow> string list" where
  "file_comps sha256 kind a = action_dir (am_Action (sr_ActionMetadata a)) # dir_comps a @ [base_name sha256 kind a]"

text \<open>What the API server guarantees of the names in a request: none holds a slash or is a dot name.\<close>

definition plain_request :: "serialized_request \<Rightarrow> bool" where
  "plain_request a \<longleftrightarrow>
     (let md = sr_ActionMetadata a in
      plain_component (action_string (am_Action md)) \<and>
      (am_Namespace md = [] \<or> plain_component (am_Namespace md)) \<and>
      (gvr_Group (am_ResourceType md) = [] \<or> plain_component (gvr_Group (am_ResourceType md))) \<and>
      plain_component (gvr_Resource (am_ResourceType md)) \<and> slash \<notin> set (object_name a))"

lemma hex_digit_range: "hex_digit n \<in> set ''0123456789abcdef''"
proof -
  have "n mod 16 < length ''0123456789abcdef''" by simp
  then show ?thesis unfolding hex_digit_def by (rule nth_mem)
qed

lemma set_hex_bytes: "set (hex_bytes s) \<subseteq> set ''0123456789abcdef''"
proof
  fix c
  assume "c \<in> set (hex_bytes s)"
  then obtain n where "c = hex_digit n" by (auto simp: hex_bytes_def)
  then show "c \<in> set ''0123456789abcdef''" using hex_digit_range by simp
qed

lemma set_request_hash: "set (request_hash sha256 a) \<subseteq> set ''0123456789abcdefMISNG''"
proof -
  have "set ''0123456789abcdef'' \<subseteq> set ''0123456789abcdefMISNG''" "set ''MISSING'' \<subseteq> set ''0123456789abcdefMISNG''"
    by simp_all
  then have "set (hashForFilenamePrefix sha256 d) \<subseteq> set ''0123456789abcdefMISNG''" for d
    unfolding hashForFilenamePrefix_def Let_def
    by (cases "length d = 0") (simp_all only: if_True if_False simp_thms subset_trans [OF set_hex_bytes])
  moreover have "set ''MISSING'' \<subseteq> set ''0123456789abcdefMISNG''" by simp
  ultimately show ?thesis
    unfolding request_hash_def hashRequestToPrefix_def by (simp only: split: if_split) simp
qed

lemma request_hash_chars [simp]:
  "slash \<notin> set (request_hash sha256 a)" "CHR ''-'' \<notin> set (request_hash sha256 a)"
  "CHR '':'' \<notin> set (request_hash sha256 a)" "CHR ''o'' \<notin> set (request_hash sha256 a)"
  using set_request_hash [of sha256 a] by (auto simp: slash_def)

lemma plain_base_name:
  assumes "slash \<notin> set (object_name a)" and "slash \<notin> set kind"
  shows "plain_component (base_name sha256 kind a)"
proof -
  have "CHR ''-'' \<in> set (base_name sha256 kind a)" by (simp add: base_name_def)
  then have "base_name sha256 kind a \<noteq> ''.''" "base_name sha256 kind a \<noteq> ''..''" by auto
  moreover have "slash \<notin> set (base_name sha256 kind a)"
    using assms by (simp add: base_name_def) (simp add: slash_def)
  ultimately show ?thesis by (auto simp: plain_component_def base_name_def)
qed

lemma plain_literals [simp]:
  "plain_component ''core''" "plain_component ''namespaces''" "plain_component ''cluster-scoped-resources''"
  by (simp_all add: plain_component_def slash_def)

lemma plain_file_comps:
  assumes "plain_request a" and "slash \<notin> set kind" and "x \<in> set (file_comps sha256 kind a)"
  shows "plain_component x"
  using assms plain_base_name [of a kind sha256]
  by (auto simp: file_comps_def dir_comps_def scope_comps_def group_dir_def action_dir_def plain_request_def Let_def
      split: if_splits)

lemma suggestedFilenames_eq:
  assumes "plain_request a"
  shows "suggestedFilenames sha256 a =
    (strings_join (file_comps sha256 ''metadata'' a) [slash], strings_join (file_comps sha256 ''body'' a) [slash],
     if sr_Options a = [] then [] else strings_join (file_comps sha256 ''options'' a) [slash])"
proof -
  let ?md = "sr_ActionMetadata a"
  let ?h = "request_hash sha256 a"
  have name: "MakeFilenameGoModSafe (path_join [action_string (am_Action ?md),
      (if am_Namespace ?md \<noteq> [] then path_join [''namespaces'', am_Namespace ?md] else path_join [''cluster-scoped-resources'']),
      (if gvr_Group (am_ResourceType ?md) = [] then ''core'' else gvr_Group (am_ResourceType ?md)),
      gvr_Resource (am_ResourceType ?md),
      ?h @ ''-'' @ kind @ ''-'' @ am_Name ?md @ am_GenerateName ?md @ ''.yaml'']) =
    strings_join (file_comps sha256 kind a) [slash]" if k: "slash \<notin> set kind" "CHR '':'' \<notin> set kind" for kind
  proof -
    define b where "b = ?h @ ''-'' @ kind @ ''-'' @ am_Name ?md @ am_GenerateName ?md @ ''.yaml''"
    let ?xss = "[[action_string (am_Action ?md)], scope_comps (am_Namespace ?md),
      [group_dir (gvr_Group (am_ResourceType ?md))], [gvr_Resource (am_ResourceType ?md)], [b]]"
    have base: "MakeFilenameGoModSafe b = base_name sha256 kind a"
      using k by (simp add: b_def base_name_def object_name_def safe_id)
    have "plain_component b"
      using plain_base_name [of a kind sha256] assms k
      by (metis base plain_safe plain_request_def)
    then have plain: "\<forall>xs \<in> set ?xss. xs \<noteq> [] \<and> (\<forall>x \<in> set xs. plain_component x)"
      using assms by (auto simp: plain_request_def scope_comps_def group_dir_def Let_def)
    have scope: "(if am_Namespace ?md \<noteq> [] then path_join [''namespaces'', am_Namespace ?md]
        else path_join [''cluster-scoped-resources'']) = strings_join (scope_comps (am_Namespace ?md)) [slash]"
      using assms path_join_plain [of "scope_comps (am_Namespace ?md)"]
      by (auto simp: scope_comps_def plain_request_def Let_def)
    have "path_join (map (\<lambda>xs. strings_join xs [slash]) ?xss) = strings_join (concat ?xss) [slash]"
      using plain by (intro path_join_joins) simp_all
    then show ?thesis
      unfolding scope b_def [symmetric] by (simp add: safe_strings_join base file_comps_def dir_comps_def action_dir_def group_dir_def Let_def)
  qed
  show ?thesis
    using name [of "''metadata''"] name [of "''body''"] name [of "''options''"]
    by (simp add: suggestedFilenames_def request_hash_def Let_def slash_def)
qed

section \<open>Files below a directory\<close>

lemma foldl_clean_no_slash:
  "\<forall>x \<in> set st. slash \<notin> set x \<Longrightarrow> \<forall>x \<in> set xs. slash \<notin> set x \<Longrightarrow>
     \<forall>x \<in> set (foldl (clean_step r) st xs). slash \<notin> set x"
proof (induction xs arbitrary: st)
  case (Cons x xs)
  have "\<forall>y \<in> set (clean_step r st x). slash \<notin> set y"
    using Cons.prems by (auto simp: clean_step_def slash_def split: list.split)
  with Cons show ?case by simp
qed simp

lemma split_slash_no_slash: "x \<in> set (split_slash s) \<Longrightarrow> slash \<notin> set x"
  by (induction s arbitrary: x) (auto split: if_splits list.splits)

lemma path_join_below:
  assumes "D \<noteq> []" and "xs \<noteq> []" and "\<forall>x \<in> set xs. plain_component x"
  shows "path_join [D, strings_join xs [slash]] =
    (if hd D = slash then [slash] else []) @
      strings_join (rev (foldl (clean_step (hd D = slash)) [] (split_slash D)) @ xs) [slash]"
proof -
  have "split_slash (strings_join xs [slash]) = xs"
    using assms by (intro split_slash_join) (auto simp: plain_component_def)
  then show ?thesis
    using assms by (simp add: path_join_def path_clean_def split_slash_append_any foldl_clean_plain Let_def)
qed

lemma path_join_below_inj:
  assumes "xs \<noteq> []" "ys \<noteq> []" "\<forall>x \<in> set xs. plain_component x" "\<forall>y \<in> set ys. plain_component y"
    and "path_join [D, strings_join xs [slash]] = path_join [D, strings_join ys [slash]]"
  shows "xs = ys"
proof (cases "D = []")
  case True
  have "strings_join zs [slash] \<noteq> []" if "zs \<noteq> []" "\<forall>z \<in> set zs. plain_component z" for zs
    using that by (cases zs) (auto simp: strings_join_Cons plain_component_def)
  with True assms have "strings_join xs [slash] = strings_join ys [slash]"
    by (simp add: path_join_def path_clean_plain)
  with assms(1-4) show ?thesis by (intro strings_join_plain_inj) (auto simp: plain_component_def)
next
  case False
  let ?st = "rev (foldl (clean_step (hd D = slash)) [] (split_slash D))"
  have "\<forall>x \<in> set ?st. slash \<notin> set x"
    using foldl_clean_no_slash [of "[]" "split_slash D" "hd D = slash"] split_slash_no_slash by auto
  moreover have "strings_join (?st @ xs) [slash] = strings_join (?st @ ys) [slash]"
    using assms False by (simp add: path_join_below)
  ultimately have "?st @ xs = ?st @ ys"
    using assms(1-4) by (intro strings_join_plain_inj) (auto simp: plain_component_def)
  then show ?thesis by simp
qed

lemma append_sep_eq_iff:
  "c \<notin> set x \<Longrightarrow> c \<notin> set x' \<Longrightarrow> x @ c # y = x' @ c # y' \<longleftrightarrow> x = x' \<and> y = y'"
proof (induction x arbitrary: x')
  case Nil
  then show ?case by (cases x') auto
next
  case (Cons a x)
  then show ?case by (cases x') auto
qed

text \<open>The place of a request in a directory: two requests share their files exactly when they share it.\<close>

definition request_slot :: "(string \<Rightarrow> string) \<Rightarrow> serialized_request \<Rightarrow> string \<times> string list \<times> string \<times> string" where
  "request_slot sha256 a = (action_dir (am_Action (sr_ActionMetadata a)), dir_comps a, request_hash sha256 a,
     MakeFilenameGoModSafe (object_name a))"

definition file_kinds :: "string list" where
  "file_kinds = [''metadata'', ''body'', ''options'']"

definition request_file :: "(string \<Rightarrow> string) \<Rightarrow> string \<Rightarrow> string \<Rightarrow> serialized_request \<Rightarrow> string" where
  "request_file sha256 dir kind a = path_join [dir, strings_join (file_comps sha256 kind a) [slash]]"

lemma file_comps_eq_iff:
  assumes "k \<in> set file_kinds" "k' \<in> set file_kinds"
  shows "file_comps sha256 k a = file_comps sha256 k' a' \<longleftrightarrow> k = k' \<and> request_slot sha256 a = request_slot sha256 a'"
proof -
  have "CHR ''-'' \<notin> set k" "CHR ''-'' \<notin> set k'" using assms by (auto simp: file_kinds_def)
  then have "base_name sha256 k a = base_name sha256 k' a' \<longleftrightarrow>
      request_hash sha256 a = request_hash sha256 a' \<and> k = k' \<and>
      MakeFilenameGoModSafe (object_name a) = MakeFilenameGoModSafe (object_name a')"
    by (simp add: base_name_def append_sep_eq_iff)
  then show ?thesis by (auto simp: file_comps_def request_slot_def)
qed

lemma request_file_eq_iff:
  assumes "k \<in> set file_kinds" "k' \<in> set file_kinds" "plain_request a" "plain_request a'"
  shows "request_file sha256 dir k a = request_file sha256 dir k' a' \<longleftrightarrow> k = k' \<and> request_slot sha256 a = request_slot sha256 a'"
proof -
  have "slash \<notin> set k" "slash \<notin> set k'" using assms(1,2) by (auto simp: file_kinds_def slash_def)
  then have "request_file sha256 dir k a = request_file sha256 dir k' a' \<longleftrightarrow> file_comps sha256 k a = file_comps sha256 k' a'"
    using path_join_below_inj [of "file_comps sha256 k a" "file_comps sha256 k' a'" dir]
      plain_file_comps [OF assms(3)] plain_file_comps [OF assms(4)]
    by (auto simp: request_file_def file_comps_def)
  then show ?thesis using file_comps_eq_iff [OF assms(1,2)] by simp
qed

section \<open>What a write leaves\<close>

text \<open>
  The file system seen through a map from paths to contents: making directories changes no file, a
  write that reports no error replaces one file.
\<close>

definition store_laws :: "'fs mutation_writer \<Rightarrow> ('fs \<Rightarrow> string \<Rightarrow> string option) \<Rightarrow> bool" where
  "store_laws W content \<longleftrightarrow>
     (\<forall>d fs. content (snd (mw_MkdirAll W d fs)) = content fs) \<and>
     (\<forall>p b fs. fst (mw_WriteFile W p b fs) = None \<longrightarrow> content (snd (mw_WriteFile W p b fs)) = (content fs)(p \<mapsto> b))"

text \<open>The specification of a write: the files of each request in turn.\<close>

definition store_request ::
    "'fs mutation_writer \<Rightarrow> string \<Rightarrow> serialized_request \<Rightarrow> (string \<Rightarrow> string option) \<Rightarrow> (string \<Rightarrow> string option)" where
  "store_request W dir a m =
     (let file = (\<lambda>kind. request_file (mw_sha256 W) dir kind a);
          m' = m(file ''metadata'' \<mapsto> projr (mw_Marshal W (GetLookupMetadata a)), file ''body'' \<mapsto> sr_Body a) in
      if sr_Options a = [] then m' else m'(file ''options'' \<mapsto> sr_Options a))"

fun recorded :: "serialized_requestish \<Rightarrow> bool" where
  "recorded (FileOriginatedSerializedRequest mf bf optf sr) = False"
| "recorded (TrackedSerializedRequest n sr) = plain_request sr"
| "recorded (PlainSerializedRequest sr) = plain_request sr"

lemma SuggestedFilenames_recorded:
  "recorded q \<Longrightarrow> plain_request (GetSerializedRequest q) \<and>
    SuggestedFilenames sha256 q = suggestedFilenames sha256 (GetSerializedRequest q)"
  by (cases q) auto

lemma failing_Nil_iff [simp]: "failing msg e = [] \<longleftrightarrow> e = None"
  by (simp add: failing_def split: option.split)

lemma write_request_stores:
  assumes "store_laws W content" and "recorded q" and "write_request W dir q fs = ([], fs')"
  shows "content fs' = store_request W dir (GetSerializedRequest q) (content fs) \<and>
    (\<exists>b. mw_Marshal W (GetLookupMetadata (GetSerializedRequest q)) = Inr b)"
proof -
  let ?sr = "GetSerializedRequest q"
  have names: "SuggestedFilenames (mw_sha256 W) q =
    (strings_join (file_comps (mw_sha256 W) ''metadata'' ?sr) [slash], strings_join (file_comps (mw_sha256 W) ''body'' ?sr) [slash],
     if sr_Options ?sr = [] then [] else strings_join (file_comps (mw_sha256 W) ''options'' ?sr) [slash])"
    using SuggestedFilenames_recorded [OF assms(2)] suggestedFilenames_eq by metis
  have wrote: "content fs2 = (content fs1)(p \<mapsto> b)" if "mw_WriteFile W p b fs1 = (None, fs2)" for p b fs1 fs2
    using assms(1) that unfolding store_laws_def by (metis fst_conv snd_conv)
  have mkdir: "content fs2 = content fs1" if "mw_MkdirAll W d fs1 = (e, fs2)" for d e fs1 fs2
    using assms(1) that unfolding store_laws_def by (metis snd_conv)
  show ?thesis
    using assms(3)
    by (auto simp: write_request_def names store_request_def request_file_def Let_def
        dest!: wrote mkdir split: sum.splits prod.splits option.splits if_splits)
qed

lemma write_requests_stores:
  "store_laws W content \<Longrightarrow> \<forall>q \<in> set qs. recorded q \<Longrightarrow> write_requests W dir qs fs = ([], fs') \<Longrightarrow>
     content fs' = fold (store_request W dir) (map GetSerializedRequest qs) (content fs) \<and>
     (\<forall>q \<in> set qs. \<exists>b. mw_Marshal W (GetLookupMetadata (GetSerializedRequest q)) = Inr b)"
proof (induction qs arbitrary: fs)
  case (Cons q qs)
  then obtain fs1 where "write_request W dir q fs = ([], fs1)" "write_requests W dir qs fs1 = ([], fs')"
    by (auto simp: Let_def split: prod.splits)
  with write_request_stores [OF Cons.prems(1), of q dir fs fs1] Cons show ?case by simp
qed simp

text \<open>The content a request has for one of its files.\<close>

definition file_content :: "'fs mutation_writer \<Rightarrow> string \<Rightarrow> serialized_request \<Rightarrow> string option" where
  "file_content W kind a =
     (if kind = ''metadata'' then Some (projr (mw_Marshal W (GetLookupMetadata a)))
      else if kind = ''body'' then Some (sr_Body a)
      else if sr_Options a = [] then None else Some (sr_Options a))"

lemma store_request_own:
  assumes "plain_request a" and "k \<in> set file_kinds"
  shows "store_request W dir a m (request_file (mw_sha256 W) dir k a) =
    (case file_content W k a of None \<Rightarrow> m (request_file (mw_sha256 W) dir k a) | Some b \<Rightarrow> Some b)"
proof -
  have "request_file (mw_sha256 W) dir k a = request_file (mw_sha256 W) dir k' a \<longleftrightarrow> k = k'"
    if "k' \<in> set file_kinds" for k'
    using request_file_eq_iff [OF assms(2) that assms(1,1)] by simp
  from this [of "''metadata''"] this [of "''body''"] this [of "''options''"] show ?thesis
    using assms(2) by (auto simp: store_request_def file_content_def file_kinds_def Let_def)
qed

lemma store_request_other:
  assumes "\<forall>k \<in> set file_kinds. p \<noteq> request_file (mw_sha256 W) dir k a"
  shows "store_request W dir a m p = m p"
  using assms by (auto simp: store_request_def file_kinds_def Let_def)

lemma fold_store_other:
  "\<forall>a \<in> set rs. \<forall>k \<in> set file_kinds. p \<noteq> request_file (mw_sha256 W) dir k a \<Longrightarrow>
     fold (store_request W dir) rs m p = m p"
  by (induction rs arbitrary: m) (simp_all add: store_request_other)

lemma fold_store_last:
  assumes "plain_request a" and "\<forall>b \<in> set bs. plain_request b \<and> request_slot (mw_sha256 W) b \<noteq> request_slot (mw_sha256 W) a"
    and "k \<in> set file_kinds"
  shows "fold (store_request W dir) (xs @ a # bs) m (request_file (mw_sha256 W) dir k a) =
    (case file_content W k a of None \<Rightarrow> fold (store_request W dir) xs m (request_file (mw_sha256 W) dir k a) | Some b \<Rightarrow> Some b)"
proof -
  have "\<forall>b \<in> set bs. \<forall>k' \<in> set file_kinds. request_file (mw_sha256 W) dir k a \<noteq> request_file (mw_sha256 W) dir k' b"
    using assms request_file_eq_iff by metis
  then show ?thesis
    using store_request_own [OF assms(1,3)] by (simp add: fold_store_other)
qed

end
