(* ===== verification/Mutation_Reader.thy ===== *)
theory Mutation_Reader
  imports Mutation_Writer
begin

text \<open>
  \<open>mutation_directory_reader.go\<close> of the vendored \<open>manifestclient\<close>: the requests of a mutation directory,
  action by action. The file system below the directory, its walk and the decoders are arguments.
\<close>

section \<open>Strings and paths\<close>

text \<open>\<open>strings.Replace(s, old, new, 1)\<close>.\<close>

fun replace_first :: "string \<Rightarrow> string \<Rightarrow> string \<Rightarrow> string" where
  "replace_first old new [] = (if old = [] then new else [])"
| "replace_first old new (c # cs) =
     (if starts_with old (c # cs) then new @ drop (length old) (c # cs) else c # replace_first old new cs)"

text \<open>\<open>filepath.Base\<close>.\<close>

definition path_base :: "string \<Rightarrow> string" where
  "path_base s =
     (if s = [] then ''.''
      else let t = rev (dropWhile (\<lambda>c. c = slash) (rev s)) in
        if t = [] then [slash] else last (split_slash t))"

text \<open>
  The regular expression \<open>.*-body-(.+).yaml\<close>, which is not anchored: after some \<open>-body-\<close> come at least two
  characters other than a newline, and then \<open>yaml\<close>.
\<close>

definition body_tail :: "string \<Rightarrow> bool" where
  "body_tail r \<longleftrightarrow> list_ex (\<lambda>j. 2 \<le> j \<and> CHR 0x0A \<notin> set (take j r) \<and> starts_with ''yaml'' (drop j r)) [0..<length r]"

fun bodyRegex :: "string \<Rightarrow> bool" where
  "bodyRegex [] = False"
| "bodyRegex (c # cs) \<longleftrightarrow> (starts_with ''-body-'' (c # cs) \<and> body_tail (drop 6 (c # cs))) \<or> bodyRegex cs"

section \<open>Reading\<close>

record dir_entry =
  de_Name :: string
  de_IsDir :: bool

record mutation_reader =
  mr_Open :: "action \<Rightarrow> go_error option"
  mr_Sub :: "action \<Rightarrow> go_error option"
  mr_WalkDir :: "action \<Rightarrow> (string \<times> dir_entry option \<times> go_error option) list"
  mr_ReadFile :: "action \<Rightarrow> string \<Rightarrow> go_error + string"
  mr_UnmarshalMetadata :: "string \<Rightarrow> go_error + action_metadata"
  mr_DecodeJSON :: "string \<Rightarrow> go_error + group_version_kind"
  mr_YAMLToJSON :: "string \<Rightarrow> go_error + string"

definition empty_gvk :: group_version_kind where
  "empty_gvk = \<lparr>gvk_Group = [], gvk_Version = [], gvk_Kind = []\<rparr>"

text \<open>The kind of the body. It is kept only when the body is YAML: a body that decodes as JSON leaves it empty.\<close>

definition read_kind :: "mutation_reader \<Rightarrow> action \<Rightarrow> string \<Rightarrow> string \<Rightarrow> go_error + group_version_kind" where
  "read_kind R act bodyFilename bodyContent =
     (if act \<noteq> ActionPatch \<and> act \<noteq> ActionPatchStatus then
        (case mr_DecodeJSON R bodyContent of
           Inr k \<Rightarrow> Inr empty_gvk
         | Inl jsonErr \<Rightarrow>
             (case mr_YAMLToJSON R bodyContent of
                Inl err \<Rightarrow> Inl (Wrapf (''unable to decode '' @ go_quote bodyFilename @ '' as json: '') jsonErr [])
              | Inr jsonString \<Rightarrow>
                  (case mr_DecodeJSON R jsonString of
                     Inl err \<Rightarrow> Inl (Wrapf (''unable to decode '' @ go_quote bodyFilename @ '' as yaml: '') err [])
                   | Inr k \<Rightarrow> Inr k)))
      else Inr empty_gvk)"

definition serializedRequestFromFile ::
    "mutation_reader \<Rightarrow> action \<Rightarrow> string \<Rightarrow> go_error + serialized_requestish option" where
  "serializedRequestFromFile R act bodyFilename =
     (let bodyBasename = path_base bodyFilename in
      if \<not> bodyRegex bodyBasename then Inr None
      else
        let optionsFilename = path_join [path_dir bodyFilename, replace_first ''body'' ''options'' bodyBasename];
            metadataFilename = path_join [path_dir bodyFilename, replace_first ''body'' ''metadata'' bodyBasename];
            failed_to = (\<lambda>verb f err. Wrapf (''failed to '' @ verb @ '' '' @ go_quote f @ '': '') err []) in
        case mr_ReadFile R act bodyFilename of Inl err \<Rightarrow> Inl (failed_to ''read'' bodyFilename err)
      | Inr bodyContent \<Rightarrow>
        (case mr_ReadFile R act metadataFilename of Inl err \<Rightarrow> Inl (failed_to ''read'' metadataFilename err)
      | Inr metadataContent \<Rightarrow>
        (case mr_UnmarshalMetadata R metadataContent of Inl err \<Rightarrow> Inl (failed_to ''parse'' metadataFilename err)
      | Inr metadataFromFile \<Rightarrow>
        (case (case mr_ReadFile R act optionsFilename of
                 Inl err \<Rightarrow> (if err_is NotExist err then Inr None else Inl (failed_to ''read'' optionsFilename err))
               | Inr optionsContent \<Rightarrow> Inr (Some optionsContent)) of
           Inl err \<Rightarrow> Inl err
         | Inr options \<Rightarrow>
        (case read_kind R act bodyFilename bodyContent of
           Inl err \<Rightarrow> Inl err
         | Inr kindType \<Rightarrow>
             Inr (Some (FileOriginatedSerializedRequest [] bodyFilename
               (case options of None \<Rightarrow> [] | Some c \<Rightarrow> optionsFilename)
               \<lparr>sr_ActionMetadata = metadataFromFile, sr_KindType = kindType,
                sr_Options = (case options of None \<Rightarrow> [] | Some c \<Rightarrow> c), sr_Body = bodyContent\<rparr>)))))))"

text \<open>The callback of the walk: the requests, the errors collected, and the error that stopped the walk.\<close>

fun walk_requests ::
    "mutation_reader \<Rightarrow> action \<Rightarrow> (string \<times> dir_entry option \<times> go_error option) list \<Rightarrow>
      (serialized_requestish list \<times> go_error list \<times> go_error option) outcome" where
  "walk_requests R act [] = Value ([], [], None)"
| "walk_requests R act ((currLocation, currFile, err) # rest) =
     bind_outcome (deref currFile) (\<lambda>entry.
       let errs = (case err of None \<Rightarrow> [] | Some e \<Rightarrow> [e]);
           go_on = (\<lambda>found. bind_outcome (walk_requests R act rest) (\<lambda>(qs, errs', stop). Value (found @ qs, errs @ errs', stop))) in
       if de_IsDir entry then go_on []
       else if \<not> has_suffix (de_Name entry) ''.yaml'' \<and> \<not> has_suffix (de_Name entry) ''.json'' then go_on []
       else case serializedRequestFromFile R act currLocation of
         Inl e \<Rightarrow> Value ([], errs, Some (Wrapf (''error deserializing '' @ go_quote currLocation @ '': '') e []))
       | Inr None \<Rightarrow> go_on []
       | Inr (Some currResource) \<Rightarrow> go_on [currResource])"

definition readSerializedRequestsFromActionDirectory ::
    "mutation_reader \<Rightarrow> action \<Rightarrow> (go_error + serialized_requestish list) outcome" where
  "readSerializedRequestsFromActionDirectory R act =
     bind_outcome (walk_requests R act (mr_WalkDir R act)) (\<lambda>(qs, errs, stop).
       let errs' = errs @ (case stop of None \<Rightarrow> [] | Some e \<Rightarrow> [e]) in
       Value (if length errs' > 0 then Inl (Joined errs') else Inr qs))"

fun read_actions ::
    "mutation_reader \<Rightarrow> action list \<Rightarrow> all_actions_tracker \<Rightarrow> (go_error list \<times> all_actions_tracker) outcome" where
  "read_actions R [] ret = Value ([], ret)"
| "read_actions R (act # rest) ret =
     (let fail = (\<lambda>msg err. bind_outcome (read_actions R rest ret) (\<lambda>(errs, ret').
            Value (Wrapf msg err [] # errs, ret'))) in
      case mr_Open R act of
        Some err \<Rightarrow>
          (if err_is NotExist err then read_actions R rest ret
           else fail (''unable to read '' @ go_quote (action_string act) @ '' : '') err)
      | None \<Rightarrow>
          (case mr_Sub R act of
             Some err \<Rightarrow> fail (''unable to create subFS '' @ go_quote (action_string act) @ '': '') err
           | None \<Rightarrow>
               bind_outcome (readSerializedRequestsFromActionDirectory R act) (\<lambda>result.
                 let (errs, currResourceList) = (case result of
                       Inl err \<Rightarrow> ([Wrapf (''unable to read '' @ go_quote (action_string act) @ '': '') err []], [])
                     | Inr qs \<Rightarrow> ([], qs)) in
                 bind_outcome (AddRequests ret currResourceList) (\<lambda>ret1.
                 bind_outcome (read_actions R rest ret1) (\<lambda>(errs', ret'). Value (errs @ errs', ret'))))))"

definition readMutationFS :: "mutation_reader \<Rightarrow> (go_error + all_actions_tracker) outcome" where
  "readMutationFS R =
     bind_outcome (read_actions R (sets_List AllActions) NewAllActionsTracker) (\<lambda>(errs, ret).
       Value (if length errs > 0 then Inl (Joined errs) else Inr ret))"

end
