(* ===== verification/Reader_Correctness.thy ===== *)
theory Reader_Correctness
  imports Mutation_Reader
begin

text \<open>
  What the reader of a mutation directory returns for a directory that the writer wrote: which requests
  come back (those with a name, in files of their own, up to their kind, which is read from the body),
  and that a file that does not read makes the whole directory unreadable.
\<close>

section \<open>Names of files\<close>

lemma bodyRegex_append: "bodyRegex s \<Longrightarrow> bodyRegex (h @ s)"
  by (induction h) auto

lemma bodyRegex_no_dash: "CHR ''-'' \<notin> set h \<Longrightarrow> bodyRegex (h @ s) \<longleftrightarrow> bodyRegex s"
  by (induction h) auto

lemma bodyRegex_body_name:
  assumes "n \<noteq> []" and "CHR 0x0A \<notin> set n"
  shows "bodyRegex (h @ ''-body-'' @ n @ ''.yaml'')"
proof -
  have "body_tail (n @ ''.yaml'')"
    unfolding body_tail_def list_ex_iff
    by (rule bexI [of _ "Suc (length n)"]) (use assms in \<open>auto simp: Suc_le_eq\<close>)
  then have "bodyRegex (''-body-'' @ n @ ''.yaml'')" by simp
  then show ?thesis by (rule bodyRegex_append)
qed

lemma bodyRegex_other_name:
  assumes "CHR ''-'' \<notin> set h"
  shows "bodyRegex (h @ ''-metadata'' @ s) \<longleftrightarrow> bodyRegex s" "bodyRegex (h @ ''-options'' @ s) \<longleftrightarrow> bodyRegex s"
  using assms by (simp_all add: bodyRegex_no_dash)

lemma replace_body:
  assumes "CHR ''o'' \<notin> set h"
  shows "replace_first ''body'' new (h @ ''-body-'' @ s) = h @ ''-'' @ new @ ''-'' @ s"
  using assms
proof (induction h)
  case (Cons c h)
  then have "\<not> starts_with ''ody'' (h @ ''-body-'' @ s)" by (cases h) auto
  with Cons show ?case by auto
qed simp

lemma join_ends_plain:
  assumes "xs \<noteq> []" and "\<forall>x \<in> set xs. plain_component x"
  shows "strings_join xs [slash] \<noteq> []" "last (strings_join xs [slash]) \<noteq> slash"
proof -
  obtain ys y where xs: "xs = ys @ [y]" using assms(1) by (cases xs rule: rev_cases) auto
  have y: "y \<noteq> []" "slash \<notin> set y" using assms(2) xs by (auto simp: plain_component_def)
  then have "last y \<noteq> slash" by (metis last_in_set)
  with y show "strings_join xs [slash] \<noteq> []" "last (strings_join xs [slash]) \<noteq> slash"
    by (simp_all add: xs strings_join_snoc)
qed

lemma path_base_join:
  assumes "xs \<noteq> []" and "\<forall>x \<in> set xs. plain_component x"
  shows "path_base (strings_join xs [slash]) = last xs"
proof -
  let ?s = "strings_join xs [slash]"
  have "dropWhile (\<lambda>c. c = slash) (rev ?s) = rev ?s"
    using join_ends_plain [OF assms] by (cases "rev ?s") (auto simp: dropWhile_eq_self_iff hd_rev)
  moreover have "split_slash ?s = xs"
    using assms by (intro split_slash_join) (auto simp: plain_component_def)
  ultimately show ?thesis
    using join_ends_plain(1) [OF assms] by (simp add: path_base_def Let_def)
qed

lemma path_dir_join:
  assumes "xs \<noteq> []" and "\<forall>x \<in> set (xs @ [y]). plain_component x"
  shows "path_dir (strings_join (xs @ [y]) [slash]) = strings_join xs [slash]"
proof -
  let ?s = "strings_join xs [slash]"
  have y: "slash \<notin> set y" using assms(2) by (auto simp: plain_component_def)
  have ne: "?s \<noteq> []" "hd (?s @ [slash]) = hd ?s"
    using join_ends_plain(1) [of xs] assms by auto
  have "dropWhile (\<lambda>c. c \<noteq> slash) (rev y @ slash # rev ?s) = slash # rev ?s"
    using y by (subst dropWhile_append2) auto
  then have "path_dir (strings_join (xs @ [y]) [slash]) = path_clean (?s @ [slash])"
    using assms(1) by (simp add: path_dir_def strings_join_snoc)
  moreover have "split_slash (?s @ [slash]) = xs @ [[]]"
    using split_slash_append_any [of ?s "[]"] assms by (simp add: split_slash_join plain_component_def)
  moreover have "split_slash ?s = xs"
    using assms by (intro split_slash_join) (auto simp: plain_component_def)
  moreover have "clean_step r st [] = st" for r st by (simp add: clean_step_def)
  ultimately have "path_dir (strings_join (xs @ [y]) [slash]) = path_clean ?s"
    using ne by (simp add: path_clean_def Let_def)
  then show ?thesis using path_clean_plain assms by simp
qed

lemma path_join_sibling:
  assumes "xs \<noteq> []" and "\<forall>x \<in> set (xs @ [y]). plain_component x"
  shows "path_join [strings_join xs [slash], y] = strings_join (xs @ [y]) [slash]"
  using path_join_joins [of "[xs, [y]]"] assms by simp

section \<open>Reading one request back\<close>

definition plain_path :: "string list \<Rightarrow> bool" where
  "plain_path xs \<longleftrightarrow> xs \<noteq> [] \<and> (\<forall>x \<in> set xs. plain_component x)"

definition entry_path :: "string \<Rightarrow> action \<Rightarrow> string list \<Rightarrow> string" where
  "entry_path dir act xs = path_join [dir, strings_join (action_string act # xs) [slash]]"

text \<open>The files the walk visits.\<close>

definition walked_files :: "mutation_reader \<Rightarrow> action \<Rightarrow> string list" where
  "walked_files R act = concat (map (\<lambda>(loc, d, err).
     case d of None \<Rightarrow> [] | Some entry \<Rightarrow> if de_IsDir entry then [] else [loc]) (mr_WalkDir R act))"

text \<open>
  A reader of the directory \<open>dir\<close> of a file system: every file below the directory of an action is
  walked once and without error, reading gives its content, and a missing file does not exist.
\<close>

definition reads_store :: "mutation_reader \<Rightarrow> (string \<Rightarrow> string option) \<Rightarrow> string \<Rightarrow> bool" where
  "reads_store R content dir \<longleftrightarrow> (\<forall>act \<in> set AllActions.
     (case mr_Open R act of None \<Rightarrow> True
      | Some e \<Rightarrow> err_is NotExist e \<and> (\<forall>xs. plain_path xs \<longrightarrow> content (entry_path dir act xs) = None)) \<and>
     mr_Sub R act = None \<and>
     (\<forall>(loc, d, err) \<in> set (mr_WalkDir R act). err = None \<and> (\<exists>entry. d = Some entry \<and> de_Name entry = path_base loc)) \<and>
     distinct (walked_files R act) \<and>
     set (walked_files R act) = {strings_join xs [slash] | xs. plain_path xs \<and> content (entry_path dir act xs) \<noteq> None} \<and>
     (\<forall>xs. plain_path xs \<longrightarrow> (case content (entry_path dir act xs) of
        Some b \<Rightarrow> mr_ReadFile R act (strings_join xs [slash]) = Inr b
      | None \<Rightarrow> \<exists>e. mr_ReadFile R act (strings_join xs [slash]) = Inl e \<and> err_is NotExist e)))"

lemma reads_storeD:
  assumes "reads_store R content dir" and "act \<in> set AllActions"
  shows "mr_Open R act = Some e \<Longrightarrow> err_is NotExist e \<and> (\<forall>xs. plain_path xs \<longrightarrow> content (entry_path dir act xs) = None)"
    and "mr_Sub R act = None"
    and "(loc, d, err) \<in> set (mr_WalkDir R act) \<Longrightarrow> err = None \<and> (\<exists>entry. d = Some entry \<and> de_Name entry = path_base loc)"
    and "distinct (walked_files R act)"
    and "set (walked_files R act) = {strings_join xs [slash] | xs. plain_path xs \<and> content (entry_path dir act xs) \<noteq> None}"
    and "plain_path xs \<Longrightarrow> case content (entry_path dir act xs) of
        Some b \<Rightarrow> mr_ReadFile R act (strings_join xs [slash]) = Inr b
      | None \<Rightarrow> \<exists>e. mr_ReadFile R act (strings_join xs [slash]) = Inl e \<and> err_is NotExist e"
proof -
  note laws = bspec [OF assms(1) [unfolded reads_store_def] assms(2)]
  show "mr_Open R act = Some e \<Longrightarrow> err_is NotExist e \<and> (\<forall>xs. plain_path xs \<longrightarrow> content (entry_path dir act xs) = None)"
    using conjunct1 [OF laws] by simp
  show "mr_Sub R act = None" using laws by (elim conjE)
  show "(loc, d, err) \<in> set (mr_WalkDir R act) \<Longrightarrow> err = None \<and> (\<exists>entry. d = Some entry \<and> de_Name entry = path_base loc)"
    using conjunct1 [OF conjunct2 [OF conjunct2 [OF laws]]] by auto
  show "distinct (walked_files R act)" using laws by (elim conjE)
  show "set (walked_files R act) = {strings_join xs [slash] | xs. plain_path xs \<and> content (entry_path dir act xs) \<noteq> None}"
    using laws by (elim conjE)
  show "plain_path xs \<Longrightarrow> case content (entry_path dir act xs) of
        Some b \<Rightarrow> mr_ReadFile R act (strings_join xs [slash]) = Inr b
      | None \<Rightarrow> \<exists>e. mr_ReadFile R act (strings_join xs [slash]) = Inl e \<and> err_is NotExist e"
    using laws by (elim conjE) blast
qed

text \<open>The request read back: its kind is the one the body has.\<close>

definition read_back :: "mutation_reader \<Rightarrow> serialized_request \<Rightarrow> serialized_request" where
  "read_back R a = a\<lparr>sr_KindType := projr (read_kind R (am_Action (sr_ActionMetadata a)) [] (sr_Body a))\<rparr>"

definition decodable :: "mutation_reader \<Rightarrow> serialized_request \<Rightarrow> bool" where
  "decodable R a \<longleftrightarrow> (\<exists>k. read_kind R (am_Action (sr_ActionMetadata a)) [] (sr_Body a) = Inr k)"

text \<open>Requests whose files the reader tells apart: there is a name, and it does not look like a body file.\<close>

definition readable_name :: "serialized_request \<Rightarrow> bool" where
  "readable_name a \<longleftrightarrow> (let n = MakeFilenameGoModSafe (object_name a) in
     n \<noteq> [] \<and> CHR 0x0A \<notin> set n \<and> \<not> bodyRegex (''-'' @ n @ ''.yaml''))"

lemma read_kind_any: "read_kind R act f b = Inr k \<longleftrightarrow> read_kind R act [] b = Inr k"
  by (auto simp: read_kind_def split: sum.splits)

lemma base_name_body: "base_name sha256 ''body'' a = request_hash sha256 a @ ''-body-'' @ MakeFilenameGoModSafe (object_name a) @ ''.yaml''"
  by (simp add: base_name_def)

lemma bodyRegex_base_name:
  assumes "readable_name a" and "k \<in> set file_kinds"
  shows "bodyRegex (base_name sha256 k a) \<longleftrightarrow> k = ''body''"
  using assms bodyRegex_body_name [of "MakeFilenameGoModSafe (object_name a)" "request_hash sha256 a"]
    bodyRegex_other_name [of "request_hash sha256 a" "''-'' @ MakeFilenameGoModSafe (object_name a) @ ''.yaml''"]
  by (auto simp: file_kinds_def base_name_def readable_name_def Let_def)

definition request_path :: "(string \<Rightarrow> string) \<Rightarrow> string \<Rightarrow> serialized_request \<Rightarrow> string" where
  "request_path sha256 k a = strings_join (dir_comps a @ [base_name sha256 k a]) [slash]"

lemma dir_comps_not_Nil [simp]: "dir_comps a \<noteq> []"
  by (simp add: dir_comps_def Let_def)

lemma plain_request_path:
  assumes "plain_request a" and "k \<in> set file_kinds"
  shows "plain_path (dir_comps a @ [base_name sha256 k a])"
proof -
  have "slash \<notin> set k" using assms(2) by (auto simp: file_kinds_def slash_def)
  then show ?thesis
    using plain_file_comps [OF assms(1), of k _ sha256] by (auto simp: plain_path_def file_comps_def)
qed

text \<open>Reading the body file of a request, when its files hold what was written.\<close>

lemma read_body_file:
  assumes "plain_request a" and "readable_name a" and "decodable R a"
    and act: "act = am_Action (sr_ActionMetadata a)"
    and "mr_ReadFile R act (request_path sha256 ''body'' a) = Inr (sr_Body a)"
    and "mr_ReadFile R act (request_path sha256 ''metadata'' a) = Inr mb" and "mr_UnmarshalMetadata R mb = Inr (sr_ActionMetadata a)"
    and "if sr_Options a = [] then \<exists>e. mr_ReadFile R act (request_path sha256 ''options'' a) = Inl e \<and> err_is NotExist e
         else mr_ReadFile R act (request_path sha256 ''options'' a) = Inr (sr_Options a)"
  shows "\<exists>optf. serializedRequestFromFile R act (request_path sha256 ''body'' a) =
    Inr (Some (FileOriginatedSerializedRequest [] (request_path sha256 ''body'' a) optf (read_back R a)))"
proof -
  let ?b = "base_name sha256 ''body'' a"
  have kinds: "''body'' \<in> set file_kinds" "''metadata'' \<in> set file_kinds" "''options'' \<in> set file_kinds"
    by (simp_all add: file_kinds_def)
  have plain: "\<forall>x \<in> set (dir_comps a @ [base_name sha256 k a]). plain_component x" if "k \<in> set file_kinds" for k
    using plain_request_path [OF assms(1) that] by (simp add: plain_path_def)
  have base: "path_base (request_path sha256 ''body'' a) = ?b" "bodyRegex ?b"
    using path_base_join [OF _ plain [OF kinds(1)]] bodyRegex_base_name [OF assms(2) kinds(1)]
    by (simp_all add: request_path_def)
  have "replace_first ''body'' k ?b = base_name sha256 k a" for k
    unfolding base_name_body by (simp add: base_name_def replace_body del: append_Cons append_assoc)
  then have sibling: "path_join [path_dir (request_path sha256 ''body'' a), replace_first ''body'' k ?b] = request_path sha256 k a"
    if "k \<in> set file_kinds" for k
    using path_dir_join [OF _ plain [OF kinds(1)]] path_join_sibling [OF _ plain [OF that]]
    by (simp add: request_path_def)
  have kind: "read_kind R act f (sr_Body a) = Inr (sr_KindType (read_back R a))" for f
    using assms(3) unfolding read_kind_any [of R act f] by (auto simp: decodable_def read_back_def act)
  show ?thesis
    using assms(5-8)
    by (auto simp: serializedRequestFromFile_def base sibling [OF kinds(2)] sibling [OF kinds(3)] kind Let_def
        read_back_def split: if_splits)
qed

section \<open>Reading an action\<close>

text \<open>A walk without errors over files that all read gives the requests of its files.\<close>

lemma walk_requests_ok:
  assumes "\<forall>(loc, d, err) \<in> set es. err = None \<and> (\<exists>entry. d = Some entry \<and> de_Name entry = path_base loc \<and>
      (\<not> de_IsDir entry \<longrightarrow> serializedRequestFromFile R act loc = Inr (g loc) \<and>
        (g loc \<noteq> None \<longrightarrow> has_suffix (path_base loc) ''.yaml'')))"
  shows "walk_requests R act es = Value (List.map_filter g (concat (map (\<lambda>(loc, d, err).
     case d of None \<Rightarrow> [] | Some entry \<Rightarrow> if de_IsDir entry then [] else [loc]) es)), [], None)"
  using assms
proof (induction es)
  case (Cons e es)
  obtain loc d err where e: "e = (loc, d, err)" by (cases e) auto
  with Cons.prems obtain entry where entry: "err = None" "d = Some entry" "de_Name entry = path_base loc"
    and found: "\<not> de_IsDir entry \<longrightarrow> serializedRequestFromFile R act loc = Inr (g loc) \<and>
      (g loc \<noteq> None \<longrightarrow> has_suffix (path_base loc) ''.yaml'')" by auto
  note rest = Cons.IH [OF list.set_intros(2) [THEN bspec [OF Cons.prems], THEN ballI]]
  show ?case
  proof (cases "de_IsDir entry")
    case True
    then show ?thesis using rest by (simp add: e entry outcome_simps Let_def)
  next
    case False
    with found rest show ?thesis
      by (cases "g loc") (auto simp: e entry outcome_simps Let_def List.map_filter_def)
  qed
qed (simp add: List.map_filter_def)

text \<open>What the files of a directory hold after the requests were written.\<close>

definition written_directory ::
    "'fs mutation_writer \<Rightarrow> mutation_reader \<Rightarrow> string \<Rightarrow> (string \<Rightarrow> string option) \<Rightarrow> serialized_request list \<Rightarrow> bool" where
  "written_directory W R dir content srs \<longleftrightarrow>
     reads_store R content dir \<and>
     (\<forall>a \<in> set srs. \<forall>k \<in> set file_kinds.
        content (entry_path dir (am_Action (sr_ActionMetadata a)) (dir_comps a @ [base_name (mw_sha256 W) k a])) = file_content W k a) \<and>
     (\<forall>act \<in> set AllActions. \<forall>xs. plain_path xs \<longrightarrow> content (entry_path dir act xs) \<noteq> None \<longrightarrow>
        (\<exists>a \<in> set srs. \<exists>k \<in> set file_kinds. am_Action (sr_ActionMetadata a) = act \<and> xs = dir_comps a @ [base_name (mw_sha256 W) k a])) \<and>
     distinct (map (request_slot (mw_sha256 W)) srs) \<and>
     (\<forall>a \<in> set srs. plain_request a \<and> readable_name a \<and> decodable R a \<and>
        am_Action (sr_ActionMetadata a) \<in> set AllActions \<and>
        mr_UnmarshalMetadata R (projr (mw_Marshal W (GetLookupMetadata a))) = Inr (sr_ActionMetadata a))"

lemma written_reads: "written_directory W R dir content srs \<Longrightarrow> reads_store R content dir"
  by (simp add: written_directory_def)

lemma body_file_reads:
  assumes "written_directory W R dir content srs" and "a \<in> set srs" and act: "act = am_Action (sr_ActionMetadata a)"
  shows "\<exists>optf. serializedRequestFromFile R act (request_path (mw_sha256 W) ''body'' a) =
    Inr (Some (FileOriginatedSerializedRequest [] (request_path (mw_sha256 W) ''body'' a) optf (read_back R a)))"
proof -
  let ?sha = "mw_sha256 W"
  have a: "act \<in> set AllActions" "plain_request a" "readable_name a" "decodable R a"
    "mr_UnmarshalMetadata R (projr (mw_Marshal W (GetLookupMetadata a))) = Inr (sr_ActionMetadata a)"
    using assms by (auto simp: written_directory_def)
  have stored: "case file_content W k a of Some b \<Rightarrow> mr_ReadFile R act (request_path ?sha k a) = Inr b
      | None \<Rightarrow> \<exists>e. mr_ReadFile R act (request_path ?sha k a) = Inl e \<and> err_is NotExist e"
    if k: "k \<in> set file_kinds" for k
  proof -
    have "plain_path (dir_comps a @ [base_name ?sha k a])" by (rule plain_request_path [OF a(2) k])
    then have "case content (entry_path dir act (dir_comps a @ [base_name ?sha k a])) of
        Some b \<Rightarrow> mr_ReadFile R act (request_path ?sha k a) = Inr b
      | None \<Rightarrow> \<exists>e. mr_ReadFile R act (request_path ?sha k a) = Inl e \<and> err_is NotExist e"
      unfolding request_path_def by (rule reads_storeD(6) [OF written_reads [OF assms(1)] a(1)])
    with assms k show ?thesis by (simp add: written_directory_def)
  qed
  show ?thesis
    using stored [of "''body''"] stored [of "''metadata''"] stored [of "''options''"] a act
    by (intro read_body_file) (auto simp: file_kinds_def file_content_def GetLookupMetadata_def split: if_splits)
qed

lemma other_file_skipped:
  assumes "written_directory W R dir content srs" and "a \<in> set srs" and "k \<in> set file_kinds" and "k \<noteq> ''body''"
  shows "serializedRequestFromFile R act (request_path (mw_sha256 W) k a) = Inr None"
proof -
  have a: "plain_request a" "readable_name a" using assms by (auto simp: written_directory_def)
  have "path_base (request_path (mw_sha256 W) k a) = base_name (mw_sha256 W) k a"
    using path_base_join plain_request_path [OF a(1) assms(3)] by (simp add: request_path_def plain_path_def)
  then show ?thesis
    using bodyRegex_base_name [OF a(2) assms(3)] assms(4) by (simp add: serializedRequestFromFile_def)
qed

lemma request_path_eq_iff:
  assumes "plain_request a" "plain_request b" "am_Action (sr_ActionMetadata a) = am_Action (sr_ActionMetadata b)"
    and "k \<in> set file_kinds" "k' \<in> set file_kinds"
  shows "request_path sha256 k a = request_path sha256 k' b \<longleftrightarrow> k = k' \<and> request_slot sha256 a = request_slot sha256 b"
proof -
  have "request_path sha256 k a = request_path sha256 k' b \<longleftrightarrow> file_comps sha256 k a = file_comps sha256 k' b"
    using strings_join_plain_inj [of "dir_comps a @ [base_name sha256 k a]" "dir_comps b @ [base_name sha256 k' b]"]
      plain_request_path [OF assms(1,4)] plain_request_path [OF assms(2,5)] assms(3)
    by (auto simp: request_path_def file_comps_def plain_path_def plain_component_def)
  then show ?thesis using file_comps_eq_iff [OF assms(4,5)] by simp
qed

text \<open>The files walked below an action are those of its requests.\<close>

lemma walked_file_cases:
  assumes "written_directory W R dir content srs" and "act \<in> set AllActions" and "loc \<in> set (walked_files R act)"
  shows "\<exists>a \<in> set srs. \<exists>k \<in> set file_kinds. am_Action (sr_ActionMetadata a) = act \<and> loc = request_path (mw_sha256 W) k a"
proof -
  obtain xs where "loc = strings_join xs [slash]" "plain_path xs" "content (entry_path dir act xs) \<noteq> None"
    using assms(3) reads_storeD(5) [OF written_reads [OF assms(1)] assms(2)] by auto
  then show ?thesis
    using assms(1,2) unfolding written_directory_def request_path_def by metis
qed

lemma body_file_walked:
  assumes "written_directory W R dir content srs" and "a \<in> set srs"
  shows "request_path (mw_sha256 W) ''body'' a \<in> set (walked_files R (am_Action (sr_ActionMetadata a)))"
proof -
  let ?act = "am_Action (sr_ActionMetadata a)"
  let ?xs = "dir_comps a @ [base_name (mw_sha256 W) ''body'' a]"
  have k: "''body'' \<in> set file_kinds" by (simp add: file_kinds_def)
  have a: "?act \<in> set AllActions" "plain_request a" using assms by (auto simp: written_directory_def)
  have "content (entry_path dir ?act ?xs) = Some (sr_Body a)"
    using assms k by (auto simp: written_directory_def file_content_def)
  moreover have "plain_path ?xs" by (rule plain_request_path [OF a(2) k])
  ultimately show ?thesis
    unfolding reads_storeD(5) [OF written_reads [OF assms(1)] a(1)] by (auto simp: request_path_def)
qed

lemma mset_map_filter: "mset (List.map_filter g xs) = image_mset (\<lambda>x. the (g x)) (mset (filter (\<lambda>x. g x \<noteq> None) xs))"
  by (simp add: List.map_filter_def comp_def)

definition requests_of_action :: "action \<Rightarrow> serialized_request list \<Rightarrow> serialized_request list" where
  "requests_of_action act srs = filter (\<lambda>a. am_Action (sr_ActionMetadata a) = act) srs"

definition file_request :: "mutation_reader \<Rightarrow> action \<Rightarrow> string \<Rightarrow> serialized_requestish option" where
  "file_request R act loc = projr (serializedRequestFromFile R act loc)"

lemma requests_of_actionD:
  assumes "written_directory W R dir content srs" and "a \<in> set (requests_of_action act srs)"
  shows "a \<in> set srs" "am_Action (sr_ActionMetadata a) = act" "plain_request a"
  using assms by (auto simp: requests_of_action_def written_directory_def)

lemma file_request_body:
  assumes "written_directory W R dir content srs" and "a \<in> set (requests_of_action act srs)"
  shows "serializedRequestFromFile R act (request_path (mw_sha256 W) ''body'' a) =
      Inr (file_request R act (request_path (mw_sha256 W) ''body'' a))"
    "\<exists>optf. file_request R act (request_path (mw_sha256 W) ''body'' a) =
      Some (FileOriginatedSerializedRequest [] (request_path (mw_sha256 W) ''body'' a) optf (read_back R a))"
  using body_file_reads [OF assms(1) requests_of_actionD(1) [OF assms] requests_of_actionD(2) [OF assms, symmetric]]
  by (auto simp: file_request_def)

lemma file_request_cases:
  assumes "written_directory W R dir content srs" and "act \<in> set AllActions" and "loc \<in> set (walked_files R act)"
  shows "(\<exists>a \<in> set (requests_of_action act srs). loc = request_path (mw_sha256 W) ''body'' a) \<or>
    serializedRequestFromFile R act loc = Inr None"
  using walked_file_cases [OF assms] other_file_skipped [OF assms(1)] by (auto simp: requests_of_action_def)

lemma base_name_yaml: "has_suffix (base_name sha256 k a) ''.yaml''"
  using has_suffix_append [of "request_hash sha256 a @ ''-'' @ k @ ''-'' @ MakeFilenameGoModSafe (object_name a)" "''.yaml''"]
  by (simp add: base_name_def)

lemma walk_written:
  assumes "written_directory W R dir content srs" and "act \<in> set AllActions"
  shows "walk_requests R act (mr_WalkDir R act) =
    Value (List.map_filter (file_request R act) (walked_files R act), [], None)"
  unfolding walked_files_def
proof (rule walk_requests_ok, clarify)
  fix loc d err
  assume e: "(loc, d, err) \<in> set (mr_WalkDir R act)"
  from reads_storeD(3) [OF written_reads [OF assms(1)] assms(2) e]
  obtain entry where entry: "err = None" "d = Some entry" "de_Name entry = path_base loc" by auto
  have read: "serializedRequestFromFile R act loc = Inr (file_request R act loc) \<and>
      (file_request R act loc \<noteq> None \<longrightarrow> has_suffix (path_base loc) ''.yaml'')" if "\<not> de_IsDir entry"
  proof -
    have "loc \<in> set (walked_files R act)" using e entry that by (force simp: walked_files_def)
    then consider a where "a \<in> set (requests_of_action act srs)" "loc = request_path (mw_sha256 W) ''body'' a"
      | "serializedRequestFromFile R act loc = Inr None"
      using file_request_cases [OF assms] by blast
    then show ?thesis
    proof cases
      case 1
      have "plain_path (dir_comps a @ [base_name (mw_sha256 W) ''body'' a])"
        by (rule plain_request_path) (simp_all add: requests_of_actionD [OF assms(1) 1(1)] file_kinds_def)
      then have "path_base loc = base_name (mw_sha256 W) ''body'' a"
        using path_base_join by (simp add: 1(2) request_path_def plain_path_def)
      with file_request_body(1) [OF assms(1) 1(1)] base_name_yaml 1(2) show ?thesis by simp
    qed (simp add: file_request_def)
  qed
  with entry show "err = None \<and> (\<exists>entry. d = Some entry \<and> de_Name entry = path_base loc \<and>
      (\<not> de_IsDir entry \<longrightarrow> serializedRequestFromFile R act loc = Inr (file_request R act loc) \<and>
        (file_request R act loc \<noteq> None \<longrightarrow> has_suffix (path_base loc) ''.yaml'')))"
    by blast
qed

lemma body_files_mset:
  assumes "written_directory W R dir content srs" and "act \<in> set AllActions"
  shows "mset (filter (\<lambda>loc. file_request R act loc \<noteq> None) (walked_files R act)) =
    mset (map (request_path (mw_sha256 W) ''body'') (requests_of_action act srs))"
proof -
  let ?sha = "mw_sha256 W" and ?A = "requests_of_action act srs"
  let ?body = "request_path ?sha ''body''"
  note A = requests_of_actionD [OF assms(1)]
  have slots: "inj_on (request_slot ?sha) (set srs)" "distinct srs"
    using assms(1) by (simp_all add: written_directory_def distinct_map)
  have "inj_on ?body (set ?A)"
  proof (rule inj_onI)
    fix a b
    assume ab: "a \<in> set ?A" "b \<in> set ?A" "?body a = ?body b"
    then have "request_slot ?sha a = request_slot ?sha b"
      using request_path_eq_iff [of a b "''body''" "''body''" ?sha] A by (simp add: file_kinds_def)
    with slots(1) A(1) ab show "a = b" by (simp add: inj_on_def)
  qed
  then have "distinct (map ?body ?A)"
    using slots(2) by (simp add: distinct_map requests_of_action_def)
  moreover have "distinct (filter (\<lambda>loc. file_request R act loc \<noteq> None) (walked_files R act))"
    using reads_storeD(4) [OF written_reads [OF assms(1)] assms(2)] by simp
  moreover have "set (filter (\<lambda>loc. file_request R act loc \<noteq> None) (walked_files R act)) = set (map ?body ?A)"
  proof -
    have "?body a \<in> set (walked_files R act) \<and> file_request R act (?body a) \<noteq> None" if "a \<in> set ?A" for a
      using body_file_walked [OF assms(1)] A [OF that] file_request_body(2) [OF assms(1) that] by auto
    moreover have "loc \<in> ?body ` set ?A" if "loc \<in> set (walked_files R act)" "file_request R act loc \<noteq> None" for loc
      using file_request_cases [OF assms that(1)] that(2) by (auto simp: file_request_def)
    ultimately show ?thesis by auto
  qed
  ultimately show ?thesis by (simp only: set_eq_iff_mset_eq_distinct)
qed

lemma read_action:
  assumes "written_directory W R dir content srs" and "act \<in> set AllActions"
  shows "\<exists>qs. readSerializedRequestsFromActionDirectory R act = Value (Inr qs) \<and>
    mset (map GetSerializedRequest qs) = mset (map (read_back R) (requests_of_action act srs))"
proof -
  let ?A = "requests_of_action act srs" and ?body = "request_path (mw_sha256 W) ''body''"
  have "mset (map GetSerializedRequest (List.map_filter (file_request R act) (walked_files R act))) =
      image_mset (\<lambda>a. GetSerializedRequest (the (file_request R act (?body a)))) (mset ?A)"
    using body_files_mset [OF assms] by (simp add: mset_map_filter image_mset.compositionality comp_def)
  also have "\<dots> = mset (map (read_back R) ?A)"
    unfolding mset_map by (rule image_mset_cong) (use file_request_body(2) [OF assms(1)] in fastforce)
  finally show ?thesis
    by (simp add: readSerializedRequestsFromActionDirectory_def walk_written [OF assms] outcome_simps)
qed

section \<open>Reading the directory\<close>

lemma absent_action_empty:
  assumes "written_directory W R dir content srs" and "act \<in> set AllActions" and "mr_Open R act = Some e"
  shows "requests_of_action act srs = []"
proof (rule ccontr)
  assume "requests_of_action act srs \<noteq> []"
  then obtain a where a: "a \<in> set (requests_of_action act srs)" by (cases "requests_of_action act srs") auto
  let ?xs = "dir_comps a @ [base_name (mw_sha256 W) ''body'' a]"
  have "plain_path ?xs"
    by (rule plain_request_path) (simp_all add: requests_of_actionD [OF assms(1) a] file_kinds_def)
  then have "content (entry_path dir act ?xs) = None"
    using reads_storeD(1) [OF written_reads [OF assms(1)] assms(2,3)] by blast
  moreover have "content (entry_path dir act ?xs) = Some (sr_Body a)"
    using assms(1) requests_of_actionD [OF assms(1) a] by (auto simp: written_directory_def file_kinds_def file_content_def)
  ultimately show False by simp
qed

lemma read_back_action [simp]: "sr_ActionMetadata (read_back R a) = sr_ActionMetadata a"
  by (simp add: read_back_def)

lemma read_action_requests:
  assumes "mset (map GetSerializedRequest qs) = mset (map (read_back R) (requests_of_action act srs))"
  shows "filter (\<lambda>q. requestish_action q = k) qs = (if k = act then qs else [])"
proof -
  have "GetSerializedRequest q \<in> read_back R ` set (requests_of_action act srs)" if "q \<in> set qs" for q
    using that assms by (metis image_eqI list.set_map set_mset_mset)
  then have "\<forall>q \<in> set qs. requestish_action q = act"
    by (fastforce simp: requestish_action_def requests_of_action_def)
  then show ?thesis by (auto simp: filter_empty_conv filter_id_conv)
qed

lemma read_actions_written:
  assumes "written_directory W R dir content srs"
  shows "set acts \<subseteq> set AllActions \<Longrightarrow> distinct acts \<Longrightarrow> tracker_inv t \<Longrightarrow>
    \<exists>t'. read_actions R acts t = Value ([], t') \<and> tracker_inv t' \<and>
      (\<forall>k. mset (map GetSerializedRequest (requests_of t' k)) = mset (map GetSerializedRequest (requests_of t k)) +
        (if k \<in> set acts then mset (map (read_back R) (requests_of_action k srs)) else {#}))"
proof (induction acts arbitrary: t)
  case (Cons act acts)
  have act: "act \<in> set AllActions" "act \<notin> set acts" using Cons.prems by auto
  show ?case
  proof (cases "mr_Open R act")
    case (Some e)
    then have "err_is NotExist e" using reads_storeD(1) [OF written_reads [OF assms] act(1)] by blast
    moreover have "requests_of_action act srs = []" by (rule absent_action_empty [OF assms act(1) Some])
    ultimately show ?thesis using Cons.IH [of t] Cons.prems Some by (auto simp: Let_def)
  next
    case None
    obtain qs where qs: "readSerializedRequestsFromActionDirectory R act = Value (Inr qs)"
      and mset: "mset (map GetSerializedRequest qs) = mset (map (read_back R) (requests_of_action act srs))"
      using read_action [OF assms act(1)] by blast
    obtain t1 where t1: "AddRequests t qs = Value t1" "tracker_inv t1"
      "\<And>k. requests_of t1 k = requests_of t k @ filter (\<lambda>q. requestish_action q = k) qs"
      using AddRequests_inv [OF Cons.prems(3), of qs] by blast
    have "mset (map GetSerializedRequest (requests_of t1 k)) = mset (map GetSerializedRequest (requests_of t k)) +
        (if k = act then mset (map (read_back R) (requests_of_action act srs)) else {#})" for k
      using mset by (simp add: t1(3) read_action_requests [OF mset])
    moreover obtain t' where "read_actions R acts t1 = Value ([], t')" "tracker_inv t'"
      "\<And>k. mset (map GetSerializedRequest (requests_of t' k)) = mset (map GetSerializedRequest (requests_of t1 k)) +
        (if k \<in> set acts then mset (map (read_back R) (requests_of_action k srs)) else {#})"
      using Cons.IH [OF _ _ t1(2)] Cons.prems by auto
    ultimately show ?thesis
      using None reads_storeD(2) [OF written_reads [OF assms] act(1)] qs t1(1) act(2)
      by (auto simp: outcome_simps Let_def)
  qed
qed simp

lemma requests_of_action_known:
  assumes "written_directory W R dir content srs" and "act \<notin> set AllActions"
  shows "requests_of_action act srs = []"
  using assms by (auto simp: requests_of_action_def written_directory_def filter_empty_conv)

lemma read_written:
  assumes "written_directory W R dir content srs"
  shows "\<exists>t. readMutationFS R = Value (Inr t) \<and> tracker_inv t \<and>
    (\<forall>act. mset (map GetSerializedRequest (requests_of t act)) = mset (map (read_back R) (requests_of_action act srs)))"
proof -
  obtain t where "read_actions R (sets_List AllActions) NewAllActionsTracker = Value ([], t)" "tracker_inv t"
    "\<And>k. mset (map GetSerializedRequest (requests_of t k)) = mset (map GetSerializedRequest (requests_of NewAllActionsTracker k)) +
      (if k \<in> set (sets_List AllActions) then mset (map (read_back R) (requests_of_action k srs)) else {#})"
    using read_actions_written [OF assms, of "sets_List AllActions" NewAllActionsTracker] by auto
  moreover have "requests_of NewAllActionsTracker k = []" for k
    by (simp add: requests_of_def RequestsForAction_def Mutations_def NewAllActionsTracker_def)
  ultimately show ?thesis
    using requests_of_action_known [OF assms] by (intro exI [of _ t]) (auto simp: readMutationFS_def outcome_simps)
qed

section \<open>A written directory\<close>

text \<open>The requests a write and a read of a directory carry over.\<close>

definition transferable :: "'fs mutation_writer \<Rightarrow> mutation_reader \<Rightarrow> serialized_request list \<Rightarrow> bool" where
  "transferable W R srs \<longleftrightarrow> distinct (map (request_slot (mw_sha256 W)) srs) \<and>
     (\<forall>a \<in> set srs. readable_name a \<and> decodable R a \<and> am_Action (sr_ActionMetadata a) \<in> set AllActions)"

lemma action_dir_all: "act \<in> set AllActions \<Longrightarrow> action_dir act = action_string act \<and> plain_component (action_string act)"
  by (auto simp: AllActions_def action_dir_def plain_component_def slash_def ActionPatch_def ActionPatchStatus_def
      ActionApply_def ActionApplyStatus_def ActionUpdate_def ActionUpdateStatus_def ActionCreate_def ActionDelete_def)

lemma request_file_entry:
  "am_Action (sr_ActionMetadata a) \<in> set AllActions \<Longrightarrow>
    request_file sha256 dir k a = entry_path dir (am_Action (sr_ActionMetadata a)) (dir_comps a @ [base_name sha256 k a])"
  using action_dir_all by (simp add: request_file_def entry_path_def file_comps_def)

text \<open>What is stored below the directory of an action, when nothing was there before.\<close>

definition empty_below :: "string \<Rightarrow> (string \<Rightarrow> string option) \<Rightarrow> bool" where
  "empty_below dir m \<longleftrightarrow> (\<forall>act \<in> set AllActions. \<forall>xs. plain_path xs \<longrightarrow> m (entry_path dir act xs) = None)"

definition storable :: "(string \<Rightarrow> string) \<Rightarrow> serialized_request list \<Rightarrow> bool" where
  "storable sha256 srs \<longleftrightarrow> distinct (map (request_slot sha256) srs) \<and>
     (\<forall>a \<in> set srs. plain_request a \<and> am_Action (sr_ActionMetadata a) \<in> set AllActions)"

lemma stored_own:
  assumes "storable (mw_sha256 W) srs" and "empty_below dir m" and a: "a \<in> set srs" and k: "k \<in> set file_kinds"
  shows "fold (store_request W dir) srs m
      (entry_path dir (am_Action (sr_ActionMetadata a)) (dir_comps a @ [base_name (mw_sha256 W) k a])) = file_content W k a"
proof -
  let ?sha = "mw_sha256 W"
  obtain xs ys where split: "srs = xs @ a # ys" using a by (meson split_list)
  have plain: "\<forall>b \<in> set (xs @ a # ys). plain_request b" and all: "am_Action (sr_ActionMetadata a) \<in> set AllActions"
    using assms(1) a by (auto simp: storable_def simp flip: split)
  have "distinct (map (request_slot ?sha) (xs @ a # ys))" using assms(1) by (simp add: storable_def split)
  then have "request_slot ?sha a \<notin> request_slot ?sha ` (set xs \<union> set ys)" by auto
  then have other: "\<forall>b \<in> set xs \<union> set ys. plain_request b \<and> request_slot ?sha b \<noteq> request_slot ?sha a"
    using plain by (metis Un_iff image_eqI in_set_conv_decomp set_append list.set_intros(2))
  then have "\<forall>b \<in> set xs. \<forall>k' \<in> set file_kinds. request_file ?sha dir k a \<noteq> request_file ?sha dir k' b"
    using request_file_eq_iff [of k _ a _ ?sha dir] k plain by (auto simp: eq_commute)
  then have "fold (store_request W dir) xs m (request_file ?sha dir k a) = m (request_file ?sha dir k a)"
    by (rule fold_store_other)
  also have "\<dots> = None"
    using assms(2) all plain_request_path [of a k ?sha] plain k by (simp add: request_file_entry empty_below_def)
  finally show ?thesis
    using fold_store_last [of a ys W k dir xs m] other plain k
    by (simp add: split request_file_entry [OF all, symmetric] split: option.splits)
qed

lemma stored_only:
  assumes "storable (mw_sha256 W) srs" and "empty_below dir m"
    and act: "act \<in> set AllActions" and xs: "plain_path xs" "fold (store_request W dir) srs m (entry_path dir act xs) \<noteq> None"
  shows "\<exists>a \<in> set srs. \<exists>k \<in> set file_kinds. am_Action (sr_ActionMetadata a) = act \<and> xs = dir_comps a @ [base_name (mw_sha256 W) k a]"
proof -
  obtain a k where a: "a \<in> set srs" "k \<in> set file_kinds" "entry_path dir act xs = request_file (mw_sha256 W) dir k a"
    using fold_store_other [of srs "entry_path dir act xs" W dir m] assms(2) act xs unfolding empty_below_def by metis
  have in_all: "am_Action (sr_ActionMetadata a) \<in> set AllActions" and plain: "plain_request a"
    using assms(1) a(1) by (simp_all add: storable_def)
  have "action_string act # xs = action_string (am_Action (sr_ActionMetadata a)) # dir_comps a @ [base_name (mw_sha256 W) k a]"
    using a(3) action_dir_all [OF act] action_dir_all [OF in_all] xs(1) plain_request_path [OF plain a(2), of "mw_sha256 W"]
    unfolding request_file_entry [OF in_all] entry_path_def by (intro path_join_below_inj) (auto simp: plain_path_def)
  with a show ?thesis by (auto simp: action_string_eq_iff)
qed

lemma written_directory_stored:
  assumes "reads_store R (fold (store_request W dir) srs m) dir" and "empty_below dir m"
    and "transferable W R srs" and "\<forall>a \<in> set srs. plain_request a"
    and "\<forall>a \<in> set srs. mr_UnmarshalMetadata R (projr (mw_Marshal W (GetLookupMetadata a))) = Inr (sr_ActionMetadata a)"
  shows "written_directory W R dir (fold (store_request W dir) srs m) srs"
proof -
  have "storable (mw_sha256 W) srs" using assms(3,4) by (simp add: storable_def transferable_def)
  note stored_own [OF this assms(2)] stored_only [OF this assms(2)]
  then show ?thesis
    unfolding written_directory_def using assms(1,3-5) by (simp add: transferable_def)
qed

lemma round_trip:
  assumes "store_laws W content" and "\<forall>q \<in> set qs. recorded q"
    and "transferable W R (map GetSerializedRequest qs)"
    and "empty_below dir (content fs)"
    and "WriteMutationDirectory_files W dir qs fs = (None, fs')"
    and "reads_store R (content fs') dir"
    and "\<forall>q \<in> set qs. \<forall>b. mw_Marshal W (requestish_metadata q) = Inr b \<longrightarrow> mr_UnmarshalMetadata R b = Inr (requestish_metadata q)"
  shows "\<exists>t. readMutationFS R = Value (Inr t) \<and> tracker_inv t \<and>
    (\<forall>act. mset (map GetSerializedRequest (requests_of t act)) =
      mset (map (read_back R) (requests_of_action act (map GetSerializedRequest qs))))"
proof -
  let ?srs = "map GetSerializedRequest qs"
  have "write_requests W dir qs fs = ([], fs')"
    using assms(5) by (auto simp: WriteMutationDirectory_files_def split: prod.splits)
  from write_requests_stores [OF assms(1,2) this]
  have content: "content fs' = fold (store_request W dir) ?srs (content fs)"
    and marshal: "\<forall>q \<in> set qs. \<exists>b. mw_Marshal W (GetLookupMetadata (GetSerializedRequest q)) = Inr b" by simp_all
  have "\<forall>a \<in> set ?srs. plain_request a" using assms(2) SuggestedFilenames_recorded by auto
  moreover have "\<forall>a \<in> set ?srs. mr_UnmarshalMetadata R (projr (mw_Marshal W (GetLookupMetadata a))) = Inr (sr_ActionMetadata a)"
    using marshal assms(7) by (fastforce simp: GetLookupMetadata_def requestish_metadata_def)
  ultimately have "written_directory W R dir (content fs') ?srs"
    unfolding content using assms(3,4,6) content by (intro written_directory_stored) simp_all
  then show ?thesis by (rule read_written)
qed

section \<open>Directories that do not read back\<close>

text \<open>A file that does not deserialize makes the whole directory unreadable.\<close>

lemma walk_bad_file:
  assumes "(loc, Some entry, err) \<in> set es" and "\<not> de_IsDir entry" and "has_suffix (de_Name entry) ''.yaml''"
    and "serializedRequestFromFile R act loc = Inl e" and "walk_requests R act es = Value (qs, errs, stop)"
  shows "errs \<noteq> [] \<or> stop \<noteq> None"
  using assms(1,5)
proof (induction es arbitrary: qs errs stop)
  case (Cons entry' es)
  obtain l d err' where e: "entry' = (l, d, err')" by (cases entry') auto
  show ?case
  proof (cases "(loc, Some entry, err) = entry'")
    case True
    with assms(2-4) e Cons.prems(2) show ?thesis by (auto simp: outcome_simps Let_def)
  next
    case False
    have rest: "errs' \<noteq> [] \<or> stop' \<noteq> None" if "walk_requests R act es = Value (qs', errs', stop')" for qs' errs' stop'
      using Cons.IH [OF _ that] Cons.prems(1) False by auto
    then show ?thesis
      using Cons.prems(2)
      by (cases d) (auto simp: e outcome_simps Let_def dest!: rest split: sum.splits option.splits if_splits)
  qed
qed simp

lemma read_actions_bad_file:
  assumes "mr_Open R act = None" and "mr_Sub R act = None"
    and "(loc, Some entry, err) \<in> set (mr_WalkDir R act)" and "\<not> de_IsDir entry" and "has_suffix (de_Name entry) ''.yaml''"
    and "serializedRequestFromFile R act loc = Inl e"
  shows "act \<in> set acts \<Longrightarrow> read_actions R acts t = Value (errs, t') \<Longrightarrow> errs \<noteq> []"
proof (induction acts arbitrary: t errs)
  case (Cons act' acts)
  have bad: "\<exists>e'. r = Inl e'" if "readSerializedRequestsFromActionDirectory R act = Value r" for r
    using that walk_bad_file [OF assms(3-6)]
    by (fastforce simp: readSerializedRequestsFromActionDirectory_def outcome_simps split: prod.splits option.splits if_splits)
  show ?case
  proof (cases "act' = act")
    case True
    then obtain r where r: "readSerializedRequestsFromActionDirectory R act = Value r"
      using Cons.prems(2) assms(1,2) by (auto simp: outcome_simps)
    with bad obtain e' where "r = Inl e'" by blast
    with r True Cons.prems(2) assms(1,2) show ?thesis by (auto simp: outcome_simps)
  next
    case False
    then have rest: "es \<noteq> []" if "read_actions R acts t1 = Value (es, t')" for t1 es
      using Cons.IH [OF _ that] Cons.prems(1) by simp
    consider e where "readSerializedRequestsFromActionDirectory R act' = Value (Inl e)"
      | qs where "readSerializedRequestsFromActionDirectory R act' = Value (Inr qs)"
      | p where "readSerializedRequestsFromActionDirectory R act' = Panicked p"
      by (metis outcome.exhaust sum.exhaust)
    then show ?thesis
      by cases (use Cons.prems(2) in \<open>auto simp: outcome_simps Let_def dest!: rest split: option.splits if_splits\<close>)
  qed
qed simp

lemma unreadable_directory:
  assumes "mr_Open R act = None" and "mr_Sub R act = None"
    and "(loc, Some entry, err) \<in> set (mr_WalkDir R act)" and "\<not> de_IsDir entry" and "has_suffix (de_Name entry) ''.yaml''"
    and "serializedRequestFromFile R act loc = Inl e" and "act \<in> set AllActions"
  shows "readMutationFS R \<noteq> Value (Inr t)"
  using read_actions_bad_file [OF assms(1-6), of "sets_List AllActions" NewAllActionsTracker] assms(7)
  by (auto simp: readMutationFS_def outcome_simps split: prod.splits if_splits)

end
