(* ===== verification/Mutation_Roundtrip.thy ===== *)
theory Mutation_Roundtrip
  imports Reader_Correctness
begin

text \<open>
  What survives a write and a read of a mutation directory, and what does not. The standard reader of
  the files that given requests leave shows that the laws asked of a reader can hold for any requests.
\<close>

section \<open>The standard reader\<close>

definition own_kinds :: "'fs mutation_writer \<Rightarrow> serialized_request \<Rightarrow> string list" where
  "own_kinds W a = filter (\<lambda>k. file_content W k a \<noteq> None) file_kinds"

definition request_files :: "'fs mutation_writer \<Rightarrow> serialized_request \<Rightarrow> (string \<times> string) list" where
  "request_files W a = map (\<lambda>k. (request_path (mw_sha256 W) k a, the (file_content W k a))) (own_kinds W a)"

definition action_files :: "'fs mutation_writer \<Rightarrow> serialized_request list \<Rightarrow> action \<Rightarrow> (string \<times> string) list" where
  "action_files W srs act = concat (map (request_files W) (requests_of_action act srs))"

definition files_reader ::
    "'fs mutation_writer \<Rightarrow> serialized_request list \<Rightarrow> (string \<Rightarrow> go_error + action_metadata) \<Rightarrow>
      (string \<Rightarrow> go_error + group_version_kind) \<Rightarrow> (string \<Rightarrow> go_error + string) \<Rightarrow> mutation_reader" where
  "files_reader W srs unmarshal decode toJSON =
     \<lparr>mr_Open = (\<lambda>act. if action_files W srs act = [] then Some (Leaf NotExist ''file does not exist'') else None),
      mr_Sub = (\<lambda>act. None),
      mr_WalkDir = (\<lambda>act. map (\<lambda>(p, b). (p, Some \<lparr>de_Name = path_base p, de_IsDir = False\<rparr>, None)) (action_files W srs act)),
      mr_ReadFile = (\<lambda>act p. case map_of (action_files W srs act) p of
        None \<Rightarrow> Inl (Leaf NotExist ''file does not exist'') | Some b \<Rightarrow> Inr b),
      mr_UnmarshalMetadata = unmarshal, mr_DecodeJSON = decode, mr_YAMLToJSON = toJSON\<rparr>"

lemma own_kinds_distinct: "distinct (own_kinds W a)" "set (own_kinds W a) \<subseteq> set file_kinds"
  by (simp_all add: own_kinds_def file_kinds_def)

lemma request_files_iff:
  "(p, b) \<in> set (request_files W a) \<longleftrightarrow>
     (\<exists>k \<in> set file_kinds. p = request_path (mw_sha256 W) k a \<and> file_content W k a = Some b)"
  by (force simp: request_files_def own_kinds_def)

lemma action_files_iff:
  "(p, b) \<in> set (action_files W srs act) \<longleftrightarrow> (\<exists>a \<in> set srs. \<exists>k \<in> set file_kinds.
     am_Action (sr_ActionMetadata a) = act \<and> p = request_path (mw_sha256 W) k a \<and> file_content W k a = Some b)"
  by (auto simp: action_files_def requests_of_action_def request_files_iff)

lemma distinct_concat_map:
  "distinct xs \<Longrightarrow> (\<And>x. x \<in> set xs \<Longrightarrow> distinct (f x)) \<Longrightarrow>
   (\<And>x y z. x \<in> set xs \<Longrightarrow> y \<in> set xs \<Longrightarrow> z \<in> set (f x) \<Longrightarrow> z \<in> set (f y) \<Longrightarrow> x = y) \<Longrightarrow>
   distinct (concat (map f xs))"
proof (induction xs)
  case (Cons x xs)
  then have "distinct (concat (map f xs))" by auto
  moreover have "set (f x) \<inter> set (concat (map f xs)) = {}" using Cons.prems by fastforce
  ultimately show ?case using Cons.prems(2) [of x] by (simp del: set_concat)
qed simp

lemma action_files_distinct:
  assumes "storable (mw_sha256 W) srs"
  shows "distinct (map fst (action_files W srs act))"
proof -
  let ?sha = "mw_sha256 W" and ?A = "requests_of_action act srs"
  let ?f = "\<lambda>a. map (\<lambda>k. request_path ?sha k a) (own_kinds W a)"
  have A: "a \<in> set srs \<and> plain_request a \<and> am_Action (sr_ActionMetadata a) = act" if "a \<in> set ?A" for a
    using that assms by (auto simp: requests_of_action_def storable_def)
  have path: "request_path ?sha k a = request_path ?sha k' b \<longleftrightarrow> k = k' \<and> request_slot ?sha a = request_slot ?sha b"
    if "a \<in> set ?A" "b \<in> set ?A" "k \<in> set (own_kinds W a)" "k' \<in> set (own_kinds W b)" for a b k k'
    using request_path_eq_iff [of a b k k' ?sha] A that own_kinds_distinct(2) by (metis subsetD)
  have slots: "inj_on (request_slot ?sha) (set srs)" "distinct srs"
    using assms by (simp_all add: storable_def distinct_map)
  have "distinct (concat (map ?f ?A))"
  proof (rule distinct_concat_map)
    show "distinct ?A" using slots by (simp add: requests_of_action_def)
    show "distinct (?f a)" if "a \<in> set ?A" for a
      using path [OF that that] own_kinds_distinct(1) by (auto simp: distinct_map inj_on_def)
    show "a = b" if "a \<in> set ?A" "b \<in> set ?A" "p \<in> set (?f a)" "p \<in> set (?f b)" for a b p
    proof -
      have "request_slot ?sha a = request_slot ?sha b" using that path [OF that(1,2)] by auto
      with slots(1) A [OF that(1)] A [OF that(2)] show ?thesis by (simp add: inj_on_def)
    qed
  qed
  moreover have "map fst (action_files W srs act) = concat (map ?f ?A)"
    by (simp add: action_files_def request_files_def map_concat comp_def)
  ultimately show ?thesis by simp
qed

lemma stored_iff_file:
  assumes "storable (mw_sha256 W) srs" and "empty_below dir m" and act: "act \<in> set AllActions" and xs: "plain_path xs"
  shows "fold (store_request W dir) srs m (entry_path dir act xs) = Some b \<longleftrightarrow>
    (strings_join xs [slash], b) \<in> set (action_files W srs act)"
proof
  assume stored: "fold (store_request W dir) srs m (entry_path dir act xs) = Some b"
  then obtain a k where a: "a \<in> set srs" "k \<in> set file_kinds" "am_Action (sr_ActionMetadata a) = act"
    "xs = dir_comps a @ [base_name (mw_sha256 W) k a]"
    using stored_only [OF assms] by auto
  with stored_own [OF assms(1,2) a(1,2)] stored have "file_content W k a = Some b" by simp
  with a show "(strings_join xs [slash], b) \<in> set (action_files W srs act)"
    by (auto simp: action_files_iff request_path_def)
next
  assume "(strings_join xs [slash], b) \<in> set (action_files W srs act)"
  then obtain a k where a: "a \<in> set srs" "k \<in> set file_kinds" "am_Action (sr_ActionMetadata a) = act"
    "file_content W k a = Some b" and path: "strings_join xs [slash] = request_path (mw_sha256 W) k a"
    by (auto simp: action_files_iff)
  have "plain_path (dir_comps a @ [base_name (mw_sha256 W) k a])"
    using assms(1) a(1,2) by (intro plain_request_path) (simp_all add: storable_def)
  with path xs have "xs = dir_comps a @ [base_name (mw_sha256 W) k a]"
    unfolding request_path_def by (intro strings_join_plain_inj) (auto simp: plain_path_def plain_component_def)
  with stored_own [OF assms(1,2) a(1,2)] a show "fold (store_request W dir) srs m (entry_path dir act xs) = Some b" by simp
qed

lemma action_files_stored:
  assumes "storable (mw_sha256 W) srs" and "empty_below dir m" and "act \<in> set AllActions" and "plain_path xs"
  shows "map_of (action_files W srs act) (strings_join xs [slash]) =
    fold (store_request W dir) srs m (entry_path dir act xs)"
proof (cases "fold (store_request W dir) srs m (entry_path dir act xs)")
  case None
  with stored_iff_file [OF assms] map_of_SomeD show ?thesis by (metis not_Some_eq)
next
  case (Some b)
  then have "(strings_join xs [slash], b) \<in> set (action_files W srs act)"
    using stored_iff_file [OF assms] by blast
  with Some action_files_distinct [OF assms(1)] show ?thesis by simp
qed

text \<open>The paths of the files of an action are those where something is stored.\<close>

lemma action_files_paths:
  assumes "storable (mw_sha256 W) srs" and "empty_below dir m" and "act \<in> set AllActions"
  shows "set (map fst (action_files W srs act)) =
    {strings_join xs [slash] | xs. plain_path xs \<and> fold (store_request W dir) srs m (entry_path dir act xs) \<noteq> None}"
proof (intro set_eqI iffI)
  fix p
  assume "p \<in> set (map fst (action_files W srs act))"
  then obtain b where b: "(p, b) \<in> set (action_files W srs act)" by auto
  moreover have "\<exists>xs. p = strings_join xs [slash] \<and> plain_path xs"
    using b assms(1) plain_request_path unfolding action_files_iff request_path_def storable_def by metis
  ultimately show "p \<in> {strings_join xs [slash] | xs. plain_path xs \<and>
      fold (store_request W dir) srs m (entry_path dir act xs) \<noteq> None}"
    using stored_iff_file [OF assms] by blast
next
  fix p
  assume "p \<in> {strings_join xs [slash] | xs. plain_path xs \<and>
    fold (store_request W dir) srs m (entry_path dir act xs) \<noteq> None}"
  then obtain xs b where "p = strings_join xs [slash]" "plain_path xs"
    "fold (store_request W dir) srs m (entry_path dir act xs) = Some b" by auto
  with stored_iff_file [OF assms, of xs b] show "p \<in> set (map fst (action_files W srs act))" by force
qed

lemma files_reader_reads:
  assumes "storable (mw_sha256 W) srs" and "empty_below dir m"
  shows "reads_store (files_reader W srs unmarshal decode toJSON) (fold (store_request W dir) srs m) dir"
    (is "reads_store ?R ?m dir")
  unfolding reads_store_def
proof (intro ballI)
  fix act
  assume act: "act \<in> set AllActions"
  let ?files = "action_files W srs act"
  note stored = action_files_stored [OF assms act, symmetric]
  have walked: "walked_files ?R act = map fst ?files"
    by (simp add: walked_files_def files_reader_def case_prod_beta comp_def)
  have read: "case ?m (entry_path dir act xs) of Some b \<Rightarrow> mr_ReadFile ?R act (strings_join xs [slash]) = Inr b
      | None \<Rightarrow> \<exists>e. mr_ReadFile ?R act (strings_join xs [slash]) = Inl e \<and> err_is NotExist e" if "plain_path xs" for xs
    by (simp add: stored [OF that] files_reader_def err_is_def split: option.split)
  have opened: "case mr_Open ?R act of None \<Rightarrow> True
      | Some e \<Rightarrow> err_is NotExist e \<and> (\<forall>xs. plain_path xs \<longrightarrow> ?m (entry_path dir act xs) = None)"
    using stored by (cases "?files = []") (simp_all add: files_reader_def err_is_def)
  have entries: "\<forall>(loc, d, err) \<in> set (mr_WalkDir ?R act). err = None \<and> (\<exists>entry. d = Some entry \<and> de_Name entry = path_base loc)"
    by (auto simp: files_reader_def)
  have sub: "mr_Sub ?R act = None" by (simp add: files_reader_def)
  show "(case mr_Open ?R act of None \<Rightarrow> True
      | Some e \<Rightarrow> err_is NotExist e \<and> (\<forall>xs. plain_path xs \<longrightarrow> ?m (entry_path dir act xs) = None)) \<and>
     mr_Sub ?R act = None \<and>
     (\<forall>(loc, d, err) \<in> set (mr_WalkDir ?R act). err = None \<and> (\<exists>entry. d = Some entry \<and> de_Name entry = path_base loc)) \<and>
     distinct (walked_files ?R act) \<and>
     set (walked_files ?R act) = {strings_join xs [slash] | xs. plain_path xs \<and> ?m (entry_path dir act xs) \<noteq> None} \<and>
     (\<forall>xs. plain_path xs \<longrightarrow> (case ?m (entry_path dir act xs) of
        Some b \<Rightarrow> mr_ReadFile ?R act (strings_join xs [slash]) = Inr b
      | None \<Rightarrow> \<exists>e. mr_ReadFile ?R act (strings_join xs [slash]) = Inl e \<and> err_is NotExist e))"
    unfolding walked using opened sub entries action_files_distinct [OF assms(1)] action_files_paths [OF assms act] read
    by blast
qed

section \<open>Requests that share their files\<close>

lemma stored_collision:
  assumes "plain_request a" and "plain_request b" and "request_slot (mw_sha256 W) a = request_slot (mw_sha256 W) b"
    and "k \<in> set file_kinds"
  shows "store_request W dir b (store_request W dir a m) (request_file (mw_sha256 W) dir k b) =
    (case file_content W k b of Some x \<Rightarrow> Some x
     | None \<Rightarrow> (case file_content W k a of Some x \<Rightarrow> Some x | None \<Rightarrow> m (request_file (mw_sha256 W) dir k b)))"
proof -
  have "request_file (mw_sha256 W) dir k a = request_file (mw_sha256 W) dir k b"
    using request_file_eq_iff [OF assms(4,4,1,2)] assms(3) by simp
  then show ?thesis
    using store_request_own [OF assms(1,4), of W dir m] store_request_own [OF assms(2,4), of W dir]
    by (simp split: option.split)
qed

lemma read_stored:
  assumes "reads_store R content dir" and "am_Action (sr_ActionMetadata b) \<in> set AllActions" and "plain_request b"
    and "k \<in> set file_kinds" and "content (request_file sha256 dir k b) = Some x"
  shows "mr_ReadFile R (am_Action (sr_ActionMetadata b)) (request_path sha256 k b) = Inr x"
  using reads_storeD(6) [OF assms(1,2) plain_request_path [OF assms(3,4), of sha256]] assms(5)
  by (simp add: request_file_entry [OF assms(2)] request_path_def)

section \<open>Names that look like body files\<close>

lemma other_metadata_absent:
  assumes "storable (mw_sha256 W) srs" and "empty_below dir m" and act: "act \<in> set AllActions"
    and plain: "plain_path (ds @ [h @ ''-metadata-metadata-'' @ r @ ''.yaml''])" and "CHR ''-'' \<notin> set h"
    and "\<forall>b \<in> set srs. MakeFilenameGoModSafe (object_name b) \<noteq> ''metadata-'' @ r"
  shows "fold (store_request W dir) srs m (entry_path dir act (ds @ [h @ ''-metadata-metadata-'' @ r @ ''.yaml''])) = None"
proof (rule ccontr)
  assume "fold (store_request W dir) srs m (entry_path dir act (ds @ [h @ ''-metadata-metadata-'' @ r @ ''.yaml''])) \<noteq> None"
  from stored_only [OF assms(1,2) act plain this] obtain b k where b: "b \<in> set srs" "k \<in> set file_kinds"
    and eq: "h @ ''-metadata-metadata-'' @ r @ ''.yaml'' = base_name (mw_sha256 W) k b" by auto
  have k: "CHR ''-'' \<notin> set k" using b(2) by (auto simp: file_kinds_def)
  have "h @ CHR ''-'' # (''metadata'' @ CHR ''-'' # (''metadata-'' @ r @ ''.yaml'')) =
      request_hash (mw_sha256 W) b @ CHR ''-'' # (k @ CHR ''-'' # (MakeFilenameGoModSafe (object_name b) @ ''.yaml''))"
    using eq by (simp add: base_name_def)
  then have "''metadata'' @ CHR ''-'' # (''metadata-'' @ r @ ''.yaml'') = k @ CHR ''-'' # (MakeFilenameGoModSafe (object_name b) @ ''.yaml'')"
    using assms(5) append_sep_eq_iff by (metis request_hash_chars(2))
  moreover have "CHR ''-'' \<notin> set ''metadata''" by simp
  ultimately have "(''metadata-'' @ r) @ ''.yaml'' = MakeFilenameGoModSafe (object_name b) @ ''.yaml''"
    using k append_sep_eq_iff by (metis append_assoc)
  then have "''metadata-'' @ r = MakeFilenameGoModSafe (object_name b)" by (simp only: append_same_eq)
  with assms(6) b(1) show False by metis
qed

text \<open>Such a metadata file is taken for a body whose metadata file does not exist.\<close>

lemma read_body_like:
  assumes "plain_path (ds @ [h @ ''-metadata-body-'' @ r @ ''.yaml''])" and "CHR ''o'' \<notin> set h" and "ds \<noteq> []"
    and "r \<noteq> []" and "CHR 0x0A \<notin> set r"
    and "mr_ReadFile R act (strings_join (ds @ [h @ ''-metadata-metadata-'' @ r @ ''.yaml'']) [slash]) = Inl e"
  shows "\<exists>e. serializedRequestFromFile R act (strings_join (ds @ [h @ ''-metadata-body-'' @ r @ ''.yaml'']) [slash]) = Inl e"
proof -
  let ?b = "h @ ''-metadata-body-'' @ r @ ''.yaml''" and ?o = "h @ ''-metadata-metadata-'' @ r @ ''.yaml''"
  have plain: "\<forall>x \<in> set (ds @ [?b]). plain_component x" using assms(1) by (simp add: plain_path_def)
  have "slash \<notin> set h" "slash \<notin> set r" using plain by (auto simp: plain_component_def)
  then have "plain_component ?o" by (auto simp: plain_component_def slash_def append_eq_Cons_conv)
  with plain have plain': "\<forall>x \<in> set (ds @ [?o]). plain_component x" by simp
  have base: "path_base (strings_join (ds @ [?b]) [slash]) = ?b" using path_base_join [OF _ plain] by simp
  have regex: "bodyRegex ?b"
    using bodyRegex_body_name [OF assms(4,5), of "h @ ''-metadata''"] by simp
  have "replace_first ''body'' ''metadata'' ((h @ ''-metadata'') @ ''-body-'' @ r @ ''.yaml'') =
      (h @ ''-metadata'') @ ''-'' @ ''metadata'' @ ''-'' @ r @ ''.yaml''"
    by (rule replace_body) (use assms(2) in simp)
  then have "replace_first ''body'' ''metadata'' ?b = ?o" by simp
  then have "path_join [path_dir (strings_join (ds @ [?b]) [slash]), replace_first ''body'' ''metadata'' ?b] = strings_join (ds @ [?o]) [slash]"
    using path_dir_join [OF assms(3) plain] path_join_sibling [OF assms(3) plain'] by simp
  then show ?thesis
    using assms(6) by (auto simp: serializedRequestFromFile_def base regex Let_def simp del: append_Cons split: sum.split)
qed

section \<open>A disk\<close>

text \<open>A file system that accepts every write, as a list of paths with their contents.\<close>

definition disk_writer :: "(string \<times> string) list mutation_writer" where
  "disk_writer = \<lparr>mw_sha256 = (\<lambda>s. replicate 32 (CHR 0x2A)), mw_Marshal = (\<lambda>md. Inr (am_Name md @ slash # am_ControllerInstanceName md)),
     mw_fmt_metadata = (\<lambda>md. []), mw_fmt_request = (\<lambda>q. []), mw_MkdirAll = (\<lambda>d fs. (None, fs)),
     mw_WriteFile = (\<lambda>p b fs. (None, map_set p b fs))\<rparr>"

lemma disk_laws: "store_laws disk_writer map_of"
  by (simp add: store_laws_def disk_writer_def)

lemma disk_accepts: "\<exists>fs'. WriteMutationDirectory_files disk_writer dir qs fs = (None, fs')"
proof -
  have one: "\<exists>fs'. write_request disk_writer dir q fs = ([], fs')" for q fs
    by (simp add: write_request_def disk_writer_def Let_def split: prod.split)
  have "\<exists>fs'. write_requests disk_writer dir qs fs = ([], fs')"
  proof (induction qs arbitrary: fs)
    case (Cons q qs)
    obtain fs1 where "write_request disk_writer dir q fs = ([], fs1)" using one by blast
    with Cons [of fs1] show ?case by auto
  qed simp
  then show ?thesis by (auto simp: WriteMutationDirectory_files_def)
qed

definition demo_metadata_of :: "string \<Rightarrow> string \<Rightarrow> action_metadata" where
  "demo_metadata_of name controller =
     \<lparr>am_Action = ActionCreate, am_ResourceType = \<lparr>gvr_Group = [], gvr_Version = ''v1'', gvr_Resource = ''configmaps''\<rparr>,
      am_Namespace = ''ns'', am_Name = name, am_GenerateName = [], am_PatchType = [], am_FieldManager = [],
      am_ControllerInstanceName = controller\<rparr>"

definition demo_create :: "string \<Rightarrow> string \<Rightarrow> string \<Rightarrow> serialized_request" where
  "demo_create name controller options = \<lparr>sr_ActionMetadata = demo_metadata_of name controller,
     sr_KindType = \<lparr>gvk_Group = [], gvk_Version = ''v1'', gvk_Kind = ''ConfigMap''\<rparr>, sr_Options = options, sr_Body = ''body''\<rparr>"

lemma demo_create_simps [simp]:
  "sr_ActionMetadata (demo_create n c o') = demo_metadata_of n c" "sr_Body (demo_create n c o') = ''body''"
  "sr_Options (demo_create n c o') = o'" "object_name (demo_create n c o') = n"
  "am_Action (demo_metadata_of n c) = ActionCreate" "am_ControllerInstanceName (demo_metadata_of n c) = c"
  by (simp_all add: demo_create_def demo_metadata_of_def object_name_def)

lemma demo_create_plain: "slash \<notin> set n \<Longrightarrow> plain_request (demo_create n c o')"
  by (auto simp: plain_request_def object_name_def demo_create_def demo_metadata_of_def plain_component_def slash_def ActionCreate_def Let_def)

lemma demo_create_slot: "request_slot sha256 (demo_create n c o') = request_slot sha256 (demo_create n' c' o'') \<longleftrightarrow>
    MakeFilenameGoModSafe n = MakeFilenameGoModSafe n'"
  by (auto simp: request_slot_def request_hash_def hashRequestToPrefix_def dir_comps_def demo_metadata_of_def)

definition demo_unmarshal :: "string \<Rightarrow> go_error + action_metadata" where
  "demo_unmarshal b = (case split_slash b of [name, controller] \<Rightarrow> Inr (demo_metadata_of name controller)
     | _ \<Rightarrow> Inl (errorf ''no metadata''))"

definition demo_reader :: "serialized_request list \<Rightarrow> mutation_reader" where
  "demo_reader srs = files_reader disk_writer srs demo_unmarshal (\<lambda>b. Inr empty_gvk) Inr"

lemma ActionCreate_all [simp]: "ActionCreate \<in> set AllActions"
  by (simp add: AllActions_def)

lemma demo_reader_simps [simp]:
  "mr_UnmarshalMetadata (demo_reader srs) = demo_unmarshal" "mr_DecodeJSON (demo_reader srs) b = Inr empty_gvk"
  by (simp_all add: demo_reader_def files_reader_def)

lemma demo_read_kind [simp]: "read_kind (demo_reader srs) act f b = Inr empty_gvk"
  by (simp add: read_kind_def)

lemma demo_decodable [simp]: "decodable (demo_reader srs) a"
  by (simp add: decodable_def)

lemma demo_unmarshal_marshal:
  "slash \<notin> set n \<Longrightarrow> slash \<notin> set c \<Longrightarrow> mw_Marshal disk_writer (demo_metadata_of n c) = Inr b \<Longrightarrow>
    demo_unmarshal b = Inr (demo_metadata_of n c)"
  by (auto simp: disk_writer_def demo_unmarshal_def demo_metadata_of_def split_slash_append split_slash_plain)

lemma empty_below_empty [simp]: "empty_below dir (\<lambda>p. None)"
  by (simp add: empty_below_def)

lemma demo_reader_reads:
  "storable (mw_sha256 disk_writer) srs \<Longrightarrow>
    reads_store (demo_reader srs) (fold (store_request disk_writer dir) srs (\<lambda>p. None)) dir"
  unfolding demo_reader_def by (rule files_reader_reads) simp_all

section \<open>Properties\<close>

text \<open>C35: a mutation directory gives back what was written into it. When the writes report no error and
  every request has files of its own, a name, and a body that decodes, reading the directory succeeds
  and lists, for every action, exactly the requests written, each with the kind of its body.\<close>

theorem mutation_directory_round_trip:
  assumes "store_laws W content" and "\<forall>q \<in> set qs. recorded q"
    and "transferable W R (map GetSerializedRequest qs)" and "empty_below dir (content fs)"
    and "WriteMutationDirectory_files W dir qs fs = (None, fs')" and "reads_store R (content fs') dir"
    and "\<forall>q \<in> set qs. \<forall>b. mw_Marshal W (requestish_metadata q) = Inr b \<longrightarrow>
      mr_UnmarshalMetadata R b = Inr (requestish_metadata q)"
  shows "\<exists>t. readMutationFS R = Value (Inr t) \<and> tracker_inv t \<and>
    (\<forall>act. mset (map GetSerializedRequest (requests_of t act)) =
      mset (map (read_back R) (requests_of_action act (map GetSerializedRequest qs))))"
  by (rule round_trip [OF assms])

theorem mutation_directory_round_trip_witness:
  "\<exists>fs' t. WriteMutationDirectory_files disk_writer ''out'' [PlainSerializedRequest (demo_create ''cm:a'' ''one'' []),
      TrackedSerializedRequest 7 (demo_create ''b'' ''two'' ''options'')] [] = (None, fs') \<and>
    readMutationFS (demo_reader [demo_create ''cm:a'' ''one'' [], demo_create ''b'' ''two'' ''options'']) = Value (Inr t) \<and>
    mset (map GetSerializedRequest (requests_of t ActionCreate)) =
      {# (demo_create ''cm:a'' ''one'' [])\<lparr>sr_KindType := empty_gvk\<rparr>, (demo_create ''b'' ''two'' ''options'')\<lparr>sr_KindType := empty_gvk\<rparr> #}"
proof -
  let ?a = "demo_create ''cm:a'' ''one'' []" and ?b = "demo_create ''b'' ''two'' ''options''"
  let ?qs = "[PlainSerializedRequest ?a, TrackedSerializedRequest 7 ?b]"
  let ?R = "demo_reader [?a, ?b]"
  obtain fs' where wrote: "WriteMutationDirectory_files disk_writer ''out'' ?qs [] = (None, fs')"
    using disk_accepts by blast
  have rec: "\<forall>q \<in> set ?qs. recorded q" by (simp add: demo_create_plain slash_def)
  have slots: "storable (mw_sha256 disk_writer) [?a, ?b]"
    by (simp add: storable_def demo_create_slot demo_create_plain slash_def)
  then have trans: "transferable disk_writer ?R (map GetSerializedRequest ?qs)"
    by (simp add: transferable_def storable_def readable_name_def)
  have "write_requests disk_writer ''out'' ?qs [] = ([], fs')"
    using wrote by (simp add: WriteMutationDirectory_files_def split: prod.splits)
  from write_requests_stores [OF disk_laws rec this]
  have content: "map_of fs' = fold (store_request disk_writer ''out'') [?a, ?b] (\<lambda>p. None)" by simp
  then have reads: "reads_store ?R (map_of fs') ''out''" using demo_reader_reads [OF slots] by simp
  have parse: "\<forall>q \<in> set ?qs. \<forall>b. mw_Marshal disk_writer (requestish_metadata q) = Inr b \<longrightarrow>
      mr_UnmarshalMetadata ?R b = Inr (requestish_metadata q)"
    using demo_unmarshal_marshal by (simp add: requestish_metadata_def GetLookupMetadata_def slash_def)
  have "empty_below ''out'' (map_of [] :: string \<Rightarrow> string option)" by simp
  from mutation_directory_round_trip [OF disk_laws rec trans this wrote reads parse] wrote show ?thesis
    by (auto simp: requests_of_action_def read_back_def)
qed

text \<open>C36: two requests for the same object and the same body share their files, whoever made them. After both
  are written without error the metadata and the body are those of the later one, and when only the
  earlier one has options these stay beside them: the request read back is one nobody made.\<close>

theorem colliding_requests_mix:
  assumes "store_laws W content" and "\<forall>q \<in> set (qs @ [q1, q2]). recorded q"
    and "WriteMutationDirectory_files W dir (qs @ [q1, q2]) fs = (None, fs')" and "reads_store R (content fs') dir"
    and a: "a = GetSerializedRequest q1" and b: "b = GetSerializedRequest q2"
    and "request_slot (mw_sha256 W) a = request_slot (mw_sha256 W) b"
    and "sr_Options a \<noteq> []" and "sr_Options b = []" and "sr_Body b \<noteq> []"
    and "readable_name b" and "decodable R b" and "am_Action (sr_ActionMetadata b) \<in> set AllActions"
    and "\<forall>x. mw_Marshal W (sr_ActionMetadata b) = Inr x \<longrightarrow> mr_UnmarshalMetadata R x = Inr (sr_ActionMetadata b)"
  shows "\<exists>optf. serializedRequestFromFile R (am_Action (sr_ActionMetadata b)) (request_path (mw_sha256 W) ''body'' a) =
    Inr (Some (FileOriginatedSerializedRequest [] (request_path (mw_sha256 W) ''body'' a) optf
      (read_back R (b\<lparr>sr_Options := sr_Options a\<rparr>))))"
proof -
  let ?sha = "mw_sha256 W" and ?act = "am_Action (sr_ActionMetadata b)" and ?c = "b\<lparr>sr_Options := sr_Options a\<rparr>"
  have "write_requests W dir (qs @ [q1, q2]) fs = ([], fs')"
    using assms(3) by (auto simp: WriteMutationDirectory_files_def split: prod.splits)
  from write_requests_stores [OF assms(1,2) this] obtain m mb
    where content: "content fs' = store_request W dir b (store_request W dir a m)"
      and marshal: "mw_Marshal W (GetLookupMetadata b) = Inr mb" by (auto simp: a b)
  have plain: "plain_request a" "plain_request b" using assms(2) SuggestedFilenames_recorded by (auto simp: a b)
  have kinds: "''body'' \<in> set file_kinds" "''metadata'' \<in> set file_kinds" "''options'' \<in> set file_kinds"
    by (simp_all add: file_kinds_def)
  have hash: "request_hash ?sha ?c = request_hash ?sha b" "dir_comps ?c = dir_comps b" "object_name ?c = object_name b"
    using assms(10) by (simp_all add: request_hash_def hashRequestToPrefix_def dir_comps_def object_name_def)
  then have path: "request_path ?sha k ?c = request_path ?sha k b" for k
    by (simp add: request_path_def base_name_def)
  have path_a: "request_path ?sha ''body'' a = request_path ?sha ''body'' b"
    using assms(7) by (simp add: request_path_def base_name_def request_slot_def)
  note read = read_stored [OF assms(4,13) plain(2)]
  note stored = stored_collision [OF plain assms(7), of _ dir m, folded content]
  have "\<exists>optf. serializedRequestFromFile R ?act (request_path ?sha ''body'' ?c) =
      Inr (Some (FileOriginatedSerializedRequest [] (request_path ?sha ''body'' ?c) optf (read_back R ?c)))"
  proof (rule read_body_file)
    show "plain_request ?c" "readable_name ?c" "decodable R ?c"
      using plain(2) assms(11,12) by (simp_all add: plain_request_def readable_name_def decodable_def object_name_def)
    show "mr_ReadFile R ?act (request_path ?sha ''body'' ?c) = Inr (sr_Body ?c)"
      using read [OF kinds(1)] stored [OF kinds(1)] by (simp add: path file_content_def)
    show "mr_ReadFile R ?act (request_path ?sha ''metadata'' ?c) = Inr mb"
      using read [OF kinds(2)] stored [OF kinds(2)] marshal by (simp add: path file_content_def)
    show "mr_UnmarshalMetadata R mb = Inr (sr_ActionMetadata ?c)"
      using assms(14) marshal by (simp add: GetLookupMetadata_def)
    have "mr_ReadFile R ?act (request_path ?sha ''options'' b) = Inr (sr_Options a)"
      using read [OF kinds(3)] stored [OF kinds(3)] assms(8,9) by (simp add: file_content_def)
    then show "if sr_Options ?c = [] then \<exists>e. mr_ReadFile R ?act (request_path ?sha ''options'' ?c) = Inl e \<and> err_is NotExist e
        else mr_ReadFile R ?act (request_path ?sha ''options'' ?c) = Inr (sr_Options ?c)"
      using assms(8) by (simp add: path)
  qed simp
  then show ?thesis by (simp only: path path_a)
qed

theorem colliding_requests_mix_witness:
  "\<exists>fs' optf. WriteMutationDirectory_files disk_writer ''out'' [TrackedSerializedRequest 0 (demo_create ''cm'' ''one'' ''options''),
      TrackedSerializedRequest 1 (demo_create ''cm'' ''two'' [])] [] = (None, fs') \<and>
    serializedRequestFromFile (demo_reader [demo_create ''cm'' ''two'' ''options'']) ActionCreate
      (request_path (mw_sha256 disk_writer) ''body'' (demo_create ''cm'' ''one'' ''options'')) =
    Inr (Some (FileOriginatedSerializedRequest [] (request_path (mw_sha256 disk_writer) ''body'' (demo_create ''cm'' ''one'' ''options'')) optf
      ((demo_create ''cm'' ''two'' ''options'')\<lparr>sr_KindType := empty_gvk\<rparr>)))"
proof -
  let ?a = "demo_create ''cm'' ''one'' ''options''" and ?b = "demo_create ''cm'' ''two'' []" and ?c = "demo_create ''cm'' ''two'' ''options''"
  let ?qs = "[] @ [TrackedSerializedRequest 0 ?a, TrackedSerializedRequest 1 ?b]"
  let ?R = "demo_reader [?c]" and ?sha = "mw_sha256 disk_writer"
  obtain fs' where wrote: "WriteMutationDirectory_files disk_writer ''out'' ?qs [] = (None, fs')"
    using disk_accepts by blast
  have plain: "plain_request (demo_create ''cm'' x y)" for x y by (rule demo_create_plain) (simp add: slash_def)
  have rec: "\<forall>q \<in> set ?qs. recorded q" by (simp add: plain)
  have "write_requests disk_writer ''out'' ?qs [] = ([], fs')"
    using wrote by (simp add: WriteMutationDirectory_files_def split: prod.splits)
  from write_requests_stores [OF disk_laws rec this]
  have content: "map_of fs' = store_request disk_writer ''out'' ?b (store_request disk_writer ''out'' ?a (\<lambda>p. None))" by simp
  have files: "request_file ?sha ''out'' k ?a = request_file ?sha ''out'' k ?c" "request_file ?sha ''out'' k ?b = request_file ?sha ''out'' k ?c"
    if "k \<in> set file_kinds" for k
    using request_file_eq_iff [OF that that plain plain] demo_create_slot by blast+
  have differ: "request_file ?sha ''out'' k ?c = request_file ?sha ''out'' k' ?c \<longleftrightarrow> k = k'"
    if "k \<in> set file_kinds" "k' \<in> set file_kinds" for k k'
    using request_file_eq_iff [OF that plain plain] by simp
  have "map_of fs' = fold (store_request disk_writer ''out'') [?c] (\<lambda>p. None)"
    using files [of "''metadata''"] files [of "''body''"] files [of "''options''"] differ [of "''options''" "''metadata''"] differ [of "''options''" "''body''"]
      differ [of "''metadata''" "''body''"]
    by (auto simp: content store_request_def file_kinds_def fun_eq_iff Let_def GetLookupMetadata_def)
  then have reads: "reads_store ?R (map_of fs') ''out''"
    using demo_reader_reads [of "[?c]" "''out''"] plain by (simp add: storable_def)
  have parse: "\<forall>x. mw_Marshal disk_writer (sr_ActionMetadata ?b) = Inr x \<longrightarrow> mr_UnmarshalMetadata ?R x = Inr (sr_ActionMetadata ?b)"
    using demo_unmarshal_marshal by (simp add: slash_def)
  have "\<exists>optf. serializedRequestFromFile ?R (am_Action (sr_ActionMetadata ?b)) (request_path ?sha ''body'' ?a) =
    Inr (Some (FileOriginatedSerializedRequest [] (request_path ?sha ''body'' ?a) optf (read_back ?R (?b\<lparr>sr_Options := sr_Options ?a\<rparr>))))"
    by (rule colliding_requests_mix [OF disk_laws rec wrote reads])
      (simp_all add: demo_create_slot readable_name_def parse del: demo_reader_simps)
  then show ?thesis using wrote by (simp add: read_back_def demo_create_def)
qed

text \<open>A request whose object has neither a name nor a name prefix is written into files the reader skips,
  so it is lost without an error.\<close>

theorem nameless_request_skipped:
  assumes "plain_request a" and "object_name a = []" and "k \<in> set file_kinds"
  shows "serializedRequestFromFile R act (request_path sha256 k a) = Inr None"
proof -
  have "path_base (request_path sha256 k a) = base_name sha256 k a"
    using path_base_join plain_request_path [OF assms(1,3)] by (simp add: request_path_def plain_path_def)
  moreover have "\<not> bodyRegex (''-'' @ k @ ''-.yaml'')" using assms(3) by (auto simp: file_kinds_def body_tail_def)
  then have "\<not> bodyRegex (base_name sha256 k a)"
    using assms(2) by (simp add: base_name_def bodyRegex_no_dash)
  ultimately show ?thesis by (simp add: serializedRequestFromFile_def)
qed

theorem nameless_request_skipped_witness:
  "serializedRequestFromFile (demo_reader [demo_create [] ''one'' []]) ActionCreate
    (request_path (\<lambda>s. s) ''body'' (demo_create [] ''one'' [])) = Inr None"
  by (rule nameless_request_skipped) (simp_all add: demo_create_plain file_kinds_def)

text \<open>An object whose name starts with \<open>body-\<close> makes a written directory unreadable: the reader takes
  its metadata file for a body and misses the metadata that would belong to it.\<close>

theorem body_named_object_breaks_directory:
  assumes "storable (mw_sha256 W) srs" and "empty_below dir m" and "reads_store R (fold (store_request W dir) srs m) dir"
    and "a \<in> set srs" and "MakeFilenameGoModSafe (object_name a) = ''body-'' @ r" and "r \<noteq> []" and "CHR 0x0A \<notin> set r"
    and "\<forall>b \<in> set srs. MakeFilenameGoModSafe (object_name b) \<noteq> ''metadata-'' @ r"
  shows "readMutationFS R \<noteq> Value (Inr t)"
proof -
  let ?sha = "mw_sha256 W" and ?act = "am_Action (sr_ActionMetadata a)" and ?h = "request_hash (mw_sha256 W) a"
  let ?xs = "dir_comps a @ [?h @ ''-metadata-body-'' @ r @ ''.yaml'']"
    and ?ys = "dir_comps a @ [?h @ ''-metadata-metadata-'' @ r @ ''.yaml'']"
  have k: "''metadata'' \<in> set file_kinds" by (simp add: file_kinds_def)
  have a: "plain_request a" "?act \<in> set AllActions" using assms(1,4) by (simp_all add: storable_def)
  have base: "base_name ?sha ''metadata'' a = ?h @ ''-metadata-body-'' @ r @ ''.yaml''" by (simp add: base_name_def assms(5))
  have plain: "plain_path ?xs" using plain_request_path [OF a(1) k, of ?sha] by (simp only: base)
  then have "slash \<notin> set r" by (auto simp: plain_path_def plain_component_def)
  with plain have plain': "plain_path ?ys" by (auto simp: plain_path_def plain_component_def slash_def append_eq_Cons_conv)
  note laws = reads_storeD [OF assms(3) a(2)]
  have "fold (store_request W dir) srs m (entry_path dir ?act ?ys) = None"
    by (rule other_metadata_absent [OF assms(1,2) a(2) plain' _ assms(8)]) simp
  then obtain e where "mr_ReadFile R ?act (strings_join ?ys [slash]) = Inl e" using laws(6) [OF plain'] by auto
  from read_body_like [OF plain request_hash_chars(4) dir_comps_not_Nil assms(6,7) this]
  obtain e' where bad: "serializedRequestFromFile R ?act (strings_join ?xs [slash]) = Inl e'" by blast
  have stored: "fold (store_request W dir) srs m (entry_path dir ?act ?xs) \<noteq> None"
    using stored_own [OF assms(1,2,4) k] by (simp add: base file_content_def)
  then have "mr_Open R ?act = None" using laws(1) plain by (cases "mr_Open R ?act") auto
  moreover have "strings_join ?xs [slash] \<in> set (walked_files R ?act)" using laws(5) plain stored by blast
  then obtain entry err where "(strings_join ?xs [slash], Some entry, err) \<in> set (mr_WalkDir R ?act)" "\<not> de_IsDir entry"
    by (auto simp: walked_files_def split: option.splits if_splits)
  moreover from this have "has_suffix (de_Name entry) ''.yaml''"
    using laws(3) path_base_join [of ?xs] plain base_name_yaml [of ?sha "''metadata''" a] by (fastforce simp: plain_path_def base)
  ultimately show ?thesis using unreadable_directory laws(2) bad a(2) by blast
qed

theorem body_named_object_breaks_directory_witness:
  "\<forall>t. readMutationFS (demo_reader [demo_create ''body-x'' ''one'' []]) \<noteq> Value (Inr t)"
proof
  fix t
  have st: "storable (mw_sha256 disk_writer) [demo_create ''body-x'' ''one'' []]"
    by (simp add: storable_def demo_create_plain slash_def)
  show "readMutationFS (demo_reader [demo_create ''body-x'' ''one'' []]) \<noteq> Value (Inr t)"
    by (rule body_named_object_breaks_directory [where r = "''x''" and a = "demo_create ''body-x'' ''one'' []",
          OF st empty_below_empty demo_reader_reads [OF st]]) simp_all
qed

end
