(* ===== verification/Run_Roundtrip.thy ===== *)
theory Run_Roundtrip
  imports Mutation_Roundtrip Apply_Properties Directory_Result
begin

text \<open>
  From an apply-configuration run to the result read back from its output directory: the writes of the
  run, replayed on a file system, and the reader of each cluster type. What an operator produced
  and declared is what the reader of the directory lists.
\<close>

section \<open>Directories inside directories\<close>

text \<open>A stack of components as \<open>Clean\<close> keeps it: dot-dots, when not rooted, below plain components.\<close>

definition clean_stack :: "bool \<Rightarrow> string list \<Rightarrow> bool" where
  "clean_stack rooted st \<longleftrightarrow> (\<exists>xs n. st = xs @ replicate n ''..'' \<and> (\<forall>x \<in> set xs. plain_component x) \<and> (rooted \<longrightarrow> n = 0))"

lemma clean_step_stack:
  assumes "clean_stack r st" and "slash \<notin> set e"
  shows "clean_stack r (clean_step r st e)"
proof -
  obtain xs n where st: "st = xs @ replicate n ''..''" "\<forall>x \<in> set xs. plain_component x" "r \<longrightarrow> n = 0"
    using assms(1) by (auto simp: clean_stack_def)
  consider "e = [] \<or> e = ''.''" | "e = ''..''" | "plain_component e"
    using assms(2) by (auto simp: plain_component_def)
  then show ?thesis
  proof cases
    case 1
    with assms(1) show ?thesis by (auto simp: clean_step_def)
  next
    case 2
    show ?thesis
    proof (cases xs)
      case Nil
      have "clean_step r st e = (if r then [] else replicate (Suc n) ''..'')"
        using 2 st Nil by (cases n) (auto simp: clean_step_def)
      then show ?thesis
        unfolding clean_stack_def by (intro exI [of _ "[]"] exI [of _ "if r then 0 else Suc n"]) simp
    next
      case (Cons y ys)
      then have "clean_step r st e = ys @ replicate n ''..''"
        using 2 st by (auto simp: clean_step_def plain_component_def)
      with st Cons show ?thesis unfolding clean_stack_def by (intro exI [of _ ys] exI [of _ n]) simp
    qed
  next
    case 3
    then have "clean_step r st e = (e # xs) @ replicate n ''..''"
      by (auto simp: clean_step_def plain_component_def st(1))
    with st 3 show ?thesis unfolding clean_stack_def by (intro exI [of _ "e # xs"] exI [of _ n]) simp
  qed
qed

lemma foldl_clean_stack:
  "clean_stack r st \<Longrightarrow> \<forall>e \<in> set es. slash \<notin> set e \<Longrightarrow> clean_stack r (foldl (clean_step r) st es)"
  by (induction es arbitrary: st) (simp_all add: clean_step_stack)

lemma foldl_clean_dots: "foldl (clean_step False) (replicate m ''..'') (replicate n ''..'') = replicate (m + n) ''..''"
proof (induction n arbitrary: m)
  case (Suc n)
  have "clean_step False (replicate m ''..'') ''..'' = replicate (Suc m) ''..''"
    by (cases m) (simp_all add: clean_step_def)
  then show ?case using Suc [of "Suc m"] by simp
qed simp

text \<open>Cleaning the components of a clean stack again changes nothing.\<close>

lemma foldl_clean_rev:
  assumes "clean_stack r st"
  shows "foldl (clean_step r) [] (rev st) = st"
proof -
  obtain xs n where st: "st = xs @ replicate n ''..''" "\<forall>x \<in> set xs. plain_component x" "r \<longrightarrow> n = 0"
    using assms by (auto simp: clean_stack_def)
  have "foldl (clean_step r) [] (replicate n ''..'') = replicate n ''..''"
    using st(3) foldl_clean_dots [of 0 n] by (cases r) auto
  then show ?thesis using st(1,2) foldl_clean_plain [of "rev xs" r "replicate n ''..''"] by simp
qed

lemma clean_stack_elem: "clean_stack r st \<Longrightarrow> x \<in> set st \<Longrightarrow> x \<noteq> [] \<and> slash \<notin> set x"
proof -
  assume st: "clean_stack r st" and x: "x \<in> set st"
  then have "plain_component x \<or> x = ''..''" unfolding clean_stack_def by (metis Un_iff in_set_replicate set_append)
  then show ?thesis by (elim disjE) (simp_all add: plain_component_def slash_def)
qed

lemma join_components:
  assumes "xs \<noteq> []" and "\<forall>x \<in> set xs. x \<noteq> [] \<and> slash \<notin> set x"
  shows "strings_join xs [slash] \<noteq> []" "hd (strings_join xs [slash]) \<noteq> slash" "split_slash (strings_join xs [slash]) = xs"
proof -
  obtain c cs ys where xs: "xs = (c # cs) # ys" "c \<noteq> slash" using assms by (cases xs; cases "hd xs") auto
  then show "strings_join xs [slash] \<noteq> []" "hd (strings_join xs [slash]) \<noteq> slash" by (simp_all add: strings_join_Cons)
  show "split_slash (strings_join xs [slash]) = xs" using assms by (intro split_slash_join) auto
qed

lemma path_join_nested:
  assumes c: "plain_component c" and xs: "xs \<noteq> []" "\<forall>x \<in> set xs. plain_component x"
  shows "path_join [path_join [dir, c], strings_join xs [slash]] = path_join [dir, strings_join (c # xs) [slash]]"
proof (cases "dir = []")
  case True
  have "path_join [dir, c] = c"
    using True path_join_plain [of "[c]"] c by (simp add: path_join_def plain_component_def)
  moreover have "path_join [c, strings_join xs [slash]] = strings_join (c # xs) [slash]"
    using path_join_joins [of "[[c], xs]"] c xs by simp
  moreover have "path_join [dir, strings_join (c # xs) [slash]] = strings_join (c # xs) [slash]"
    using True path_clean_plain [of "c # xs"] join_ends_plain [of "c # xs"] c xs by (simp add: path_join_def)
  ultimately show ?thesis by simp
next
  case False
  define r where "r = (hd dir = slash)"
  define st where "st = foldl (clean_step r) [] (split_slash dir)"
  let ?pre = "if r then [slash] else []" and ?comps = "rev st @ [c]"
  have stack: "clean_stack r st"
    unfolding st_def using split_slash_no_slash by (intro foldl_clean_stack) (auto simp: clean_stack_def)
  have P: "path_join [dir, c] = ?pre @ strings_join ?comps [slash]"
    using path_join_below [OF False, of "[c]"] c by (simp add: r_def st_def)
  have comps: "\<forall>x \<in> set ?comps. x \<noteq> [] \<and> slash \<notin> set x"
    using clean_stack_elem [OF stack] c by (auto simp: plain_component_def)
  note joined = join_components [OF _ comps, simplified]
  have "foldl (clean_step r) [] ?comps = c # st"
    using foldl_clean_rev [OF stack] c by (auto simp: clean_step_def plain_component_def)
  moreover have "clean_step b [] [] = []" for b by (simp add: clean_step_def)
  ultimately have P': "path_join [dir, c] \<noteq> []" "hd (path_join [dir, c]) = slash \<longleftrightarrow> r"
    "foldl (clean_step r) [] (split_slash (path_join [dir, c])) = c # st"
    using joined by (cases r; simp add: P)+
  show ?thesis
    using path_join_below [OF P'(1) xs] path_join_below [OF False, of "c # xs"] c xs
    by (simp add: P'(2,3) r_def [symmetric] st_def [symmetric])
qed

section \<open>Replaying the writes of a run\<close>

fun replay_event :: "'fs mutation_writer \<Rightarrow> write_event \<Rightarrow> 'fs \<Rightarrow> go_error option \<times> 'fs" where
  "replay_event W (WriteMutationDirectory d qs) fs = WriteMutationDirectory_files W d qs fs"
| "replay_event W (WriteFile p b) fs = mw_WriteFile W p b fs"

text \<open>All events in turn; \<open>None\<close> when one of them reports an error.\<close>

fun replay :: "'fs mutation_writer \<Rightarrow> write_event list \<Rightarrow> 'fs \<Rightarrow> 'fs option" where
  "replay W [] fs = Some fs"
| "replay W (ev # evs) fs = (case replay_event W ev fs of (None, fs') \<Rightarrow> replay W evs fs' | (Some e, fs') \<Rightarrow> None)"

lemma replay_append: "replay W (evs @ evs') fs = Option.bind (replay W evs fs) (replay W evs')"
  by (induction evs arbitrary: fs) (auto split: prod.split option.split)

text \<open>Events that touch nothing below the directory of a cluster type.\<close>

fun foreign :: "string \<Rightarrow> string \<Rightarrow> write_event \<Rightarrow> bool" where
  "foreign dir c (WriteMutationDirectory d qs) \<longleftrightarrow>
     (\<exists>c'. plain_component c' \<and> c' \<noteq> c \<and> d = path_join [dir, c']) \<and> (\<forall>q \<in> set qs. recorded q)"
| "foreign dir c (WriteFile p b) \<longleftrightarrow> (\<exists>f. plain_component f \<and> p = path_join [dir, f])"

lemma entry_path_nested:
  assumes "plain_component c" and "act \<in> set AllActions" and "plain_path xs"
  shows "entry_path (path_join [dir, c]) act xs = path_join [dir, strings_join (c # action_string act # xs) [slash]]"
  unfolding entry_path_def
  using assms action_dir_all [OF assms(2)] by (intro path_join_nested) (auto simp: plain_path_def)

lemma entry_path_neq_file:
  assumes "plain_component c" and "act \<in> set AllActions" and "plain_path xs" and "plain_component f"
  shows "entry_path (path_join [dir, c]) act xs \<noteq> path_join [dir, f]"
proof
  assume "entry_path (path_join [dir, c]) act xs = path_join [dir, f]"
  then have "path_join [dir, strings_join (c # action_string act # xs) [slash]] = path_join [dir, strings_join [f] [slash]]"
    by (simp only: entry_path_nested [OF assms(1-3)] strings_join.simps)
  then have "c # action_string act # xs = [f]"
    using assms action_dir_all [OF assms(2)] by (intro path_join_below_inj) (auto simp: plain_path_def)
  then show False by simp
qed

lemma entry_path_neq_request:
  assumes "plain_component c" and "act \<in> set AllActions" and "plain_path xs"
    and "plain_component c'" and "c' \<noteq> c" and "plain_request a" and "k \<in> set file_kinds"
  shows "entry_path (path_join [dir, c]) act xs \<noteq> request_file sha256 (path_join [dir, c']) k a"
proof
  have "slash \<notin> set k" using assms(7) by (auto simp: file_kinds_def slash_def)
  then have plain: "\<forall>x \<in> set (file_comps sha256 k a). plain_component x" using plain_file_comps [OF assms(6)] by blast
  assume "entry_path (path_join [dir, c]) act xs = request_file sha256 (path_join [dir, c']) k a"
  then have "path_join [dir, strings_join (c # action_string act # xs) [slash]] =
      path_join [dir, strings_join (c' # file_comps sha256 k a) [slash]]"
    using path_join_nested [OF assms(4) _ plain]
    by (simp add: entry_path_nested [OF assms(1-3)] request_file_def file_comps_def)
  then have "c # action_string act # xs = c' # file_comps sha256 k a"
    using assms plain action_dir_all [OF assms(2)] by (intro path_join_below_inj) (auto simp: plain_path_def)
  with assms(5) show False by simp
qed

lemma replay_foreign_event:
  assumes "store_laws W content" and "plain_component c" and "foreign dir c ev" and "replay_event W ev fs = (None, fs')"
    and "act \<in> set AllActions" and "plain_path xs"
  shows "content fs' (entry_path (path_join [dir, c]) act xs) = content fs (entry_path (path_join [dir, c]) act xs)"
proof (cases ev)
  case (WriteMutationDirectory d qs)
  then obtain c' where c': "plain_component c'" "c' \<noteq> c" "d = path_join [dir, c']" "\<forall>q \<in> set qs. recorded q"
    using assms(3) by auto
  have "write_requests W d qs fs = ([], fs')"
    using assms(4) WriteMutationDirectory by (auto simp: WriteMutationDirectory_files_def split: prod.splits)
  from write_requests_stores [OF assms(1) c'(4) this]
  have "content fs' = fold (store_request W d) (map GetSerializedRequest qs) (content fs)" by simp
  moreover have "\<forall>a \<in> set (map GetSerializedRequest qs). \<forall>k \<in> set file_kinds.
      entry_path (path_join [dir, c]) act xs \<noteq> request_file (mw_sha256 W) d k a"
    using entry_path_neq_request [OF assms(2,5,6) c'(1,2)] c'(3,4) SuggestedFilenames_recorded by auto
  ultimately show ?thesis by (simp add: fold_store_other)
next
  case (WriteFile p b)
  then have "content fs' = (content fs)(p \<mapsto> b)"
    using assms(1,4) unfolding store_laws_def by (metis fst_conv replay_event.simps(2) snd_conv)
  with WriteFile show ?thesis using assms(3) entry_path_neq_file [OF assms(2,5,6)] by auto
qed

lemma replay_foreign:
  assumes "store_laws W content" and "plain_component c" and "act \<in> set AllActions" and "plain_path xs"
  shows "\<forall>ev \<in> set evs. foreign dir c ev \<Longrightarrow> replay W evs fs = Some fs' \<Longrightarrow>
    content fs' (entry_path (path_join [dir, c]) act xs) = content fs (entry_path (path_join [dir, c]) act xs)"
proof (induction evs arbitrary: fs)
  case (Cons ev evs)
  then obtain fs1 where "replay_event W ev fs = (None, fs1)" "replay W evs fs1 = Some fs'"
    by (auto split: prod.splits option.splits)
  with Cons show ?case using replay_foreign_event [OF assms(1,2) _ _ assms(3,4), of dir ev fs fs1] by simp
qed simp

lemma store_request_point: "m p = m' p \<Longrightarrow> store_request W d a m p = store_request W d a m' p"
  unfolding store_request_def Let_def by (simp only: fun_upd_apply split: if_split) blast

lemma fold_store_point: "m p = m' p \<Longrightarrow> fold (store_request W d) rs m p = fold (store_request W d) rs m' p"
proof (induction rs arbitrary: m m')
  case (Cons a rs)
  show ?case by (simp only: fold.simps comp_apply)
      (rule Cons.IH [of "store_request W d a m" "store_request W d a m'"], rule store_request_point, rule Cons.prems)
qed simp

text \<open>Among events foreign to it, one write of a cluster directory decides what is below it.\<close>

lemma replay_cluster_dir:
  assumes "store_laws W content" and "plain_component c" and "act \<in> set AllActions" and "plain_path xs"
    and "\<forall>ev \<in> set (evs @ evs'). foreign dir c ev" and "\<forall>q \<in> set qs. recorded q"
    and "replay W (evs @ WriteMutationDirectory (path_join [dir, c]) qs # evs') fs = Some fs'"
    and "empty_below (path_join [dir, c]) (content fs)"
  shows "content fs' (entry_path (path_join [dir, c]) act xs) =
    fold (store_request W (path_join [dir, c])) (map GetSerializedRequest qs) (\<lambda>p. None) (entry_path (path_join [dir, c]) act xs) \<and>
    (\<forall>q \<in> set qs. \<exists>b. mw_Marshal W (GetLookupMetadata (GetSerializedRequest q)) = Inr b)"
proof -
  let ?p = "entry_path (path_join [dir, c]) act xs" and ?store = "fold (store_request W (path_join [dir, c])) (map GetSerializedRequest qs)"
  obtain fs1 where fs1: "replay W evs fs = Some fs1"
    and rest: "replay W (WriteMutationDirectory (path_join [dir, c]) qs # evs') fs1 = Some fs'"
    using assms(7) by (auto simp: replay_append bind_eq_Some_conv simp del: replay.simps)
  then obtain fs2 where fs2: "WriteMutationDirectory_files W (path_join [dir, c]) qs fs1 = (None, fs2)" "replay W evs' fs2 = Some fs'"
    by (auto split: prod.split_asm option.split_asm)
  have "write_requests W (path_join [dir, c]) qs fs1 = ([], fs2)"
    using fs2(1) by (auto simp: WriteMutationDirectory_files_def split: prod.splits)
  from write_requests_stores [OF assms(1,6) this] have wrote: "content fs2 = ?store (content fs1)"
    and marshal: "\<forall>q \<in> set qs. \<exists>b. mw_Marshal W (GetLookupMetadata (GetSerializedRequest q)) = Inr b" by simp_all
  have before: "content fs1 ?p = None"
    using replay_foreign [OF assms(1-4) _ fs1] assms(3-5,8) by (simp add: empty_below_def)
  have "content fs' ?p = content fs2 ?p"
    by (rule replay_foreign [OF assms(1-4) _ fs2(2)]) (use assms(5) in simp)
  also have "\<dots> = ?store (content fs1) ?p" by (simp only: wrote)
  also have "\<dots> = ?store (\<lambda>p. None) ?p" by (rule fold_store_point) (rule before)
  finally show ?thesis using marshal by blast
qed

section \<open>The round trip of a run\<close>

lemma reads_store_cong:
  assumes "\<forall>act \<in> set AllActions. \<forall>xs. plain_path xs \<longrightarrow> c1 (entry_path dir act xs) = c2 (entry_path dir act xs)"
    and "reads_store R c1 dir"
  shows "reads_store R c2 dir"
  unfolding reads_store_def
proof (intro ballI, intro conjI)
  fix act
  assume act: "act \<in> set AllActions"
  note laws = reads_storeD [OF assms(2) act]
  have eq: "c2 (entry_path dir act xs) = c1 (entry_path dir act xs)" if "plain_path xs" for xs
    using assms(1) act that by simp
  show "case mr_Open R act of None \<Rightarrow> True
      | Some e \<Rightarrow> err_is NotExist e \<and> (\<forall>xs. plain_path xs \<longrightarrow> c2 (entry_path dir act xs) = None)"
    using laws(1) eq by (cases "mr_Open R act") auto
  show "mr_Sub R act = None" "distinct (walked_files R act)" by (rule laws)+
  show "\<forall>(loc, d, err) \<in> set (mr_WalkDir R act). err = None \<and> (\<exists>entry. d = Some entry \<and> de_Name entry = path_base loc)"
    using laws(3) by auto
  show "set (walked_files R act) = {strings_join xs [slash] | xs. plain_path xs \<and> c2 (entry_path dir act xs) \<noteq> None}"
    unfolding laws(5) using eq by metis
  show "\<forall>xs. plain_path xs \<longrightarrow> (case c2 (entry_path dir act xs) of
      Some b \<Rightarrow> mr_ReadFile R act (strings_join xs [slash]) = Inr b
    | None \<Rightarrow> \<exists>e. mr_ReadFile R act (strings_join xs [slash]) = Inl e \<and> err_is NotExist e)"
    using laws(6) eq by simp
qed

text \<open>The requests a run keeps for a cluster type, in the order of the tracker.\<close>

definition kept_requests :: "output_resources \<Rightarrow> apply_configuration \<Rightarrow> cluster_type \<Rightarrow> serialized_request list" where
  "kept_requests allowed ac ct = map GetSerializedRequest (filter (declared_for allowed ct) (requests_for ac ct))"

lemma run_kept_mset:
  assumes "config_full ac" and "env_orders_ok env" and "ct \<in> set AllClusterTypes"
  shows "mset (map GetSerializedRequest (run_kept env allowed ac ct)) = mset (kept_requests allowed ac ct)"
proof -
  have "mset (cluster_requests (env_ord_write env) ac ct) = mset (requests_for ac ct)"
    using cluster_requests_mset [OF config_full_ok [OF assms(1)] assms(3)] assms(2)
    by (simp add: env_orders_ok_def order_ok_def)
  then show ?thesis
    by (simp add: run_kept_def kept_requests_def FilterSerializedRequests_eq_filter declared_for_def [abs_def])
qed

lemma transferable_perm:
  assumes "mset srs = mset srs'"
  shows "transferable W R srs \<longleftrightarrow> transferable W R srs'"
proof -
  have "mset (map (request_slot (mw_sha256 W)) srs) = mset (map (request_slot (mw_sha256 W)) srs')" using assms by simp
  then have "distinct (map (request_slot (mw_sha256 W)) srs) \<longleftrightarrow> distinct (map (request_slot (mw_sha256 W)) srs')"
    by (rule mset_eq_imp_distinct_iff)
  with mset_eq_setD [OF assms] show ?thesis by (simp add: transferable_def)
qed

lemma requests_of_action_mset:
  "mset srs = mset srs' \<Longrightarrow> mset (map f (requests_of_action act srs)) = mset (map f (requests_of_action act srs'))"
  by (simp add: requests_of_action_def)

text \<open>One cluster type: its directory, written among events foreign to it, reads back.\<close>

lemma cluster_dir_reads_back:
  assumes "store_laws W content" and "plain_component c"
    and "\<forall>ev \<in> set (evs @ evs'). foreign dir c ev" and "\<forall>q \<in> set qs. recorded q"
    and "replay W (evs @ WriteMutationDirectory (path_join [dir, c]) qs # evs') fs = Some fs'"
    and "empty_below (path_join [dir, c]) (content fs)" and "reads_store R (content fs') (path_join [dir, c])"
    and "transferable W R srs" and "mset (map GetSerializedRequest qs) = mset srs"
    and "\<forall>q \<in> set qs. \<forall>b. mw_Marshal W (requestish_metadata q) = Inr b \<longrightarrow>
      mr_UnmarshalMetadata R b = Inr (requestish_metadata q)"
  shows "\<exists>t. readMutationFS R = Value (Inr t) \<and> tracker_inv t \<and> (\<forall>act.
    mset (map GetSerializedRequest (requests_of t act)) = mset (map (read_back R) (requests_of_action act srs)))"
proof -
  let ?dir = "path_join [dir, c]" and ?srs = "map GetSerializedRequest qs"
  let ?m = "fold (store_request W ?dir) ?srs (\<lambda>p. None)"
  have point: "content fs' (entry_path ?dir act xs) = ?m (entry_path ?dir act xs)"
    if "act \<in> set AllActions" "plain_path xs" for act xs
    using replay_cluster_dir [OF assms(1,2) that assms(3-6)] by blast
  then have reads: "reads_store R ?m ?dir"
    by (intro reads_store_cong [OF _ assms(7)]) simp
  have "plain_path [''x'']" by (simp add: plain_path_def plain_component_def slash_def)
  with replay_cluster_dir [OF assms(1,2) ActionCreate_all _ assms(3-6)]
  have "\<forall>q \<in> set qs. \<exists>b. mw_Marshal W (GetLookupMetadata (GetSerializedRequest q)) = Inr b" by blast
  then have parse: "\<forall>a \<in> set ?srs. mr_UnmarshalMetadata R (projr (mw_Marshal W (GetLookupMetadata a))) = Inr (sr_ActionMetadata a)"
    using assms(10) by (fastforce simp: GetLookupMetadata_def requestish_metadata_def)
  have "\<forall>a \<in> set ?srs. plain_request a" using assms(4) SuggestedFilenames_recorded by auto
  moreover have "transferable W R ?srs" using assms(8) by (simp add: transferable_perm [OF assms(9)])
  ultimately have "written_directory W R ?dir ?m ?srs"
    using parse by (intro written_directory_stored [OF reads]) simp_all
  from read_written [OF this] show ?thesis
    using requests_of_action_mset [OF assms(9)] by metis
qed

text \<open>The writes of a clean run, seen from one cluster type: its directory among events foreign to it.\<close>

definition run_events :: "run_env \<Rightarrow> string \<Rightarrow> output_resources \<Rightarrow> apply_configuration \<Rightarrow> string \<Rightarrow> write_event list" where
  "run_events env dir allowed ac bytes =
     map (\<lambda>ct. WriteMutationDirectory (path_join [dir, cluster_type_string ct]) (run_kept env allowed ac ct)) AllClusterTypes @
     [WriteFile (path_join [dir, ''controller-results.yaml'']) bytes]"

lemma run_events_split:
  assumes "config_ok ac" and "env_orders_ok env" and "\<forall>q \<in> set (all_produced ac). recorded q" and ct: "ct \<in> set AllClusterTypes"
  shows "\<exists>evs evs'. run_events env dir allowed ac bytes =
      evs @ WriteMutationDirectory (path_join [dir, cluster_type_string ct]) (run_kept env allowed ac ct) # evs' \<and>
    (\<forall>ev \<in> set (evs @ evs'). foreign dir (cluster_type_string ct) ev) \<and> (\<forall>q \<in> set (run_kept env allowed ac ct). recorded q)"
proof -
  let ?wr = "\<lambda>ct. WriteMutationDirectory (path_join [dir, cluster_type_string ct]) (run_kept env allowed ac ct)"
  let ?file = "WriteFile (path_join [dir, ''controller-results.yaml'']) bytes"
  obtain xs ys where split: "AllClusterTypes = xs @ ct # ys" using split_list [OF ct] by blast
  have "distinct (xs @ ct # ys)" unfolding split [symmetric] by (simp add: AllClusterTypes_def)
  then have others: "\<forall>ct' \<in> set xs \<union> set ys. ct' \<in> set AllClusterTypes \<and> ct' \<noteq> ct" by (auto simp: split)
  have rec: "\<forall>q \<in> set (run_kept env allowed ac ct'). recorded q" if "ct' \<in> set AllClusterTypes" for ct'
    using set_run_kept [OF assms(1,2) that] that assms(3) by (auto simp: produced_def)
  have "foreign dir (cluster_type_string ct) (?wr ct')" if "ct' \<in> set xs \<union> set ys" for ct'
  proof -
    have "ct' \<in> set AllClusterTypes" "ct' \<noteq> ct" using others that by blast+
    then show ?thesis
      using rec by (auto simp: cluster_type_string_eq intro!: exI [of _ "cluster_type_string ct'"])
  qed
  moreover have "foreign dir (cluster_type_string ct) ?file"
    by (auto simp: plain_component_def slash_def intro!: exI [of _ "''controller-results.yaml''"])
  ultimately have "\<forall>ev \<in> set (map ?wr xs @ (map ?wr ys @ [?file])). foreign dir (cluster_type_string ct) ev"
    by (auto simp del: foreign.simps)
  moreover have "run_events env dir allowed ac bytes = map ?wr xs @ ?wr ct # map ?wr ys @ [?file]"
    by (simp only: run_events_def split map_append list.map append_assoc append_Cons)
  ultimately show ?thesis using rec [OF ct] by blast
qed

lemma run_writes_clean:
  assumes "config_ok ac" and "env_orders_ok env" and "\<forall>q \<in> set (all_produced ac). declared allowed q"
    and "env_Marshal env res = Inr bytes"
  shows "run_writes env dir allowed ac res = run_events env dir allowed ac bytes"
proof -
  have "run_unspecified env allowed ac = []"
    using set_run_unspecified [OF assms(1,2), of allowed] assms(3) by (metis (mono_tags, lifting) Collect_empty_eq set_empty)
  then show ?thesis by (simp add: run_writes_def run_events_def assms(4))
qed

section \<open>A run onto a disk\<close>

lemma disk_replays: "\<exists>fs'. replay disk_writer evs fs = Some fs'"
proof (induction evs arbitrary: fs)
  case (Cons ev evs)
  have "mw_WriteFile disk_writer p b fs = (None, map_set p b fs)" for p b by (simp add: disk_writer_def)
  then obtain fs1 where "replay_event disk_writer ev fs = (None, fs1)"
    using disk_accepts by (cases ev) fastforce+
  with Cons [of fs1] show ?case by auto
qed simp

definition demo_stored :: serialized_request where
  "demo_stored = demo_create ''cm'' ''one'' []"

definition demo_stored_config :: apply_configuration where
  "demo_stored_config = NewApplyConfigurationFromClient (demo_tracker [TrackedSerializedRequest 1 demo_stored])"

text \<open>The output directory as the reader of each cluster type sees it.\<close>

definition read_dir :: "(cluster_type \<Rightarrow> mutation_reader) \<Rightarrow> dir_env" where
  "read_dir R = (demo_dir [] [])\<lparr>ReadEmbeddedMutationDirectory := (\<lambda>d. case readMutationFS (R (ClusterType d)) of
     Value v \<Rightarrow> v | Panicked p \<Rightarrow> Inl (errorf ''panic''))\<rparr>"

lemma demo_stored_all:
  "AllRequests (\<lambda>ks. ks) (demo_tracker [TrackedSerializedRequest 1 demo_stored]) = [TrackedSerializedRequest 1 demo_stored]"
  "AllRequests rev (demo_tracker [TrackedSerializedRequest 1 demo_stored]) = [TrackedSerializedRequest 1 demo_stored]"
  by (simp_all add: demo_tracker_def NewAllActionsTracker_def AddRequest_def requestish_action_def demo_stored_def
      actionTracker_AddRequest_def AllRequests_def Mutations_def Let_def)

lemma demo_stored_declared:
  "declared_for demo_allowed ct (TrackedSerializedRequest 1 demo_stored) \<longleftrightarrow> ct = ClusterTypeConfiguration"
  by (auto simp: declared_for_def allowed_list_def demo_allowed_def demo_stored_def demo_metadata_of_def
      metadataMatchesFilter_Some exact_entry_matches_def requestish_metadata_def
      GetLookupMetadata_def out_ExactConfigMap_def out_ExactResource_def empty_output_list_def is_event_def
      GroupResource_def coreEventGR_def eventGR_def)

lemma demo_stored_kept:
  assumes "ct \<in> set AllClusterTypes"
  shows "map GetSerializedRequest (run_kept (demo_env outs muts err) demo_allowed demo_stored_config ct) =
      (if ct = ClusterTypeConfiguration then [demo_stored] else [])"
    and "kept_requests demo_allowed demo_stored_config ct = (if ct = ClusterTypeConfiguration then [demo_stored] else [])"
proof -
  let ?q = "TrackedSerializedRequest 1 demo_stored"
  have "cluster_requests (\<lambda>ct. rev) demo_stored_config ct = [?q]" "requests_for demo_stored_config ct = [?q]"
    using assms demo_stored_all by (simp_all add: demo_stored_config_def client_cluster_requests)
  then show "map GetSerializedRequest (run_kept (demo_env outs muts err) demo_allowed demo_stored_config ct) =
      (if ct = ClusterTypeConfiguration then [demo_stored] else [])"
    and "kept_requests demo_allowed demo_stored_config ct = (if ct = ClusterTypeConfiguration then [demo_stored] else [])"
    using demo_stored_declared [of ct]
    by (simp_all add: run_kept_def kept_requests_def FilterSerializedRequests_eq_filter demo_env_def declared_for_def)
qed

definition demo_stored_env :: run_env where
  "demo_stored_env = demo_env (Some demo_allowed) (Some demo_stored_config) None"

abbreviation demo_stored_reader :: "cluster_type \<Rightarrow> mutation_reader" where
  "demo_stored_reader ct \<equiv> demo_reader (kept_requests demo_allowed demo_stored_config ct)"

abbreviation demo_stored_events :: "string \<Rightarrow> string \<Rightarrow> write_event list" where
  "demo_stored_events dir bytes \<equiv> run_events demo_stored_env dir demo_allowed demo_stored_config bytes"

lemma demo_stored_run:
  "dir_made demo_stored_env dir" "config_full demo_stored_config" "env_orders_ok demo_stored_env"
  "env_outputResourcesFn demo_stored_env = (Some demo_allowed, None)"
  "env_applyConfigurationFn demo_stored_env = (None, Some demo_stored_config, None)"
  "\<forall>q \<in> set (all_produced demo_stored_config). recorded q"
  "applyConfiguration_Run demo_stored_env dir = Value (None, demo_stored_events dir ''null'')"
proof -
  have all: "set (all_produced demo_stored_config) = {TrackedSerializedRequest 1 demo_stored}"
    by (auto simp: produced_def set_AllClusterTypes demo_stored_config_def client_cluster_requests demo_stored_all)
  show made: "dir_made demo_stored_env dir" and full: "config_full demo_stored_config" and ords: "env_orders_ok demo_stored_env"
    and fns: "env_outputResourcesFn demo_stored_env = (Some demo_allowed, None)"
      "env_applyConfigurationFn demo_stored_env = (None, Some demo_stored_config, None)"
    by (simp_all add: demo_stored_config_def demo_stored_env_def client_config_full)
  show "\<forall>q \<in> set (all_produced demo_stored_config). recorded q"
    by (simp add: all demo_stored_def demo_create_plain slash_def)
  have decl: "\<forall>q \<in> set (all_produced demo_stored_config). declared demo_allowed q"
    using demo_stored_declared by (auto simp: all declared_def set_AllClusterTypes)
  have writes: "run_writes demo_stored_env dir demo_allowed demo_stored_config None = demo_stored_events dir ''null''"
    by (rule run_writes_clean [OF config_full_ok [OF full] ords decl]) (simp add: demo_stored_env_def)
  show "applyConfiguration_Run demo_stored_env dir = Value (None, demo_stored_events dir ''null'')"
    using Run_eq [OF made full ords fns] decl by (simp add: writes) (simp add: demo_stored_env_def)
qed

lemma demo_stored_laws:
  assumes "ct \<in> set AllClusterTypes"
  shows "storable (mw_sha256 disk_writer) (kept_requests demo_allowed demo_stored_config ct)"
    and "transferable disk_writer (demo_stored_reader ct) (kept_requests demo_allowed demo_stored_config ct)"
    and "\<forall>q \<in> set (all_produced demo_stored_config). \<forall>b. mw_Marshal disk_writer (requestish_metadata q) = Inr b \<longrightarrow>
      mr_UnmarshalMetadata (demo_stored_reader ct) b = Inr (requestish_metadata q)"
proof -
  have "set (all_produced demo_stored_config) = {TrackedSerializedRequest 1 demo_stored}"
    by (auto simp: produced_def set_AllClusterTypes demo_stored_config_def client_cluster_requests demo_stored_all)
  then show "\<forall>q \<in> set (all_produced demo_stored_config). \<forall>b. mw_Marshal disk_writer (requestish_metadata q) = Inr b \<longrightarrow>
      mr_UnmarshalMetadata (demo_stored_reader ct) b = Inr (requestish_metadata q)"
    using demo_unmarshal_marshal [of "''cm''" "''one''"]
    by (simp add: demo_stored_def requestish_metadata_def GetLookupMetadata_def slash_def)
  show "storable (mw_sha256 disk_writer) (kept_requests demo_allowed demo_stored_config ct)"
    using assms by (simp add: demo_stored_kept storable_def) (simp add: demo_stored_def demo_create_plain slash_def)
  show "transferable disk_writer (demo_stored_reader ct) (kept_requests demo_allowed demo_stored_config ct)"
    using assms by (simp add: demo_stored_kept transferable_def) (simp add: demo_stored_def readable_name_def)
qed

lemma demo_stored_dir:
  assumes replay: "replay disk_writer (demo_stored_events dir bytes) [] = Some fs'" and ct: "ct \<in> set AllClusterTypes"
  shows "reads_store (demo_stored_reader ct) (map_of fs') (path_join [dir, cluster_type_string ct])"
    and "\<exists>t. readMutationFS (demo_stored_reader ct) = Value (Inr t)"
proof -
  let ?qs = "run_kept demo_stored_env demo_allowed demo_stored_config ct" and ?dir = "path_join [dir, cluster_type_string ct]"
  note ok = config_full_ok [OF demo_stored_run(2)] demo_stored_run(3)
  have kept: "map GetSerializedRequest ?qs = kept_requests demo_allowed demo_stored_config ct"
    using ct by (simp add: demo_stored_kept demo_stored_env_def)
  obtain xs ys where split: "demo_stored_events dir bytes = xs @ WriteMutationDirectory ?dir ?qs # ys"
    and rest: "\<forall>ev \<in> set (xs @ ys). foreign dir (cluster_type_string ct) ev" "\<forall>q \<in> set ?qs. recorded q"
    using run_events_split [OF ok demo_stored_run(6) ct] by blast
  note point = replay_cluster_dir [OF disk_laws plain_cluster_dir(1) [OF ct] _ _ rest replay [unfolded split]]
  show reads: "reads_store (demo_stored_reader ct) (map_of fs') ?dir"
    using reads_store_cong [OF _ demo_reader_reads [OF demo_stored_laws(1) [OF ct]]] point by (simp add: kept)
  have "\<exists>t. readMutationFS (demo_stored_reader ct) = Value (Inr t) \<and> tracker_inv t \<and> (\<forall>act.
    mset (map GetSerializedRequest (requests_of t act)) =
    mset (map (read_back (demo_stored_reader ct)) (requests_of_action act (kept_requests demo_allowed demo_stored_config ct))))"
  proof (rule cluster_dir_reads_back [OF disk_laws plain_cluster_dir(1) [OF ct] rest replay [unfolded split] _ reads demo_stored_laws(2) [OF ct]])
    show "mset (map GetSerializedRequest ?qs) = mset (kept_requests demo_allowed demo_stored_config ct)" by (simp only: kept)
    show "\<forall>q \<in> set ?qs. \<forall>b. mw_Marshal disk_writer (requestish_metadata q) = Inr b \<longrightarrow>
        mr_UnmarshalMetadata (demo_stored_reader ct) b = Inr (requestish_metadata q)"
      using set_run_kept [OF ok ct] ct demo_stored_laws(3) [OF ct] by (auto simp: produced_def)
  qed simp
  then show "\<exists>t. readMutationFS (demo_stored_reader ct) = Value (Inr t)" by blast
qed

lemma read_dir_reads:
  assumes "readMutationFS (R ct) = Value (Inr t)"
  shows "fs_Sub (read_dir R) (cluster_type_string ct) = None \<and>
    readMutationFS (R ct) = Value (ReadEmbeddedMutationDirectory (read_dir R) (cluster_type_string ct))"
  using assms by (simp add: read_dir_def demo_dir_def cluster_type.collapse)

text \<open>
  What the reader of a directory \<open>d\<close> sees of a file system: the directory of each cluster type, with
  what is stored there.
\<close>

definition reads_disk ::
    "('fs \<Rightarrow> string \<Rightarrow> string option) \<Rightarrow> 'fs \<Rightarrow> (cluster_type \<Rightarrow> mutation_reader) \<Rightarrow> dir_env \<Rightarrow> string \<Rightarrow> bool" where
  "reads_disk content fs R d dir \<longleftrightarrow> range_order (ord_cluster_types d) \<and> (\<forall>ct \<in> set AllClusterTypes.
     reads_store (R ct) (content fs) (path_join [dir, cluster_type_string ct]) \<and>
     fs_Sub d (cluster_type_string ct) = None \<and>
     readMutationFS (R ct) = Value (ReadEmbeddedMutationDirectory d (cluster_type_string ct)))"

text \<open>
  The requests of a run that files carry over: they were recorded by a client, those kept for a cluster
  type have files of their own and a name, and the reader's decoder undoes the writer's encoder.
\<close>

definition carries_over ::
    "'fs mutation_writer \<Rightarrow> (cluster_type \<Rightarrow> mutation_reader) \<Rightarrow> output_resources \<Rightarrow> apply_configuration \<Rightarrow> bool" where
  "carries_over W R allowed ac \<longleftrightarrow> (\<forall>q \<in> set (all_produced ac). recorded q) \<and> (\<forall>ct \<in> set AllClusterTypes.
     transferable W (R ct) (kept_requests allowed ac ct) \<and>
     (\<forall>q \<in> set (all_produced ac). \<forall>b. mw_Marshal W (requestish_metadata q) = Inr b \<longrightarrow>
       mr_UnmarshalMetadata (R ct) b = Inr (requestish_metadata q)))"

definition fresh_output :: "(string \<Rightarrow> string option) \<Rightarrow> string \<Rightarrow> bool" where
  "fresh_output m dir \<longleftrightarrow> (\<forall>ct \<in> set AllClusterTypes. empty_below (path_join [dir, cluster_type_string ct]) m)"

text \<open>The result read from the directory holds what the run kept of the configuration.\<close>

definition read_result ::
    "(cluster_type \<Rightarrow> mutation_reader) \<Rightarrow> output_resources \<Rightarrow> apply_configuration \<Rightarrow> string \<Rightarrow> apply_configuration \<Rightarrow> bool" where
  "read_result R allowed ac dir ac' \<longleftrightarrow> (\<forall>ct \<in> set AllClusterTypes. \<exists>t.
     desiredMutationsByClusterType ac' ct = Some (DirectoryBasedClusterApplyResult ct dir t) \<and> tracker_inv t \<and>
     (\<forall>act. mset (map GetSerializedRequest (requests_of t act)) =
       mset (map (read_back (R ct)) (requests_of_action act (kept_requests allowed ac ct)))))"

text \<open>The directory of one cluster type after a run.\<close>

lemma run_cluster_dir_reads_back:
  assumes "config_full ac" and "env_orders_ok env" and "store_laws W content"
    and "replay W (run_events env dir allowed ac bytes) fs = Some fs'"
    and "fresh_output (content fs) dir" and "carries_over W R allowed ac" and "reads_disk content fs' R d dir"
    and ct: "ct \<in> set AllClusterTypes"
  shows "\<exists>t. readMutationFS (R ct) = Value (Inr t) \<and> tracker_inv t \<and> (\<forall>act.
    mset (map GetSerializedRequest (requests_of t act)) =
    mset (map (read_back (R ct)) (requests_of_action act (kept_requests allowed ac ct))))"
proof -
  note ok = config_full_ok [OF assms(1)]
  have recorded: "\<forall>q \<in> set (all_produced ac). recorded q" using assms(6) by (simp add: carries_over_def)
  have kept: "set (run_kept env allowed ac ct) \<subseteq> set (all_produced ac)"
    using set_run_kept [OF ok assms(2) ct] ct by (auto simp: produced_def)
  obtain xs ys where split: "run_events env dir allowed ac bytes =
      xs @ WriteMutationDirectory (path_join [dir, cluster_type_string ct]) (run_kept env allowed ac ct) # ys"
    and rest: "\<forall>ev \<in> set (xs @ ys). foreign dir (cluster_type_string ct) ev" "\<forall>q \<in> set (run_kept env allowed ac ct). recorded q"
    using run_events_split [OF ok assms(2) recorded ct] by metis
  show ?thesis
  proof (rule cluster_dir_reads_back [OF assms(3) plain_cluster_dir(1) [OF ct] rest assms(4) [unfolded split]])
    show "mset (map GetSerializedRequest (run_kept env allowed ac ct)) = mset (kept_requests allowed ac ct)"
      by (rule run_kept_mset [OF assms(1,2) ct])
    show "\<forall>q \<in> set (run_kept env allowed ac ct). \<forall>b. mw_Marshal W (requestish_metadata q) = Inr b \<longrightarrow>
        mr_UnmarshalMetadata (R ct) b = Inr (requestish_metadata q)"
      using assms(6) ct kept unfolding carries_over_def by blast
  qed (use ct assms(5-7) in \<open>simp_all add: fresh_output_def carries_over_def reads_disk_def\<close>)
qed

text \<open>A run's output directory as a whole.\<close>

lemma run_reads_back:
  assumes "dir_made env dir" and "config_full ac" and "env_orders_ok env"
    and "env_outputResourcesFn env = (Some allowed, err1)" and "env_applyConfigurationFn env = (res, Some ac, err2)"
    and "applyConfiguration_Run env dir = Value (None, evs)"
    and "store_laws W content" and "replay W evs fs = Some fs'" and "fresh_output (content fs) dir"
    and "carries_over W R allowed ac" and "reads_disk content fs' R d dir"
  shows "\<exists>ac'. newApplyConfigurationFromDirectory d dir = (Some ac', None) \<and> read_result R allowed ac dir ac'"
proof -
  obtain bytes where declared: "\<forall>q \<in> set (all_produced ac). declared allowed q" and bytes: "env_Marshal env res = Inr bytes"
    and evs: "evs = run_writes env dir allowed ac res"
    using Run_eq [OF assms(1-5)] assms(6) by auto
  then have "evs = run_events env dir allowed ac bytes"
    using run_writes_clean [OF config_full_ok [OF assms(2)] assms(3)] by simp
  note read = run_cluster_dir_reads_back [OF assms(2,3,7) assms(8) [unfolded this] assms(9-11)]
  have d: "\<forall>ct \<in> set AllClusterTypes. fs_Sub d (cluster_type_string ct) = None \<and>
      readMutationFS (R ct) = Value (ReadEmbeddedMutationDirectory d (cluster_type_string ct))"
    and order: "range_order (ord_cluster_types d)"
    using assms(11) by (simp_all add: reads_disk_def)
  from read d have "\<forall>ct \<in> set AllClusterTypes. cluster_dir_readable d ct"
    by (fastforce simp: cluster_dir_readable_def)
  then obtain ac' where "newApplyConfigurationFromDirectory d dir = (Some ac', None)"
    and cts: "\<forall>ct \<in> set AllClusterTypes. \<exists>t. ReadEmbeddedMutationDirectory d (cluster_type_string ct) = Inr t \<and>
        desiredMutationsByClusterType ac' ct = Some (DirectoryBasedClusterApplyResult ct dir t)"
    using newApplyConfigurationFromDirectory_cases [OF order, of dir] by auto
  then show ?thesis
    unfolding read_result_def using read d by (intro exI [of _ ac']) (metis Inr_inject outcome.inject(1))
qed

lemma demo_stored_transfer:
  "fresh_output (map_of []) dir"
  "carries_over disk_writer demo_stored_reader demo_allowed demo_stored_config"
  "replay disk_writer (demo_stored_events dir bytes) [] = Some fs' \<Longrightarrow>
    reads_disk map_of fs' demo_stored_reader (read_dir demo_stored_reader) dir"
proof -
  show "fresh_output (map_of []) dir"
    by (simp add: fresh_output_def)
  show "carries_over disk_writer demo_stored_reader demo_allowed demo_stored_config"
    using demo_stored_laws demo_stored_run(6) by (simp add: carries_over_def)
  assume "replay disk_writer (demo_stored_events dir bytes) [] = Some fs'"
  note dir = demo_stored_dir [OF this]
  show "reads_disk map_of fs' demo_stored_reader (read_dir demo_stored_reader) dir"
    unfolding reads_disk_def
  proof (intro conjI ballI)
    show "range_order (ord_cluster_types (read_dir demo_stored_reader))" by (simp add: read_dir_def range_order_rev)
  qed (use dir read_dir_reads [of demo_stored_reader] in blast)+
qed

section \<open>Properties\<close>



end
