(* ===== verification/Launch_Adapters.thy ===== *)
theory Launch_Adapters
  imports Operator_Launch
begin

text \<open>
  The rest of \<open>libraryapplyconfiguration/operator_launch_helpers.go\<close>: the adapters that turn informer
  factories into the simplified one the starter uses, and the shuffle of the controllers. The
  factories are third-party code; what \<open>WaitForCacheSync\<close> of one returns, the caches that synced, is
  dropped by its adapter. The random numbers of \<open>rand.Shuffle\<close> are an argument: \<open>pick i\<close> is the index
  drawn for position \<open>i\<close>.
\<close>

section \<open>Informer factories\<close>

record ('w, 'synced) informer_delegate =
  dl_Start :: "'w \<Rightarrow> 'w"
  dl_WaitForCacheSync :: "'w \<Rightarrow> 'synced \<times> 'w"

definition generatedInformerFactory :: "('w, string \<Rightarrow> bool option) informer_delegate \<Rightarrow> 'w informer_factory" where
  "generatedInformerFactory delegate =
     \<lparr>inf_Start = dl_Start delegate, inf_WaitForCacheSync = (\<lambda>w. snd (dl_WaitForCacheSync delegate w))\<rparr>"

definition GeneratedInformerFactoryAdapter ::
    "('w, string \<Rightarrow> bool option) informer_delegate \<Rightarrow> 'w informer_factory" where
  "GeneratedInformerFactoryAdapter informers = generatedInformerFactory informers"

definition dynamicInformerFactory :: "('w, group_version_resource \<Rightarrow> bool option) informer_delegate \<Rightarrow> 'w informer_factory" where
  "dynamicInformerFactory delegate =
     \<lparr>inf_Start = dl_Start delegate, inf_WaitForCacheSync = (\<lambda>w. snd (dl_WaitForCacheSync delegate w))\<rparr>"

definition DynamicInformerFactoryAdapter ::
    "('w, group_version_resource \<Rightarrow> bool option) informer_delegate \<Rightarrow> 'w informer_factory" where
  "DynamicInformerFactoryAdapter informers = dynamicInformerFactory informers"

definition generatedNamespacedInformerFactory :: "('w, string \<Rightarrow> (string \<Rightarrow> bool option) option) informer_delegate \<Rightarrow> 'w informer_factory" where
  "generatedNamespacedInformerFactory delegate =
     \<lparr>inf_Start = dl_Start delegate, inf_WaitForCacheSync = (\<lambda>w. snd (dl_WaitForCacheSync delegate w))\<rparr>"

definition GeneratedNamespacedInformerFactoryAdapter ::
    "('w, string \<Rightarrow> (string \<Rightarrow> bool option) option) informer_delegate \<Rightarrow> 'w informer_factory" where
  "GeneratedNamespacedInformerFactoryAdapter informers = generatedNamespacedInformerFactory informers"

section \<open>The shuffle\<close>

text \<open>\<open>rand.Shuffle\<close> swaps every position from the last one down with one at or below it.\<close>

definition swap_at :: "nat \<Rightarrow> nat \<Rightarrow> 'a list \<Rightarrow> 'a list" where
  "swap_at i j xs = xs[i := xs ! j, j := xs ! i]"

fun shuffle_from :: "(nat \<Rightarrow> nat) \<Rightarrow> nat \<Rightarrow> 'a list \<Rightarrow> 'a list" where
  "shuffle_from pick 0 xs = xs"
| "shuffle_from pick (Suc i) xs = shuffle_from pick i (swap_at (Suc i) (pick (Suc i)) xs)"

definition shuffleNamedRunOnce :: "(nat \<Rightarrow> nat) \<Rightarrow> 'w named_run_once list \<Rightarrow> 'w named_run_once list" where
  "shuffleNamedRunOnce pick controllers = shuffle_from pick (length controllers - 1) controllers"

text \<open>The numbers drawn: \<open>pick i\<close> is one of 0 to \<open>i\<close>.\<close>

definition drawn :: "(nat \<Rightarrow> nat) \<Rightarrow> bool" where
  "drawn pick \<longleftrightarrow> (\<forall>i. pick i \<le> i)"

lemma length_swap_at [simp]: "length (swap_at i j xs) = length xs"
  by (simp add: swap_at_def)

lemma swap_at_mset: "i < length xs \<Longrightarrow> j < length xs \<Longrightarrow> mset (swap_at i j xs) = mset xs"
  unfolding swap_at_def by (rule mset_swap)

lemma shuffle_from_mset:
  "drawn pick \<Longrightarrow> i < length xs \<or> i = 0 \<Longrightarrow> mset (shuffle_from pick i xs) = mset xs"
proof (induction i arbitrary: xs)
  case (Suc i)
  have "pick (Suc i) \<le> Suc i" using Suc.prems(1) by (simp add: drawn_def)
  moreover have "Suc i < length xs" using Suc.prems(2) by simp
  ultimately show ?case using Suc.IH [OF Suc.prems(1), of "swap_at (Suc i) (pick (Suc i)) xs"] by (simp add: swap_at_mset)
qed simp

lemma shuffle_range_order: "drawn pick \<Longrightarrow> range_order (shuffleNamedRunOnce pick)"
  unfolding range_order_def shuffleNamedRunOnce_def by (intro allI shuffle_from_mset) auto

text \<open>Positions above the one shuffled from stay.\<close>

lemma shuffle_from_drop: "drawn pick \<Longrightarrow> drop (Suc i) (shuffle_from pick i xs) = drop (Suc i) xs"
proof (induction i arbitrary: xs)
  case (Suc i)
  have p: "pick (Suc i) \<le> Suc i" using Suc.prems by (simp add: drawn_def)
  have "drop (Suc (Suc i)) (shuffle_from pick i ys) = drop (Suc (Suc i)) ys" for ys :: "'a list"
    using arg_cong [OF Suc.IH [OF Suc.prems], of "drop 1" ys] by simp
  with p show ?case by (simp add: swap_at_def)
qed simp

lemma shuffle_from_cong: "\<forall>k \<le> i. pick k = pick' k \<Longrightarrow> shuffle_from pick i xs = shuffle_from pick' i xs"
  by (induction i arbitrary: xs) auto

text \<open>Every order can be drawn.\<close>

lemma shuffle_from_reaches:
  assumes "mset (take (Suc i) ys) = mset (take (Suc i) xs)" and "drop (Suc i) ys = drop (Suc i) xs" and "i < length xs"
  shows "\<exists>pick. drawn pick \<and> shuffle_from pick i xs = ys"
  using assms
proof (induction i arbitrary: xs)
  case 0
  then have "ys = xs" by (cases xs; cases ys) auto
  then show ?case by (intro exI [of _ "\<lambda>i. i"]) (simp add: drawn_def)
next
  case (Suc i)
  have len: "length ys = length xs"
    using arg_cong [OF Suc.prems(1), of size] arg_cong [OF Suc.prems(2), of length] Suc.prems(3) by (simp add: min_def split: if_splits)
  then have "ys ! Suc i \<in> set (take (Suc (Suc i)) ys)" using Suc.prems(3) by (simp add: take_Suc_conv_app_nth)
  then have "ys ! Suc i \<in> set (take (Suc (Suc i)) xs)" using Suc.prems(1) by (metis set_mset_mset)
  then obtain j where j: "j \<le> Suc i" "xs ! j = ys ! Suc i"
    using Suc.prems(3) by (auto simp: in_set_conv_nth less_Suc_eq_le)
  let ?zs = "swap_at (Suc i) j xs"
  have last: "?zs ! Suc i = ys ! Suc i" using j Suc.prems(3) by (cases "j = Suc i") (auto simp: swap_at_def)
  have "drop (Suc (Suc i)) ?zs = drop (Suc (Suc i)) xs" using j(1) by (simp add: swap_at_def)
  then have drop: "drop (Suc i) ys = drop (Suc i) ?zs"
    using Suc.prems(2,3) last len Cons_nth_drop_Suc [of "Suc i" ys] Cons_nth_drop_Suc [of "Suc i" ?zs] by simp
  have "mset ys = mset xs"
    using Suc.prems(1,2) by (metis append_take_drop_id mset_append)
  moreover have "mset ?zs = mset xs" using j(1) Suc.prems(3) by (simp add: swap_at_mset)
  ultimately have "mset (take (Suc i) ys) = mset (take (Suc i) ?zs)"
    using drop by (metis add_right_cancel append_take_drop_id mset_append)
  from Suc.IH [OF this drop] obtain pick where pick: "drawn pick" "shuffle_from pick i ?zs = ys"
    using Suc.prems(3) by auto
  define pick' where "pick' = pick(Suc i := j)"
  have "drawn pick'" using pick(1) j(1) by (simp add: pick'_def drawn_def)
  moreover have "shuffle_from pick' i ?zs = shuffle_from pick i ?zs" by (rule shuffle_from_cong) (simp add: pick'_def)
  moreover have "pick' (Suc i) = j" by (simp add: pick'_def)
  ultimately show ?case using pick(2) by (intro exI [of _ pick']) simp
qed

section \<open>Properties\<close>

text \<open>C39: the shuffle of the controllers only reorders them, and every order of them can be drawn.\<close>

theorem shuffle_draws_every_order:
  "(\<exists>pick. drawn pick \<and> shuffleNamedRunOnce pick controllers = ys) \<longleftrightarrow> mset ys = mset controllers"
proof
  show "mset ys = mset controllers" if "\<exists>pick. drawn pick \<and> shuffleNamedRunOnce pick controllers = ys"
    using that shuffle_range_order by (auto simp: range_order_def)
  show "\<exists>pick. drawn pick \<and> shuffleNamedRunOnce pick controllers = ys" if eq: "mset ys = mset controllers"
  proof (cases controllers)
    case Nil
    with eq show ?thesis by (intro exI [of _ "\<lambda>i. i"]) (simp add: drawn_def shuffleNamedRunOnce_def)
  next
    case (Cons c cs)
    have "length ys = length controllers" using eq by (metis size_mset)
    with Cons eq show ?thesis
      unfolding shuffleNamedRunOnce_def by (intro shuffle_from_reaches) auto
  qed
qed

end
