(* ===== verification/Gather_Clients.thy ===== *)
theory Gather_Clients
  imports Flags
begin

text \<open>
  The clients over a must-gather directory (\<open>libraryinputresources/prune_mustgather.go\<close>) and the index of
  the resources it serves (\<open>discoverResourcesFromMustGather\<close> in \<open>resource.go\<close>). The round tripper that
  answers from the directory, the client constructors and the discovery call are third-party code and
  are arguments; \<open>'rt\<close> is a round tripper.
\<close>

section \<open>Clients\<close>

definition newHTTPClientFromMustGather :: "(string \<Rightarrow> 'rt) \<Rightarrow> string \<Rightarrow> 'rt" where
  "newHTTPClientFromMustGather newRoundTripper mustGatherDir = newRoundTripper mustGatherDir"

definition NewDynamicClientFromMustGather ::
    "(string \<Rightarrow> 'rt) \<Rightarrow> ('rt \<Rightarrow> go_error + client_env) \<Rightarrow> string \<Rightarrow> go_error + client_env" where
  "NewDynamicClientFromMustGather newRoundTripper newForConfigAndClient mustGatherDir =
     (case newForConfigAndClient (newHTTPClientFromMustGather newRoundTripper mustGatherDir) of
        Inl err \<Rightarrow> Inl (Wrapf ''failure creating dynamicClient for NewDynamicClientFromMustGather: '' err [])
      | Inr dynamicClient \<Rightarrow> Inr dynamicClient)"

definition NewDiscoveryClientFromMustGather ::
    "(string \<Rightarrow> 'rt) \<Rightarrow> ('rt \<Rightarrow> go_error + 'discovery) \<Rightarrow> string \<Rightarrow> go_error + 'discovery" where
  "NewDiscoveryClientFromMustGather newRoundTripper newDiscoveryClient mustGatherDir =
     (case newDiscoveryClient (newHTTPClientFromMustGather newRoundTripper mustGatherDir) of
        Inl err \<Rightarrow> Inl (Wrapf ''failure creating discoveryClient for NewDiscoveryClientFromMustGather: '' err [])
      | Inr discoveryClient \<Rightarrow> Inr discoveryClient)"

section \<open>Discovery\<close>

text \<open>The API resources of the group versions: names with kinds, under group and version.\<close>

type_synonym api_groups = "((string \<times> string) \<times> (string \<times> string) list) list"

definition discoverResourcesFromMustGather ::
    "(string \<Rightarrow> go_error + 'discovery) \<Rightarrow> ('discovery \<Rightarrow> go_error + api_groups) \<Rightarrow>
      ((string \<times> string) \<times> (string \<times> string) list) visit_order \<Rightarrow> string \<Rightarrow> go_error + gvk_index" where
  "discoverResourcesFromMustGather newDiscoveryClient groupsAndMaybeResources ord mustGatherDir =
     (case newDiscoveryClient mustGatherDir of
        Inl err \<Rightarrow> Inl (Wrapf ''failed creating discovery client: '' err [])
      | Inr discoveryClient \<Rightarrow>
          (case groupsAndMaybeResources discoveryClient of
             Inl err \<Rightarrow> Inl (Wrapf ''failed to get api resource list with GroupsAndMaybeResources: '' err [])
           | Inr gvToAPIResourceList \<Rightarrow> Inr (index_group_versions (ord gvToAPIResourceList) [])))"

section \<open>Lemmas\<close>

text \<open>The resources of a kind in one group version.\<close>

definition served_names :: "string \<Rightarrow> (string \<times> string) list \<Rightarrow> string list" where
  "served_names kind rs = map fst (filter (\<lambda>(name, k). slash \<notin> set name \<and> k = kind) rs)"

definition served :: "api_groups \<Rightarrow> group_version_kind \<Rightarrow> group_version_resource list" where
  "served groups gvk = concat (map (\<lambda>(gv, rs).
     if gv = (gvk_Group gvk, gvk_Version gvk)
     then map (\<lambda>name. \<lparr>gvr_Group = fst gv, gvr_Version = snd gv, gvr_Resource = name\<rparr>) (served_names (gvk_Kind gvk) rs)
     else []) groups)"

lemma gvk_lookup_map_set: "gvk_lookup (map_set k v m) gvk = (if gvk = k then v else gvk_lookup m gvk)"
  by (simp add: gvk_lookup_def)

lemma served_names_Cons:
  "served_names kind ((name, k) # rs) = (if slash \<notin> set name \<and> k = kind then [name] else []) @ served_names kind rs"
  by (simp add: served_names_def)

lemma findGVR_Inr_iff: "findGVR idx gvk = Inr gvr \<longleftrightarrow> gvk_lookup idx gvk = [gvr]"
  by (auto simp: findGVR_def Let_def split: list.splits)

lemma index_resources_lookup:
  "gvk_lookup (index_resources gv rs m) gvk = gvk_lookup m gvk @ served [(gv, rs)] gvk"
proof (induction gv rs m rule: index_resources.induct)
  case (2 gv name kind rest m)
  then show ?case
    by (cases gv; cases gvk) (auto simp: Let_def gvk_lookup_map_set served_def served_names_Cons)
qed (simp add: served_def served_names_def)

lemma index_group_versions_lookup:
  "gvk_lookup (index_group_versions groups m) gvk = gvk_lookup m gvk @ served groups gvk"
  by (induction groups m rule: index_group_versions.induct) (simp_all add: index_resources_lookup, simp_all add: served_def)

text \<open>The group versions are the keys of a map, so at most one of them serves a kind.\<close>

lemma served_one:
  assumes "distinct (map fst groups)"
  shows "served groups gvk = (case map_of groups (gvk_Group gvk, gvk_Version gvk) of None \<Rightarrow> []
    | Some rs \<Rightarrow> served [((gvk_Group gvk, gvk_Version gvk), rs)] gvk)"
  using assms
proof (induction groups)
  case (Cons g groups)
  obtain gv rs where g: "g = (gv, rs)" by (cases g)
  have "map_of groups gv = None" using Cons.prems by (simp add: g map_of_eq_None_iff)
  with Cons show ?case by (auto simp: g served_def)
qed (simp add: served_def)

lemma served_perm:
  assumes "distinct (map fst groups)" and "range_order ord"
  shows "served (ord groups) gvk = served groups gvk"
proof -
  have eq: "mset (ord groups) = mset groups" using assms(2) by (simp add: range_order_def)
  then have dist: "distinct (map fst (ord groups))"
    using assms(1) by (metis mset_eq_imp_distinct_iff mset_map)
  moreover have "map_of (ord groups) = map_of groups"
    using assms(1) dist mset_eq_setD [OF eq] by (metis map_of_inject_set)
  ultimately show ?thesis by (simp add: served_one assms(1))
qed

section \<open>Properties\<close>

text \<open>C40: discovery does not depend on the order in which the group versions are visited, and the resource
  of a kind is found exactly when its group version serves one resource of that kind that is no
  subresource.\<close>

theorem discovered_kind_found_iff:
  assumes "newDiscoveryClient dir = Inr c" and "groupsAndMaybeResources c = Inr groups"
    and "distinct (map fst groups)" and "range_order ord"
  shows "\<exists>idx. discoverResourcesFromMustGather newDiscoveryClient groupsAndMaybeResources ord dir = Inr idx \<and>
    (findGVR idx gvk = Inr gvr \<longleftrightarrow> (\<exists>rs. map_of groups (gvk_Group gvk, gvk_Version gvk) = Some rs \<and>
      served_names (gvk_Kind gvk) rs = [gvr_Resource gvr] \<and>
      gvr_Group gvr = gvk_Group gvk \<and> gvr_Version gvr = gvk_Version gvk))"
proof -
  have "gvk_lookup (index_group_versions (ord groups) []) gvk = served groups gvk"
    by (simp add: index_group_versions_lookup served_perm [OF assms(3,4)]) (simp add: gvk_lookup_def)
  moreover have "served [((gvk_Group gvk, gvk_Version gvk), rs)] gvk = [gvr] \<longleftrightarrow> served_names (gvk_Kind gvk) rs = [gvr_Resource gvr] \<and>
      gvr_Group gvr = gvk_Group gvk \<and> gvr_Version gvr = gvk_Version gvk" for rs
    by (cases gvr) (auto simp: served_def)
  ultimately have "findGVR (index_group_versions (ord groups) []) gvk = Inr gvr \<longleftrightarrow>
      (\<exists>rs. map_of groups (gvk_Group gvk, gvk_Version gvk) = Some rs \<and> served_names (gvk_Kind gvk) rs = [gvr_Resource gvr] \<and>
        gvr_Group gvr = gvk_Group gvk \<and> gvr_Version gvr = gvk_Version gvk)"
    by (simp add: findGVR_Inr_iff served_one [OF assms(3)] split: option.split)
  then show ?thesis by (simp add: discoverResourcesFromMustGather_def assms(1,2))
qed

theorem discovered_kind_found_iff_witness:
  "\<exists>idx. discoverResourcesFromMustGather (\<lambda>d. Inr ()) (\<lambda>u. Inr [(([], ''v1''), [(''pods'', ''Pod''), (''pods/log'', ''Pod'')]),
      ((''apps'', ''v1''), [(''deployments'', ''Deployment'')])]) rev ''gather'' = Inr idx \<and>
    findGVR idx \<lparr>gvk_Group = [], gvk_Version = ''v1'', gvk_Kind = ''Pod''\<rparr> =
      Inr \<lparr>gvr_Group = [], gvr_Version = ''v1'', gvr_Resource = ''pods''\<rparr>"
  using discovered_kind_found_iff [of "\<lambda>d. Inr ()" "''gather''" "()"
      "\<lambda>u. Inr [(([], ''v1''), [(''pods'', ''Pod''), (''pods/log'', ''Pod'')]), ((''apps'', ''v1''), [(''deployments'', ''Deployment'')])]"
      "[(([], ''v1''), [(''pods'', ''Pod''), (''pods/log'', ''Pod'')]), ((''apps'', ''v1''), [(''deployments'', ''Deployment'')])]" rev
      "\<lparr>gvk_Group = [], gvk_Version = ''v1'', gvk_Kind = ''Pod''\<rparr>" "\<lparr>gvr_Group = [], gvr_Version = ''v1'', gvr_Resource = ''pods''\<rparr>"]
  by (simp add: range_order_rev served_names_def slash_def)

end
