(* ===== verification/Go_Csv.thy ===== *)
theory Go_Csv
  imports Go_Prelude
begin

text \<open>
  One record of \<open>encoding/csv\<close> with the default settings of its reader, as \<open>pflag\<close> reads the value of
  a string-slice flag (\<open>readAsCSV\<close> in \<open>vendor/github.com/spf13/pflag/string_slice.go\<close>). Lines end at a
  newline, a carriage return before it is dropped, empty lines are skipped; a field in quotes may
  hold commas, doubled quotes and newlines.
\<close>

section \<open>Reading a record\<close>

datatype csv_error = CsvBareQuote | CsvQuote | CsvEOF

abbreviation LF :: char where "LF \<equiv> CHR 0x0A"
abbreviation CR :: char where "CR \<equiv> CHR 0x0D"
abbreviation quote :: char where "quote \<equiv> CHR 0x22"
abbreviation comma :: char where "comma \<equiv> CHR '',''"

definition drop_final_CR :: "string \<Rightarrow> string" where
  "drop_final_CR line = (if line \<noteq> [] \<and> last line = CR then butlast line else line)"

text \<open>\<open>readLine\<close>: the next line, with its newline if it has one, and what follows.\<close>

definition read_line :: "string \<Rightarrow> string \<times> string" where
  "read_line s =
     (let start = takeWhile (\<lambda>c. c \<noteq> LF) s; remaining = dropWhile (\<lambda>c. c \<noteq> LF) s in
      case remaining of [] \<Rightarrow> (drop_final_CR start, [])
      | nl # rest \<Rightarrow> (drop_final_CR start @ [LF], rest))"

lemma length_drop_final_CR: "length (drop_final_CR s) \<le> length s"
  by (simp add: drop_final_CR_def)

lemma read_line_length: "(case read_line s of (line, rest) \<Rightarrow> length line + length rest) \<le> length s"
proof -
  have "length s = length (takeWhile (\<lambda>c. c \<noteq> LF) s) + length (dropWhile (\<lambda>c. c \<noteq> LF) s)"
    by (metis length_append takeWhile_dropWhile_id)
  then show ?thesis
    using length_drop_final_CR [of "takeWhile (\<lambda>c. c \<noteq> LF) s"]
    by (simp add: read_line_def Let_def split: list.split)
qed

lemma dropWhile_shorter: "dropWhile P xs = y # ys \<Longrightarrow> length ys < length xs"
  using length_dropWhile_le [of P xs] by simp

lemma read_line_shorter:
  assumes "read_line s = (line, rest)" and "s \<noteq> []"
  shows "length rest < length s"
proof (cases "dropWhile (\<lambda>c. c \<noteq> LF) s")
  case Nil
  with assms show ?thesis by (simp add: read_line_def)
next
  case (Cons nl rest')
  with assms(1) have "rest' = rest" by (simp add: read_line_def)
  with dropWhile_shorter [OF Cons] show ?thesis by simp
qed

text \<open>The fields of a line; a quoted field may go on in the lines of \<open>rest\<close>.\<close>

function (sequential) parse_fields :: "string option \<Rightarrow> string \<Rightarrow> string \<Rightarrow> csv_error + string list" where
  "parse_fields None line rest =
     (if line \<noteq> [] \<and> hd line = quote then parse_fields (Some []) (tl line) rest
      else
        let field = takeWhile (\<lambda>c. c \<noteq> comma) line in
        case dropWhile (\<lambda>c. c \<noteq> comma) line of
          [] \<Rightarrow> (let field' = (if field \<noteq> [] \<and> last field = LF then butlast field else field) in
                 if quote \<in> set field' then Inl CsvBareQuote else Inr [field'])
        | c # line' \<Rightarrow>
            (if quote \<in> set field then Inl CsvBareQuote
             else map_sum id (\<lambda>fs. field # fs) (parse_fields None line' rest)))"
| "parse_fields (Some buffer) line rest =
     (case dropWhile (\<lambda>c. c \<noteq> quote) line of
        [] \<Rightarrow>
          (if line = [] then Inl CsvQuote
           else case read_line rest of (line', rest') \<Rightarrow> parse_fields (Some (buffer @ line)) line' rest')
      | q # line' \<Rightarrow>
          (let buffer' = buffer @ takeWhile (\<lambda>c. c \<noteq> quote) line in
           if line' = [] \<or> line' = [LF] then Inr [buffer']
           else if hd line' = quote then parse_fields (Some (buffer' @ [quote])) (tl line') rest
           else if hd line' = comma then map_sum id (\<lambda>fs. buffer' # fs) (parse_fields None (tl line') rest)
           else Inl CsvQuote))"
  by pat_completeness auto

termination
proof (relation "measure (\<lambda>(b, line, rest). length line + length rest)", unfold in_measure case_prod_conv)
  show "length (tl line) + length rest < length line + length rest" if "line \<noteq> [] \<and> hd line = quote"
    for line rest :: string using that by (cases line) simp_all
  show "length line' + length rest < length line + length rest" if "dropWhile P line = q # line'"
    for line rest line' and q :: char and P using dropWhile_shorter [OF that] by simp
  show "length (tl line') + length rest < length line + length rest" if "dropWhile P line = q # line'"
    for line rest line' and q :: char and P
    using dropWhile_shorter [OF that] by (cases line') simp_all
  show "length (tl line') + length rest < length line + length rest" if "dropWhile P line = q # line'"
    for line rest line' and q :: char and P
    using dropWhile_shorter [OF that] by (cases line') simp_all
  show "length line' + length rest' < length line + length rest"
    if "line \<noteq> []" "(line', rest') = read_line rest" for line rest line' rest' :: string
    using that read_line_length [of rest] by (cases line) (simp_all add: that(2) [symmetric])
qed simp

function read_record :: "string \<Rightarrow> csv_error + string list" where
  "read_record s =
     (if s = [] then Inl CsvEOF
      else case read_line s of (line, rest) \<Rightarrow>
        if line = [] \<or> line = [LF] then read_record rest else parse_fields None line rest)"
  by pat_completeness auto
termination by (relation "measure length") (auto dest!: read_line_shorter [OF sym])

declare parse_fields.simps [simp del] read_record.simps [simp del]

text \<open>\<open>readAsCSV\<close> of \<open>pflag\<close>.\<close>

definition readAsCSV :: "string \<Rightarrow> csv_error + string list" where
  "readAsCSV val = (if val = [] then Inr [] else read_record val)"

section \<open>Plain values\<close>

text \<open>A value whose names hold none of the characters the reader looks for is split at its commas.\<close>

definition csv_plain :: "string \<Rightarrow> bool" where
  "csv_plain s \<longleftrightarrow> set s \<inter> {comma, quote, LF, CR} = {}"

lemma csv_plain_chars: "csv_plain s \<Longrightarrow> comma \<notin> set s \<and> quote \<notin> set s \<and> LF \<notin> set s \<and> CR \<notin> set s"
  by (auto simp: csv_plain_def)

lemma csv_plain_last: "csv_plain s \<Longrightarrow> s \<noteq> [] \<Longrightarrow> last s \<noteq> LF \<and> last s \<noteq> CR"
  using csv_plain_chars last_in_set by metis

lemma parse_fields_plain:
  assumes "ss \<noteq> []" and "\<forall>s \<in> set ss. csv_plain s"
  shows "parse_fields None (strings_join ss [comma]) rest = Inr ss"
  using assms
proof (induction ss rule: list_nonempty_induct)
  case (single s)
  then have "csv_plain s" by simp
  note chars = csv_plain_chars [OF this] csv_plain_last [OF this]
  then have "takeWhile (\<lambda>c. c \<noteq> comma) s = s" "dropWhile (\<lambda>c. c \<noteq> comma) s = []"
    by (auto simp: takeWhile_eq_all_conv dropWhile_eq_Nil_conv)
  with chars show ?case by (cases s) (auto simp: parse_fields.simps)
next
  case (cons s ss)
  then have plain: "csv_plain s" by simp
  note chars = csv_plain_chars [OF this]
  have join: "strings_join (s # ss) [comma] = s @ comma # strings_join ss [comma]" using cons by (cases ss) simp_all
  have "takeWhile (\<lambda>c. c \<noteq> comma) (s @ comma # r) = s" "dropWhile (\<lambda>c. c \<noteq> comma) (s @ comma # r) = comma # r" for r
    using chars by (auto simp: takeWhile_append dropWhile_append)
  moreover have "\<not> (s @ comma # r \<noteq> [] \<and> hd (s @ comma # r) = quote)" for r using chars by (cases s) auto
  ultimately show ?case
    using chars cons by (simp add: join parse_fields.simps(1) [of "s @ comma # r" for r])
qed

lemma set_strings_join: "set (strings_join ss sep) \<subseteq> set (concat ss) \<union> set sep"
  by (induction ss sep rule: strings_join.induct) auto

lemma read_line_one:
  assumes "LF \<notin> set s" and "CR \<notin> set s"
  shows "read_line s = (s, [])"
proof -
  have "takeWhile (\<lambda>c. c \<noteq> LF) s = s" "dropWhile (\<lambda>c. c \<noteq> LF) s = []"
    using assms(1) by (auto simp: takeWhile_eq_all_conv dropWhile_eq_Nil_conv)
  moreover have "drop_final_CR s = s" using assms(2) by (cases s rule: rev_cases) (auto simp: drop_final_CR_def)
  ultimately show ?thesis unfolding read_line_def Let_def by (simp only: list.case)
qed

theorem readAsCSV_join:
  assumes "ss \<noteq> []" and "ss \<noteq> [[]]" and "\<forall>s \<in> set ss. csv_plain s"
  shows "readAsCSV (strings_join ss [comma]) = Inr ss"
proof -
  let ?s = "strings_join ss [comma]"
  have "set ?s \<subseteq> set (concat ss) \<union> {comma}" using set_strings_join [of ss "[comma]"] by simp
  moreover have "LF \<notin> set (concat ss)" "CR \<notin> set (concat ss)" using assms(3) csv_plain_chars by auto
  ultimately have chars: "LF \<notin> set ?s" "CR \<notin> set ?s" by auto
  have ne: "?s \<noteq> []"
  proof (cases ss)
    case (Cons s ss')
    with assms(1,2) show ?thesis by (cases ss') simp_all
  qed (simp add: assms(1))
  have "read_line ?s = (?s, [])" by (rule read_line_one [OF chars])
  moreover have "?s \<noteq> [LF]" using chars by auto
  ultimately show ?thesis
    using ne parse_fields_plain [OF assms(1,3)] by (simp add: readAsCSV_def read_record.simps [of ?s])
qed

end
