(* ===== verification/Pflag.thy ===== *)
theory Pflag
  imports Go_Csv
begin

text \<open>
  How \<open>pflag\<close> parses a command line (\<open>vendor/github.com/spf13/pflag\<close>: \<open>flag.go\<close> and the value types
  of \<open>string.go\<close>, \<open>bool.go\<close> and \<open>string_slice.go\<close>). A flag set is a list of flags; a flag's value is a
  pointer into the program's state, so setting it is a function on that state. The flag sets here are
  those cobra makes: positional arguments may stand between flags, errors are returned and printed
  by nobody, unknown flags are errors, and names are used as they are. Deprecation messages and
  usage texts are not modelled. The text of a CSV error is an argument.
\<close>

section \<open>Flags\<close>

record flag_spec =
  fs_Name :: string
  fs_Shorthand :: string
  fs_NoOptDefVal :: string

record 's flag =
  fl_Spec :: flag_spec
  fl_Set :: "string \<Rightarrow> 's \<Rightarrow> go_error option \<times> 's"

definition long_flag :: "string \<Rightarrow> flag_spec" where
  "long_flag name = \<lparr>fs_Name = name, fs_Shorthand = [], fs_NoOptDefVal = []\<rparr>"

definition StringVar :: "((string \<Rightarrow> string) \<Rightarrow> 's \<Rightarrow> 's) \<Rightarrow> string \<Rightarrow> 's flag" where
  "StringVar update name = \<lparr>fl_Spec = long_flag name, fl_Set = (\<lambda>val s. (None, update (\<lambda>old. val) s))\<rparr>"

text \<open>\<open>strconv.ParseBool\<close>. A value that does not parse sets the flag to false.\<close>

definition ParseBool :: "string \<Rightarrow> go_error + bool" where
  "ParseBool str =
     (if str \<in> {''1'', ''t'', ''T'', ''TRUE'', ''true'', ''True''} then Inr True
      else if str \<in> {''0'', ''f'', ''F'', ''FALSE'', ''false'', ''False''} then Inr False
      else Inl (errorf (''strconv.ParseBool: parsing '' @ go_quote str @ '': invalid syntax'')))"

definition BoolVarP :: "((bool \<Rightarrow> bool) \<Rightarrow> 's \<Rightarrow> 's) \<Rightarrow> string \<Rightarrow> string \<Rightarrow> 's flag" where
  "BoolVarP update name shorthand =
     \<lparr>fl_Spec = \<lparr>fs_Name = name, fs_Shorthand = shorthand, fs_NoOptDefVal = ''true''\<rparr>,
      fl_Set = (\<lambda>val s. case ParseBool val of
        Inr v \<Rightarrow> (None, update (\<lambda>old. v) s) | Inl err \<Rightarrow> (Some err, update (\<lambda>old. False) s))\<rparr>"

text \<open>A slice is replaced by the first value given and extended by the later ones.\<close>

definition StringSliceVar ::
    "(csv_error \<Rightarrow> go_error) \<Rightarrow> ((string list \<Rightarrow> string list) \<Rightarrow> 's \<Rightarrow> 's) \<Rightarrow> ('s \<Rightarrow> bool) \<Rightarrow> ((bool \<Rightarrow> bool) \<Rightarrow> 's \<Rightarrow> 's) \<Rightarrow>
      string \<Rightarrow> 's flag" where
  "StringSliceVar csv_text update changed update_changed name =
     \<lparr>fl_Spec = long_flag name,
      fl_Set = (\<lambda>val s. case readAsCSV val of
          Inl err \<Rightarrow> (Some (csv_text err), s)
        | Inr v \<Rightarrow> (None, update_changed (\<lambda>c. True) (update (\<lambda>old. if changed s then old @ v else v) s)))\<rparr>"

section \<open>Looking flags up\<close>

definition Lookup :: "'s flag list \<Rightarrow> string \<Rightarrow> 's flag option" where
  "Lookup fs name = find (\<lambda>f. fs_Name (fl_Spec f) = name) fs"

definition ShorthandLookup :: "'s flag list \<Rightarrow> char \<Rightarrow> 's flag option" where
  "ShorthandLookup fs c = find (\<lambda>f. fs_Shorthand (fl_Spec f) = [c]) fs"

text \<open>Flags whose name is taken are left out.\<close>

fun AddFlagSet :: "'s flag list \<Rightarrow> 's flag list \<Rightarrow> 's flag list" where
  "AddFlagSet fs [] = fs"
| "AddFlagSet fs (f # newSet) =
     AddFlagSet (if Lookup fs (fs_Name (fl_Spec f)) = None then fs @ [f] else fs) newSet"

definition FlagSet_Set :: "'s flag list \<Rightarrow> string \<Rightarrow> string \<Rightarrow> 's \<Rightarrow> go_error option \<times> 's" where
  "FlagSet_Set fs name val s =
     (case Lookup fs name of
        None \<Rightarrow> (Some (errorf (''no such flag -'' @ name)), s)
      | Some flag \<Rightarrow>
          (case fl_Set flag val s of
             (None, s') \<Rightarrow> (None, s')
           | (Some err, s') \<Rightarrow>
               (let sh = fs_Shorthand (fl_Spec flag);
                    flagName = (if sh \<noteq> [] then ''-'' @ sh @ '', --'' @ fs_Name (fl_Spec flag)
                                else ''--'' @ fs_Name (fl_Spec flag)) in
                (Some (errorf (''invalid argument '' @ go_quote val @ '' for '' @ go_quote flagName @ '' flag: ''
                   @ err_text err)), s'))))"

section \<open>Parsing\<close>

datatype parse_error = ErrHelp | ParseError go_error

definition parse_errorf :: "string \<Rightarrow> parse_error option" where
  "parse_errorf msg = Some (ParseError (errorf msg))"

definition set_flag :: "'s flag list \<Rightarrow> 's flag \<Rightarrow> string \<Rightarrow> 's \<Rightarrow> parse_error option \<times> 's" where
  "set_flag fs flag val s =
     (case FlagSet_Set fs (fs_Name (fl_Spec flag)) val s of (err, s') \<Rightarrow> (map_option ParseError err, s'))"

text \<open>\<open>--name\<close>, \<open>--name=value\<close> and \<open>--name value\<close>: the error, the arguments left, the state.\<close>

definition parseLongArg ::
    "'s flag list \<Rightarrow> string \<Rightarrow> string list \<Rightarrow> 's \<Rightarrow> parse_error option \<times> string list \<times> 's" where
  "parseLongArg fs arg args s =
     (let name = drop 2 arg in
      if name = [] \<or> hd name = CHR ''-'' \<or> hd name = CHR ''='' then (parse_errorf (''bad flag syntax: '' @ arg), args, s)
      else
        let name' = takeWhile (\<lambda>c. c \<noteq> CHR ''='') name; split = dropWhile (\<lambda>c. c \<noteq> CHR ''='') name in
        case Lookup fs name' of
          None \<Rightarrow> (if name' = ''help'' then (Some ErrHelp, args, s) else (parse_errorf (''unknown flag: --'' @ name'), args, s))
        | Some flag \<Rightarrow>
            (if split \<noteq> [] then (case set_flag fs flag (tl split) s of (err, s') \<Rightarrow> (err, args, s'))
             else if fs_NoOptDefVal (fl_Spec flag) \<noteq> []
             then (case set_flag fs flag (fs_NoOptDefVal (fl_Spec flag)) s of (err, s') \<Rightarrow> (err, args, s'))
             else case args of
               a # args' \<Rightarrow> (case set_flag fs flag a s of (err, s') \<Rightarrow> (err, args', s'))
             | [] \<Rightarrow> (parse_errorf (''flag needs an argument: '' @ arg), args, s)))"

text \<open>\<open>%q\<close> of one ASCII byte.\<close>

definition quote_byte :: "char \<Rightarrow> string" where
  "quote_byte c = [CHR 0x27] @ (if c = CHR 0x27 then [CHR 0x5C, CHR 0x27] else if c = CHR 0x22 then [c] else quote_char c)
     @ [CHR 0x27]"

text \<open>One letter of \<open>-abc\<close>: the error, the letters left, the arguments left, the state.\<close>

definition parseSingleShortArg ::
    "'s flag list \<Rightarrow> string \<Rightarrow> string list \<Rightarrow> 's \<Rightarrow> parse_error option \<times> string \<times> string list \<times> 's" where
  "parseSingleShortArg fs shorthands args s =
     (if starts_with ''test.'' shorthands then (None, [], args, s)
      else
        let c = hd shorthands; outShorts = tl shorthands in
        case ShorthandLookup fs c of
          None \<Rightarrow> (if c = CHR ''h'' then (Some ErrHelp, outShorts, args, s)
                   else (parse_errorf (''unknown shorthand flag: '' @ quote_byte c @ '' in -'' @ shorthands), outShorts, args, s))
        | Some flag \<Rightarrow>
            (if length shorthands > 2 \<and> shorthands ! 1 = CHR ''=''
             then (case set_flag fs flag (drop 2 shorthands) s of (err, s') \<Rightarrow> (err, [], args, s'))
             else if fs_NoOptDefVal (fl_Spec flag) \<noteq> []
             then (case set_flag fs flag (fs_NoOptDefVal (fl_Spec flag)) s of (err, s') \<Rightarrow> (err, outShorts, args, s'))
             else if length shorthands > 1
             then (case set_flag fs flag outShorts s of (err, s') \<Rightarrow> (err, [], args, s'))
             else case args of
               a # args' \<Rightarrow> (case set_flag fs flag a s of (err, s') \<Rightarrow> (err, outShorts, args', s'))
             | [] \<Rightarrow> (parse_errorf (''flag needs an argument: '' @ quote_byte c @ '' in -'' @ shorthands), outShorts, args, s)))"

lemma parseSingleShortArg_shorter:
  "parseSingleShortArg fs shorthands args s = (err, outShorts, args', s') \<Longrightarrow> shorthands \<noteq> [] \<Longrightarrow>
     length outShorts < length shorthands \<and> length args' \<le> length args"
  by (auto simp: parseSingleShortArg_def Let_def split: if_splits option.splits list.splits prod.splits)

text \<open>Every letter is given all the arguments: only what the last one leaves counts.\<close>

function parse_shorthands ::
    "'s flag list \<Rightarrow> string \<Rightarrow> string list \<Rightarrow> string list \<Rightarrow> 's \<Rightarrow> parse_error option \<times> string list \<times> 's" where
  "parse_shorthands fs shorthands a args s =
     (if shorthands = [] then (None, a, s)
      else case parseSingleShortArg fs shorthands args s of
        (Some err, outShorts, a', s') \<Rightarrow> (Some err, a', s')
      | (None, outShorts, a', s') \<Rightarrow> parse_shorthands fs outShorts a' args s')"
  by pat_completeness auto
termination
  by (relation "measure (\<lambda>(fs, shorthands, a, args, s). length shorthands)")
    (auto dest!: parseSingleShortArg_shorter [OF sym])

declare parse_shorthands.simps [simp del]

definition parseShortArg ::
    "'s flag list \<Rightarrow> string \<Rightarrow> string list \<Rightarrow> 's \<Rightarrow> parse_error option \<times> string list \<times> 's" where
  "parseShortArg fs arg args s = parse_shorthands fs (tl arg) args args s"

definition parse_one ::
    "'s flag list \<Rightarrow> string \<Rightarrow> string list \<Rightarrow> 's \<Rightarrow> parse_error option \<times> string list \<times> 's" where
  "parse_one fs arg args s = (if arg ! 1 = CHR ''-'' then parseLongArg fs arg args s else parseShortArg fs arg args s)"

lemma parse_shorthands_shorter:
  "parse_shorthands fs shorthands a args s = (err, args', s') \<Longrightarrow> length a \<le> length args \<Longrightarrow> length args' \<le> length args"
proof (induction fs shorthands a args s rule: parse_shorthands.induct)
  case (1 fs shorthands a args s)
  then show ?case
    by (auto simp: parse_shorthands.simps [of fs shorthands] split: if_splits prod.splits option.splits
        dest: parseSingleShortArg_shorter)
qed

lemma parse_one_shorter: "parse_one fs arg args s = (err, args', s') \<Longrightarrow> length args' \<le> length args"
  by (auto simp: parse_one_def parseLongArg_def parseShortArg_def Let_def parse_shorthands_shorter
      split: if_splits option.splits list.splits prod.splits)

text \<open>\<open>parseArgs\<close>: the error, the positional arguments, the state.\<close>

function parseArgs ::
    "'s flag list \<Rightarrow> string list \<Rightarrow> 's \<Rightarrow> parse_error option \<times> string list \<times> 's" where
  "parseArgs fs [] s = (None, [], s)"
| "parseArgs fs (arg # args) s =
     (if length arg \<le> 1 \<or> hd arg \<noteq> CHR ''-''
      then (case parseArgs fs args s of (err, positional, s') \<Rightarrow> (err, arg # positional, s'))
      else if arg = ''--'' then (None, args, s)
      else case parse_one fs arg args s of
        (Some err, args', s') \<Rightarrow> (Some err, [], s')
      | (None, args', s') \<Rightarrow> parseArgs fs args' s')"
  by pat_completeness auto
termination
  by (relation "measure (\<lambda>(fs, args, s). length args)") (auto dest!: parse_one_shorter [OF sym] simp: less_Suc_eq_le)

declare parseArgs.simps(2) [simp del]

section \<open>Lemmas\<close>

lemma Lookup_name: "Lookup fs name = Some flag \<Longrightarrow> fs_Name (fl_Spec flag) = name"
  unfolding Lookup_def by (auto simp: find_Some_iff)

lemma Lookup_append: "Lookup fs name = Some flag \<Longrightarrow> Lookup (fs @ gs) name = Some flag"
  by (induction fs) (auto simp: Lookup_def split: if_splits)

lemma Lookup_AddFlagSet: "Lookup fs name = Some flag \<Longrightarrow> Lookup (AddFlagSet fs newSet) name = Some flag"
  by (induction newSet arbitrary: fs) (simp_all add: Lookup_append)

text \<open>A flag followed by its value, whatever the value looks like.\<close>

lemma parseArgs_value:
  assumes "Lookup fs name = Some flag" and "fs_NoOptDefVal (fl_Spec flag) = []"
    and "name \<noteq> []" "hd name \<noteq> CHR ''-''" "CHR ''='' \<notin> set name"
  shows "parseArgs fs ((''--'' @ name) # val # args) s =
    (case fl_Set flag val s of
       (None, s') \<Rightarrow> parseArgs fs args s'
     | (Some err, s') \<Rightarrow> (Some (ParseError (errorf (''invalid argument '' @ go_quote val @ '' for '' @
         go_quote (if fs_Shorthand (fl_Spec flag) \<noteq> [] then ''-'' @ fs_Shorthand (fl_Spec flag) @ '', --'' @ name else ''--'' @ name) @
         '' flag: '' @ err_text err))), [], s'))"
proof -
  have name: "fs_Name (fl_Spec flag) = name" by (rule Lookup_name [OF assms(1)])
  have split: "takeWhile (\<lambda>c. c \<noteq> CHR ''='') name = name" "dropWhile (\<lambda>c. c \<noteq> CHR ''='') name = []"
    using assms(5) by (auto simp: takeWhile_eq_all_conv dropWhile_eq_Nil_conv)
  have "hd name \<noteq> CHR ''=''" using assms(3,5) by (cases name) auto
  then show ?thesis
    using assms by (simp add: parseArgs.simps(2) parse_one_def parseLongArg_def set_flag_def FlagSet_Set_def split name Let_def
        split: prod.split option.split)
qed

lemma parseArgs_unknown:
  assumes "Lookup fs name = None" and "name \<noteq> []" "hd name \<noteq> CHR ''-''" "CHR ''='' \<notin> set name" "name \<noteq> ''help''"
  shows "parseArgs fs ((''--'' @ name) # args) s = (Some (ParseError (errorf (''unknown flag: --'' @ name))), [], s)"
proof -
  have split: "takeWhile (\<lambda>c. c \<noteq> CHR ''='') name = name" "dropWhile (\<lambda>c. c \<noteq> CHR ''='') name = []"
    using assms(4) by (auto simp: takeWhile_eq_all_conv dropWhile_eq_Nil_conv)
  have "hd name \<noteq> CHR ''=''" using assms(2,4) by (cases name) auto
  then show ?thesis
    using assms by (simp add: parseArgs.simps(2) parse_one_def parseLongArg_def parse_errorf_def split Let_def)
qed

end
