(* ===== verification/Cobra.thy ===== *)
theory Cobra
  imports Pflag
begin

text \<open>
  How cobra finds and executes a command (\<open>vendor/github.com/spf13/cobra/command.go\<close> and the
  \<open>legacyArgs\<close> of \<open>args.go\<close>), for command trees like the ones here: no aliases, no \<open>Args\<close>, no version,
  no hooks, no required flags, no deprecated commands, \<open>SilenceErrors\<close> set everywhere. The flags other
  packages register on \<open>pflag.CommandLine\<close>, which every command inherits, are an argument, and so are
  the commands cobra adds by itself (\<open>help\<close>, \<open>completion\<close> and its hidden one) and its suggestions for
  mistyped names. Help and usage texts are not modelled.
\<close>

section \<open>Commands\<close>

text \<open>A flag of another package: its description and whether it takes a value.\<close>

type_synonym inherited_flag = "flag_spec \<times> (string \<Rightarrow> go_error option)"

fun inherit :: "inherited_flag \<Rightarrow> 's flag" where
  "inherit (spec, setter) = \<lparr>fl_Spec = spec, fl_Set = (\<lambda>val s. (setter val, s))\<rparr>"

datatype 'r executed =
    HelpRequested
  | NotExecuted go_error
  | Executed 'r

datatype 'r command = Command
  (cmd_Name: string) (cmd_Specs: "flag_spec list") (cmd_SilenceUsage: bool)
  (cmd_execute: "string list \<Rightarrow> 'r executed") (cmd_commands: "'r command list")

text \<open>\<open>mergePersistentFlags\<close>: the command's own flags and those it inherits.\<close>

definition merged_flags :: "inherited_flag list \<Rightarrow> 's flag list \<Rightarrow> 's flag list" where
  "merged_flags inherited flags = AddFlagSet flags (map inherit inherited)"

text \<open>The \<open>help\<close> flag is kept beside the state of the program.\<close>

definition beside_help :: "'s flag \<Rightarrow> ('s \<times> bool) flag" where
  "beside_help f = \<lparr>fl_Spec = fl_Spec f,
     fl_Set = (\<lambda>val (s, help). case fl_Set f val s of (err, s') \<Rightarrow> (err, s', help))\<rparr>"

definition InitDefaultHelpFlag :: "('s \<times> bool) flag list \<Rightarrow> ('s \<times> bool) flag list" where
  "InitDefaultHelpFlag fs =
     (if Lookup fs ''help'' = None then fs @ [BoolVarP (\<lambda>u. map_prod id u) ''help'' ''h''] else fs)"

text \<open>\<open>execute\<close>: parse the flags, then help or the command itself.\<close>

definition command_execute ::
    "inherited_flag list \<Rightarrow> 's flag list \<Rightarrow> 's \<Rightarrow> ('s \<Rightarrow> 'r) option \<Rightarrow> string list \<Rightarrow> 'r executed" where
  "command_execute inherited flags s runE args =
     (case parseArgs (InitDefaultHelpFlag (map beside_help (merged_flags inherited flags))) args (s, False) of
        (Some ErrHelp, positional, s') \<Rightarrow> HelpRequested
      | (Some (ParseError err), positional, s') \<Rightarrow> NotExecuted err
      | (None, positional, s', helpVal) \<Rightarrow>
          (if helpVal then HelpRequested else case runE of None \<Rightarrow> HelpRequested | Some run \<Rightarrow> Executed (run s')))"

text \<open>A command that runs, and a command that only has commands below it.\<close>

definition leaf_command :: "string \<Rightarrow> inherited_flag list \<Rightarrow> 's flag list \<Rightarrow> 's \<Rightarrow> ('s \<Rightarrow> 'r) \<Rightarrow> 'r command" where
  "leaf_command name inherited flags s run =
     Command name (map fl_Spec (merged_flags inherited flags)) True (command_execute inherited flags s (Some run)) []"

definition group_command :: "string \<Rightarrow> inherited_flag list \<Rightarrow> unit flag list \<Rightarrow> 'r command list \<Rightarrow> 'r command" where
  "group_command name inherited flags commands =
     Command name (map fl_Spec (merged_flags inherited flags)) False (command_execute inherited flags () None) commands"

section \<open>Finding the command\<close>

definition hasNoOptDefVal :: "string \<Rightarrow> flag_spec list \<Rightarrow> bool" where
  "hasNoOptDefVal name fs =
     (case find (\<lambda>f. fs_Name f = name) fs of None \<Rightarrow> False | Some f \<Rightarrow> fs_NoOptDefVal f \<noteq> [])"

definition shortHasNoOptDefVal :: "string \<Rightarrow> flag_spec list \<Rightarrow> bool" where
  "shortHasNoOptDefVal name fs =
     (name \<noteq> [] \<and> (case find (\<lambda>f. fs_Shorthand f = [hd name]) fs of None \<Rightarrow> False | Some f \<Rightarrow> fs_NoOptDefVal f \<noteq> []))"

text \<open>A flag that is followed by its value.\<close>

definition takes_next :: "flag_spec list \<Rightarrow> string \<Rightarrow> bool" where
  "takes_next fs s \<longleftrightarrow>
     starts_with ''--'' s \<and> CHR ''='' \<notin> set s \<and> \<not> hasNoOptDefVal (drop 2 s) fs \<or>
     starts_with ''-'' s \<and> CHR ''='' \<notin> set s \<and> length s = 2 \<and> \<not> shortHasNoOptDefVal (drop 1 s) fs"

function stripFlags :: "flag_spec list \<Rightarrow> string list \<Rightarrow> string list" where
  "stripFlags fs [] = []"
| "stripFlags fs (s # args) =
     (if s = ''--'' then []
      else if takes_next fs s then (if length args \<le> 1 then [] else stripFlags fs (tl args))
      else if s \<noteq> [] \<and> \<not> starts_with ''-'' s then s # stripFlags fs args
      else stripFlags fs args)"
  by pat_completeness auto
termination by (relation "measure (\<lambda>(fs, args). length args)") auto

text \<open>The first \<open>x\<close> that is no flag and no value of one is removed.\<close>

function argsMinusFirstX :: "flag_spec list \<Rightarrow> string list \<Rightarrow> string \<Rightarrow> string list" where
  "argsMinusFirstX fs [] x = []"
| "argsMinusFirstX fs (s # args) x =
     (if s = ''--'' then s # args
      else if takes_next fs s then (case args of [] \<Rightarrow> [s] | a # args' \<Rightarrow> s # a # argsMinusFirstX fs args' x)
      else if \<not> starts_with ''-'' s \<and> s = x then args
      else s # argsMinusFirstX fs args x)"
  by pat_completeness auto
termination by (relation "measure (\<lambda>(fs, args, x). length args)") auto

declare stripFlags.simps(2) [simp del] argsMinusFirstX.simps(2) [simp del]

definition findNext :: "'r command \<Rightarrow> string \<Rightarrow> 'r command option" where
  "findNext c name = find (\<lambda>cmd. cmd_Name cmd = name) (cmd_commands c)"

lemma findNext_size: "findNext c name = Some cmd \<Longrightarrow> size cmd < size c"
proof -
  assume "findNext c name = Some cmd"
  then have "cmd \<in> set (cmd_commands c)" by (auto simp: findNext_def find_Some_iff)
  then have "size cmd < Suc (size_list size (cmd_commands c))" by (rule size_list_estimation'[THEN le_imp_less_Suc]) simp
  then show ?thesis by (cases c) simp
qed

text \<open>\<open>innerfind\<close>: the command, whether it is the one the search started from, and the arguments left.\<close>

function innerfind :: "bool \<Rightarrow> 'r command \<Rightarrow> string list \<Rightarrow> bool \<times> 'r command \<times> string list" where
  "innerfind root c innerArgs =
     (case stripFlags (cmd_Specs c) innerArgs of
        [] \<Rightarrow> (root, c, innerArgs)
      | nextSubCmd # rest \<Rightarrow>
          (case findNext c nextSubCmd of
             None \<Rightarrow> (root, c, innerArgs)
           | Some cmd \<Rightarrow> innerfind False cmd (argsMinusFirstX (cmd_Specs c) innerArgs nextSubCmd)))"
  by pat_completeness auto
termination by (relation "measure (\<lambda>(root, c, args). size c)") (auto dest: findNext_size)

declare innerfind.simps [simp del]

definition legacyArgs :: "(string \<Rightarrow> string) \<Rightarrow> bool \<Rightarrow> 'r command \<Rightarrow> string list \<Rightarrow> go_error option" where
  "legacyArgs suggestions root cmd args =
     (if cmd_commands cmd = [] then None
      else case args of
        [] \<Rightarrow> None
      | a # rest \<Rightarrow> (if root then Some (errorf (''unknown command '' @ go_quote a @ '' for '' @ go_quote (cmd_Name cmd)
          @ suggestions a)) else None))"

definition Find :: "(string \<Rightarrow> string) \<Rightarrow> 'r command \<Rightarrow> string list \<Rightarrow> 'r command \<times> string list \<times> go_error option" where
  "Find suggestions c args =
     (case innerfind True c args of
        (root, commandFound, a) \<Rightarrow>
          (commandFound, a, legacyArgs suggestions root commandFound (stripFlags (cmd_Specs commandFound) a)))"

section \<open>Executing\<close>

text \<open>What \<open>Execute\<close> ends with: an error comes with whether the usage text was printed.\<close>

datatype 'r cobra_result =
    CobraHelp
  | CobraError go_error bool
  | CobraRan 'r

definition Execute :: "(string \<Rightarrow> string) \<Rightarrow> 'r command \<Rightarrow> string list \<Rightarrow> 'r cobra_result" where
  "Execute suggestions c args =
     (case Find suggestions c args of
        (cmd, flags, Some err) \<Rightarrow> CobraError err False
      | (cmd, flags, None) \<Rightarrow>
          (case cmd_execute cmd flags of
             HelpRequested \<Rightarrow> CobraHelp
           | NotExecuted err \<Rightarrow> CobraError err (\<not> cmd_SilenceUsage cmd \<and> \<not> cmd_SilenceUsage c)
           | Executed r \<Rightarrow> CobraRan r))"

section \<open>Lemmas\<close>

lemma starts_with_dash: "\<not> starts_with ''-'' s \<Longrightarrow> \<not> starts_with ''--'' s \<and> s \<noteq> ''--''"
  by (cases s) auto

lemma stripFlags_name: "s \<noteq> [] \<Longrightarrow> \<not> starts_with ''-'' s \<Longrightarrow> stripFlags fs (s # args) = s # stripFlags fs args"
  using starts_with_dash by (simp add: stripFlags.simps(2) takes_next_def)

lemma argsMinusFirstX_name: "\<not> starts_with ''-'' s \<Longrightarrow> argsMinusFirstX fs (s # args) s = args"
  using starts_with_dash by (simp add: argsMinusFirstX.simps(2) takes_next_def)

text \<open>A leading name selects the command, a command without commands below it ends the search.\<close>

lemma innerfind_name:
  assumes "s \<noteq> []" and "\<not> starts_with ''-'' s" and "findNext c s = Some cmd"
  shows "innerfind root c (s # args) = innerfind False cmd args"
  using assms by (subst innerfind.simps) (simp add: stripFlags_name argsMinusFirstX_name)

lemma innerfind_leaf: "cmd_commands c = [] \<Longrightarrow> innerfind root c args = (root, c, args)"
  by (subst innerfind.simps) (simp add: findNext_def split: list.split)

lemma findNext_here: "cmd_Name c = s \<Longrightarrow> findNext (Command n fs q e (c # cs)) s = Some c"
  by (simp add: findNext_def)

lemma findNext_later: "cmd_Name c \<noteq> s \<Longrightarrow> findNext (Command n fs q e (c # cs)) s = findNext (Command n fs q e cs) s"
  by (simp add: findNext_def)

lemma Execute_leaf:
  assumes "s \<noteq> []" and "\<not> starts_with ''-'' s" and "findNext c s = Some cmd" and "cmd_commands cmd = []"
  shows "Execute suggestions c (s # args) =
    (case cmd_execute cmd args of HelpRequested \<Rightarrow> CobraHelp
     | NotExecuted err \<Rightarrow> CobraError err (\<not> cmd_SilenceUsage cmd \<and> \<not> cmd_SilenceUsage c)
     | Executed r \<Rightarrow> CobraRan r)"
  using assms by (simp add: Execute_def Find_def innerfind_name innerfind_leaf legacyArgs_def)

text \<open>The flags of a command win over inherited ones of the same name.\<close>

definition execute_flags :: "inherited_flag list \<Rightarrow> 's flag list \<Rightarrow> ('s \<times> bool) flag list" where
  "execute_flags inherited flags = InitDefaultHelpFlag (map beside_help (merged_flags inherited flags))"

lemma Lookup_beside_help: "Lookup (map beside_help fs) name = map_option beside_help (Lookup fs name)"
  by (induction fs) (simp_all add: Lookup_def beside_help_def)

lemma Lookup_execute:
  assumes "Lookup flags name = Some f"
  shows "Lookup (execute_flags inherited flags) name = Some (beside_help f)"
proof -
  have "Lookup (map beside_help (merged_flags inherited flags)) name = Some (beside_help f)"
    using Lookup_AddFlagSet [OF assms] by (simp add: Lookup_beside_help merged_flags_def)
  then show ?thesis by (simp add: execute_flags_def InitDefaultHelpFlag_def Lookup_append)
qed

lemma parseArgs_own_value:
  assumes "Lookup flags name = Some f" and "fl_Spec f = long_flag name"
    and "name \<noteq> []" "hd name \<noteq> CHR ''-''" "CHR ''='' \<notin> set name"
  shows "parseArgs (execute_flags inherited flags) ((''--'' @ name) # val # args) (s, h) =
    (case fl_Set f val s of
       (None, s') \<Rightarrow> parseArgs (execute_flags inherited flags) args (s', h)
     | (Some err, s') \<Rightarrow> (Some (ParseError (errorf (''invalid argument '' @ go_quote val @ '' for '' @
         go_quote (''--'' @ name) @ '' flag: '' @ err_text err))), [], s', h))"
  using parseArgs_value [OF Lookup_execute [OF assms(1), of inherited] _ assms(3-5), of val args "(s, h)"]
  by (simp add: beside_help_def assms(2) long_flag_def split: prod.split option.split)

end
