(* ===== verification/Programs.thy ===== *)
theory Programs
  imports Cobra Commands
begin

text \<open>
  The two binaries from the command line to the exit code: the flags each command binds, the command
  trees of \<open>multi-operator-manager\<close> and \<open>sample-operator\<close>, and the mains under \<open>cmd/\<close>. Logging, profiling
  and the random seed of the mains are not modelled; the flags that \<open>verflag\<close> and \<open>globalflag\<close> add
  to the roots (\<open>root_flags\<close>, without the \<open>help\<close> flag every command gets) and those every command
  inherits (\<open>inherited\<close>) belong to other packages and are arguments, as are the commands cobra adds
  to a root (\<open>extra\<close>).
\<close>

section \<open>What a command leaves behind\<close>

text \<open>What it printed and did, for a command that returns; of a command that panics only the panic is kept.\<close>

datatype command_effect =
    Wrote write_event
  | Tested junit_case
  | Gathered string string

record command_output =
  co_Stdout :: string
  co_Stderr :: string
  co_Effects :: "command_effect list"

type_synonym command_result = "(go_error option \<times> command_output) outcome"

definition map_value :: "('a \<Rightarrow> 'b) \<Rightarrow> 'a outcome \<Rightarrow> 'b outcome" where
  "map_value f m = bind_outcome m (\<lambda>x. Value (f x))"

section \<open>apply-configuration\<close>

text \<open>\<open>time.RFC3339\<close>\<close>

definition RFC3339 :: string where
  "RFC3339 = ''2006-01-02T15:04:05Z07:00''"

text \<open>The flags while they are parsed; the slice remembers that it was set.\<close>

record apply_parse =
  ap_flags :: apply_flags
  ap_controllersChanged :: bool

definition newApplyConfigurationFlags :: "string option \<Rightarrow> apply_flags" where
  "newApplyConfigurationFlags now = \<lparr>af_inputDirectory = [], af_outputDirectory = [], af_controllers = [], af_now = now\<rparr>"

definition TimeVar ::
    "(string \<Rightarrow> string \<Rightarrow> go_error + string option) \<Rightarrow> string list \<Rightarrow> string \<Rightarrow> apply_parse flag" where
  "TimeVar parse formats name =
     \<lparr>fl_Spec = long_flag name,
      fl_Set = (\<lambda>val s. case TimeValue_Set parse (NewTimeValue (af_now (ap_flags s)) formats) val of
        (d, err) \<Rightarrow> (err, s\<lparr>ap_flags := (ap_flags s)\<lparr>af_now := tv_Time d\<rparr>\<rparr>))\<rparr>"

definition apply_flag_list ::
    "(string \<Rightarrow> string \<Rightarrow> go_error + string option) \<Rightarrow> (csv_error \<Rightarrow> go_error) \<Rightarrow> apply_parse flag list" where
  "apply_flag_list parse csv_text =
     [StringVar (\<lambda>u. ap_flags_update (af_inputDirectory_update u)) ''input-dir'',
      StringVar (\<lambda>u. ap_flags_update (af_outputDirectory_update u)) ''output-dir'',
      StringSliceVar csv_text (\<lambda>u. ap_flags_update (af_controllers_update u)) ap_controllersChanged
        ap_controllersChanged_update ''controllers'',
      TimeVar parse [RFC3339] ''now'']"

text \<open>Binding the flags also gives \<open>controllers\<close> its default.\<close>

definition apply_BindFlags ::
    "(string \<Rightarrow> string \<Rightarrow> go_error + string option) \<Rightarrow> (csv_error \<Rightarrow> go_error) \<Rightarrow> apply_flags \<Rightarrow>
      apply_parse flag list \<times> apply_parse" where
  "apply_BindFlags parse csv_text f =
     (apply_flag_list parse csv_text,
      \<lparr>ap_flags = f\<lparr>af_controllers := [''*'']\<rparr>, ap_controllersChanged = False\<rparr>)"

definition banner :: string where
  "banner = ''TODO output version'' @ newline"

definition newApplyConfigurationCommand ::
    "inherited_flag list \<Rightarrow> (string \<Rightarrow> string \<Rightarrow> go_error + string option) \<Rightarrow> (csv_error \<Rightarrow> go_error) \<Rightarrow> string option \<Rightarrow>
      (apply_flags \<Rightarrow> (go_error option \<times> write_event list) outcome) \<Rightarrow> command_result command" where
  "newApplyConfigurationCommand inherited parse csv_text now runE =
     (let (flags, s) = apply_BindFlags parse csv_text (newApplyConfigurationFlags now) in
      leaf_command ''apply-configuration'' inherited flags s (\<lambda>s.
        map_value (\<lambda>(err, evs). (err, \<lparr>co_Stdout = banner, co_Stderr = banner, co_Effects = map Wrote evs\<rparr>))
          (runE (ap_flags s))))"

section \<open>input-resources and output-resources\<close>

text \<open>These commands bind no flags and check nothing.\<close>

definition resources_BindFlags :: "unit flag list" where
  "resources_BindFlags = []"

definition newInputResourcesCommand ::
    "inherited_flag list \<Rightarrow> (go_error option \<times> string) outcome \<Rightarrow> command_result command" where
  "newInputResourcesCommand inherited runE =
     leaf_command ''input-resources'' inherited resources_BindFlags () (\<lambda>s.
       map_value (\<lambda>(err, out). (err, \<lparr>co_Stdout = out, co_Stderr = [], co_Effects = []\<rparr>)) runE)"

definition newOutputResourcesCommand ::
    "inherited_flag list \<Rightarrow> go_error option \<times> string list \<Rightarrow> command_result command" where
  "newOutputResourcesCommand inherited runE =
     leaf_command ''output-resources'' inherited resources_BindFlags () (\<lambda>s.
       Value (fst runE, \<lparr>co_Stdout = concat (snd runE), co_Stderr = [], co_Effects = []\<rparr>))"

section \<open>test apply-configuration and from-must-gather\<close>

definition NewTestApplyConfigurationFlags :: test_flags where
  "NewTestApplyConfigurationFlags =
     \<lparr>tf_TestDirectory = [], tf_OutputDirectory = [], tf_PreservePolicy = [], tf_ReplaceExpectedOutput = False\<rparr>"

definition test_BindFlags :: "test_flags flag list" where
  "test_BindFlags =
     [StringVar tf_TestDirectory_update ''test-dir'', StringVar tf_OutputDirectory_update ''output-dir'',
      StringVar tf_PreservePolicy_update ''preserve-policy'',
      BoolVarP tf_ReplaceExpectedOutput_update ''replace-expected-output'' []]"

definition NewTestApplyConfigurationCommand ::
    "inherited_flag list \<Rightarrow> (test_flags \<Rightarrow> (go_error option \<times> junit_case list \<times> string) outcome) \<Rightarrow>
      command_result command" where
  "NewTestApplyConfigurationCommand inherited runE =
     leaf_command ''apply-configuration'' inherited test_BindFlags NewTestApplyConfigurationFlags (\<lambda>f.
       map_value (\<lambda>(err, cases, out). (err, \<lparr>co_Stdout = out, co_Stderr = [], co_Effects = map Tested cases\<rparr>)) (runE f))"

definition NewCreateInputResourcesFromMustGatherFlags :: must_gather_flags where
  "NewCreateInputResourcesFromMustGatherFlags =
     \<lparr>mf_MustGatherDirectory = [], mf_OutputDirectory = [], mf_InputResourcesFile = [], mf_OperatorBinary = []\<rparr>"

definition must_gather_BindFlags :: "must_gather_flags flag list" where
  "must_gather_BindFlags =
     [StringVar mf_MustGatherDirectory_update ''must-gather-dir'', StringVar mf_OutputDirectory_update ''output-dir'',
      StringVar mf_InputResourcesFile_update ''input-resources'', StringVar mf_OperatorBinary_update ''operator-binary'']"

definition NewCreateInputResourcesFromMustGatherCommand ::
    "inherited_flag list \<Rightarrow> (must_gather_flags \<Rightarrow> (go_error option \<times> (string \<times> string) list) outcome) \<Rightarrow>
      command_result command" where
  "NewCreateInputResourcesFromMustGatherCommand inherited runE =
     leaf_command ''from-must-gather'' inherited must_gather_BindFlags NewCreateInputResourcesFromMustGatherFlags (\<lambda>f.
       map_value (\<lambda>(err, written). (err, \<lparr>co_Stdout = [], co_Stderr = [],
         co_Effects = map (\<lambda>(name, content). Gathered name content) written\<rparr>)) (runE f))"

section \<open>The command trees\<close>

text \<open>What the commands run, with everything outside the program fixed.\<close>

record program =
  pg_inherited :: "inherited_flag list"
  pg_root_flags :: "inherited_flag list"
  pg_extra :: "command_result command list"
  pg_suggestions :: "string \<Rightarrow> string"
  pg_parseTime :: "string \<Rightarrow> string \<Rightarrow> go_error + string option"
  pg_csv_text :: "csv_error \<Rightarrow> go_error"
  pg_now :: "string option"
  pg_apply :: "apply_flags \<Rightarrow> (go_error option \<times> write_event list) outcome"
  pg_input :: "(go_error option \<times> string) outcome"
  pg_output :: "go_error option \<times> string list"
  pg_test :: "test_flags \<Rightarrow> (go_error option \<times> junit_case list \<times> string) outcome"
  pg_must_gather :: "must_gather_flags \<Rightarrow> (go_error option \<times> (string \<times> string) list) outcome"

definition sample_commands :: "program \<Rightarrow> command_result command list" where
  "sample_commands P =
     [newApplyConfigurationCommand (pg_inherited P) (pg_parseTime P) (pg_csv_text P) (pg_now P) (pg_apply P),
      newInputResourcesCommand (pg_inherited P) (pg_input P),
      newOutputResourcesCommand (pg_inherited P) (pg_output P)]"

text \<open>\<open>NewSampleOperatorCommand\<close>, as the root of its own binary and below \<open>multi-operator-manager\<close>.\<close>

definition NewSampleOperatorCommand ::
    "program \<Rightarrow> inherited_flag list \<Rightarrow> command_result command list \<Rightarrow> command_result command" where
  "NewSampleOperatorCommand P flags extra =
     group_command ''sample-operator'' (pg_inherited P) (map inherit flags) (sample_commands P @ extra)"

definition NewTestCommand :: "program \<Rightarrow> command_result command" where
  "NewTestCommand P =
     group_command ''test'' (pg_inherited P) [] [NewTestApplyConfigurationCommand (pg_inherited P) (pg_test P)]"

definition NewCreateInputResourcesCommand :: "program \<Rightarrow> command_result command" where
  "NewCreateInputResourcesCommand P =
     group_command ''create-input-resources'' (pg_inherited P) []
       [NewCreateInputResourcesFromMustGatherCommand (pg_inherited P) (pg_must_gather P)]"

definition NewMultiOperatorManagerCommand :: "program \<Rightarrow> command_result command" where
  "NewMultiOperatorManagerCommand P =
     group_command ''multi-operator-manager'' (pg_inherited P) (map inherit (pg_root_flags P))
       ([NewTestCommand P, NewSampleOperatorCommand P [] [], NewCreateInputResourcesCommand P] @ pg_extra P)"

section \<open>The mains\<close>

text \<open>
  The end of a process: the exit code, the line \<open>main\<close> prints on an error, whether the usage text was
  printed, and what the command that ran left behind. A panic ends a Go process with code 2.
\<close>

record process_exit =
  px_Code :: int
  px_Error :: string
  px_Usage :: bool
  px_Output :: "command_output option"

definition main_exit :: "command_result cobra_result \<Rightarrow> process_exit" where
  "main_exit r =
     (case r of
        CobraHelp \<Rightarrow> \<lparr>px_Code = 0, px_Error = [], px_Usage = False, px_Output = None\<rparr>
      | CobraError err usage \<Rightarrow>
          \<lparr>px_Code = 1, px_Error = ''error: '' @ err_text err @ newline, px_Usage = usage, px_Output = None\<rparr>
      | CobraRan (Value (None, out)) \<Rightarrow> \<lparr>px_Code = 0, px_Error = [], px_Usage = False, px_Output = Some out\<rparr>
      | CobraRan (Value (Some err, out)) \<Rightarrow>
          \<lparr>px_Code = 1, px_Error = ''error: '' @ err_text err @ newline, px_Usage = False, px_Output = Some out\<rparr>
      | CobraRan (Panicked p) \<Rightarrow> \<lparr>px_Code = 2, px_Error = [], px_Usage = False, px_Output = None\<rparr>)"

definition sample_operator_main :: "program \<Rightarrow> string list \<Rightarrow> process_exit" where
  "sample_operator_main P args =
     main_exit (Execute (pg_suggestions P) (NewSampleOperatorCommand P (pg_root_flags P) (pg_extra P)) args)"

definition multi_operator_manager_main :: "program \<Rightarrow> string list \<Rightarrow> process_exit" where
  "multi_operator_manager_main P args =
     main_exit (Execute (pg_suggestions P) (NewMultiOperatorManagerCommand P) args)"

end
