(* ===== verification/Process_Launch.thy ===== *)
theory Process_Launch
  imports Programs Run_Roundtrip
begin

text \<open>
  The tester's side and the operator's side of a process: the arguments \<open>ExecApplyConfiguration\<close> builds,
  what the operator's command makes of them, and the result read from the output directory after the
  process has ended.
\<close>

section \<open>What apply-configuration makes of its arguments\<close>

abbreviation apply_bound ::
    "inherited_flag list \<Rightarrow> (string \<Rightarrow> string \<Rightarrow> go_error + string option) \<Rightarrow> (csv_error \<Rightarrow> go_error) \<Rightarrow> (apply_parse \<times> bool) flag list" where
  "apply_bound inherited parse csv_text \<equiv> execute_flags inherited (apply_flag_list parse csv_text)"

lemma apply_Lookup:
  "Lookup (apply_flag_list parse csv_text) ''input-dir'' =
     Some (StringVar (\<lambda>u. ap_flags_update (af_inputDirectory_update u)) ''input-dir'')"
  "Lookup (apply_flag_list parse csv_text) ''output-dir'' =
     Some (StringVar (\<lambda>u. ap_flags_update (af_outputDirectory_update u)) ''output-dir'')"
  "Lookup (apply_flag_list parse csv_text) ''controllers'' =
     Some (StringSliceVar csv_text (\<lambda>u. ap_flags_update (af_controllers_update u)) ap_controllersChanged
       ap_controllersChanged_update ''controllers'')"
  "Lookup (apply_flag_list parse csv_text) ''now'' = Some (TimeVar parse [RFC3339] ''now'')"
  by (simp_all add: apply_flag_list_def Lookup_def StringVar_def StringSliceVar_def TimeVar_def long_flag_def)

lemma parse_input_dir:
  "parseArgs (apply_bound inherited parse csv_text) (''--input-dir'' # val # args) (s, h) =
     parseArgs (apply_bound inherited parse csv_text) args (ap_flags_update (af_inputDirectory_update (\<lambda>old. val)) s, h)"
  using parseArgs_own_value [OF apply_Lookup(1), where inherited = inherited and val = val and args = args and s = s and h = h] by (simp add: StringVar_def)

lemma parse_output_dir:
  "parseArgs (apply_bound inherited parse csv_text) (''--output-dir'' # val # args) (s, h) =
     parseArgs (apply_bound inherited parse csv_text) args (ap_flags_update (af_outputDirectory_update (\<lambda>old. val)) s, h)"
  using parseArgs_own_value [OF apply_Lookup(2), where inherited = inherited and val = val and args = args and s = s and h = h] by (simp add: StringVar_def)

lemma parse_now:
  assumes "parse RFC3339 (trim_space val) = Inr now"
  shows "parseArgs (apply_bound inherited parse csv_text) (''--now'' # val # args) (s, h) =
     parseArgs (apply_bound inherited parse csv_text) args (s\<lparr>ap_flags := (ap_flags s)\<lparr>af_now := now\<rparr>\<rparr>, h)"
  using parseArgs_own_value [OF apply_Lookup(4), where inherited = inherited and val = val and args = args and s = s and h = h] assms
  by (simp add: TimeVar_def TimeValue_Set_def NewTimeValue_def)

definition csv_failure :: "(csv_error \<Rightarrow> go_error) \<Rightarrow> string \<Rightarrow> csv_error \<Rightarrow> go_error" where
  "csv_failure csv_text val err = errorf (''invalid argument '' @ go_quote val @ '' for '' @ go_quote ''--controllers'' @
     '' flag: '' @ err_text (csv_text err))"

lemma parse_controllers:
  "parseArgs (apply_bound inherited parse csv_text) (''--controllers'' # val # args) (s, h) =
     (case readAsCSV val of
        Inl err \<Rightarrow> (Some (ParseError (csv_failure csv_text val err)), [], s, h)
      | Inr cs \<Rightarrow> parseArgs (apply_bound inherited parse csv_text) args
          (ap_controllersChanged_update (\<lambda>c. True)
            (ap_flags_update (af_controllers_update (\<lambda>old. if ap_controllersChanged s then old @ cs else cs)) s), h))"
  using parseArgs_own_value [OF apply_Lookup(3), where inherited = inherited and val = val and args = args and s = s and h = h]
  by (simp add: StringSliceVar_def csv_failure_def split: sum.split)

text \<open>The flags an operator process gets.\<close>

definition launched_flags :: "string option \<Rightarrow> flag_values \<Rightarrow> string list \<Rightarrow> apply_flags" where
  "launched_flags start v controllers =
     \<lparr>af_inputDirectory = fv_InputDirectory v, af_outputDirectory = fv_OutputDirectory v,
      af_controllers = controllers, af_now = (case fv_Now v of None \<Rightarrow> start | Some now \<Rightarrow> Some now)\<rparr>"

lemma launched_parse:
  assumes "\<forall>t. fv_Now v = Some t \<longrightarrow> parse RFC3339 (trim_space t) = Inr (Some t)"
  shows "case parseArgs (apply_bound inherited parse csv_text) (tl (exec_args v))
      (snd (apply_BindFlags parse csv_text (newApplyConfigurationFlags start)), False) of (err, positional, s, h) \<Rightarrow>
    positional = [] \<and> \<not> h \<and>
    (if fv_Controllers v = [] then err = None \<and> ap_flags s = launched_flags start v [''*'']
     else case readAsCSV (strings_join (fv_Controllers v) '','') of
       Inl e \<Rightarrow> err = Some (ParseError (csv_failure csv_text (strings_join (fv_Controllers v) '','') e))
     | Inr cs \<Rightarrow> err = None \<and> ap_flags s = launched_flags start v cs)"
  using assms
  by (cases "fv_Now v")
    (simp_all add: exec_args_def parse_input_dir parse_output_dir parse_now parse_controllers apply_BindFlags_def
      newApplyConfigurationFlags_def launched_flags_def split: sum.split)

section \<open>The operator's process\<close>

text \<open>What running the command leaves: the operator's result with what the command prints.\<close>

definition apply_result :: "program \<Rightarrow> apply_flags \<Rightarrow> command_result" where
  "apply_result P f =
     map_value (\<lambda>(err, evs). (err, \<lparr>co_Stdout = banner, co_Stderr = banner, co_Effects = map Wrote evs\<rparr>)) (pg_apply P f)"

lemma findNext_apply:
  "findNext (NewSampleOperatorCommand P flags extra) ''apply-configuration'' =
     Some (newApplyConfigurationCommand (pg_inherited P) (pg_parseTime P) (pg_csv_text P) (pg_now P) (pg_apply P))"
  by (simp add: NewSampleOperatorCommand_def group_command_def sample_commands_def findNext_here
      newApplyConfigurationCommand_def leaf_command_def Let_def split: prod.split)

lemma launched_execute:
  assumes "\<forall>t. fv_Now v = Some t \<longrightarrow> pg_parseTime P RFC3339 (trim_space t) = Inr (Some t)"
  shows "Execute suggestions (NewSampleOperatorCommand P flags extra) (exec_args v) =
    (if fv_Controllers v = [] then CobraRan (apply_result P (launched_flags (pg_now P) v [''*'']))
     else case readAsCSV (strings_join (fv_Controllers v) '','') of
       Inl e \<Rightarrow> CobraError (csv_failure (pg_csv_text P) (strings_join (fv_Controllers v) '','') e) False
     | Inr cs \<Rightarrow> CobraRan (apply_result P (launched_flags (pg_now P) v cs)))"
proof -
  let ?cmd = "newApplyConfigurationCommand (pg_inherited P) (pg_parseTime P) (pg_csv_text P) (pg_now P) (pg_apply P)"
  have args: "exec_args v = ''apply-configuration'' # tl (exec_args v)" by (simp add: exec_args_def)
  have cmd: "cmd_commands ?cmd = []" "cmd_SilenceUsage ?cmd"
    "cmd_execute ?cmd = command_execute (pg_inherited P) (apply_flag_list (pg_parseTime P) (pg_csv_text P))
      (snd (apply_BindFlags (pg_parseTime P) (pg_csv_text P) (newApplyConfigurationFlags (pg_now P)))) (Some (\<lambda>s. apply_result P (ap_flags s)))"
    by (simp_all add: newApplyConfigurationCommand_def leaf_command_def apply_BindFlags_def apply_result_def)
  note execute = Execute_leaf [OF _ _ findNext_apply cmd(1), where args = "tl (exec_args v)", folded args]
  show ?thesis
    using launched_parse [where v = v and parse = "pg_parseTime P" and inherited = "pg_inherited P" and csv_text = "pg_csv_text P"
        and start = "pg_now P", OF assms]
    by (simp add: execute cmd(2,3) command_execute_def execute_flags_def [symmetric] split: prod.splits sum.splits if_splits)
qed

text \<open>The names \<open>pflag\<close> gives back: those of a list of names without commas, quotes and line ends.\<close>

definition launchable :: "program \<Rightarrow> flag_values \<Rightarrow> bool" where
  "launchable P v \<longleftrightarrow> (\<forall>t. fv_Now v = Some t \<longrightarrow> pg_parseTime P RFC3339 (trim_space t) = Inr (Some t)) \<and>
     fv_Controllers v \<noteq> [[]] \<and> (\<forall>c \<in> set (fv_Controllers v). csv_plain c)"

definition operator_flags :: "program \<Rightarrow> flag_values \<Rightarrow> apply_flags" where
  "operator_flags P v = launched_flags (pg_now P) v (if fv_Controllers v = [] then [''*''] else fv_Controllers v)"

lemma launched_runs:
  "launchable P v \<Longrightarrow> sample_operator_main P (exec_args v) = main_exit (CobraRan (apply_result P (operator_flags P v)))"
  using readAsCSV_join [of "fv_Controllers v"]
  by (simp add: sample_operator_main_def launched_execute launchable_def operator_flags_def)

section \<open>The launched process\<close>

definition exit_status :: "process_exit \<Rightarrow> go_error option" where
  "exit_status px = (if px_Code px = 0 then None
     else Some (Leaf (ExitError (px_Code px)) (''exit status '' @ show_int (px_Code px))))"

text \<open>A machine on which the binary is the sample operator's and the files of the tester open.\<close>

definition runs_program :: "exec_env \<Rightarrow> program \<Rightarrow> bool" where
  "runs_program env P \<longleftrightarrow> (\<forall>f. ex_OpenFile env f = None) \<and> (\<forall>b args. ex_Start env b args = None) \<and>
     (\<forall>b args. ex_Wait env b args = exit_status (sample_operator_main P args))"

lemma exec_runs_program:
  assumes "runs_program env P" and "launchable P v"
  shows "ExecApplyConfiguration env binary v =
    (let px = main_exit (CobraRan (apply_result P (operator_flags P v)));
         result = NewApplyConfigurationResultFromDirectory (ex_DirFS env (fv_OutputDirectory v)) (fv_OutputDirectory v) in
     case exit_status px of None \<Rightarrow> result None
     | Some err \<Rightarrow> result (Some (Wrapf (''failed to wait for process '' @ ex_CmdString env binary (exec_args v) @ '': '') err
         ('' stderr: '' @ ex_ExitStderr env err))))"
  using assms
  by (auto simp: ExecApplyConfiguration_def runs_program_def launched_runs [OF assms(2)] Let_def exit_status_def
      err_as_exit_def)

lemma NewResult_exec:
  assumes "range_order (ord_cluster_types d)" and "snd (fs_ReadDir d) = None"
  shows "\<exists>r e. NewApplyConfigurationResultFromDirectory d dir execError = (Some r, e) \<and>
    (clean_output d \<longrightarrow> e = execError) \<and> (\<not> clean_output d \<longrightarrow> e \<noteq> None) \<and>
    res_applyConfiguration r = fst (newApplyConfigurationFromDirectory d dir)"
  using NewResult_read [OF assms, of dir execError] by auto

text \<open>The top level of an output directory: logs and results that read, and no entry but these.\<close>

definition files_ok :: "dir_env \<Rightarrow> bool" where
  "files_ok d \<longleftrightarrow> file_ok d ''stdout.log'' \<and> file_ok d ''stderr.log'' \<and> results_ok d \<and> snd (fs_ReadDir d) = None \<and>
     (\<forall>e \<in> set (fst (fs_ReadDir d)). expected_entry e)"

lemma exit_of_apply:
  "exit_status (main_exit (CobraRan (apply_result P f))) =
    (case pg_apply P f of
       Value (None, evs) \<Rightarrow> None
     | Value (Some err, evs) \<Rightarrow> Some (Leaf (ExitError 1) (''exit status '' @ show_int 1))
     | Panicked p \<Rightarrow> Some (Leaf (ExitError 2) (''exit status '' @ show_int 2)))"
  by (simp add: exit_status_def main_exit_def apply_result_def map_value_def
      split: outcome.split option.split)

section \<open>A machine\<close>

definition demo_program :: "(apply_flags \<Rightarrow> (go_error option \<times> write_event list) outcome) \<Rightarrow> program" where
  "demo_program run =
     \<lparr>pg_inherited = [(\<lparr>fs_Name = ''version'', fs_Shorthand = [], fs_NoOptDefVal = ''true''\<rparr>, \<lambda>val. None)],
      pg_root_flags = [], pg_extra = [], pg_suggestions = (\<lambda>a. []), pg_parseTime = (\<lambda>f s. Inr (Some s)),
      pg_csv_text = (\<lambda>e. errorf ''parse error''), pg_now = Some ''2024-01-01T00:00:00Z'', pg_apply = run,
      pg_input = Value (None, []), pg_output = (None, []), pg_test = (\<lambda>f. Value (None, [], [])),
      pg_must_gather = (\<lambda>f. Value (None, []))\<rparr>"

definition demo_values :: "string list \<Rightarrow> flag_values" where
  "demo_values controllers = \<lparr>fv_InputDirectory = ''-in'', fv_OutputDirectory = ''out'',
     fv_Now = Some ''2024-10-14T22:38:20Z'', fv_Controllers = controllers\<rparr>"

lemma demo_program_simps [simp]:
  "pg_apply (demo_program run) = run" "pg_now (demo_program run) = Some ''2024-01-01T00:00:00Z''"
  "fv_OutputDirectory (demo_values cs) = ''out''" "fv_Controllers (demo_values cs) = cs"
  by (simp_all add: demo_program_def demo_values_def)

lemma demo_launchable: "cs \<noteq> [[]] \<Longrightarrow> \<forall>c \<in> set cs. csv_plain c \<Longrightarrow> launchable (demo_program run) (demo_values cs)"
  by (simp add: launchable_def demo_program_def demo_values_def trim_space_def is_space_def)

definition demo_machine :: "program \<Rightarrow> dir_env \<Rightarrow> exec_env" where
  "demo_machine P d =
     \<lparr>ex_OpenFile = (\<lambda>f. None), ex_Start = (\<lambda>b args. None), ex_Wait = (\<lambda>b args. exit_status (sample_operator_main P args)),
      ex_CmdString = (\<lambda>b args. b), ex_ExitStderr = (\<lambda>e. []), ex_DirFS = (\<lambda>dir. d)\<rparr>"

lemma demo_machine_simps [simp]: "runs_program (demo_machine P d) P" "ex_DirFS (demo_machine P d) dir = d"
  by (simp_all add: runs_program_def demo_machine_def)

section \<open>Properties\<close>



text \<open>A comma in the name of a controller is not kept: the operator is asked for two controllers.\<close>

theorem comma_in_controller_name_splits:
  assumes "\<forall>t. fv_Now v = Some t \<longrightarrow> pg_parseTime P RFC3339 (trim_space t) = Inr (Some t)"
    and "fv_Controllers v = [a @ '','' @ b]" and "csv_plain a" and "csv_plain b"
  shows "sample_operator_main P (exec_args v) = main_exit (CobraRan (apply_result P (launched_flags (pg_now P) v [a, b])))"
proof -
  have "readAsCSV (strings_join [a, b] '','') = Inr [a, b]" using assms(3,4) by (intro readAsCSV_join) simp_all
  then show ?thesis by (simp add: sample_operator_main_def launched_execute [OF assms(1)] assms(2))
qed

theorem comma_in_controller_name_splits_witness:
  "px_Code (sample_operator_main (demo_program (\<lambda>f. if af_controllers f = [''a'', ''b''] then Value (None, []) else Panicked NilDereference))
      (exec_args (demo_values [''a,b'']))) = 0"
proof -
  let ?P = "demo_program (\<lambda>f. if af_controllers f = [''a'', ''b''] then Value (None, []) else Panicked NilDereference)"
  have "launchable ?P (demo_values [])" by (rule demo_launchable) simp_all
  then have "\<forall>t. fv_Now (demo_values [''a,b'']) = Some t \<longrightarrow> pg_parseTime ?P RFC3339 (trim_space t) = Inr (Some t)"
    by (simp add: launchable_def) (simp add: demo_values_def)
  from comma_in_controller_name_splits [OF this, of "''a''" "''b''"] show ?thesis
    by (simp add: csv_plain_def) (simp add: launched_flags_def main_exit_def apply_result_def map_value_def)
qed

text \<open>C38: the tester's view of the operator's process. It gets a result, with no error exactly when the
  command returned none and the output directory is clean; over a clean directory the exit code in the
  error is 2 when the command panicked and 1 when it returned an error.\<close>

theorem exec_reports_operator:
  assumes "runs_program env P" and "launchable P v" and "d = ex_DirFS env (fv_OutputDirectory v)"
    and "range_order (ord_cluster_types d)" and "snd (fs_ReadDir d) = None"
  shows "\<exists>r e. ExecApplyConfiguration env binary v = (Some r, e) \<and>
    (e = None \<longleftrightarrow> (\<exists>evs. pg_apply P (operator_flags P v) = Value (None, evs)) \<and> clean_output d) \<and>
    (clean_output d \<longrightarrow> (\<forall>x. e = Some x \<longrightarrow>
      err_as_exit x = Some (case pg_apply P (operator_flags P v) of Panicked p \<Rightarrow> 2 | Value out \<Rightarrow> 1)))"
proof -
  let ?status = "exit_status (main_exit (CobraRan (apply_result P (operator_flags P v))))"
  define err where "err = map_option (\<lambda>e. Wrapf (''failed to wait for process '' @ ex_CmdString env binary (exec_args v) @ '': '') e
    ('' stderr: '' @ ex_ExitStderr env e)) ?status"
  have "ExecApplyConfiguration env binary v = NewApplyConfigurationResultFromDirectory d (fv_OutputDirectory v) err"
    by (simp add: exec_runs_program [OF assms(1,2)] Let_def err_def assms(3) split: option.split)
  moreover have "err = None \<longleftrightarrow> (\<exists>evs. pg_apply P (operator_flags P v) = Value (None, evs))"
    "\<forall>x. err = Some x \<longrightarrow> err_as_exit x = Some (case pg_apply P (operator_flags P v) of Panicked p \<Rightarrow> 2 | Value out \<Rightarrow> 1)"
    by (auto simp: err_def exit_of_apply err_as_exit_def split: outcome.splits option.splits)
  ultimately show ?thesis
    using NewResult_exec [OF assms(4,5), of "fv_OutputDirectory v" err] by auto
qed

theorem exec_reports_operator_witness:
  "\<exists>r e. ExecApplyConfiguration (demo_machine (demo_program (\<lambda>f. Panicked NilDereference)) (demo_dir [] [])) ''operator'' (demo_values []) =
    (Some r, Some e) \<and> err_as_exit e = Some 2"
proof -
  let ?P = "demo_program (\<lambda>f. Panicked NilDereference)"
  have "launchable ?P (demo_values [])" by (rule demo_launchable) simp_all
  from exec_reports_operator [OF demo_machine_simps(1) this refl, of "demo_dir [] []" "''operator''"] show ?thesis
    by (auto simp: range_order_rev clean_output_def)
qed



end
