(* ===== verification/Write_Roundtripper.thy ===== *)
theory Write_Roundtripper
  imports Unstructured
begin

text \<open>
  The client that records what an operator would do: \<open>write_roundtripper.go\<close>, \<open>readwrite_roundtripper.go\<close>
  and \<open>context.go\<close> of the vendored \<open>manifestclient\<close>. A request that only reads is answered from the
  must-gather directory; a request that writes is decoded, recorded under its action with a number and
  the controller in its context, and answered with an object that holds only its identity. The API
  server's request resolver, the decoders and encoders and the discovery of kinds are arguments.
\<close>

section \<open>Requests and answers\<close>

text \<open>What the resolver of the API server tells of a request.\<close>

record request_info =
  ri_IsResourceRequest :: bool
  ri_Verb :: string
  ri_APIGroup :: string
  ri_APIVersion :: string
  ri_Namespace :: string
  ri_Resource :: string
  ri_Subresource :: string
  ri_Name :: string

text \<open>
  A request: \<open>hr_URL\<close> is its URL with the query, \<open>hr_Body\<close> is nil, or reads or fails to, and
  \<open>hr_Controller\<close> is the value of its context under the key of this package.
\<close>

record 'u http_request =
  hr_Method :: string
  hr_URL :: 'u
  hr_ContentType :: string
  hr_Body :: "(go_error + string) option"
  hr_Controller :: "string option"

record http_response =
  resp_StatusCode :: int
  resp_Body :: string
  resp_ContentType :: "string option"

definition WithControllerInstanceNameFromContext :: "'u http_request \<Rightarrow> string \<Rightarrow> 'u http_request" where
  "WithControllerInstanceNameFromContext req name = req\<lparr>hr_Controller := Some name\<rparr>"

definition ControllerInstanceNameFromContext :: "'u http_request \<Rightarrow> string" where
  "ControllerInstanceNameFromContext req = (case hr_Controller req of None \<Rightarrow> [] | Some val \<Rightarrow> val)"

datatype options_kind = PatchOptions | UpdateOptions | CreateOptions | DeleteOptions

text \<open>\<open>runtime.Decode\<close> with the unstructured scheme gives an object or, where there are items, a list.\<close>

datatype decoded = DecodedObject unstructured | DecodedList unstructured

record ('u, 'o) write_env =
  we_NewRequestInfo :: "string \<Rightarrow> 'u \<Rightarrow> go_error + request_info"
  we_DecodeParameters :: "'u \<Rightarrow> options_kind \<Rightarrow> go_error + 'o"
  we_MarshalOptions :: "'o \<Rightarrow> go_error + string"
  we_FieldManager :: "'o \<Rightarrow> string"
  we_DecodeBody :: "string \<Rightarrow> go_error + decoded"
  we_MarshalBody :: "unstructured \<Rightarrow> go_error + string"
  we_UnmarshalJSONPatch :: "string \<Rightarrow> go_error + json list"
  we_MarshalJSONPatch :: "json list \<Rightarrow> go_error + string"
  we_getKindForResource :: "group_version_resource \<Rightarrow> go_error + group_version_kind"
  we_MarshalReply :: "string \<Rightarrow> string \<Rightarrow> group_version_kind \<Rightarrow> go_error + string"
  we_Read :: "'u http_request \<Rightarrow> http_response"

record write_round_tripper =
  nextRequestNumber :: int
  actionTracker :: all_actions_tracker

definition newWriteRoundTripper :: write_round_tripper where
  "newWriteRoundTripper = \<lparr>nextRequestNumber = 1, actionTracker = \<lparr>actionToTracker = []\<rparr>\<rparr>"

section \<open>What is recorded\<close>

definition ApplyPatchType :: string where
  "ApplyPatchType = ''application/apply-patch+yaml''"

definition JSONPatchType :: string where
  "JSONPatchType = ''application/json-patch+json''"

text \<open>The \<open>switch\<close> on the verb: the action and the patch type.\<close>

definition request_action :: "request_info \<Rightarrow> string \<Rightarrow> (action \<times> string) option" where
  "request_action info contentType =
     (let verb = ri_Verb info; sub = ri_Subresource info in
      if verb = ''create'' \<and> length sub = 0 then Some (ActionCreate, [])
      else if verb = ''update'' \<and> length sub = 0 then Some (ActionUpdate, [])
      else if verb = ''update'' \<and> sub = ''status'' then Some (ActionUpdateStatus, [])
      else if verb = ''patch'' \<and> contentType = ApplyPatchType \<and> length sub = 0 then Some (ActionApply, [])
      else if verb = ''patch'' \<and> contentType = ApplyPatchType \<and> sub = ''status'' then Some (ActionApplyStatus, [])
      else if verb = ''patch'' \<and> length sub = 0 then Some (ActionPatch, contentType)
      else if verb = ''patch'' \<and> sub = ''status'' then Some (ActionPatchStatus, contentType)
      else if verb = ''delete'' \<and> length sub = 0 then Some (ActionDelete, [])
      else None)"

definition options_of :: "action \<Rightarrow> options_kind" where
  "options_of act =
     (if act \<in> {ActionPatch, ActionPatchStatus, ActionApply, ActionApplyStatus} then PatchOptions
      else if act \<in> {ActionUpdate, ActionUpdateStatus} then UpdateOptions
      else if act = ActionCreate then CreateOptions
      else DeleteOptions)"

text \<open>\<open>if err != nil { return nil, fmt.Errorf("...: %w", err) }\<close>\<close>

definition checked :: "string \<Rightarrow> go_error + 'a \<Rightarrow> ('a \<Rightarrow> (go_error + 'b) outcome) \<Rightarrow> (go_error + 'b) outcome" where
  "checked msg m k = (case m of Inl err \<Rightarrow> Value (Inl (Wrapf msg err [])) | Inr x \<Rightarrow> k x)"

definition has_object_body :: "action \<Rightarrow> bool" where
  "has_object_body act \<longleftrightarrow> act \<noteq> ActionPatch \<and> act \<noteq> ActionPatchStatus"

text \<open>
  The body: the object, if the action has one, and the bytes to record. A list where an object is
  expected fails the type assertion. The message about names prints the namespaces, as in the source.
\<close>

definition request_body ::
    "('u, 'o) write_env \<Rightarrow> request_info \<Rightarrow> action \<Rightarrow> string \<Rightarrow> string \<Rightarrow>
      (go_error + (unstructured option \<times> string)) outcome" where
  "request_body env info act patchType bodyContent =
     (if has_object_body act then
        checked ''unable to decode body: '' (we_DecodeBody env bodyContent) (\<lambda>bodyObj.
        case bodyObj of
          DecodedList l \<Rightarrow> Panicked (PanicValue ''interface conversion: runtime.Object is *unstructured.UnstructuredList, not *unstructured.Unstructured'')
        | DecodedObject obj \<Rightarrow>
            (if ri_Namespace info \<noteq> GetNamespace obj
             then Value (Inl (errorf (''request namespace '' @ go_quote (ri_Namespace info) @
               '' does not equal body namespace '' @ go_quote (GetNamespace obj))))
             else if act \<noteq> ActionCreate \<and> act \<noteq> ActionDelete \<and> ri_Name info \<noteq> GetName obj
             then Value (Inl (errorf (''request name '' @ go_quote (ri_Namespace info) @
               '' does not equal body name '' @ go_quote (GetNamespace obj))))
             else checked ''unable to encode body: '' (we_MarshalBody env obj) (\<lambda>out. Value (Inr (Some obj, out)))))
      else if patchType = JSONPatchType then
        checked ''unable to decode JSONPatch body: '' (we_UnmarshalJSONPatch env bodyContent) (\<lambda>ops.
        checked ''unable to encode JSONPatch body: '' (we_MarshalJSONPatch env ops) (\<lambda>out. Value (Inr (None, out))))
      else Value (Inr (None, bodyContent)))"

definition build_request ::
    "('u, 'o) write_env \<Rightarrow> 'u http_request \<Rightarrow> request_info \<Rightarrow> action \<Rightarrow> string \<Rightarrow> 'o \<Rightarrow> string \<Rightarrow>
      unstructured option \<Rightarrow> string \<Rightarrow> serialized_request" where
  "build_request env req info act patchType opts optionsBytes bodyObj bodyOutputBytes =
     \<lparr>sr_ActionMetadata =
        \<lparr>am_Action = act,
         am_ResourceType = \<lparr>gvr_Group = ri_APIGroup info, gvr_Version = ri_APIVersion info, gvr_Resource = ri_Resource info\<rparr>,
         am_Namespace = ri_Namespace info,
         am_Name = (case bodyObj of Some obj \<Rightarrow> if act = ActionCreate then GetName obj else ri_Name info | None \<Rightarrow> ri_Name info),
         am_GenerateName = (case bodyObj of Some obj \<Rightarrow> GetGenerateName obj | None \<Rightarrow> []),
         am_PatchType = patchType,
         am_FieldManager = (if options_of act = PatchOptions then we_FieldManager env opts else []),
         am_ControllerInstanceName = ControllerInstanceNameFromContext req\<rparr>,
      sr_KindType = (case bodyObj of Some obj \<Rightarrow> GroupVersionKind obj
         | None \<Rightarrow> \<lparr>gvk_Group = [], gvk_Version = [], gvk_Kind = []\<rparr>),
      sr_Options = optionsBytes, sr_Body = bodyOutputBytes\<rparr>"

definition serialize_request ::
    "('u, 'o) write_env \<Rightarrow> 'u http_request \<Rightarrow> (go_error + (serialized_request \<times> unstructured option)) outcome" where
  "serialize_request env req =
     checked ''failed reading requestInfo: '' (we_NewRequestInfo env (hr_Method req) (hr_URL req)) (\<lambda>info.
     if \<not> ri_IsResourceRequest info
     then Value (Inl (errorf ''non-resource requests are not supported by this implementation''))
     else if length (ri_Subresource info) \<noteq> 0 \<and> ri_Subresource info \<noteq> ''status''
     then Value (Inl (errorf (''subresource '' @ ri_Subresource info @ '' is not supported by this implementation'')))
     else case request_action info (hr_ContentType req) of
       None \<Rightarrow> Value (Inl (errorf (''verb '' @ ri_Verb info @ '' is not supported by this implementation'')))
     | Some (act, patchType) \<Rightarrow>
         checked ''unable to parse query parameters: '' (we_DecodeParameters env (hr_URL req) (options_of act)) (\<lambda>opts.
         checked ''unable to encode options: '' (we_MarshalOptions env opts) (\<lambda>encoded.
         let optionsBytes = (if trim_space encoded = ''{}'' then [] else encoded) in
         checked ''failed to read body: '' (case hr_Body req of None \<Rightarrow> Inr [] | Some body \<Rightarrow> body) (\<lambda>bodyContent.
         bind_outcome (request_body env info act patchType bodyContent) (\<lambda>body. case body of
           Inl err \<Rightarrow> Value (Inl err)
         | Inr (bodyObj, bodyOutputBytes) \<Rightarrow>
             Value (Inr (build_request env req info act patchType opts optionsBytes bodyObj bodyOutputBytes, bodyObj)))))))"

section \<open>The round trip\<close>

text \<open>
  The request is recorded first; building the answer can still fail. For a patch the kind in the answer
  comes from discovery.
\<close>

definition write_roundTrip ::
    "('u, 'o) write_env \<Rightarrow> 'u http_request \<Rightarrow> write_round_tripper \<Rightarrow> ((go_error + string) \<times> write_round_tripper) outcome" where
  "write_roundTrip env req mrt =
     bind_outcome (serialize_request env req) (\<lambda>res. case res of
       Inl err \<Rightarrow> Value (Inl err, mrt)
     | Inr (serializedRequest, bodyObj) \<Rightarrow>
         let trackedRequest = TrackedSerializedRequest (nextRequestNumber mrt) serializedRequest;
             md = sr_ActionMetadata serializedRequest in
         bind_outcome (AddRequest (actionTracker mrt) trackedRequest) (\<lambda>tracker.
           let mrt' = \<lparr>nextRequestNumber = nextRequestNumber mrt + 1, actionTracker = tracker\<rparr>;
               kind = (case bodyObj of Some obj \<Rightarrow> Inr (GroupVersionKind obj)
                       | None \<Rightarrow> we_getKindForResource env (am_ResourceType md)) in
           Value ((case kind of
                     Inl err \<Rightarrow> Inl err
                   | Inr gvk \<Rightarrow> (case we_MarshalReply env (am_Name md) (am_Namespace md) gvk of
                       Inl err \<Rightarrow> Inl (Wrapf ''unable to encode body: '' err [])
                     | Inr retBytes \<Rightarrow> Inr retBytes)), mrt')))"

definition write_RoundTrip ::
    "('u, 'o) write_env \<Rightarrow> 'u http_request \<Rightarrow> write_round_tripper \<Rightarrow> (http_response \<times> write_round_tripper) outcome" where
  "write_RoundTrip env req mrt =
     bind_outcome (write_roundTrip env req mrt) (\<lambda>(res, mrt'). Value ((case res of
         Inl err \<Rightarrow> \<lparr>resp_StatusCode = 500, resp_Body = err_text err, resp_ContentType = None\<rparr>
       | Inr retJSONBytes \<Rightarrow>
           \<lparr>resp_StatusCode = 200, resp_Body = retJSONBytes, resp_ContentType = Some ''application/json''\<rparr>), mrt'))"

text \<open>Reads and writes, told apart by the method.\<close>

definition RoundTrip ::
    "('u, 'o) write_env \<Rightarrow> 'u http_request \<Rightarrow> write_round_tripper \<Rightarrow> (http_response \<times> write_round_tripper) outcome" where
  "RoundTrip env req rt =
     (if hr_Method req \<in> {''GET'', ''HEAD''} then Value (we_Read env req, rt)
      else if hr_Method req \<in> {''POST'', ''PUT'', ''PATCH'', ''DELETE''} then write_RoundTrip env req rt
      else Value (\<lparr>resp_StatusCode = 500, resp_Body = ''unhandled verb: '' @ go_quote (hr_Method req),
        resp_ContentType = None\<rparr>, rt))"

definition GetMutations :: "write_round_tripper \<Rightarrow> all_actions_tracker" where
  "GetMutations mrt = tracker_DeepCopy (actionTracker mrt)"

section \<open>Lemmas\<close>

text \<open>What a round tripper holds after given requests were recorded, numbered from one.\<close>

definition numbered :: "serialized_request list \<Rightarrow> serialized_requestish list" where
  "numbered srs = map (\<lambda>(n, sr). TrackedSerializedRequest (int n) sr) (List.enumerate 1 srs)"

definition holds_history :: "write_round_tripper \<Rightarrow> serialized_request list \<Rightarrow> bool" where
  "holds_history t srs \<longleftrightarrow> nextRequestNumber t = 1 + int (length srs) \<and>
     AddRequests NewAllActionsTracker (numbered srs) = Value (actionTracker t)"

lemma numbered_snoc: "numbered (srs @ [sr]) = numbered srs @ [TrackedSerializedRequest (1 + int (length srs)) sr]"
  by (simp add: numbered_def enumerate_append_eq)

lemma map_GetSerializedRequest_numbered [simp]: "map GetSerializedRequest (numbered srs) = srs"
  by (rule nth_equalityI) (simp_all add: numbered_def nth_enumerate_eq)

lemma AddRequests_snoc: "AddRequests a (qs @ [q]) = bind_outcome (AddRequests a qs) (\<lambda>a'. AddRequest a' q)"
proof (induction qs arbitrary: a)
  case Nil
  show ?case by (cases "AddRequest a q") simp_all
next
  case (Cons r qs)
  then show ?case by (simp add: bind_outcome_assoc)
qed

lemma new_holds_nothing [simp]: "holds_history newWriteRoundTripper []"
  by (simp add: holds_history_def newWriteRoundTripper_def NewAllActionsTracker_def numbered_def)

lemma history_tracker:
  assumes "holds_history t srs"
  shows "tracker_inv (actionTracker t)"
    and "requests_of (actionTracker t) act = filter (\<lambda>q. requestish_action q = act) (numbered srs)"
    and "set (ListActions (actionTracker t)) = am_Action ` sr_ActionMetadata ` set srs"
proof -
  obtain a where a: "AddRequests NewAllActionsTracker (numbered srs) = Value a" "tracker_inv a"
    "set (ListActions a) = requestish_action ` set (numbered srs)"
    "\<And>k. requests_of a k = filter (\<lambda>q. requestish_action q = k) (numbered srs)"
    using AddRequests_inv [OF tracker_inv_New, of "numbered srs"]
    by (auto simp: NewAllActionsTracker_def ListActions_def requests_of_def RequestsForAction_def Mutations_def)
  then have "actionTracker t = a" using assms by (simp add: holds_history_def)
  moreover have "requestish_action ` set (numbered srs) = am_Action ` sr_ActionMetadata ` set (map GetSerializedRequest (numbered srs))"
    by (simp only: image_image set_map) (simp add: requestish_action_def)
  ultimately show "tracker_inv (actionTracker t)"
    "requests_of (actionTracker t) act = filter (\<lambda>q. requestish_action q = act) (numbered srs)"
    "set (ListActions (actionTracker t)) = am_Action ` sr_ActionMetadata ` set srs"
    using a by simp_all
qed

lemma history_record:
  assumes "holds_history t srs"
  obtains a where "AddRequest (actionTracker t) (TrackedSerializedRequest (nextRequestNumber t) sr) = Value a"
    and "holds_history \<lparr>nextRequestNumber = nextRequestNumber t + 1, actionTracker = a\<rparr> (srs @ [sr])"
proof -
  obtain a where a: "AddRequest (actionTracker t) (TrackedSerializedRequest (nextRequestNumber t) sr) = Value a"
    using AddRequest_inv [OF history_tracker(1) [OF assms]] by blast
  moreover have "AddRequests NewAllActionsTracker (numbered (srs @ [sr])) = Value a"
    using assms a by (simp add: numbered_snoc AddRequests_snoc holds_history_def)
  ultimately show thesis using assms by (intro that) (simp_all add: holds_history_def)
qed

lemma mset_history:
  assumes "holds_history t srs" and "range_order ord"
  shows "mset (AllRequests ord (actionTracker t)) = mset (numbered srs)"
proof -
  let ?t = "actionTracker t"
  note inv = history_tracker(1) [OF assms(1)]
  have "mset (AllRequests ord ?t) = mset (concat (map (requests_of ?t) (ListActions ?t)))"
    using tracker.all_requests_mset [OF inv assms(2)] by (simp add: requests_of_def [abs_def])
  also have "\<dots> = filter_mset (\<lambda>q. requestish_action q \<in> set (ListActions ?t)) (mset (numbered srs))"
    unfolding history_tracker(2) [OF assms(1), abs_def]
    by (rule mset_concat_filter_keys) (rule tracker.distinct_actions [OF inv])
  also have "\<dots> = mset (numbered srs)"
  proof -
    have "requestish_action q \<in> am_Action ` sr_ActionMetadata ` set srs" if "q \<in> set (numbered srs)" for q
      using imageI [OF that, of GetSerializedRequest] map_GetSerializedRequest_numbered [of srs]
      by (metis image_eqI list.set_map requestish_action_def)
    then show ?thesis unfolding history_tracker(3) [OF assms(1)] by (simp add: filter_mset_eq_conv)
  qed
  finally show ?thesis .
qed

text \<open>What serializing a request tells of it.\<close>

lemma checked_Inr_iff: "checked msg m k = Value (Inr x) \<longleftrightarrow> (\<exists>y. m = Inr y \<and> k y = Value (Inr x))"
  by (cases m) (simp_all add: checked_def)

lemma request_body_Inr:
  assumes "request_body env info act patchType content = Value (Inr (obj, out))"
  shows "(obj \<noteq> None \<longleftrightarrow> has_object_body act) \<and> (\<forall>b. obj = Some b \<longrightarrow> GetNamespace b = ri_Namespace info \<and>
    (act \<noteq> ActionCreate \<longrightarrow> act \<noteq> ActionDelete \<longrightarrow> GetName b = ri_Name info))"
proof (cases "has_object_body act")
  case True
  with assms obtain d where "we_DecodeBody env content = Inr d"
    by (auto simp: request_body_def checked_Inr_iff)
  with assms True show ?thesis by (cases d) (auto simp: request_body_def checked_def split: if_splits sum.splits)
next
  case False
  with assms show ?thesis by (auto simp: request_body_def checked_Inr_iff split: if_splits)
qed

lemma request_action_AllActions: "request_action info ct = Some (act, p) \<Longrightarrow> act \<in> set AllActions"
  by (auto simp: request_action_def Let_def AllActions_def split: if_splits)

lemma serialize_request_Inr:
  assumes "serialize_request env req = Value (Inr (sr, obj))"
  obtains info act patchType opts optionsBytes content out
  where "request_action info (hr_ContentType req) = Some (act, patchType)"
    and "request_body env info act patchType content = Value (Inr (obj, out))"
    and "sr = build_request env req info act patchType opts optionsBytes obj out"
proof -
  obtain info where info: "we_NewRequestInfo env (hr_Method req) (hr_URL req) = Inr info"
    using assms by (cases "we_NewRequestInfo env (hr_Method req) (hr_URL req)") (simp_all add: serialize_request_def checked_def)
  obtain act patchType where act: "request_action info (hr_ContentType req) = Some (act, patchType)"
    using assms by (cases "request_action info (hr_ContentType req)") (auto simp: serialize_request_def info checked_def split: if_splits)
  obtain opts where opts: "we_DecodeParameters env (hr_URL req) (options_of act) = Inr opts"
    using assms by (cases "we_DecodeParameters env (hr_URL req) (options_of act)")
      (auto simp: serialize_request_def info act checked_def split: if_splits)
  obtain encoded where encoded: "we_MarshalOptions env opts = Inr encoded"
    using assms by (cases "we_MarshalOptions env opts") (auto simp: serialize_request_def info act opts checked_def split: if_splits)
  let ?content = "case hr_Body req of None \<Rightarrow> Inr [] | Some body \<Rightarrow> body"
  obtain content where content: "?content = Inr content"
    using assms by (cases ?content) (auto simp: serialize_request_def info act opts encoded checked_def Let_def split: if_splits)
  obtain out where "request_body env info act patchType content = Value (Inr (obj, out))"
    "sr = build_request env req info act patchType opts (if trim_space encoded = ''{}'' then [] else encoded) obj out"
    using assms by (cases "request_body env info act patchType content")
      (auto simp: serialize_request_def info act opts encoded content checked_def Let_def split: if_splits sum.splits)
  with act show thesis by (rule that)
qed

text \<open>The identity of a recorded request, as the object of its body has it where there is one.\<close>

lemma serialized_facts:
  assumes "serialize_request env req = Value (Inr (sr, obj))"
  shows "am_Action (sr_ActionMetadata sr) \<in> set AllActions"
    and "am_ControllerInstanceName (sr_ActionMetadata sr) = ControllerInstanceNameFromContext req"
    and "obj \<noteq> None \<longleftrightarrow> has_object_body (am_Action (sr_ActionMetadata sr))"
    and "obj = Some b \<Longrightarrow> am_Namespace (sr_ActionMetadata sr) = GetNamespace b"
    and "obj = Some b \<Longrightarrow> am_Action (sr_ActionMetadata sr) \<noteq> ActionDelete \<Longrightarrow> am_Name (sr_ActionMetadata sr) = GetName b"
proof -
  obtain info act patchType opts optionsBytes content out
    where sr: "request_action info (hr_ContentType req) = Some (act, patchType)"
      "request_body env info act patchType content = Value (Inr (obj, out))"
      "sr = build_request env req info act patchType opts optionsBytes obj out"
    by (rule serialize_request_Inr [OF assms])
  note body = request_body_Inr [OF sr(2)]
  show "am_Action (sr_ActionMetadata sr) \<in> set AllActions" using request_action_AllActions [OF sr(1)] by (simp add: sr(3) build_request_def)
  show "am_ControllerInstanceName (sr_ActionMetadata sr) = ControllerInstanceNameFromContext req" by (simp add: sr(3) build_request_def)
  show "obj \<noteq> None \<longleftrightarrow> has_object_body (am_Action (sr_ActionMetadata sr))" using body by (simp add: sr(3) build_request_def)
  show "obj = Some b \<Longrightarrow> am_Namespace (sr_ActionMetadata sr) = GetNamespace b" using body by (simp add: sr(3) build_request_def)
  show "obj = Some b \<Longrightarrow> am_Action (sr_ActionMetadata sr) \<noteq> ActionDelete \<Longrightarrow> am_Name (sr_ActionMetadata sr) = GetName b"
    using body by (auto simp: sr(3) build_request_def)
qed

text \<open>The answer to a recorded request.\<close>

definition reply_to :: "('u, 'o) write_env \<Rightarrow> serialized_request \<Rightarrow> unstructured option \<Rightarrow> go_error + string" where
  "reply_to env sr obj =
     (case (case obj of Some b \<Rightarrow> Inr (GroupVersionKind b)
            | None \<Rightarrow> we_getKindForResource env (am_ResourceType (sr_ActionMetadata sr))) of
        Inl err \<Rightarrow> Inl err
      | Inr gvk \<Rightarrow> (case we_MarshalReply env (am_Name (sr_ActionMetadata sr)) (am_Namespace (sr_ActionMetadata sr)) gvk of
          Inl err \<Rightarrow> Inl (Wrapf ''unable to encode body: '' err []) | Inr bytes \<Rightarrow> Inr bytes))"

definition response_of :: "go_error + string \<Rightarrow> http_response" where
  "response_of res = (case res of
     Inl err \<Rightarrow> \<lparr>resp_StatusCode = 500, resp_Body = err_text err, resp_ContentType = None\<rparr>
   | Inr bytes \<Rightarrow> \<lparr>resp_StatusCode = 200, resp_Body = bytes, resp_ContentType = Some ''application/json''\<rparr>)"

lemma write_RoundTrip_spec:
  assumes "holds_history t srs"
  shows "case serialize_request env req of
      Panicked p \<Rightarrow> write_RoundTrip env req t = Panicked p
    | Value (Inl err) \<Rightarrow> write_RoundTrip env req t = Value (response_of (Inl err), t)
    | Value (Inr (sr, obj)) \<Rightarrow> (\<exists>t'. write_RoundTrip env req t = Value (response_of (reply_to env sr obj), t') \<and>
        holds_history t' (srs @ [sr]))"
proof (cases "serialize_request env req")
  case (Value res)
  show ?thesis
  proof (cases res)
    case (Inr x)
    obtain sr obj where x: "x = (sr, obj)" by (cases x)
    obtain a where "AddRequest (actionTracker t) (TrackedSerializedRequest (nextRequestNumber t) sr) = Value a"
      "holds_history \<lparr>nextRequestNumber = nextRequestNumber t + 1, actionTracker = a\<rparr> (srs @ [sr])"
      by (rule history_record [OF assms])
    then show ?thesis
      by (simp add: Value Inr x write_RoundTrip_def write_roundTrip_def Let_def reply_to_def response_of_def)
  qed (simp add: Value write_RoundTrip_def write_roundTrip_def response_of_def)
qed (simp add: write_RoundTrip_def write_roundTrip_def)

section \<open>Properties\<close>

text \<open>A client for the examples: the URL is what the resolver makes of it, the body is the name of an
  object without a namespace, and only the kind of config maps is known.\<close>

definition demo_write_env :: "(request_info, unit) write_env" where
  "demo_write_env =
     \<lparr>we_NewRequestInfo = (\<lambda>m u. Inr u), we_DecodeParameters = (\<lambda>u k. Inr ()), we_MarshalOptions = (\<lambda>opts. Inr (''{}'' @ newline)),
      we_FieldManager = (\<lambda>opts. []),
      we_DecodeBody = (\<lambda>c. Inr (DecodedObject (fmupd ''metadata'' (JObject (fmupd ''name'' (JString c) fmempty)) fmempty))),
      we_MarshalBody = (\<lambda>b. Inr (GetName b)), we_UnmarshalJSONPatch = (\<lambda>c. Inr []), we_MarshalJSONPatch = (\<lambda>ops. Inr ''[]''),
      we_getKindForResource = (\<lambda>gvr. if gvr_Resource gvr = ''configmaps''
        then Inr \<lparr>gvk_Group = [], gvk_Version = ''v1'', gvk_Kind = ''ConfigMap''\<rparr> else Inl (errorf ''unknown resource'')),
      we_MarshalReply = (\<lambda>name ns gvk. Inr name),
      we_Read = (\<lambda>req. \<lparr>resp_StatusCode = 404, resp_Body = [], resp_ContentType = None\<rparr>)\<rparr>"

definition demo_http :: "string \<Rightarrow> string \<Rightarrow> string \<Rightarrow> string \<Rightarrow> string \<Rightarrow> request_info http_request" where
  "demo_http verb ns res name contentType =
     \<lparr>hr_Method = ''POST'', hr_URL = \<lparr>ri_IsResourceRequest = True, ri_Verb = verb, ri_APIGroup = [], ri_APIVersion = ''v1'',
        ri_Namespace = ns, ri_Resource = res, ri_Subresource = [], ri_Name = name\<rparr>,
      hr_ContentType = contentType, hr_Body = Some (Inr name), hr_Controller = Some ''c''\<rparr>"

lemmas demo_write_defs = demo_write_env_def demo_http_def serialize_request_def checked_def request_action_def
  request_body_def has_object_body_def build_request_def GetNamespace_def GetName_def GetGenerateName_def
  get_metadata_string_def get_string_def trim_space_def is_space_def newline_def ActionCreate_def ActionDelete_def
  ActionPatch_def ActionPatchStatus_def ApplyPatchType_def JSONPatchType_def

text \<open>C19: the client that stands in for the API server records a write exactly when it can be serialized: the
  request comes after those before it, with the next number, the controller of its context, an action
  the mutation directories know and, where there is an object, its namespace. A request that cannot be
  serialized changes nothing and is answered with status 500. A recorded one is answered with 200
  exactly when the answer can be built.\<close>

theorem write_RoundTrip_records:
  assumes "holds_history t srs"
  shows "case serialize_request env req of
      Panicked p \<Rightarrow> write_RoundTrip env req t = Panicked p
    | Value (Inl err) \<Rightarrow> (\<exists>resp. write_RoundTrip env req t = Value (resp, t) \<and> resp_StatusCode resp = 500 \<and> resp_Body resp = err_text err)
    | Value (Inr (sr, obj)) \<Rightarrow> (\<exists>resp t'. write_RoundTrip env req t = Value (resp, t') \<and>
        nextRequestNumber t' = nextRequestNumber t + 1 \<and> holds_history t' (srs @ [sr]) \<and>
        am_ControllerInstanceName (sr_ActionMetadata sr) = ControllerInstanceNameFromContext req \<and>
        am_Action (sr_ActionMetadata sr) \<in> set AllActions \<and>
        (\<forall>b. obj = Some b \<longrightarrow> am_Namespace (sr_ActionMetadata sr) = GetNamespace b) \<and>
        (resp_StatusCode resp = 200 \<longleftrightarrow> (\<exists>bytes. reply_to env sr obj = Inr bytes)))"
proof (cases "serialize_request env req")
  case (Value res)
  show ?thesis
  proof (cases res)
    case (Inr x)
    obtain sr obj where x: "x = (sr, obj)" by (cases x)
    obtain t' where "write_RoundTrip env req t = Value (response_of (reply_to env sr obj), t')" "holds_history t' (srs @ [sr])"
      using write_RoundTrip_spec [OF assms, of env req] by (auto simp: Value Inr x)
    then show ?thesis
      using assms serialized_facts [OF Value [unfolded Inr x]]
      by (auto simp: Value Inr x response_of_def holds_history_def split: sum.split)
  qed (use write_RoundTrip_spec [OF assms, of env req] in \<open>simp add: Value response_of_def\<close>)
qed (use write_RoundTrip_spec [OF assms, of env req] in simp)

theorem write_RoundTrip_records_witness:
  "\<exists>resp t' sr. write_RoundTrip demo_write_env (demo_http ''create'' [] ''configmaps'' ''one'' []) newWriteRoundTripper = Value (resp, t') \<and>
    holds_history t' [sr] \<and> am_Name (sr_ActionMetadata sr) = ''one'' \<and> resp_StatusCode resp = 200"
proof -
  let ?req = "demo_http ''create'' [] ''configmaps'' ''one'' []"
  obtain sr obj where sr: "serialize_request demo_write_env ?req = Value (Inr (sr, Some obj))" "am_Name (sr_ActionMetadata sr) = ''one''"
    by (simp add: demo_write_defs)
  have "\<exists>bytes. reply_to demo_write_env sr (Some obj) = Inr bytes" by (simp add: reply_to_def demo_write_env_def)
  with write_RoundTrip_records [OF new_holds_nothing, of demo_write_env ?req] sr show ?thesis by auto
qed

text \<open>A patch of a resource whose kind is not known to discovery is recorded, and yet its client is told
  that it failed.\<close>

theorem refused_patch_is_recorded:
  assumes "holds_history t srs" and "serialize_request env req = Value (Inr (sr, None))"
    and "we_getKindForResource env (am_ResourceType (sr_ActionMetadata sr)) = Inl err"
  shows "\<exists>resp t'. write_RoundTrip env req t = Value (resp, t') \<and> resp_StatusCode resp = 500 \<and>
    resp_Body resp = err_text err \<and> holds_history t' (srs @ [sr]) \<and>
    sr \<in> GetSerializedRequest ` set (AllRequests (\<lambda>ks. ks) (GetMutations t'))"
proof -
  obtain t' where t': "write_RoundTrip env req t = Value (response_of (Inl err), t')" "holds_history t' (srs @ [sr])"
    using write_RoundTrip_spec [OF assms(1), of env req] assms(2,3) by (auto simp: reply_to_def)
  have "set (AllRequests (\<lambda>ks. ks) (GetMutations t')) = set (numbered (srs @ [sr]))"
    using mset_history [OF t'(2) range_order_id] by (metis GetMutations_def set_mset_mset tracker_DeepCopy_id)
  then have "sr \<in> GetSerializedRequest ` set (AllRequests (\<lambda>ks. ks) (GetMutations t'))"
    by (metis in_set_conv_decomp list.set_map map_GetSerializedRequest_numbered)
  with t' show ?thesis by (simp add: response_of_def)
qed

theorem refused_patch_is_recorded_witness:
  "\<exists>resp t'. write_RoundTrip demo_write_env (demo_http ''patch'' ''ns'' ''widgets'' ''w'' ''application/merge-patch+json'') newWriteRoundTripper =
    Value (resp, t') \<and> resp_StatusCode resp = 500 \<and> AllRequests (\<lambda>ks. ks) (GetMutations t') \<noteq> []"
proof -
  let ?req = "demo_http ''patch'' ''ns'' ''widgets'' ''w'' ''application/merge-patch+json''"
  obtain sr where sr: "serialize_request demo_write_env ?req = Value (Inr (sr, None))"
    "gvr_Resource (am_ResourceType (sr_ActionMetadata sr)) = ''widgets''"
    by (simp add: demo_write_defs)
  have "we_getKindForResource demo_write_env (am_ResourceType (sr_ActionMetadata sr)) = Inl (errorf ''unknown resource'')"
    using sr(2) by (simp add: demo_write_env_def)
  from refused_patch_is_recorded [OF new_holds_nothing sr(1) this] show ?thesis by auto
qed

text \<open>A delete in a namespace is refused unless its body names the namespace, which the options that
  Kubernetes clients send as the body of a delete do not.\<close>

theorem namespaced_delete_refused:
  assumes "we_NewRequestInfo env (hr_Method req) (hr_URL req) = Inr info" and "ri_Verb info = ''delete''"
    and "ri_Subresource info = []" and "ri_Namespace info \<noteq> []"
    and "hr_Body req = Some (Inr content)" and "we_DecodeBody env content = Inr (DecodedObject b)" and "GetNamespace b = []"
  shows "\<exists>err. serialize_request env req = Value (Inl err)"
  using assms
  by (simp add: serialize_request_def checked_def request_action_def request_body_def has_object_body_def
      ActionDelete_def ActionPatch_def ActionPatchStatus_def Let_def split: sum.split)

theorem namespaced_delete_refused_witness:
  "\<exists>err. serialize_request demo_write_env (demo_http ''delete'' ''ns'' ''configmaps'' ''one'' []) = Value (Inl err)"
  by (rule namespaced_delete_refused [where info = "hr_URL (demo_http ''delete'' ''ns'' ''configmaps'' ''one'' [])" and b = "fmupd ''metadata'' (JObject (fmupd ''name'' (JString ''one'') fmempty)) fmempty"])
    (simp_all add: demo_write_env_def demo_http_def GetNamespace_def get_metadata_string_def get_string_def)

end
