(* ===== verification/Recording_Run.thy ===== *)
theory Recording_Run
  imports Write_Roundtripper Apply_Properties
begin

text \<open>
  Controllers over the recording client. A controller is a program that sends requests and goes on with
  their answers; the must-gather it reads from does not change while it runs, so what it reads is part
  of the program. \<open>RunOnce\<close> runs such controllers one after the other over one round tripper, and the
  apply-configuration run writes what they had recorded.
\<close>

section \<open>Programs that send requests\<close>

datatype 'u client_program =
    Returns run_outcome
  | Sends "'u http_request" "http_response \<Rightarrow> 'u client_program"

text \<open>
  Every request carries the context the program was given, with the name of its controller. A panic of
  the round tripper ends the program; \<open>stack\<close> is the stack that is printed.
\<close>

primrec run_program ::
    "('u, 'o) write_env \<Rightarrow> string \<Rightarrow> string \<Rightarrow> 'u client_program \<Rightarrow> write_round_tripper \<Rightarrow> run_outcome \<times> write_round_tripper" where
  "run_program env stack name (Returns out) t = (out, t)"
| "run_program env stack name (Sends req k) t =
     (case RoundTrip env (WithControllerInstanceNameFromContext req name) t of
        Value (resp, t') \<Rightarrow> run_program env stack name (k resp) t'
      | Panicked p \<Rightarrow> (RunOncePanic (case p of NilDereference \<Rightarrow> ''nil pointer dereference'' | PanicValue v \<Rightarrow> v) stack, t))"

definition recording_controller ::
    "('u, 'o) write_env \<Rightarrow> string \<Rightarrow> string \<Rightarrow> 'u client_program \<Rightarrow> write_round_tripper named_run_once" where
  "recording_controller env stack name program = NewNamedRunOnce name (run_program env stack name program)"

section \<open>What a program asks for\<close>

text \<open>
  The answer to a request does not depend on what was recorded before. So the requests a program asks
  for are a function of the program alone; this is the specification of the recording.
\<close>

definition answer_to :: "('u, 'o) write_env \<Rightarrow> 'u http_request \<Rightarrow> (http_response \<times> serialized_request list) outcome" where
  "answer_to env req =
     (if hr_Method req \<in> {''GET'', ''HEAD''} then Value (we_Read env req, [])
      else if hr_Method req \<in> {''POST'', ''PUT'', ''PATCH'', ''DELETE''} then
        bind_outcome (serialize_request env req) (\<lambda>res. case res of
          Inl err \<Rightarrow> Value (response_of (Inl err), [])
        | Inr (sr, obj) \<Rightarrow> Value (response_of (reply_to env sr obj), [sr]))
      else Value (\<lparr>resp_StatusCode = 500, resp_Body = ''unhandled verb: '' @ go_quote (hr_Method req),
        resp_ContentType = None\<rparr>, []))"

primrec asked_by :: "('u, 'o) write_env \<Rightarrow> string \<Rightarrow> 'u client_program \<Rightarrow> serialized_request list" where
  "asked_by env name (Returns out) = []"
| "asked_by env name (Sends req k) =
     (case answer_to env (WithControllerInstanceNameFromContext req name) of
        Value (resp, srs) \<Rightarrow> srs @ asked_by env name (k resp)
      | Panicked p \<Rightarrow> [])"

definition asked_by_enabled ::
    "('u, 'o) write_env \<Rightarrow> string list \<Rightarrow> (string \<times> 'u client_program) list \<Rightarrow> serialized_request list" where
  "asked_by_enabled env flags cs = concat (map (\<lambda>(name, program). asked_by env name program)
     (filter (\<lambda>(name, program). isControllerEnabled name flags) cs))"

section \<open>Lemmas\<close>

lemma RoundTrip_refines_answer:
  assumes "holds_history t srs"
  shows "case answer_to env req of
      Panicked p \<Rightarrow> RoundTrip env req t = Panicked p
    | Value (resp, new) \<Rightarrow> \<exists>t'. RoundTrip env req t = Value (resp, t') \<and> holds_history t' (srs @ new)"
  using write_RoundTrip_spec [OF assms, of env req] assms
  by (cases "serialize_request env req") (auto simp: answer_to_def RoundTrip_def split: sum.splits)

lemma run_program_records:
  "holds_history t srs \<Longrightarrow> holds_history (snd (run_program env stack name program t)) (srs @ asked_by env name program)"
proof (induction program arbitrary: t srs)
  case (Sends req k)
  note refines = RoundTrip_refines_answer [OF Sends.prems, of env "WithControllerInstanceNameFromContext req name"]
  show ?case
  proof (cases "answer_to env (WithControllerInstanceNameFromContext req name)")
    case (Value x)
    obtain resp new where x: "x = (resp, new)" by (cases x)
    with refines obtain t' where t': "RoundTrip env (WithControllerInstanceNameFromContext req name) t = Value (resp, t')"
      "holds_history t' (srs @ new)" by (auto simp: Value)
    from Sends.IH [OF _ this(2), of "k resp"] show ?thesis by (simp add: Value x t'(1))
  qed (use refines Sends.prems in simp)
qed simp

lemma answer_names_controller:
  assumes "answer_to env (WithControllerInstanceNameFromContext req name) = Value (resp, new)" and "sr \<in> set new"
  shows "am_ControllerInstanceName (sr_ActionMetadata sr) = name"
proof -
  obtain obj where "serialize_request env (WithControllerInstanceNameFromContext req name) = Value (Inr (sr, obj))"
    using assms by (cases "serialize_request env (WithControllerInstanceNameFromContext req name)")
      (auto simp: answer_to_def split: if_splits sum.splits)
  from serialized_facts(2) [OF this] show ?thesis
    by (simp add: ControllerInstanceNameFromContext_def WithControllerInstanceNameFromContext_def)
qed

lemma asked_by_names_controller:
  "\<forall>sr \<in> set (asked_by env name program). am_ControllerInstanceName (sr_ActionMetadata sr) = name"
  by (induction program) (auto dest: answer_names_controller [OF sym] split: outcome.splits)

text \<open>The controllers of a run, in the order they run.\<close>

abbreviation recording_controllers ::
    "('u, 'o) write_env \<Rightarrow> string \<Rightarrow> (string \<times> 'u client_program) list \<Rightarrow> write_round_tripper named_run_once list" where
  "recording_controllers env stack \<equiv> map (\<lambda>(name, program). recording_controller env stack name program)"

lemma recording_controller_simps [simp]:
  "nro_ControllerInstanceName (recording_controller env stack name program) = name"
  "nro_RunOnce (recording_controller env stack name program) = run_program env stack name program"
  by (simp_all add: recording_controller_def NewNamedRunOnce_def)

lemma controllers_record:
  "holds_history t srs \<Longrightarrow>
    holds_history (fold (\<lambda>c t. snd (nro_RunOnce c t))
        (filter (\<lambda>c. isControllerEnabled (nro_ControllerInstanceName c) flags) (recording_controllers env stack cs)) t)
      (srs @ asked_by_enabled env flags cs)"
proof (induction cs arbitrary: t srs)
  case (Cons c cs)
  obtain name program where c: "c = (name, program)" by (cases c)
  show ?case
  proof (cases "isControllerEnabled name flags")
    case True
    from Cons.IH [OF run_program_records [OF Cons.prems, of env stack name program]] True
    show ?thesis by (simp add: c asked_by_enabled_def)
  next
    case False
    with Cons.IH [OF Cons.prems] show ?thesis by (simp add: c asked_by_enabled_def)
  qed
qed (simp add: asked_by_enabled_def)

text \<open>Informers only read, so they leave the round tripper as it is.\<close>

definition only_reads :: "write_round_tripper informer_factory \<Rightarrow> bool" where
  "only_reads i \<longleftrightarrow> (\<forall>t. inf_Start i t = t \<and> inf_WaitForCacheSync i t = t)"

lemma only_reads_world:
  "\<forall>i \<in> set (sos_Informers a). only_reads i \<Longrightarrow> synced_world a t = t"
proof -
  assume reads: "\<forall>i \<in> set (sos_Informers a). only_reads i"
  have "fold f is t = t" if "\<forall>i \<in> set is. f i t = t" for f :: "write_round_tripper informer_factory \<Rightarrow> _" and "is"
    using that by (induction "is") simp_all
  with reads show ?thesis by (simp add: synced_world_def only_reads_def)
qed

text \<open>An operator all of whose controllers send their requests through the recording client.\<close>

definition recording_operator ::
    "('u, 'o) write_env \<Rightarrow> string \<Rightarrow> (string \<times> 'u client_program) list \<Rightarrow> write_round_tripper simple_operator_starter \<Rightarrow> bool" where
  "recording_operator env stack cs a \<longleftrightarrow> (\<forall>i \<in> set (sos_Informers a). only_reads i) \<and>
     sos_ControllerNamedRunOnceFns a = recording_controllers env stack cs"

text \<open>The order in which the controllers run changes the order of the records only.\<close>

lemma mset_map_invD: "mset ys = image_mset f M \<Longrightarrow> \<exists>ps. ys = map f ps \<and> mset ps = M"
proof (induction ys arbitrary: M)
  case (Cons y ys)
  then have "image_mset f M = add_mset y (mset ys)" by simp
  then obtain x M' where "M = add_mset x M'" "f x = y" "mset ys = image_mset f M'" by (metis msed_map_invR)
  with Cons.IH [of M'] show ?case by (metis list.simps(9) mset.simps(2))
qed simp

lemma shuffled_controllers:
  assumes "range_order shuffle" and "xs = map f cs"
  obtains ps where "shuffle xs = map f ps" and "mset ps = mset cs"
  using mset_map_invD [of "shuffle xs" f "mset cs"] assms by (auto simp: range_order_def)

lemma RunOnce_records:
  assumes "run_once_accepts a flags" and "range_order shuffle" and "recording_operator env stack cs a"
  shows "\<exists>res err t srs. RunOnce shuffle GetMutations a flags newWriteRoundTripper =
      ((Some res, Some (NewApplyConfigurationFromClient (actionTracker t)), err), t) \<and>
    holds_history t srs \<and> mset srs = mset (asked_by_enabled env flags cs)"
proof -
  have reads: "\<forall>i \<in> set (sos_Informers a). only_reads i" and fns: "sos_ControllerNamedRunOnceFns a = recording_controllers env stack cs"
    using assms(3) by (simp_all add: recording_operator_def)
  obtain ps where ps: "shuffle (sos_ControllerNamedRunOnceFns a) = recording_controllers env stack ps" "mset ps = mset cs"
    using shuffled_controllers [OF assms(2) fns] by blast
  obtain results errs t where run: "run_controllers flags (recording_controllers env stack ps) None [] newWriteRoundTripper = (results, errs, t)"
    by (metis prod_cases3)
  have "holds_history t (asked_by_enabled env flags ps)"
    using controllers_record [OF new_holds_nothing, of flags env stack ps]
      run_controllers_world [of flags "recording_controllers env stack ps" None "[]" newWriteRoundTripper]
    by (simp add: run)
  moreover have "mset (asked_by_enabled env flags ps) = mset (asked_by_enabled env flags cs)"
    by (simp add: asked_by_enabled_def mset_concat ps(2) flip: sum_mset_sum_list)
  moreover have "RunOnce shuffle GetMutations a flags newWriteRoundTripper =
      ((CanonicalizeApplyConfigurationRunResult (Some \<lparr>arr_ControllerResults = results\<rparr>),
        Some (NewApplyConfigurationFromClient (actionTracker t)), errors_join errs), t)"
    by (simp add: RunOnce_accepted [OF assms(1)] only_reads_world reads ps(1) run GetMutations_def)
  ultimately show ?thesis by (auto simp: CanonicalizeApplyConfigurationRunResult_def)
qed

text \<open>The declarations, on the contents of requests.\<close>

definition admits :: "output_resources \<Rightarrow> cluster_type \<Rightarrow> serialized_request \<Rightarrow> bool" where
  "admits allowed ct sr \<longleftrightarrow> metadataMatchesFilter (sr_ActionMetadata sr) (Some (allowed_list allowed ct))"

lemma declared_for_admits: "declared_for allowed ct q \<longleftrightarrow> admits allowed ct (GetSerializedRequest q)"
  by (simp add: declared_for_def admits_def requestish_metadata_def GetLookupMetadata_def)

lemma declared_admits:
  "declared allowed q \<longleftrightarrow> (\<exists>ct \<in> set AllClusterTypes. admits allowed ct (GetSerializedRequest q))"
  by (simp add: declared_def declared_for_admits)

lemma history_requests:
  "holds_history t srs \<Longrightarrow> GetSerializedRequest ` set (AllRequests (\<lambda>ks. ks) (actionTracker t)) = set srs"
  by (metis list.set_map map_GetSerializedRequest_numbered mset_history range_order_id set_mset_mset)

lemma client_writes_history:
  assumes "holds_history t srs" and "env_orders_ok env"
  shows "\<forall>ct \<in> set AllClusterTypes. GetSerializedRequest ` written_in
        (run_writes env dir allowed (NewApplyConfigurationFromClient (actionTracker t)) res)
        (path_join [dir, cluster_type_string ct]) = {sr \<in> set srs. admits allowed ct sr}"
    and "GetSerializedRequest ` written_in
        (run_writes env dir allowed (NewApplyConfigurationFromClient (actionTracker t)) res)
        (path_join [dir, ''Unspecified'']) = {sr \<in> set srs. \<forall>ct \<in> set AllClusterTypes. \<not> admits allowed ct sr}"
  unfolding history_requests [OF assms(1), symmetric] client_run_writes(2) [OF history_tracker(1) [OF assms(1)] assms(2)]
  by (auto simp: client_run_writes(1) [OF history_tracker(1) [OF assms(1)] assms(2)] declared_for_admits declared_admits)

section \<open>Properties\<close>

text \<open>C4: the run of an operator writes exactly what its controllers ask for, in whatever order they
  run: of the requests the enabled controllers ask for, the directory of a cluster type holds those the
  declarations admit for that type, and the directory of unspecified requests those they admit for
  none. Every written request names the controller that asked for it.\<close>

theorem operator_run_writes_controller_requests:
  assumes "run_once_accepts a flags" and "range_order shuffle" and "recording_operator wenv stack cs a"
    and "env_applyConfigurationFn env = fst (RunOnce shuffle GetMutations a flags newWriteRoundTripper)"
    and "env_outputResourcesFn env = (Some allowed, err)" and "dir_made env dir" and "env_orders_ok env"
  shows "\<exists>e evs. applyConfiguration_Run env dir = Value (e, evs) \<and>
    (\<forall>ct \<in> set AllClusterTypes. GetSerializedRequest ` written_in evs (path_join [dir, cluster_type_string ct]) =
      {sr \<in> set (asked_by_enabled wenv flags cs). admits allowed ct sr}) \<and>
    GetSerializedRequest ` written_in evs (path_join [dir, ''Unspecified'']) =
      {sr \<in> set (asked_by_enabled wenv flags cs). \<forall>ct \<in> set AllClusterTypes. \<not> admits allowed ct sr} \<and>
    (\<forall>sr \<in> set (asked_by_enabled wenv flags cs). \<exists>(name, program) \<in> set cs. isControllerEnabled name flags \<and>
      sr \<in> set (asked_by wenv name program) \<and> am_ControllerInstanceName (sr_ActionMetadata sr) = name)"
proof -
  obtain res err' t srs where run: "RunOnce shuffle GetMutations a flags newWriteRoundTripper =
      ((Some res, Some (NewApplyConfigurationFromClient (actionTracker t)), err'), t)"
    and t: "holds_history t srs" "mset srs = mset (asked_by_enabled wenv flags cs)"
    using RunOnce_records [OF assms(1-3)] by blast
  have "env_applyConfigurationFn env = (Some res, Some (NewApplyConfigurationFromClient (actionTracker t)), err')"
    by (simp add: assms(4) run)
  from Run_eq [OF assms(6) client_config_full [OF history_tracker(1) [OF t(1)]] assms(7,5) this]
  obtain e where written: "applyConfiguration_Run env dir =
      Value (e, run_writes env dir allowed (NewApplyConfigurationFromClient (actionTracker t)) (Some res))"
    by blast
  have names: "\<forall>sr \<in> set (asked_by_enabled wenv flags cs). \<exists>(name, program) \<in> set cs. isControllerEnabled name flags \<and>
      sr \<in> set (asked_by wenv name program) \<and> am_ControllerInstanceName (sr_ActionMetadata sr) = name"
    using asked_by_names_controller by (fastforce simp: asked_by_enabled_def)
  show ?thesis
    by (intro exI conjI) (rule written names client_writes_history [OF t(1) assms(7), unfolded mset_eq_setD [OF t(2)]])+
qed

text \<open>Two controllers, one of them disabled, that create one config map each.\<close>

definition demo_programs :: "(string \<times> request_info client_program) list" where
  "demo_programs =
     [(''x'', Sends (demo_http ''create'' [] ''configmaps'' ''one'' []) (\<lambda>resp. Returns RunOnceOk)),
      (''y'', Sends (demo_http ''create'' [] ''configmaps'' ''two'' []) (\<lambda>resp. Returns RunOnceOk))]"

definition demo_operator :: "write_round_tripper simple_operator_starter" where
  "demo_operator = \<lparr>sos_Informers = [],
     sos_ControllerNamedRunOnceFns = recording_controllers demo_write_env [] demo_programs, sos_ControllerRunFns = []\<rparr>"

definition demo_operator_env :: run_env where
  "demo_operator_env = (demo_env (Some demo_allowed) None None)\<lparr>
     env_outputResourcesFn := (Some \<lparr>or_ConfigurationResources = empty_output_list\<lparr>ol_ExactResources := [out_ExactConfigMap [] ''one'']\<rparr>,
       or_ManagementResources = empty_output_list, or_UserWorkloadResources = empty_output_list\<rparr>, None),
     env_applyConfigurationFn := fst (RunOnce rev GetMutations demo_operator [''*'', ''-y''] newWriteRoundTripper)\<rparr>"

lemma demo_operator_facts:
  "run_once_accepts demo_operator [''*'', ''-y'']" "recording_operator demo_write_env [] demo_programs demo_operator"
  "dir_made demo_operator_env d" "env_orders_ok demo_operator_env"
  by (simp_all add: run_once_accepts_def demo_operator_def demo_programs_def recording_operator_def trim_prefix.simps
      dir_made_def demo_operator_env_def env_orders_ok_def order_ok_def demo_env_def range_order_rev)

lemma demo_asked:
  "\<exists>sr. asked_by_enabled demo_write_env [''*'', ''-y''] demo_programs = [sr] \<and>
    am_ControllerInstanceName (sr_ActionMetadata sr) = ''x'' \<and>
    gvr_Resource (am_ResourceType (sr_ActionMetadata sr)) = ''configmaps''"
  by (simp add: asked_by_enabled_def demo_programs_def isControllerEnabled_def answer_to_def demo_write_defs
      WithControllerInstanceNameFromContext_def ControllerInstanceNameFromContext_def)

theorem operator_run_writes_controller_requests_witness:
  "\<exists>e evs sr. applyConfiguration_Run demo_operator_env ''out'' = Value (e, evs) \<and>
    (\<Union>d \<in> {''Configuration'', ''Management'', ''UserWorkload'', ''Unspecified''}.
      GetSerializedRequest ` written_in evs (path_join [''out'', d])) = {sr} \<and>
    am_ControllerInstanceName (sr_ActionMetadata sr) = ''x''"
proof -
  obtain sr where sr: "asked_by_enabled demo_write_env [''*'', ''-y''] demo_programs = [sr]"
    "am_ControllerInstanceName (sr_ActionMetadata sr) = ''x''" using demo_asked by blast
  obtain allowed where allowed: "env_outputResourcesFn demo_operator_env = (Some allowed, None)"
    by (simp add: demo_operator_env_def)
  have "env_applyConfigurationFn demo_operator_env =
      fst (RunOnce rev GetMutations demo_operator [''*'', ''-y''] newWriteRoundTripper)"
    by (simp add: demo_operator_env_def)
  from operator_run_writes_controller_requests [OF demo_operator_facts(1) range_order_rev demo_operator_facts(2) this allowed
      demo_operator_facts(3,4), where dir = "''out''"]
  show ?thesis using sr by (auto simp: set_AllClusterTypes ClusterTypeConfiguration_def ClusterTypeManagement_def ClusterTypeUserWorkload_def)
qed

end
