(* ===== verification/Concurrent_Requests.thy ===== *)
theory Concurrent_Requests
  imports Recording_Run
begin

text \<open>
  Requests that come at once. A controller may send from goroutines of its own, and what an earlier
  controller started may still send while a later one runs; the lock of \<open>write_roundtripper.go\<close> makes
  the recording of one request a single step. The clients here are programs over one round tripper,
  and a step is one round trip of any of them.
\<close>

section \<open>Clients that run at once\<close>

text \<open>A client is the name in its context and what is left of its program.\<close>

type_synonym 'u clients = "(string \<times> 'u client_program) list \<times> write_round_tripper"

inductive client_step :: "('u, 'o) write_env \<Rightarrow> string \<Rightarrow> 'u clients \<Rightarrow> 'u clients \<Rightarrow> bool"
  for env stack where
  answered: "i < length cs \<Longrightarrow> cs ! i = (name, Sends req k) \<Longrightarrow>
    RoundTrip env (WithControllerInstanceNameFromContext req name) t = Value (resp, t') \<Longrightarrow>
    client_step env stack (cs, t) (cs[i := (name, k resp)], t')"
| crashed: "i < length cs \<Longrightarrow> cs ! i = (name, Sends req k) \<Longrightarrow>
    RoundTrip env (WithControllerInstanceNameFromContext req name) t = Panicked p \<Longrightarrow>
    client_step env stack (cs, t) (cs[i := (name, Returns (RunOncePanic
      (case p of NilDereference \<Rightarrow> ''nil pointer dereference'' | PanicValue v \<Rightarrow> v) stack))], t)"

inductive_cases client_stepE: "client_step env stack (cs, t) s"

inductive clients_run :: "('u, 'o) write_env \<Rightarrow> string \<Rightarrow> (string \<times> 'u client_program) list \<Rightarrow> 'u clients \<Rightarrow> bool"
  for env stack cs0 where
  start: "clients_run env stack cs0 (cs0, newWriteRoundTripper)"
| step: "clients_run env stack cs0 s \<Longrightarrow> client_step env stack s s' \<Longrightarrow> clients_run env stack cs0 s'"

definition all_returned :: "(string \<times> 'u client_program) list \<Rightarrow> bool" where
  "all_returned cs \<longleftrightarrow> (\<forall>c \<in> set cs. \<exists>out. snd c = Returns out)"

section \<open>Lemmas\<close>

text \<open>What one client asks for, and one step of it.\<close>

abbreviation asked_by_client :: "('u, 'o) write_env \<Rightarrow> string \<times> 'u client_program \<Rightarrow> serialized_request list" where
  "asked_by_client env c \<equiv> asked_by env (fst c) (snd c)"

lemma client_step_asks:
  assumes "client_step env stack (cs, t) (cs', t')" and "holds_history t srs"
  shows "\<exists>i c new. i < length cs \<and> cs' = cs[i := c] \<and> fst c = fst (cs ! i) \<and> holds_history t' (srs @ new) \<and>
    asked_by_client env (cs ! i) = new @ asked_by_client env c"
  using assms(1)
proof (rule client_stepE)
  fix i name req k resp u
  assume step: "(cs', t') = (cs[i := (name, k resp)], u)" "i < length cs" "cs ! i = (name, Sends req k)"
    "RoundTrip env (WithControllerInstanceNameFromContext req name) t = Value (resp, u)"
  obtain new where "answer_to env (WithControllerInstanceNameFromContext req name) = Value (resp, new)" "holds_history u (srs @ new)"
    using RoundTrip_refines_answer [OF assms(2), of env "WithControllerInstanceNameFromContext req name"] step(4)
    by (auto split: outcome.splits)
  with step show ?thesis by (intro exI [of _ i] exI [of _ "(name, k resp)"] exI [of _ new]) simp
next
  fix i name req k p
  let ?out = "RunOncePanic (case p of NilDereference \<Rightarrow> ''nil pointer dereference'' | PanicValue v \<Rightarrow> v) stack"
  assume step: "(cs', t') = (cs[i := (name, Returns ?out)], t)" "i < length cs" "cs ! i = (name, Sends req k)"
    "RoundTrip env (WithControllerInstanceNameFromContext req name) t = Panicked p"
  have "answer_to env (WithControllerInstanceNameFromContext req name) = Panicked p"
    using RoundTrip_refines_answer [OF assms(2), of env "WithControllerInstanceNameFromContext req name"] step(4)
    by (auto split: outcome.splits)
  with step assms(2) show ?thesis by (intro exI [of _ i] exI [of _ "(name, Returns ?out)"] exI [of _ "[]"]) simp
qed

text \<open>
  The invariant: the history is made of the requests of the clients, each marked with its client, and what
  a client sent, followed by what it has still to send, is what it asks for.
\<close>

definition sent_of :: "nat \<Rightarrow> (nat \<times> serialized_request) list \<Rightarrow> serialized_request list" where
  "sent_of i marked = map snd (filter (\<lambda>m. fst m = i) marked)"

definition interleaves ::
    "('u, 'o) write_env \<Rightarrow> (string \<times> 'u client_program) list \<Rightarrow> 'u clients \<Rightarrow> (nat \<times> serialized_request) list \<Rightarrow> bool" where
  "interleaves env cs0 s marked \<longleftrightarrow> holds_history (snd s) (map snd marked) \<and> length (fst s) = length cs0 \<and>
     (\<forall>m \<in> set marked. fst m < length cs0) \<and>
     (\<forall>i < length cs0. fst (fst s ! i) = fst (cs0 ! i) \<and>
       sent_of i marked @ asked_by env (fst (cs0 ! i)) (snd (fst s ! i)) = asked_by_client env (cs0 ! i))"

lemma sent_of_append: "sent_of i (marked @ map (Pair j) new) = sent_of i marked @ (if i = j then new else [])"
  by (auto simp: sent_of_def filter_map comp_def)

lemma interleaves_start: "interleaves env cs0 (cs0, newWriteRoundTripper) []"
  by (simp add: interleaves_def sent_of_def)

lemma interleaves_step:
  assumes "interleaves env cs0 s marked" and "client_step env stack s s'"
  shows "\<exists>marked'. interleaves env cs0 s' marked'"
proof -
  obtain cs t cs' t' where s: "s = (cs, t)" "s' = (cs', t')" by (cases s; cases s')
  have inv: "holds_history t (map snd marked)" "length cs = length cs0" "\<forall>m \<in> set marked. fst m < length cs0"
    "\<And>i. i < length cs0 \<Longrightarrow> fst (cs ! i) = fst (cs0 ! i) \<and>
      sent_of i marked @ asked_by env (fst (cs0 ! i)) (snd (cs ! i)) = asked_by_client env (cs0 ! i)"
    using assms(1) by (simp_all add: interleaves_def s)
  obtain i c new where i: "i < length cs" "cs' = cs[i := c]" "fst c = fst (cs ! i)"
    and new: "holds_history t' (map snd marked @ new)" "asked_by_client env (cs ! i) = new @ asked_by_client env c"
    using client_step_asks [OF assms(2) [unfolded s] inv(1)] by blast
  have "sent_of i marked @ new @ asked_by env (fst (cs0 ! i)) (snd c) = asked_by_client env (cs0 ! i)"
    using inv(2) inv(4) [of i] i new(2) by simp
  then have "interleaves env cs0 s' (marked @ map (Pair i) new)"
    using inv i new by (auto simp: interleaves_def s sent_of_append nth_list_update comp_def)
  then show ?thesis by blast
qed

lemma clients_run_interleaves: "clients_run env stack cs0 s \<Longrightarrow> \<exists>marked. interleaves env cs0 s marked"
  by (induction rule: clients_run.induct) (blast intro: interleaves_start interleaves_step)+

text \<open>Programs are well-founded: what is left after an answer comes before the program.\<close>

inductive_set goes_on :: "('u client_program \<times> 'u client_program) set" where
  goes_on: "(k resp, Sends req k) \<in> goes_on"
| gives_up: "(Returns out, Sends req k) \<in> goes_on"

inductive_cases goes_onE: "(p, q) \<in> goes_on"

lemma wf_goes_on: "wf goes_on"
proof (rule wfUNIVI)
  fix P :: "'u client_program \<Rightarrow> bool" and p
  assume step: "\<forall>p. (\<forall>q. (q, p) \<in> goes_on \<longrightarrow> P q) \<longrightarrow> P p"
  have returns: "P (Returns out)" for out
    by (rule step [THEN spec, THEN mp]) (auto elim: goes_onE)
  show "P p"
  proof (induction p)
    case (Sends req k)
    show ?case
    proof (rule step [THEN spec, THEN mp], intro allI impI)
      fix q
      assume "(q, Sends req k) \<in> goes_on"
      then show "P q" using Sends returns by (auto elim!: goes_onE)
    qed
  qed (rule returns)
qed

lemma client_step_goes_on:
  assumes "client_step env stack (cs, t) (cs', t')"
  shows "(mset (map snd cs'), mset (map snd cs)) \<in> mult1 goes_on"
proof -
  obtain i name p q where i: "i < length cs" "cs' = cs[i := (name, q)]" "snd (cs ! i) = p" "(q, p) \<in> goes_on"
    using assms by (elim client_stepE) (metis Pair_inject goes_on.goes_on goes_on.gives_up snd_conv)+
  let ?rest = "mset (map snd cs) - {#p#}"
  have cs: "mset (map snd cs) = add_mset p ?rest"
    using i by (metis insert_DiffM length_map nth_map nth_mem_mset)
  have "map snd cs' = (map snd cs)[i := q]" using i by (simp add: map_update)
  then have "mset (map snd cs') = ?rest + {#q#}"
    using i by (simp add: mset_update)
  with cs i(4) show ?thesis by (intro mult1I [of _ p ?rest _ "{#q#}"]) auto
qed

lemma wf_client_step: "wf {(s', s). client_step env stack s s'}"
proof (rule wf_subset)
  show "wf (inv_image (mult1 goes_on) (\<lambda>s. mset (map snd (fst s))))" by (intro wf_inv_image wf_mult1 wf_goes_on)
  show "{(s', s). client_step env stack s s'} \<subseteq> inv_image (mult1 goes_on) (\<lambda>s. mset (map snd (fst s)))"
    using client_step_goes_on by (fastforce simp: inv_image_def)
qed

lemma client_step_possible: "(\<exists>s'. client_step env stack (cs, t) s') \<longleftrightarrow> \<not> all_returned cs"
proof
  assume "\<not> all_returned cs"
  then obtain c where c: "c \<in> set cs" "\<And>out. snd c \<noteq> Returns out" by (auto simp: all_returned_def)
  obtain i where "i < length cs" "cs ! i = c" using c(1) by (auto simp: in_set_conv_nth)
  then obtain name req k where "i < length cs" "cs ! i = (name, Sends req k)"
    using c(2) by (cases c; cases "snd c") auto
  then show "\<exists>s'. client_step env stack (cs, t) s'"
    by (cases "RoundTrip env (WithControllerInstanceNameFromContext req name) t") (auto intro: client_step.intros)
next
  assume "\<exists>s'. client_step env stack (cs, t) s'"
  then obtain i name req k where "i < length cs" "cs ! i = (name, Sends req k)" by (auto elim!: client_stepE)
  then have "(name, Sends req k) \<in> set cs" by (metis nth_mem)
  then show "\<not> all_returned cs" by (force simp: all_returned_def)
qed

lemma clients_finish: "clients_run env stack cs0 s \<Longrightarrow> \<exists>cs t. clients_run env stack cs0 (cs, t) \<and> all_returned cs"
proof (induction s rule: wf_induct_rule [OF wf_client_step [of env stack]])
  case (1 s)
  show ?case
  proof (cases "all_returned (fst s)")
    case True
    with 1(2) show ?thesis by (metis prod.collapse)
  next
    case False
    then obtain s' where "client_step env stack s s'" using client_step_possible [of env stack "fst s" "snd s"] by auto
    with 1 show ?thesis by (blast intro: clients_run.step)
  qed
qed

text \<open>The marked requests, taken apart by client.\<close>

lemma mset_marked: "\<forall>m \<in> set marked. fst m < n \<Longrightarrow> mset (map snd marked) = (\<Sum>i<n. mset (sent_of i marked))"
proof (induction marked)
  case (Cons m marked)
  have "mset (sent_of i (m # marked)) = mset (sent_of i marked) + (if i = fst m then {#snd m#} else {#})" for i
    by (simp add: sent_of_def)
  with Cons show ?case by (simp add: sum.distrib sum.delta)
qed (simp add: sent_of_def)

section \<open>Properties\<close>

text \<open>C20: clients that send at once get along. When all of them are done, the round tripper holds an
  interleaving of what they ask for: the requests of each client in its own order, whoever else sent
  in between, none lost, none twice, numbered from one in the order they came.\<close>

theorem concurrent_requests_interleave:
  assumes "clients_run env stack cs0 (cs, t)" and "all_returned cs" and "range_order ord"
  shows "\<exists>marked. holds_history t (map snd marked) \<and>
    (\<forall>i < length cs0. map snd (filter (\<lambda>m. fst m = i) marked) = asked_by env (fst (cs0 ! i)) (snd (cs0 ! i))) \<and>
    mset (map GetSerializedRequest (AllRequests ord (GetMutations t))) =
      (\<Sum>i < length cs0. mset (asked_by env (fst (cs0 ! i)) (snd (cs0 ! i))))"
proof -
  obtain marked where marked: "interleaves env cs0 (cs, t) marked" using clients_run_interleaves [OF assms(1)] by blast
  have nothing_left: "asked_by env name (snd (cs ! i)) = []" if "i < length cs0" for i name
  proof -
    have "cs ! i \<in> set cs" using marked that by (simp add: interleaves_def)
    then obtain out where "snd (cs ! i) = Returns out" using assms(2) by (auto simp: all_returned_def)
    then show ?thesis by simp
  qed
  then have own: "\<forall>i < length cs0. sent_of i marked = asked_by_client env (cs0 ! i)"
    using marked by (simp add: interleaves_def)
  have history: "holds_history t (map snd marked)" using marked by (simp add: interleaves_def)
  have "mset (map GetSerializedRequest (AllRequests ord (GetMutations t))) = mset (map GetSerializedRequest (numbered (map snd marked)))"
    unfolding GetMutations_def tracker_DeepCopy_id mset_map mset_history [OF history assms(3)] ..
  also have "\<dots> = mset (map snd marked)" by (simp only: map_GetSerializedRequest_numbered)
  also have "\<dots> = (\<Sum>i < length cs0. mset (sent_of i marked))"
    using marked by (intro mset_marked) (simp add: interleaves_def)
  also have "\<dots> = (\<Sum>i < length cs0. mset (asked_by_client env (cs0 ! i)))"
    by (rule sum.cong) (simp_all add: own)
  finally show ?thesis using history own unfolding sent_of_def by blast
qed

theorem concurrent_requests_interleave_witness:
  "\<exists>cs t. clients_run demo_write_env [] demo_programs (cs, t) \<and>
    length (AllRequests rev (GetMutations t)) = 2"
proof -
  obtain cs t where run: "clients_run demo_write_env [] demo_programs (cs, t)" "all_returned cs"
    using clients_finish [OF clients_run.start] by blast
  have "(\<Sum>i<length demo_programs. mset (asked_by demo_write_env (fst (demo_programs ! i)) (snd (demo_programs ! i)))) =
      mset (asked_by_enabled demo_write_env [''*''] demo_programs)"
    by (simp add: demo_programs_def asked_by_enabled_def isControllerEnabled_def lessThan_Suc)
  moreover have "length (asked_by_enabled demo_write_env [''*''] demo_programs) = 2"
    by (simp add: asked_by_enabled_def demo_programs_def isControllerEnabled_def answer_to_def demo_write_defs
        WithControllerInstanceNameFromContext_def ControllerInstanceNameFromContext_def)
  ultimately have "size (mset (map GetSerializedRequest (AllRequests rev (GetMutations t)))) = 2"
    using concurrent_requests_interleave [OF run range_order_rev] by (metis size_mset)
  with run show ?thesis by auto
qed


end
