(* ===== verification/Launch_Time.thy ===== *)
theory Launch_Time
  imports Operator_Launch
begin

text \<open>
  The run of \<open>operator_launch_helpers.go\<close> with its time: informers that sync or do not, and controllers
  that get a context with a deadline of one second and return or do not. Where everything returns this
  is the run of \<open>Operator_Launch\<close>; a call that never returns is \<open>None\<close>. Times are nanoseconds, as
  \<open>time.Duration\<close> counts them. Nobody cancels the context of the run.
\<close>

section \<open>Contexts and clocks\<close>

record go_context =
  ctx_Deadline :: "nat option"
  ctx_ControllerInstanceName :: "string option"

definition Background :: go_context where
  "Background = \<lparr>ctx_Deadline = None, ctx_ControllerInstanceName = None\<rparr>"

text \<open>A context keeps the deadline of its parent when that comes first.\<close>

definition WithTimeout :: "go_context \<Rightarrow> nat \<Rightarrow> nat \<Rightarrow> go_context" where
  "WithTimeout parent now timeout = parent\<lparr>ctx_Deadline := Some (case ctx_Deadline parent of
     None \<Rightarrow> now + timeout | Some d \<Rightarrow> min d (now + timeout))\<rparr>"

definition Second :: nat where
  "Second = 1000000000"

record 'w timed =
  now :: nat
  world :: 'w

section \<open>The run with its time\<close>

record 'w timed_informer =
  ti_Start :: "go_context \<Rightarrow> 'w timed \<Rightarrow> 'w timed option"
  ti_WaitForCacheSync :: "go_context \<Rightarrow> 'w timed \<Rightarrow> 'w timed option"

record 'w timed_run_once =
  tro_ControllerInstanceName :: string
  tro_RunOnce :: "go_context \<Rightarrow> 'w timed \<Rightarrow> (run_outcome \<times> 'w timed) option"

record 'w timed_starter =
  ts_Informers :: "'w timed_informer list"
  ts_ControllerNamedRunOnceFns :: "'w timed_run_once list"

text \<open>A loop whose body may not return.\<close>

fun each :: "('a \<Rightarrow> 's \<Rightarrow> 's option) \<Rightarrow> 'a list \<Rightarrow> 's \<Rightarrow> 's option" where
  "each f [] s = Some s"
| "each f (x # xs) s = Option.bind (f x s) (each f xs)"

definition localCtx :: "go_context \<Rightarrow> string \<Rightarrow> 'w timed \<Rightarrow> go_context" where
  "localCtx ctx name s = (WithTimeout ctx (now s) (1 * Second))\<lparr>ctx_ControllerInstanceName := Some name\<rparr>"

text \<open>A controller the way the loop calls it: under its own context. What it yields is of use only where
  the call returns.\<close>

definition under_context :: "go_context \<Rightarrow> 'w timed_run_once \<Rightarrow> 'w timed named_run_once" where
  "under_context ctx c = NewNamedRunOnce (tro_ControllerInstanceName c)
     (\<lambda>s. the (tro_RunOnce c (localCtx ctx (tro_ControllerInstanceName c) s) s))"

text \<open>The body of the loop: it goes on for ever when an enabled controller does not return.\<close>

definition timed_run_controller ::
    "go_context \<Rightarrow> string list \<Rightarrow> 'w timed_run_once \<Rightarrow> 'w timed \<Rightarrow>
      (controller_run_result \<times> go_error list \<times> 'w timed) option" where
  "timed_run_controller ctx controllers c s =
     (let name = tro_ControllerInstanceName c in
      if isControllerEnabled name controllers \<and> Option.is_none (tro_RunOnce c (localCtx ctx name s) s) then None
      else Some (run_controller controllers (under_context ctx c) s))"

fun timed_run_controllers ::
    "go_context \<Rightarrow> string list \<Rightarrow> 'w timed_run_once list \<Rightarrow> controller_run_result slice \<Rightarrow> go_error list \<Rightarrow> 'w timed \<Rightarrow>
      (controller_run_result slice \<times> go_error list \<times> 'w timed) option" where
  "timed_run_controllers ctx controllers [] results errs s = Some (results, errs, s)"
| "timed_run_controllers ctx controllers (c # cs) results errs s =
     Option.bind (timed_run_controller ctx controllers c s) (\<lambda>(res, errs', s').
       timed_run_controllers ctx controllers cs (slice_append results [res]) (errs @ errs') s')"

definition timed_RunOnce ::
    "'w timed_run_once visit_order \<Rightarrow> ('w \<Rightarrow> all_actions_tracker) \<Rightarrow> 'w timed_starter \<Rightarrow> go_context \<Rightarrow>
      string list \<Rightarrow> 'w timed \<Rightarrow>
      ((run_result option \<times> apply_configuration option \<times> go_error option) \<times> 'w timed) option" where
  "timed_RunOnce shuffle getMutations a ctx controllers s0 =
     Option.bind (each (\<lambda>i. ti_Start i ctx) (ts_Informers a) s0) (\<lambda>s1.
     Option.bind (each (\<lambda>i. ti_WaitForCacheSync i ctx) (ts_Informers a) s1) (\<lambda>s2.
       let (known, dups) = known_controllers [] [] (map (under_context ctx) (ts_ControllerNamedRunOnceFns a)) in
       if length dups > 0
       then Some ((None, None, Some (errorf
              (''the following controllers were requested to run multiple times: '' @ fmt_strings dups))), s2)
       else (let verrs = validateControllersFromFlags known controllers in
             if length verrs > 0 then Some ((None, None, errors_join verrs), s2)
             else map_option (\<lambda>(results, errs, s3).
                      ((CanonicalizeApplyConfigurationRunResult (Some \<lparr>arr_ControllerResults = results\<rparr>),
                        Some (NewApplyConfigurationFromClient (getMutations (world s3))), errors_join errs), s3))
                  (timed_run_controllers ctx controllers (shuffle (ts_ControllerNamedRunOnceFns a)) None [] s2))))"

section \<open>Lemmas\<close>

text \<open>Without its time: what a call does when it returns.\<close>

definition untimed :: "go_context \<Rightarrow> 'w timed_starter \<Rightarrow> 'w timed simple_operator_starter" where
  "untimed ctx a =
     \<lparr>sos_Informers = map (\<lambda>i. \<lparr>inf_Start = (\<lambda>s. the (ti_Start i ctx s)),
        inf_WaitForCacheSync = (\<lambda>s. the (ti_WaitForCacheSync i ctx s))\<rparr>) (ts_Informers a),
      sos_ControllerNamedRunOnceFns = map (under_context ctx) (ts_ControllerNamedRunOnceFns a),
      sos_ControllerRunFns = []\<rparr>"

lemma under_context_name [simp]:
  "nro_ControllerInstanceName (under_context ctx c) = tro_ControllerInstanceName c"
  by (simp add: under_context_def NewNamedRunOnce_def)

lemma each_returns: "each f xs s = Some s' \<Longrightarrow> fold (\<lambda>x s. the (f x s)) xs s = s'"
  by (induction xs arbitrary: s) (auto simp: bind_eq_Some_conv)

lemma timed_run_controller_returns:
  "timed_run_controller ctx controllers c s = Some r \<Longrightarrow> run_controller controllers (under_context ctx c) s = r"
  by (simp add: timed_run_controller_def Let_def split: if_splits)

lemma timed_run_controllers_returns:
  "timed_run_controllers ctx controllers cs results errs s = Some r \<Longrightarrow>
    run_controllers controllers (map (under_context ctx) cs) results errs s = r"
  by (induction cs arbitrary: results errs s) (auto simp: bind_eq_Some_conv dest: timed_run_controller_returns)

lemma untimed_synced:
  "each (\<lambda>i. ti_Start i ctx) (ts_Informers a) s = Some s1 \<Longrightarrow>
    each (\<lambda>i. ti_WaitForCacheSync i ctx) (ts_Informers a) s1 = Some s2 \<Longrightarrow> synced_world (untimed ctx a) s = s2"
  by (simp add: synced_world_def untimed_def fold_map comp_def each_returns)

lemma untimed_fns [simp]:
  "sos_ControllerNamedRunOnceFns (untimed ctx a) = map (under_context ctx) (ts_ControllerNamedRunOnceFns a)"
  by (simp add: untimed_def)

text \<open>The run on either side of the checks of the names.\<close>

lemma timed_RunOnce_accepted:
  assumes "run_once_accepts (untimed ctx a) flags"
  shows "timed_RunOnce shuffle muts a ctx flags s =
    Option.bind (each (\<lambda>i. ti_Start i ctx) (ts_Informers a) s) (\<lambda>s1.
    Option.bind (each (\<lambda>i. ti_WaitForCacheSync i ctx) (ts_Informers a) s1) (\<lambda>s2.
      map_option (\<lambda>(results, errs, s3).
          ((CanonicalizeApplyConfigurationRunResult (Some \<lparr>arr_ControllerResults = results\<rparr>),
            Some (NewApplyConfigurationFromClient (muts (world s3))), errors_join errs), s3))
        (timed_run_controllers ctx flags (shuffle (ts_ControllerNamedRunOnceFns a)) None [] s2)))"
proof -
  obtain known dups where k: "known_controllers [] [] (map (under_context ctx) (ts_ControllerNamedRunOnceFns a)) = (known, dups)"
    by (metis surj_pair)
  have "dups = []" "validateControllersFromFlags known flags = []"
    using assms known_controllers_spec [OF k] by (auto simp: run_once_accepts_def validateControllers_Nil_iff)
  with k show ?thesis by (simp add: timed_RunOnce_def)
qed

lemma timed_RunOnce_rejected:
  assumes "\<not> run_once_accepts (untimed ctx a) flags"
  shows "\<exists>e. (\<forall>shuffle muts s. timed_RunOnce shuffle muts a ctx flags s =
      Option.bind (each (\<lambda>i. ti_Start i ctx) (ts_Informers a) s) (\<lambda>s1.
      Option.bind (each (\<lambda>i. ti_WaitForCacheSync i ctx) (ts_Informers a) s1) (\<lambda>s2. Some ((None, None, Some e), s2)))) \<and>
    (\<forall>shuffle muts s. RunOnce shuffle muts (untimed ctx a) flags s = ((None, None, Some e), synced_world (untimed ctx a) s))"
proof -
  obtain known dups where k: "known_controllers [] [] (map (under_context ctx) (ts_ControllerNamedRunOnceFns a)) = (known, dups)"
    by (metis surj_pair)
  then have k': "known_controllers [] [] (sos_ControllerNamedRunOnceFns (untimed ctx a)) = (known, dups)" by simp
  show ?thesis
  proof (cases "dups = []")
    case False
    with k k' show ?thesis
      by (simp add: timed_RunOnce_def RunOnce_def Let_def synced_world_def)
  next
    case True
    then have "validateControllersFromFlags known flags \<noteq> []"
      using assms known_controllers_spec [OF k] by (auto simp: run_once_accepts_def validateControllers_Nil_iff)
    with k k' True show ?thesis
      by (simp add: timed_RunOnce_def RunOnce_def Let_def synced_world_def errors_join_def)
  qed
qed

text \<open>A run that returns is the run of \<open>Operator_Launch\<close>, in the order the shuffle gave.\<close>

lemma timed_RunOnce_refines:
  assumes "timed_RunOnce shuffle muts a ctx flags s = Some r" and "range_order shuffle"
  shows "\<exists>shuffle'. range_order shuffle' \<and> RunOnce shuffle' (\<lambda>s. muts (world s)) (untimed ctx a) flags s = r"
proof -
  let ?fns = "map (under_context ctx) (ts_ControllerNamedRunOnceFns a)"
  define shuffle' where "shuffle' xs = (if xs = ?fns then map (under_context ctx) (shuffle (ts_ControllerNamedRunOnceFns a)) else xs)" for xs
  have "range_order shuffle'" using assms(2) by (simp add: range_order_def shuffle'_def)
  moreover have "RunOnce shuffle' (\<lambda>s. muts (world s)) (untimed ctx a) flags s = r"
  proof (cases "run_once_accepts (untimed ctx a) flags")
    case True
    with assms(1) show ?thesis
      by (auto simp: timed_RunOnce_accepted RunOnce_accepted bind_eq_Some_conv shuffle'_def untimed_synced
          dest!: timed_run_controllers_returns)
  next
    case False
    with assms(1) timed_RunOnce_rejected [OF False] show ?thesis by (auto simp: bind_eq_Some_conv untimed_synced)
  qed
  ultimately show ?thesis by blast
qed

text \<open>Informers that sync in time, and controllers that heed the deadline of their context: they return at
  most \<open>grace\<close> after it.\<close>

definition syncs_within :: "nat \<Rightarrow> go_context \<Rightarrow> 'w timed_informer \<Rightarrow> bool" where
  "syncs_within b ctx i \<longleftrightarrow> (\<forall>f \<in> {ti_Start i, ti_WaitForCacheSync i}. \<forall>s. \<exists>s'. f ctx s = Some s' \<and> now s' \<le> now s + b)"

definition heeds_deadline :: "nat \<Rightarrow> 'w timed_run_once \<Rightarrow> bool" where
  "heeds_deadline grace c \<longleftrightarrow> (\<forall>ctx s d. ctx_Deadline ctx = Some d \<longrightarrow>
     (\<exists>out s'. tro_RunOnce c ctx s = Some (out, s') \<and> now s' \<le> max (now s) d + grace))"

lemma each_within:
  "\<forall>x \<in> set xs. \<forall>s. \<exists>s'. f x s = Some s' \<and> now s' \<le> now s + b \<Longrightarrow>
    \<exists>s'. each f xs s = Some s' \<and> now s' \<le> now s + length xs * b"
proof (induction xs arbitrary: s)
  case (Cons x xs)
  obtain s1 where s1: "f x s = Some s1" "now s1 \<le> now s + b" using Cons.prems by (meson list.set_intros(1))
  obtain s2 where "each f xs s1 = Some s2" "now s2 \<le> now s1 + length xs * b" using Cons by fastforce
  with s1 show ?case by simp
qed simp

lemma localCtx_deadline:
  obtains d where "ctx_Deadline (localCtx ctx name s) = Some d" and "d \<le> now s + Second"
  by (cases "ctx_Deadline ctx") (simp_all add: localCtx_def WithTimeout_def)

lemma timed_run_controller_within:
  assumes "isControllerEnabled (tro_ControllerInstanceName c) flags \<Longrightarrow> heeds_deadline grace c"
  shows "\<exists>r errs s'. timed_run_controller ctx flags c s = Some (r, errs, s') \<and> now s' \<le> now s +
    (if isControllerEnabled (tro_ControllerInstanceName c) flags then Second + grace else 0)"
proof (cases "isControllerEnabled (tro_ControllerInstanceName c) flags")
  case True
  obtain d where d: "ctx_Deadline (localCtx ctx (tro_ControllerInstanceName c) s) = Some d" "d \<le> now s + Second"
    by (rule localCtx_deadline)
  obtain out s' where call: "tro_RunOnce c (localCtx ctx (tro_ControllerInstanceName c) s) s = Some (out, s')"
    "now s' \<le> max (now s) d + grace"
    using assms [OF True] d(1) unfolding heeds_deadline_def by blast
  have "now s' \<le> now s + Second + grace" using call(2) d(2) by simp
  with True call(1) show ?thesis
    by (cases out) (simp_all add: timed_run_controller_def run_controller_def under_context_def NewNamedRunOnce_def Let_def)
qed (simp add: timed_run_controller_def run_controller_def Let_def)

lemma timed_run_controllers_within:
  "\<forall>c \<in> set cs. isControllerEnabled (tro_ControllerInstanceName c) flags \<longrightarrow> heeds_deadline grace c \<Longrightarrow>
    \<exists>rs errs' s'. timed_run_controllers ctx flags cs results errs s = Some (rs, errs', s') \<and> now s' \<le> now s +
      length (filter (\<lambda>c. isControllerEnabled (tro_ControllerInstanceName c) flags) cs) * (Second + grace)"
proof (induction cs arbitrary: results errs s)
  case (Cons c cs)
  obtain r errs1 s1 where head: "timed_run_controller ctx flags c s = Some (r, errs1, s1)"
    "now s1 \<le> now s + (if isControllerEnabled (tro_ControllerInstanceName c) flags then Second + grace else 0)"
    using timed_run_controller_within [of c flags grace ctx s] Cons.prems by auto
  obtain rs errs' s' where "timed_run_controllers ctx flags cs (slice_append results [r]) (errs @ errs1) s1 = Some (rs, errs', s')"
    "now s' \<le> now s1 + length (filter (\<lambda>c. isControllerEnabled (tro_ControllerInstanceName c) flags) cs) * (Second + grace)"
    using Cons.IH [of "slice_append results [r]" "errs @ errs1" s1] Cons.prems by auto
  with head show ?case by (auto split: if_splits)
qed simp

lemma each_hangs: "\<exists>x \<in> set xs. \<forall>s. f x s = None \<Longrightarrow> each f xs s = None"
  by (induction xs arbitrary: s) (auto split: bind_split)

lemma timed_run_controllers_hangs:
  "\<exists>c \<in> set cs. isControllerEnabled (tro_ControllerInstanceName c) flags \<and> (\<forall>ctx s. tro_RunOnce c ctx s = None) \<Longrightarrow>
    timed_run_controllers ctx flags cs results errs s = None"
  by (induction cs arbitrary: results errs s) (auto simp: timed_run_controller_def Let_def split: bind_split prod.split)

section \<open>Properties\<close>

text \<open>An informer, a controller that is done at once and one that works until its context ends; and one
  that does not look at its context.\<close>

definition demo_informer :: "unit timed_informer" where
  "demo_informer = \<lparr>ti_Start = (\<lambda>ctx s. Some s), ti_WaitForCacheSync = (\<lambda>ctx s. Some (s\<lparr>now := now s + 5\<rparr>))\<rparr>"

definition demo_quick :: "unit timed_run_once" where
  "demo_quick = \<lparr>tro_ControllerInstanceName = ''quick'', tro_RunOnce = (\<lambda>ctx s. Some (RunOnceOk, s))\<rparr>"

definition demo_slow :: "unit timed_run_once" where
  "demo_slow = \<lparr>tro_ControllerInstanceName = ''slow'', tro_RunOnce = (\<lambda>ctx s. map_option (\<lambda>d.
     (RunOnceError (errorf ''context deadline exceeded''), s\<lparr>now := max (now s) d\<rparr>)) (ctx_Deadline ctx))\<rparr>"

definition demo_stuck :: "unit timed_run_once" where
  "demo_stuck = \<lparr>tro_ControllerInstanceName = ''stuck'', tro_RunOnce = (\<lambda>ctx s. None)\<rparr>"

lemma demo_heeds: "heeds_deadline 0 demo_quick" "heeds_deadline 0 demo_slow" "syncs_within 5 ctx demo_informer"
  by (simp_all add: heeds_deadline_def demo_quick_def demo_slow_def syncs_within_def demo_informer_def)

text \<open>C9: a run ends. When the informers sync in time and every enabled controller returns at most \<open>grace\<close>
  after the end of its context, the run takes at most that time for each informer and a second and
  \<open>grace\<close> for each enabled controller, and what it returns is what \<open>RunOnce\<close> is shown to report.\<close>

theorem timed_RunOnce_terminates:
  assumes "range_order shuffle" and "\<forall>i \<in> set (ts_Informers a). syncs_within b ctx i"
    and "\<forall>c \<in> set (ts_ControllerNamedRunOnceFns a).
      isControllerEnabled (tro_ControllerInstanceName c) flags \<longrightarrow> heeds_deadline grace c"
  shows "\<exists>r s' shuffle'. timed_RunOnce shuffle muts a ctx flags s = Some (r, s') \<and>
    now s' \<le> now s + 2 * length (ts_Informers a) * b +
      length (filter (\<lambda>c. isControllerEnabled (tro_ControllerInstanceName c) flags) (ts_ControllerNamedRunOnceFns a)) * (Second + grace) \<and>
    range_order shuffle' \<and> RunOnce shuffle' (\<lambda>s. muts (world s)) (untimed ctx a) flags s = (r, s')"
proof -
  let ?cs = "ts_ControllerNamedRunOnceFns a" and ?en = "\<lambda>c. isControllerEnabled (tro_ControllerInstanceName c) flags"
  obtain s1 where s1: "each (\<lambda>i. ti_Start i ctx) (ts_Informers a) s = Some s1" "now s1 \<le> now s + length (ts_Informers a) * b"
    using each_within [of "ts_Informers a" "\<lambda>i. ti_Start i ctx" b s] assms(2) by (auto simp: syncs_within_def)
  obtain s2 where s2: "each (\<lambda>i. ti_WaitForCacheSync i ctx) (ts_Informers a) s1 = Some s2" "now s2 \<le> now s1 + length (ts_Informers a) * b"
    using each_within [of "ts_Informers a" "\<lambda>i. ti_WaitForCacheSync i ctx" b s1] assms(2) by (auto simp: syncs_within_def)
  have same: "mset (shuffle ?cs) = mset ?cs" using assms(1) by (simp add: range_order_def)
  have "length (filter ?en (shuffle ?cs)) = length (filter ?en ?cs)"
    by (metis same mset_filter size_mset)
  then obtain rs errs s3 where s3: "timed_run_controllers ctx flags (shuffle ?cs) None [] s2 = Some (rs, errs, s3)"
    "now s3 \<le> now s2 + length (filter ?en ?cs) * (Second + grace)"
    using timed_run_controllers_within [of "shuffle ?cs" flags grace ctx None "[]" s2] assms(3) mset_eq_setD [OF same] by auto
  have "\<exists>r s'. timed_RunOnce shuffle muts a ctx flags s = Some (r, s') \<and>
      now s' \<le> now s2 + length (filter ?en ?cs) * (Second + grace)"
  proof (cases "run_once_accepts (untimed ctx a) flags")
    case True
    with s1(1) s2(1) s3 show ?thesis by (simp add: timed_RunOnce_accepted)
  next
    case False
    with s1(1) s2(1) timed_RunOnce_rejected [OF False] show ?thesis by auto
  qed
  then obtain r s' where r: "timed_RunOnce shuffle muts a ctx flags s = Some (r, s')"
    "now s' \<le> now s2 + length (filter ?en ?cs) * (Second + grace)" by blast
  with s1(2) s2(2) have "now s' \<le> now s + 2 * length (ts_Informers a) * b + length (filter ?en ?cs) * (Second + grace)" by simp
  with r(1) timed_RunOnce_refines [OF r(1) assms(1)] show ?thesis by blast
qed

theorem timed_RunOnce_terminates_witness:
  "\<exists>r s'. timed_RunOnce rev (\<lambda>w. NewAllActionsTracker)
      \<lparr>ts_Informers = [demo_informer], ts_ControllerNamedRunOnceFns = [demo_quick, demo_slow, demo_stuck]\<rparr>
      Background [''*'', ''-stuck''] \<lparr>now = 0, world = ()\<rparr> = Some (r, s') \<and> now s' \<le> 2000000010"
proof -
  let ?a = "\<lparr>ts_Informers = [demo_informer], ts_ControllerNamedRunOnceFns = [demo_quick, demo_slow, demo_stuck]\<rparr>"
  have en: "isControllerEnabled ''quick'' [''*'', ''-stuck'']" "isControllerEnabled ''slow'' [''*'', ''-stuck'']"
    "\<not> isControllerEnabled ''stuck'' [''*'', ''-stuck'']" by (simp_all add: isControllerEnabled_def)
  show ?thesis
    using timed_RunOnce_terminates [of rev ?a 5 Background "[''*'', ''-stuck'']" 0 "\<lambda>w. NewAllActionsTracker" "\<lparr>now = 0, world = ()\<rparr>"] en
    by (auto simp: range_order_rev demo_heeds demo_stuck_def Second_def)
      (simp_all add: demo_quick_def demo_slow_def)
qed

text \<open>The deadline does not bound the run by itself: it hangs when an informer never syncs, for which
  there is no timeout, and when an enabled controller of an accepted run never returns.\<close>

theorem timed_RunOnce_hangs:
  assumes "range_order shuffle"
    and "(\<exists>i \<in> set (ts_Informers a). \<forall>s. ti_WaitForCacheSync i ctx s = None) \<or>
      run_once_accepts (untimed ctx a) flags \<and> (\<exists>c \<in> set (ts_ControllerNamedRunOnceFns a).
        isControllerEnabled (tro_ControllerInstanceName c) flags \<and> (\<forall>ctx s. tro_RunOnce c ctx s = None))"
  shows "timed_RunOnce shuffle muts a ctx flags s = None"
  using assms(2)
proof
  assume "\<exists>i \<in> set (ts_Informers a). \<forall>s. ti_WaitForCacheSync i ctx s = None"
  then have "each (\<lambda>i. ti_WaitForCacheSync i ctx) (ts_Informers a) s' = None" for s' by (rule each_hangs)
  then show ?thesis by (simp add: timed_RunOnce_def split: bind_split)
next
  assume accepted: "run_once_accepts (untimed ctx a) flags \<and> (\<exists>c \<in> set (ts_ControllerNamedRunOnceFns a).
    isControllerEnabled (tro_ControllerInstanceName c) flags \<and> (\<forall>ctx s. tro_RunOnce c ctx s = None))"
  moreover have "set (shuffle (ts_ControllerNamedRunOnceFns a)) = set (ts_ControllerNamedRunOnceFns a)"
    using assms(1) by (auto simp: range_order_def dest: mset_eq_setD)
  ultimately have "timed_run_controllers ctx flags (shuffle (ts_ControllerNamedRunOnceFns a)) None [] s' = None" for s'
    by (intro timed_run_controllers_hangs) simp
  with accepted show ?thesis by (simp add: timed_RunOnce_accepted split: bind_split)
qed

theorem timed_RunOnce_hangs_witness:
  "timed_RunOnce rev (\<lambda>w. NewAllActionsTracker)
      \<lparr>ts_Informers = [demo_informer], ts_ControllerNamedRunOnceFns = [demo_quick, demo_stuck]\<rparr>
      Background [''*''] \<lparr>now = 0, world = ()\<rparr> = None"
  by (rule timed_RunOnce_hangs [OF range_order_rev])
    (simp add: run_once_accepts_def untimed_def demo_quick_def demo_stuck_def under_context_def NewNamedRunOnce_def isControllerEnabled_def)

end
