(* ===== verification/Recorded_Test.thy ===== *)
theory Recorded_Test
  imports Exec_Tester Run_Roundtrip
begin

text \<open>
  Recorded tests: the expected output of a test is the output directory of an earlier run of the operator.
  The theory follows such a test from the two runs, through their files and the reader of their
  directories, to the comparison and the verdict.
\<close>

section \<open>Recorded runs\<close>

text \<open>
  A run that reported success, the file system with what it wrote, and how the result reader sees the
  output directory: through \<open>rr_view\<close>, with a mutation reader for each cluster type.
\<close>

record 'fs recorded_run =
  rr_env :: run_env
  rr_dir :: string
  rr_allowed :: output_resources
  rr_results :: run_result
  rr_config :: apply_configuration
  rr_files :: 'fs
  rr_readers :: "cluster_type \<Rightarrow> mutation_reader"
  rr_view :: dir_env

definition ran :: "'fs mutation_writer \<Rightarrow> ('fs \<Rightarrow> string \<Rightarrow> string option) \<Rightarrow> 'fs recorded_run \<Rightarrow> bool" where
  "ran W content x \<longleftrightarrow> dir_made (rr_env x) (rr_dir x) \<and> config_full (rr_config x) \<and> env_orders_ok (rr_env x) \<and>
     fst (env_outputResourcesFn (rr_env x)) = Some (rr_allowed x) \<and>
     fst (env_applyConfigurationFn (rr_env x)) = Some (rr_results x) \<and>
     fst (snd (env_applyConfigurationFn (rr_env x))) = Some (rr_config x) \<and>
     (\<exists>evs fs. applyConfiguration_Run (rr_env x) (rr_dir x) = Value (None, evs) \<and>
       fresh_output (content fs) (rr_dir x) \<and> replay W evs fs = Some (rr_files x))"

text \<open>What the reader relies on: it sees the files written, the logs and the list of entries are in order, and
  the decoders of the controller results undo the encoder of the run.\<close>

definition results_file :: string where
  "results_file = ''controller-results.yaml''"

definition sees :: "'fs mutation_writer \<Rightarrow> ('fs \<Rightarrow> string \<Rightarrow> string option) \<Rightarrow> 'fs recorded_run \<Rightarrow> bool" where
  "sees W content x \<longleftrightarrow> carries_over W (rr_readers x) (rr_allowed x) (rr_config x) \<and>
     reads_disk content (rr_files x) (rr_readers x) (rr_view x) (rr_dir x) \<and>
     snd (fs_ReadDir (rr_view x)) = None \<and> (\<forall>e \<in> set (fst (fs_ReadDir (rr_view x))). expected_entry e) \<and>
     file_ok (rr_view x) ''stdout.log'' \<and> file_ok (rr_view x) ''stderr.log'' \<and>
     (\<forall>b. content (rr_files x) (path_join [rr_dir x, results_file]) = Some b \<longrightarrow> fs_ReadFile (rr_view x) results_file = (b, None)) \<and>
     (\<forall>b. env_Marshal (rr_env x) (Some (rr_results x)) = Inr b \<longrightarrow> b \<noteq> [] \<and>
       (\<exists>j. yaml_ToJSON (rr_view x) b = Inr j \<and> json_Unmarshal_results (rr_view x) j = Inr (rr_results x)))"

definition recorded_in :: "'fs mutation_writer \<Rightarrow> ('fs \<Rightarrow> string \<Rightarrow> string option) \<Rightarrow> 'fs recorded_run \<Rightarrow> bool" where
  "recorded_in W content x \<longleftrightarrow> store_laws W content \<and> ran W content x \<and> sees W content x"

text \<open>What the run asked of a cluster type, events aside, as its files say it.\<close>

definition asked_of :: "'fs recorded_run \<Rightarrow> cluster_type \<Rightarrow> serialized_request set" where
  "asked_of x ct = read_back (rr_readers x ct) `
     {sr \<in> set (kept_requests (rr_allowed x) (rr_config x) ct). \<not> is_event (sr_ActionMetadata sr)}"

section \<open>Lemmas\<close>

lemma replay_last_file:
  assumes "store_laws W content" and "replay W (evs @ [WriteFile p b]) fs = Some fs'"
  shows "content fs' p = Some b"
proof -
  obtain fs1 where "replay W [WriteFile p b] fs1 = Some fs'"
    using assms(2) by (auto simp: replay_append bind_eq_Some_conv simp del: replay.simps)
  then have "mw_WriteFile W p b fs1 = (None, fs')" by (auto split: prod.splits option.splits)
  with assms(1) show ?thesis unfolding store_laws_def by (metis fst_conv fun_upd_same snd_conv)
qed

lemma in_requests_of:
  assumes "tracker_inv t"
  shows "q \<in> set (AllRequests (\<lambda>ks. ks) t) \<longleftrightarrow> (\<exists>act. q \<in> set (requests_of t act))"
proof -
  have "(\<exists>qs. RequestsForAction t act = Value qs \<and> q \<in> set qs) \<longleftrightarrow> q \<in> set (requests_of t act)" for act
    by (cases "RequestsForAction t act") (simp_all add: requests_of_def)
  moreover have "q \<in> set (requests_of t act) \<Longrightarrow> requestish_action q = act" for act
    using tracker.own_action [OF assms] by (cases "RequestsForAction t act") (auto simp: requests_of_def)
  ultimately show ?thesis using tracker.set_all_requests [OF assms range_order_id, of q] by metis
qed

lemma image_filter: "f ` {x \<in> A. P (f x)} = {y \<in> f ` A. P y}"
  by auto

lemma directory_substance:
  assumes "tracker_inv t"
    and "\<forall>act. mset (map GetSerializedRequest (requests_of t act)) = mset (map (read_back R) (requests_of_action act srs))"
  shows "substance (DirectoryBasedClusterApplyResult ct dir t) = read_back R ` {sr \<in> set srs. \<not> is_event (sr_ActionMetadata sr)}"
proof -
  let ?P = "\<lambda>sr. \<not> is_event (sr_ActionMetadata sr)"
  have acts: "GetSerializedRequest ` set (requests_of t act) = read_back R ` set (requests_of_action act srs)" for act
    using assms(2) by (metis list.set_map set_mset_mset)
  have "set (AllRequests (\<lambda>ks. ks) t) = (\<Union>act. set (requests_of t act))"
    using in_requests_of [OF assms(1)] by auto
  then have "GetSerializedRequest ` set (AllRequests (\<lambda>ks. ks) t) = (\<Union>act. read_back R ` set (requests_of_action act srs))"
    by (simp add: image_UN acts)
  also have "\<dots> = read_back R ` set srs" by (auto simp: requests_of_action_def)
  finally have all: "GetSerializedRequest ` set (AllRequests (\<lambda>ks. ks) t) = read_back R ` set srs" .
  have "substance (DirectoryBasedClusterApplyResult ct dir t) =
      GetSerializedRequest ` {q \<in> set (AllRequests (\<lambda>ks. ks) t). ?P (GetSerializedRequest q)}"
    by (simp add: substance_def getters.listed_requests_def RemoveEvents_eq_filter requestish_metadata_def GetLookupMetadata_def)
  also have "\<dots> = {sr \<in> read_back R ` set srs. ?P sr}"
    by (simp only: image_filter [of _ _ ?P] all)
  also have "\<dots> = read_back R ` {sr \<in> set srs. ?P sr}" by (auto simp: read_back_action)
  finally show ?thesis .
qed

text \<open>The result read from the directory of a recorded run.\<close>

lemma recorded_result:
  assumes "recorded_in W content x"
  shows "\<exists>r ac. NewApplyConfigurationResultFromDirectory (rr_view x) (rr_dir x) None = (Some r, None) \<and>
    res_err r = None \<and> res_controllerResults r = Some (rr_results x) \<and> res_applyConfiguration r = Some ac \<and>
    config_ok ac \<and> (\<forall>ct \<in> set AllClusterTypes. map_option substance (desiredMutationsByClusterType ac ct) = Some (asked_of x ct))"
proof -
  let ?env = "rr_env x" and ?dir = "rr_dir x" and ?d = "rr_view x"
  have laws: "store_laws W content" and ran: "ran W content x" and sees: "sees W content x"
    using assms by (simp_all add: recorded_in_def)
  obtain err1 err2 where fns: "env_outputResourcesFn ?env = (Some (rr_allowed x), err1)"
    "env_applyConfigurationFn ?env = (Some (rr_results x), Some (rr_config x), err2)"
    using ran unfolding ran_def by (metis prod.collapse)
  obtain evs fs where run: "applyConfiguration_Run ?env ?dir = Value (None, evs)" "fresh_output (content fs) ?dir"
    "replay W evs fs = Some (rr_files x)"
    using ran by (auto simp: ran_def)
  have pre: "dir_made ?env ?dir" "config_full (rr_config x)" "env_orders_ok ?env" using ran by (simp_all add: ran_def)
  have carries: "carries_over W (rr_readers x) (rr_allowed x) (rr_config x)"
    and reads: "reads_disk content (rr_files x) (rr_readers x) ?d ?dir" using sees by (simp_all add: sees_def)
  obtain ac where ac: "newApplyConfigurationFromDirectory ?d ?dir = (Some ac, None)"
    "read_result (rr_readers x) (rr_allowed x) (rr_config x) ?dir ac"
    using run_reads_back [OF pre fns run(1) laws run(3,2) carries reads] by blast
  obtain bytes where bytes: "env_Marshal ?env (Some (rr_results x)) = Inr bytes"
    and declared: "\<forall>q \<in> set (all_produced (rr_config x)). declared (rr_allowed x) q"
    and evs: "evs = run_writes ?env ?dir (rr_allowed x) (rr_config x) (Some (rr_results x))"
    using Run_eq [OF pre fns] run(1) by auto
  have "evs = run_events ?env ?dir (rr_allowed x) (rr_config x) bytes"
    using run_writes_clean [OF config_full_ok [OF pre(2)] pre(3) declared bytes] evs by simp
  with run(3) have "content (rr_files x) (path_join [?dir, results_file]) = Some bytes"
    unfolding run_events_def results_file_def by (intro replay_last_file [OF laws]) simp
  with sees bytes obtain j where read: "fs_ReadFile ?d results_file = (bytes, None)" "bytes \<noteq> []"
    "yaml_ToJSON ?d bytes = Inr j" "json_Unmarshal_results ?d j = Inr (rr_results x)"
    unfolding sees_def by blast
  then have results: "read_controller_results ?d ?dir = (Some (rr_results x), [])" "results_ok ?d"
    by (simp_all add: read_controller_results_def results_ok_def file_ok_def results_file_def)
  have order: "range_order (ord_cluster_types ?d)" using reads by (simp add: reads_disk_def)
  have "\<forall>ct \<in> set AllClusterTypes. cluster_dir_readable ?d ct"
    using newApplyConfigurationFromDirectory_cases [OF order, of ?dir] ac(1) by (auto split: if_splits)
  then have "clean_output ?d" using sees results(2) by (simp add: clean_output_def sees_def)
  with NewResult_read [OF order, of ?dir None] sees results(1) ac(1)
  obtain r where "NewApplyConfigurationResultFromDirectory ?d ?dir None = (Some r, None)"
    "res_err r = None" "res_controllerResults r = Some (rr_results x)" "res_applyConfiguration r = Some ac"
    by (auto simp: sees_def)
  moreover have "config_ok ac"
    using ac(2) by (fastforce simp: read_result_def config_ok_def)
  moreover have "map_option substance (desiredMutationsByClusterType ac ct) = Some (asked_of x ct)" if "ct \<in> set AllClusterTypes" for ct
    using ac(2) that by (fastforce simp: read_result_def asked_of_def directory_substance)
  ultimately show ?thesis by blast
qed

text \<open>The comparison of two recorded runs.\<close>

lemma recorded_runs_compare:
  assumes "recorded_in W content x" and "recorded_in W content y" and "\<forall>ct b. range_order (ord ct b)"
  shows "\<exists>expected actual reasons. NewApplyConfigurationResultFromDirectory (rr_view x) (rr_dir x) None = (Some expected, None) \<and>
    NewApplyConfigurationResultFromDirectory (rr_view y) (rr_dir y) None = (Some actual, None) \<and>
    EquivalentApplyConfigurationResultIgnoringEvents env ord expected actual = Value reasons \<and>
    (reasons = [] \<longleftrightarrow> rr_results x = rr_results y \<and> (\<forall>ct \<in> set AllClusterTypes. asked_of x ct = asked_of y ct))"
proof -
  obtain r ac where r: "NewApplyConfigurationResultFromDirectory (rr_view x) (rr_dir x) None = (Some r, None)"
      "res_err r = None" "res_controllerResults r = Some (rr_results x)" "res_applyConfiguration r = Some ac" "config_ok ac"
    and asked: "\<forall>ct \<in> set AllClusterTypes. map_option substance (desiredMutationsByClusterType ac ct) = Some (asked_of x ct)"
    using recorded_result [OF assms(1)] by blast
  obtain r' ac' where r': "NewApplyConfigurationResultFromDirectory (rr_view y) (rr_dir y) None = (Some r', None)"
      "res_err r' = None" "res_controllerResults r' = Some (rr_results y)" "res_applyConfiguration r' = Some ac'" "config_ok ac'"
    and asked': "\<forall>ct \<in> set AllClusterTypes. map_option substance (desiredMutationsByClusterType ac' ct) = Some (asked_of y ct)"
    using recorded_result [OF assms(2)] by blast
  obtain reasons where "EquivalentApplyConfigurationResultIgnoringEvents env ord r r' = Value reasons"
    "reasons = [] \<longleftrightarrow> rr_results x = rr_results y \<and> (\<forall>ct \<in> set AllClusterTypes. asked_of x ct = asked_of y ct)"
    using Equivalent_reasons [OF r(4) r'(4) r(5) r'(5) assms(3), of env] asked asked' by (auto simp: r r')
  with r(1) r'(1) show ?thesis by blast
qed

text \<open>A process that can be started, writes its logs and ends without an error yields what its output
  directory holds.\<close>

definition process_succeeds :: "exec_env \<Rightarrow> string \<Rightarrow> flag_values \<Rightarrow> bool" where
  "process_succeeds env bin fv \<longleftrightarrow> (\<forall>p. ex_OpenFile env p = None) \<and>
     ex_Start env bin (exec_args fv) = None \<and> ex_Wait env bin (exec_args fv) = None"

lemma Exec_success:
  "process_succeeds env bin fv \<Longrightarrow> ExecApplyConfiguration env bin fv =
    NewApplyConfigurationResultFromDirectory (ex_DirFS env (fv_OutputDirectory fv)) (fv_OutputDirectory fv) None"
  by (simp add: process_succeeds_def ExecApplyConfiguration_def Let_def)

text \<open>A test that expects the output of \<open>x\<close>, and whose process made the run \<open>y\<close>.\<close>

definition recorded_test :: "test_env \<Rightarrow> exec_env \<Rightarrow> test_options \<Rightarrow> 'fs recorded_run \<Rightarrow> 'fs recorded_run \<Rightarrow> bool" where
  "recorded_test env xenv o' x y \<longleftrightarrow>
     rr_dir x = path_join [to_TestDirectory o', ''expected-output''] \<and> te_DirFS env (path_join [to_TestDirectory o', ''expected-output'']) = rr_view x \<and>
     rr_dir y = to_OutputDirectory o' \<and> ex_DirFS xenv (to_OutputDirectory o') = rr_view y \<and>
     te_Exec env = ExecApplyConfiguration xenv \<and>
     process_succeeds xenv (td_BinaryName (to_Description o')) (test_args o') \<and>
     te_MkdirAll env (to_OutputDirectory o') = None \<and> (\<forall>ct b. range_order (te_ord env ct b)) \<and>
     td_DesiredError (to_Description o') = NoError"

lemma recorded_test_exec:
  "recorded_test env xenv o' x y \<Longrightarrow> test_exec env o' = NewApplyConfigurationResultFromDirectory (rr_view y) (rr_dir y) None"
  using Exec_success [of xenv "td_BinaryName (to_Description o')" "test_args o'"]
  by (simp add: recorded_test_def test_exec_def test_args_def)

lemma recorded_verdict:
  assumes "recorded_in W content x" and "recorded_in W content y" and "recorded_test env xenv o' x y"
    and "policy \<noteq> PreservePolicyReplaceExpectedOutput"
  shows "\<exists>c. runTest env policy o' = Value c \<and>
    (jc_FailureOutput c = None \<longleftrightarrow> rr_results x = rr_results y \<and>
      (\<forall>ct \<in> set AllClusterTypes. asked_of x ct = asked_of y ct))"
proof -
  have orders: "\<forall>ct b. range_order (te_ord env ct b)" and made: "te_MkdirAll env (to_OutputDirectory o') = None"
    and wanted: "td_DesiredError (to_Description o') \<noteq> NonZeroReturn"
    using assms(3) by (simp_all add: recorded_test_def NoError_def NonZeroReturn_def)
  obtain expected actual reasons where read: "NewApplyConfigurationResultFromDirectory (rr_view x) (rr_dir x) None = (Some expected, None)"
      "NewApplyConfigurationResultFromDirectory (rr_view y) (rr_dir y) None = (Some actual, None)"
    and compared: "EquivalentApplyConfigurationResultIgnoringEvents (te_diff env) (te_ord env) expected actual = Value reasons"
    and same: "reasons = [] \<longleftrightarrow> rr_results x = rr_results y \<and> (\<forall>ct \<in> set AllClusterTypes. asked_of x ct = asked_of y ct)"
    using recorded_runs_compare [OF assms(1,2) orders, of "te_diff env"] by blast
  obtain c where c: "jc_FailureOutput c = None" "runTest env policy o' = judge_exec env o' (Some actual, None) c"
    using runTest_judges [OF assms(4) made] recorded_test_exec [OF assms(3)] read(2) by auto
  have "compare_with_expected env o' actual c = Value (if length reasons > 0
      then failed (''expected results mismatch '' @ show_nat (length reasons) @ '' times with actual results'')
        (strings_join reasons lf) c else c)"
    using assms(3) read(1) compared by (simp add: compare_with_expected_def recorded_test_def deref_def)
  with c wanted same show ?thesis by (simp add: judge_exec_def)
qed

section \<open>Properties\<close>


text \<open>Runs of one operator whose controllers report differently, and a test between them.\<close>

definition demo_results :: "nat \<Rightarrow> run_result" where
  "demo_results n = \<lparr>arr_ControllerResults = (if n = 0 then None else if n = 1 then Some []
     else Some [\<lparr>crr_ControllerName = ''one'', crr_Status = ControllerRunStatusSucceeded, crr_Errors = None, crr_PanicStack = []\<rparr>])\<rparr>"

definition demo_bytes :: "nat \<Rightarrow> string" where
  "demo_bytes n = (if n = 0 then ''{}'' else if n = 1 then ''controllerResults: []'' else ''controllerResults: [one: Succeeded]'')"

definition demo_encode :: "run_result \<Rightarrow> string" where
  "demo_encode r = demo_bytes (if r = demo_results 0 then 0 else if r = demo_results 1 then 1 else 2)"

definition demo_decode :: "string \<Rightarrow> run_result" where
  "demo_decode b = demo_results (if b = demo_bytes 0 then 0 else if b = demo_bytes 1 then 1 else 2)"

definition demo_recorded :: "run_result \<Rightarrow> string \<Rightarrow> (string \<times> string) list recorded_run" where
  "demo_recorded r dir =
     \<lparr>rr_env = demo_stored_env\<lparr>env_applyConfigurationFn := (Some r, Some demo_stored_config, None),
        env_Marshal := (\<lambda>r. Inr (case r of None \<Rightarrow> ''null'' | Some r' \<Rightarrow> demo_encode r'))\<rparr>,
      rr_dir = dir, rr_allowed = demo_allowed, rr_results = r, rr_config = demo_stored_config,
      rr_files = the (replay disk_writer (demo_stored_events dir (demo_encode r)) []), rr_readers = demo_stored_reader,
      rr_view = (read_dir demo_stored_reader)\<lparr>
        fs_ReadFile := (\<lambda>f. if f = results_file then (demo_encode r, None) else ([], Some (Leaf NotExist ''no file''))),
        yaml_ToJSON := Inr, json_Unmarshal_results := (\<lambda>j. Inr (demo_decode j))\<rparr>\<rparr>"

lemma demo_codec:
  "demo_decode (demo_encode (demo_results n)) = demo_results n" "demo_encode r \<noteq> []" "demo_results 1 \<noteq> demo_results 0"
  by (simp_all add: demo_results_def demo_encode_def demo_decode_def demo_bytes_def)

lemma demo_recorded_simps [simp]:
  "rr_dir (demo_recorded r dir) = dir" "rr_allowed (demo_recorded r dir) = demo_allowed"
  "rr_results (demo_recorded r dir) = r" "rr_config (demo_recorded r dir) = demo_stored_config"
  "rr_readers (demo_recorded r dir) = demo_stored_reader"
  by (simp_all add: demo_recorded_def)

lemma demo_recorded_files:
  "replay disk_writer (demo_stored_events dir (demo_encode r)) [] = Some (rr_files (demo_recorded r dir))"
  using disk_replays [of "demo_stored_events dir (demo_encode r)" "[]"] by (auto simp: demo_recorded_def)

lemma demo_recorded_ran: "ran disk_writer map_of (demo_recorded r dir)"
proof -
  let ?x = "demo_recorded r dir"
  have fns: "env_outputResourcesFn (rr_env ?x) = (Some demo_allowed, None)"
    "env_applyConfigurationFn (rr_env ?x) = (Some (r), Some demo_stored_config, None)"
    "env_Marshal (rr_env ?x) (Some (r)) = Inr (demo_encode r)"
    by (simp_all add: demo_recorded_def demo_stored_env_def)
  have pre: "dir_made (rr_env ?x) dir" "env_orders_ok (rr_env ?x)"
    using demo_stored_run(1,3) by (simp_all add: demo_recorded_def dir_made_def env_orders_ok_def)
  have decl: "\<forall>q \<in> set (all_produced demo_stored_config). declared demo_allowed q"
    using Run_eq [OF demo_stored_run(1-5)] demo_stored_run(7) by auto
  have "run_events (rr_env ?x) dir demo_allowed demo_stored_config (demo_encode r) = demo_stored_events dir (demo_encode r)"
    by (simp add: run_events_def run_kept_def demo_recorded_def)
  then have writes: "run_writes (rr_env ?x) dir demo_allowed demo_stored_config (Some (r)) = demo_stored_events dir (demo_encode r)"
    using run_writes_clean [OF config_full_ok [OF demo_stored_run(2)] pre(2) decl fns(3)] by simp
  have ok: "write_ok (rr_env ?x) ev" for ev
    by (cases ev) (simp_all add: write_ok_def demo_recorded_def demo_stored_env_def demo_env_def)
  obtain e where "applyConfiguration_Run (rr_env ?x) dir = Value (e, demo_stored_events dir (demo_encode r))" "e = None"
    using Run_eq [OF pre(1) demo_stored_run(2) pre(2) fns(1,2)] decl fns(3) ok unfolding writes by blast
  then have run: "applyConfiguration_Run (rr_env ?x) dir = Value (None, demo_stored_events dir (demo_encode r))" by simp
  show ?thesis
    unfolding ran_def demo_recorded_simps
    by (intro conjI exI) (rule pre demo_stored_run(2) run demo_stored_transfer(1) demo_recorded_files | simp add: fns)+
qed

lemma demo_recorded_in:
  assumes "demo_decode (demo_encode r) = r"
  shows "recorded_in disk_writer map_of (demo_recorded r dir)"
proof -
  have reads: "reads_disk map_of (rr_files (demo_recorded r dir)) demo_stored_reader (read_dir demo_stored_reader) dir"
    by (rule demo_stored_transfer(3) [OF demo_recorded_files])
  have last: "replay disk_writer (map (\<lambda>ct. WriteMutationDirectory (path_join [dir, cluster_type_string ct])
        (run_kept demo_stored_env demo_allowed demo_stored_config ct)) AllClusterTypes @
      [WriteFile (path_join [dir, results_file]) (demo_encode r)]) [] = Some (rr_files (demo_recorded r dir))"
    using demo_recorded_files [of dir r] by (simp only: run_events_def results_file_def)
  have results: "map_of (rr_files (demo_recorded r dir)) (path_join [dir, results_file]) = Some (demo_encode r)"
    by (rule replay_last_file [OF disk_laws last])
  have "sees disk_writer map_of (demo_recorded r dir)"
    unfolding sees_def using demo_stored_transfer(2) reads results assms demo_codec(2) [of r]
    by (simp add: demo_recorded_def reads_disk_def file_ok_def results_file_def read_dir_def demo_dir_def)
  then show ?thesis using demo_recorded_ran disk_laws by (simp add: recorded_in_def)
qed

definition demo_ended :: "run_result \<Rightarrow> exec_env" where
  "demo_ended r = demo_exec\<lparr>ex_Wait := (\<lambda>bin a. None), ex_DirFS := (\<lambda>d. rr_view (demo_recorded r d))\<rparr>"

definition demo_recorded_test :: "run_result \<Rightarrow> run_result \<Rightarrow> test_env" where
  "demo_recorded_test r r' = (demo_test_env (None, None))\<lparr>te_Exec := ExecApplyConfiguration (demo_ended r'),
     te_DirFS := (\<lambda>d. rr_view (demo_recorded r d))\<rparr>"

lemma demo_recorded_test:
  "recorded_test (demo_recorded_test r r') (demo_ended r') (demo_test NoError)
    (demo_recorded r ''tests/t/expected-output'') (demo_recorded r' ''out/t'')"
proof -
  have "path_join [''tests/t'', ''expected-output''] = ''tests/t/expected-output''" by code_simp
  then show ?thesis
    by (simp add: recorded_test_def demo_recorded_test_def demo_ended_def demo_test_def demo_test_env_def
        process_succeeds_def demo_exec_def)
qed

lemma demo_policy: "PreservePolicyNone \<noteq> PreservePolicyReplaceExpectedOutput"
  by (simp add: PreservePolicyNone_def PreservePolicyReplaceExpectedOutput_def)


end
