(* ===== verification/Stable_Tests.thy ===== *)
theory Stable_Tests
  imports Recording_Run Recorded_Test
begin

text \<open>
  The parts put together: an operator whose controllers send their requests through the recording client,
  run twice with its controllers in any two orders, the first time to record a test and the second time
  to take it.
\<close>

section \<open>Two runs of one operator\<close>

text \<open>\<open>x\<close> is a run of the operator: the apply-configuration function is its \<open>RunOnce\<close>.\<close>

definition run_of ::
    "write_round_tripper simple_operator_starter \<Rightarrow> string list \<Rightarrow> output_resources \<Rightarrow> 'fs recorded_run \<Rightarrow> bool" where
  "run_of a flags allowed x \<longleftrightarrow> rr_allowed x = allowed \<and> (\<exists>shuffle. range_order shuffle \<and>
     env_applyConfigurationFn (rr_env x) = fst (RunOnce shuffle GetMutations a flags newWriteRoundTripper))"

text \<open>The decoders of one program.\<close>

definition same_decoders :: "'fs recorded_run \<Rightarrow> 'fs recorded_run \<Rightarrow> bool" where
  "same_decoders x y \<longleftrightarrow> (\<forall>ct \<in> set AllClusterTypes. read_back (rr_readers x ct) = read_back (rr_readers y ct))"

section \<open>Lemmas\<close>

text \<open>Controllers over the recording client do not see each other: the round tripper only ever holds the
  history of some requests, and no answer depends on it.\<close>

definition holds_some :: "write_round_tripper \<Rightarrow> bool" where
  "holds_some t \<longleftrightarrow> (\<exists>srs. holds_history t srs)"

primrec program_outcome :: "('u, 'o) write_env \<Rightarrow> string \<Rightarrow> string \<Rightarrow> 'u client_program \<Rightarrow> run_outcome" where
  "program_outcome env stack name (Returns out) = out"
| "program_outcome env stack name (Sends req k) =
     (case answer_to env (WithControllerInstanceNameFromContext req name) of
        Value (resp, srs) \<Rightarrow> program_outcome env stack name (k resp)
      | Panicked p \<Rightarrow> RunOncePanic (case p of NilDereference \<Rightarrow> ''nil pointer dereference'' | PanicValue v \<Rightarrow> v) stack)"

lemma run_program_outcome:
  "holds_history t srs \<Longrightarrow> fst (run_program env stack name program t) = program_outcome env stack name program"
proof (induction program arbitrary: t srs)
  case (Sends req k)
  note refines = RoundTrip_refines_answer [OF Sends.prems, of env "WithControllerInstanceNameFromContext req name"]
  show ?case
  proof (cases "answer_to env (WithControllerInstanceNameFromContext req name)")
    case (Value x)
    obtain resp new where x: "x = (resp, new)" by (cases x)
    with refines obtain t' where "RoundTrip env (WithControllerInstanceNameFromContext req name) t = Value (resp, t')"
      "holds_history t' (srs @ new)" by (auto simp: Value)
    with Sends.IH [of "k resp"] show ?thesis by (simp add: Value x)
  qed (use refines in simp)
qed simp

lemma recording_controller_independent: "independent_on holds_some (recording_controller env stack name program)"
  unfolding independent_on_def holds_some_def
  using run_program_records run_program_outcome by (metis recording_controller_simps(2))

lemma recording_operator_independent:
  assumes "recording_operator env stack cs a"
  shows "\<forall>c \<in> set (sos_ControllerNamedRunOnceFns a). independent_on holds_some c"
    and "holds_some (synced_world a newWriteRoundTripper)"
proof -
  show "\<forall>c \<in> set (sos_ControllerNamedRunOnceFns a). independent_on holds_some c"
    using assms recording_controller_independent by (auto simp: recording_operator_def)
  have "synced_world a newWriteRoundTripper = newWriteRoundTripper"
    using assms by (intro only_reads_world) (simp add: recording_operator_def)
  then show "holds_some (synced_world a newWriteRoundTripper)"
    unfolding holds_some_def by (metis new_holds_nothing)
qed

text \<open>What a run of a recording operator leaves: the results in their canonical order, and what the
  declarations admit of the requests the enabled controllers ask for.\<close>

definition admitted :: "output_resources \<Rightarrow> cluster_type \<Rightarrow> serialized_request list \<Rightarrow> serialized_request set" where
  "admitted allowed ct srs = {sr \<in> set srs. admits allowed ct sr \<and> \<not> is_event (sr_ActionMetadata sr)}"

lemma kept_admitted:
  assumes "holds_history t srs" and "ct \<in> set AllClusterTypes"
  shows "{sr \<in> set (kept_requests allowed (NewApplyConfigurationFromClient (actionTracker t)) ct). \<not> is_event (sr_ActionMetadata sr)} =
    admitted allowed ct srs"
proof -
  have "set (kept_requests allowed (NewApplyConfigurationFromClient (actionTracker t)) ct) =
      GetSerializedRequest ` {q \<in> set (AllRequests (\<lambda>ks. ks) (actionTracker t)). admits allowed ct (GetSerializedRequest q)}"
    using assms(2) by (auto simp: kept_requests_def client_cluster_requests declared_for_admits)
  also have "\<dots> = {sr \<in> set srs. admits allowed ct sr}"
    by (simp only: image_filter [of _ _ "admits allowed ct"] history_requests [OF assms(1)])
  finally show ?thesis by (auto simp: admitted_def)
qed

lemma run_of_recording_operator:
  assumes "recording_operator wenv stack cs a" and "run_once_accepts a flags" and "run_of a flags allowed x" and "ran W content x"
  shows "Some (rr_results x) = fst (fst (RunOnce (\<lambda>ks. ks) GetMutations a flags newWriteRoundTripper)) \<and>
    (\<forall>ct \<in> set AllClusterTypes. asked_of x ct = read_back (rr_readers x ct) ` admitted allowed ct (asked_by_enabled wenv flags cs))"
proof -
  obtain shuffle where shuffle: "range_order shuffle"
    "env_applyConfigurationFn (rr_env x) = fst (RunOnce shuffle GetMutations a flags newWriteRoundTripper)"
    and allowed: "rr_allowed x = allowed"
    using assms(3) by (auto simp: run_of_def)
  obtain res err t srs where run: "RunOnce shuffle GetMutations a flags newWriteRoundTripper =
      ((Some res, Some (NewApplyConfigurationFromClient (actionTracker t)), err), t)"
    and t: "holds_history t srs" "mset srs = mset (asked_by_enabled wenv flags cs)"
    using RunOnce_records [OF assms(2) shuffle(1) assms(1)] by blast
  then have x: "rr_results x = res" "rr_config x = NewApplyConfigurationFromClient (actionTracker t)"
    using assms(4) shuffle(2) by (auto simp: ran_def)
  have "fst (fst (RunOnce shuffle GetMutations a flags newWriteRoundTripper)) =
      fst (fst (RunOnce (\<lambda>ks. ks) GetMutations a flags newWriteRoundTripper))"
    by (rule RunOnce_any_order [OF shuffle(1) range_order_id recording_operator_independent(2,1) [OF assms(1)]])
  then have results: "Some (rr_results x) = fst (fst (RunOnce (\<lambda>ks. ks) GetMutations a flags newWriteRoundTripper))"
    by (simp add: run x(1))
  have "admitted allowed ct srs = admitted allowed ct (asked_by_enabled wenv flags cs)" for ct
    by (simp add: admitted_def mset_eq_setD [OF t(2)])
  with results show ?thesis by (auto simp: asked_of_def allowed x(2) kept_admitted [OF t(1)])
qed

section \<open>Properties\<close>


text \<open>An operator with one controller that creates the config map of the recorded runs.\<close>

definition demo_config_map :: unstructured where
  "demo_config_map = fmupd ''metadata'' (JObject (fmupd ''namespace'' (JString ''ns'') (fmupd ''name'' (JString ''cm'') fmempty)))
     (fmupd ''apiVersion'' (JString ''v1'') (fmupd ''kind'' (JString ''ConfigMap'') fmempty))"

definition demo_client_env :: "(request_info, unit) write_env" where
  "demo_client_env = demo_write_env\<lparr>we_DecodeBody := (\<lambda>c. Inr (DecodedObject demo_config_map)), we_MarshalBody := (\<lambda>b. Inr ''body'')\<rparr>"

definition demo_clients :: "(string \<times> request_info client_program) list" where
  "demo_clients = [(''one'', Sends (demo_http ''create'' ''ns'' ''configmaps'' [] []) (\<lambda>resp. Returns RunOnceOk))]"

definition demo_client_operator :: "write_round_tripper simple_operator_starter" where
  "demo_client_operator = \<lparr>sos_Informers = [],
     sos_ControllerNamedRunOnceFns = recording_controllers demo_client_env [] demo_clients, sos_ControllerRunFns = []\<rparr>"

lemma demo_client_facts:
  "recording_operator demo_client_env [] demo_clients demo_client_operator" "run_once_accepts demo_client_operator [''*'']"
  by (simp_all add: recording_operator_def demo_client_operator_def run_once_accepts_def demo_clients_def)

lemma demo_client_answer:
  "\<exists>resp. answer_to demo_client_env (WithControllerInstanceNameFromContext (demo_http ''create'' ''ns'' ''configmaps'' [] []) ''one'') =
    Value (resp, [demo_stored])"
  by (simp add: answer_to_def demo_client_env_def demo_config_map_def demo_write_defs demo_stored_def demo_create_def demo_metadata_of_def
      WithControllerInstanceNameFromContext_def ControllerInstanceNameFromContext_def GroupVersionKind_def ParseGroupVersion_def slash_def)

lemma demo_client_run:
  "fst (RunOnce (\<lambda>ks. ks) GetMutations demo_client_operator [''*''] newWriteRoundTripper) =
    (Some (demo_results 2), Some demo_stored_config, None)"
proof -
  let ?program = "Sends (demo_http ''create'' ''ns'' ''configmaps'' [] []) (\<lambda>resp. Returns RunOnceOk)"
  let ?run = "run_program demo_client_env [] ''one'' ?program newWriteRoundTripper"
  obtain resp where answer: "answer_to demo_client_env (WithControllerInstanceNameFromContext
      (demo_http ''create'' ''ns'' ''configmaps'' [] []) ''one'') = Value (resp, [demo_stored])"
    using demo_client_answer by blast
  have "fst ?run = program_outcome demo_client_env [] ''one'' ?program"
    by (rule run_program_outcome [OF new_holds_nothing])
  moreover have "holds_history (snd ?run) ([] @ asked_by demo_client_env ''one'' ?program)"
    by (rule run_program_records [OF new_holds_nothing])
  ultimately have "fst ?run = RunOnceOk" "holds_history (snd ?run) [demo_stored]"
    by (simp_all add: answer del: run_program.simps)
  then obtain t where run: "?run = (RunOnceOk, t)" "holds_history t [demo_stored]" by (metis prod.collapse)
  have "NewApplyConfigurationFromClient (actionTracker t) = demo_stored_config"
    using run(2) by (simp add: holds_history_def numbered_def demo_stored_config_def demo_tracker_def)
  moreover have "sos_ControllerNamedRunOnceFns demo_client_operator = [recording_controller demo_client_env [] ''one'' ?program]"
    "synced_world demo_client_operator newWriteRoundTripper = newWriteRoundTripper"
    by (simp_all add: demo_client_operator_def demo_clients_def synced_world_def)
  ultimately show ?thesis
    unfolding RunOnce_accepted [OF demo_client_facts(2)]
    by (simp add: run(1) run_controller_def isControllerEnabled_def slice_append_def GetMutations_def
        CanonicalizeApplyConfigurationRunResult_def errors_join_def demo_results_def del: run_program.simps)
qed

text \<open>A recorded run of that operator.\<close>

lemma demo_client_runs: "run_of demo_client_operator [''*''] demo_allowed (demo_recorded (demo_results 2) dir)"
  unfolding run_of_def using demo_client_run
  by (intro conjI exI [of _ "\<lambda>ks. ks"]) (simp_all add: demo_recorded_def)


end
