(* ===== verification/Spec2Isabelle.thy ===== *)
theory Spec2Isabelle
  imports Go_Prelude Mutation_Interface Manifest_Client Output_Resources Client_Mutations Run_Results Operator_Launch Apply_Configuration Apply_Properties Directory_Result Equivalence Input_Resources Process_Exec Exec_Tester Test_Discovery Unstructured Must_Gather Prune Flags Go_Strconv Sample_Controllers Demo_Machine Sample_Operator Commands Mutation_Writer Mutation_Reader Reader_Correctness Mutation_Roundtrip Run_Roundtrip Launch_Adapters Gather_Clients Go_Csv Pflag Cobra Programs Process_Launch Write_Roundtripper Recording_Run Concurrent_Requests Launch_Time Recorded_Test Stable_Tests
begin

text \<open>
  The multi-operator-manager runs operators in one shot. An operator is given the content of a
  cluster as a must-gather directory and says, as files, which mutations it wants; it also says which
  resources it reads and which it writes. The repository holds the library an operator builds its
  three commands from, the manager's own commands, which prepare an input directory and test operators
  against expected outputs, and a sample operator.

  \<^bold>\<open>How the parts interact.\<close> The manager's tester (\<open>pkg/test/testapplyconfiguration\<close>) starts an operator
  as a process (\<open>pkg/applyconfiguration/execer.go\<close>). The operator's command
  (\<open>libraryapplyconfiguration/command.go\<close>) parses its flags and runs the operator's own function over
  clients that record every mutation request instead of sending it
  (the vendored \<open>manifestclient\<close>). That function runs the enabled controllers
  in a random order (\<open>operator_launch_helpers.go\<close>). The run (\<open>options.go\<close>) then keeps, for each of the three
  cluster types, the requests the operator declared for it, puts the rest under
  \<open>Unspecified\<close>, and writes both and the results of the controllers to the output directory. The tester
  reads that directory back (\<open>directory_apply_configuration.go\<close>, \<open>directory_mutations.go\<close>) and compares
  it with an expected one (\<open>equivalence.go\<close>). The input directory comes from a dump of a cluster, from
  which \<open>libraryinputresources/prune_mustgather.go\<close> selects what the operator says it reads.

  \<^bold>\<open>Which theory models which part\<close> (paths are under \<open>src/pkg\<close> unless they start with another directory):

    \<^item> \<open>Go_Prelude\<close>, \<open>Go_Path\<close>, \<open>Go_Strconv\<close>, \<open>Go_Csv\<close>, \<open>Unstructured\<close>: what the code takes from Go and its libraries.
      Panics (\<open>outcome\<close>), error values with their wrapping (\<open>go_error\<close>), nil slices, \<open>%q\<close>, map ranges,
      comparators and stable sorting; \<open>path.Join\<close> and \<open>path.Clean\<close>; \<open>strconv.Atoi\<close>; a CSV record;
      unstructured objects. The locale \<open>three_way\<close> holds what a comparison promises; it is
      interpreted on strings, requests and controller results.
    \<^item> \<open>Mutation_Interface\<close>: the interface \<open>MutationActionReader\<close> as the locale \<open>mutation_action_reader\<close>, interpreted
      on the tracker in \<open>Manifest_Client\<close> and on the tracker and its filters in \<open>Client_Mutations\<close>; and its extension
      \<open>single_cluster_getter\<close>, for \<open>SingleClusterDesiredMutationGetter\<close>, interpreted in \<open>Apply_Configuration\<close>.
    \<^item> \<open>Manifest_Client\<close>, \<open>Mutation_Writer\<close>, \<open>Mutation_Reader\<close>, \<open>Reader_Correctness\<close>, \<open>Mutation_Roundtrip\<close>: the vendored \<open>manifestclient\<close>
      (\<open>vendor/github.com/openshift/library-go/pkg/manifestclient\<close>): requests and the tracker of them, the files of a
      mutation directory, and reading them again. \<open>serialized_request\<close> is \<open>SerializedRequest\<close>, the tracker is
      \<open>all_actions_tracker\<close>, an association list from actions to their requests.
    \<^item> \<open>Write_Roundtripper\<close>: the recording client of the same package, from a request to its record and its answer.
      \<open>write_round_tripper\<close> holds the tracker and the next number; \<open>holds_history\<close> says which requests it holds.
    \<^item> \<open>Client_Mutations\<close>, \<open>Apply_Configuration\<close>, \<open>Apply_Properties\<close>, \<open>Run_Results\<close>, \<open>Operator_Launch\<close>,
      \<open>Launch_Adapters\<close>: \<open>libraryapplyconfiguration\<close>. The desired configuration maps
      cluster types to getters; the run is \<open>applyConfiguration_Run\<close>, whose writes are a list of events; the operator's
      launch is \<open>RunOnce\<close>, which passes on a world of any type that the controllers change.
    \<^item> \<open>Launch_Time\<close>: the same launch with its time: the deadline of a controller's context, calls that never return, and the
      agreement of the two models where everything returns.
    \<^item> \<open>Recording_Run\<close>: controllers as programs that send requests (\<open>client_program\<close>), run by \<open>RunOnce\<close> over the recording client and
      written by the run. \<open>asked_by\<close> is the specification: the requests a program asks for, without any state.
    \<^item> \<open>Concurrent_Requests\<close>: such programs at once over one recording client, as a step relation whose steps are round trips; its
      invariant by rule induction, and its end by a well-founded order on multisets of programs.
    \<^item> \<open>Directory_Result\<close>, \<open>Equivalence\<close>: results read from directories, and their comparison.
    \<^item> \<open>Run_Roundtrip\<close>: the run and the reader of its directory together, over the writes replayed on a file system.
    \<^item> \<open>Output_Resources\<close>, \<open>Input_Resources\<close>, \<open>Must_Gather\<close>, \<open>Prune\<close>, \<open>Gather_Clients\<close>: \<open>libraryoutputresources\<close> and
      \<open>libraryinputresources\<close>.
    \<^item> \<open>Process_Exec\<close>, \<open>Exec_Tester\<close>, \<open>Test_Discovery\<close>, \<open>Flags\<close>, \<open>Commands\<close>: \<open>applyconfiguration\<close>, \<open>test/testapplyconfiguration\<close>, \<open>flagtypes\<close>, and the
      commands under \<open>cmd/multi-operator-manager\<close> and in the libraries, from their flags on.
    \<^item> \<open>Pflag\<close>, \<open>Cobra\<close>, \<open>Programs\<close>: from a command line to the flags: the parser of \<open>vendor/github.com/spf13/pflag\<close>, the
      search and execution of \<open>vendor/github.com/spf13/cobra\<close>, the flags that each command registers, the command trees
      and the mains under \<open>src/cmd\<close>.
    \<^item> \<open>Process_Launch\<close>: the tester's process and the operator's command line together.
    \<^item> \<open>Recorded_Test\<close>, \<open>Stable_Tests\<close>: a test whose expected output is that of an earlier run, from the two runs to the verdict; and
      the whole chain for an operator over the recording client.
    \<^item> \<open>Sample_Controllers\<close>, \<open>Demo_Machine\<close>, \<open>Sample_Operator\<close>: \<open>sampleoperator\<close>. \<open>Demo_Machine\<close> is a step relation
      of syncs and cache deliveries, with its invariant by rule induction.

  \<^bold>\<open>What the lemmas show.\<close> For the run: no request is lost, none is written that was not declared, success is reported
  exactly when everything worked, and reading the directory back gives what was
  produced, also across a process. For the launch: every accepted controller is reported once, only enabled ones act,
  and the order does not matter for the report. For the comparison: it gives no reason
  exactly when errors, results and the requests that are not events agree. For the selection of inputs: each resource is
  taken once, and regrouping keeps every object. For the command line: the flags that the tester passes reach the
  command, unless the name of a controller needs quotes in CSV. For the recording client: it refines a specification
  without state, so controllers do not see each other, and what goes on at once is recorded as an interleaving. For the time: a run ends when informers sync and controllers heed their
  deadline, and may hang otherwise. For the tester: when it passes, what that says of two runs when the expectation was recorded,
  and that such a test is stable. The
  theorems that end in \<open>_witness\<close> apply the one they are named after at a concrete input.

  \<^bold>\<open>Conventions.\<close> A \<open>range\<close> over a Go map has an order the language does not fix: each such loop takes
  its visit order as an argument (\<open>visit_order\<close>), with the hypothesis that it lists the keys once (\<open>range_order\<close>), and the properties hold for
  every order. Code that is not in the repository (decoders, encoders, SHA-256, the file system,
  the dynamic client, the process, \<open>time.Parse\<close>) is an argument; what is asked of it is a named
  definition or a hypothesis of the property, and its witness gives one that satisfies it.
  An error is a value and a panic is a branch of \<open>outcome\<close>, so that a property about panics can be stated.

  \<^bold>\<open>Bounds and termination.\<close> There is no fuel. Loops are recursions on the data, or on what is left of it: the length of the
  argument list in \<open>Pflag\<close> and in \<open>Cobra\<close>, the size of the command tree in the search for a command, and the
  length of the input in \<open>Go_Csv\<close>. A call that may not return is an option in \<open>Launch_Time\<close>, and that a run returns is proved
  as such, with a bound on its time in nanoseconds. Logs are kept up to 512 KiB from their end, as in the code; the
  demo controller's counter is a 64-bit word and wraps; \<open>Atoi\<close> refuses what does not fit in 64 bits.

  \<^bold>\<open>Not modelled.\<close>
    \<^item> Log output, profiling, \<open>rand.Seed\<close>, help, usage and completion texts, deprecation of flags: they have no effect on
      a file or an exit code that the repository relies on.
    \<^item> The texts of diffs and of Go's \<open>%v\<close>, which are arguments; only whether a reason is given matters.
    \<^item> In \<open>RunOnce\<close>, the interleaving of a controller's own goroutines: there a controller's run is one function of the world, whose outcome
      may be an error or a panic, and which may not return. The goroutines of \<open>Start\<close> are a list. Cancelling a run from outside.
    \<^item> The reading half of the recording client: what a must-gather answers to a read is an argument.
    \<^item> A panic's stack trace beyond the text that reaches the report.
    \<^item> The construction of clients and informers inside vendored code; the constructors are arguments.
    \<^item> The vendored code beyond \<open>manifestclient\<close>, \<open>pflag\<close> and \<open>cobra\<close>; of these, what the binaries do not use.
    \<^item> The versions that the sample operator copies to a recorder that nothing reads.
    \<^item> \<open>pkg/dependencymagnet\<close>, which holds imports only.
\<close>

end
